(* ===== verification/Rust_Strings.thy ===== *)
theory Rust_Strings
  imports Bridge_Prelude "HOL-Library.Sublist"
begin

text \<open>
  Rust's \<open>str\<close> and \<open>String\<close>. An Isabelle \<open>char\<close> is one byte, so a string is modelled by
  the list of its UTF-8 bytes: \<open>length\<close> is \<open>str::len\<close>, indices are byte offsets, and a
  value of the Rust type is a string that satisfies \<open>valid_str\<close>. The operations of the
  standard library the program uses are defined here; where one panics on an offset that
  is not a character boundary, the model returns \<open>None\<close>.
\<close>

section \<open>Bytes of a string\<close>

definition byte_of_char :: "char \<Rightarrow> byte" where
  "byte_of_char c = of_nat (of_char c)"

definition char_of_byte :: "byte \<Rightarrow> char" where
  "char_of_byte b = char_of (unat b)"

lemma char_of_byte_of_char [simp]: "char_of_byte (byte_of_char c) = c"
  by (simp add: char_of_byte_def byte_of_char_def unat_of_nat)

lemma byte_of_char_of_byte [simp]: "byte_of_char (char_of_byte b) = b"
proof -
  have "unat b mod 256 = unat b" using unsigned_less[of b, where 'a = nat] by simp
  then show ?thesis by (simp add: char_of_byte_def byte_of_char_def)
qed

lemma byte_of_char_inj [simp]: "byte_of_char c = byte_of_char d \<longleftrightarrow> c = d"
  by (metis char_of_byte_of_char)

definition as_bytes :: "string \<Rightarrow> bytes" where
  "as_bytes s = map byte_of_char s"

definition of_bytes :: "bytes \<Rightarrow> string" where
  "of_bytes bs = map char_of_byte bs"

lemma of_bytes_as_bytes [simp]: "of_bytes (as_bytes s) = s"
  by (simp add: of_bytes_def as_bytes_def comp_def)

lemma as_bytes_of_bytes [simp]: "as_bytes (of_bytes bs) = bs"
  by (simp add: of_bytes_def as_bytes_def comp_def)

lemma length_as_bytes [simp, bytes_simps]: "length (as_bytes s) = length s"
  by (simp add: as_bytes_def)

lemma length_of_bytes [simp, bytes_simps]: "length (of_bytes bs) = length bs"
  by (simp add: of_bytes_def)

lemma as_bytes_append [simp]: "as_bytes (s @ t) = as_bytes s @ as_bytes t"
  by (simp add: as_bytes_def)

lemma as_bytes_Nil [simp]: "as_bytes [] = []"
  by (simp add: as_bytes_def)

lemma as_bytes_Cons: "as_bytes (c # s) = byte_of_char c # as_bytes s"
  by (simp add: as_bytes_def)

lemma as_bytes_eq_iff [simp]: "as_bytes s = as_bytes t \<longleftrightarrow> s = t"
  by (metis of_bytes_as_bytes)

lemma as_bytes_take: "as_bytes (take n s) = take n (as_bytes s)"
  by (simp add: as_bytes_def take_map)

lemma as_bytes_drop: "as_bytes (drop n s) = drop n (as_bytes s)"
  by (simp add: as_bytes_def drop_map)

section \<open>UTF-8\<close>

text \<open>Continuation bytes are 0x80 to 0xBF.\<close>

definition cont :: "byte \<Rightarrow> bool" where
  "cont b \<longleftrightarrow> 0x80 \<le> b \<and> b \<le> 0xBF"

definition between :: "byte \<Rightarrow> byte \<Rightarrow> byte \<Rightarrow> bool" where
  "between lo hi b \<longleftrightarrow> lo \<le> b \<and> b \<le> hi"

text \<open>
  The length of the well-formed character at the front of a byte sequence, 0 when there
  is none (the table of well-formed UTF-8 byte sequences that \<open>str::from_utf8\<close> decides):
  the lead byte gives the length, the second byte is restricted after 0xE0, 0xED, 0xF0, 0xF4.
\<close>

definition lead_len :: "byte \<Rightarrow> nat" where
  "lead_len b =
    (if b \<le> 0x7F then 1
     else if between 0xC2 0xDF b then 2
     else if between 0xE0 0xEF b then 3
     else if between 0xF0 0xF4 b then 4
     else 0)"

definition second_ok :: "byte \<Rightarrow> byte \<Rightarrow> bool" where
  "second_ok b c \<longleftrightarrow>
    (b = 0xE0 \<longrightarrow> 0xA0 \<le> c) \<and> (b = 0xED \<longrightarrow> c \<le> 0x9F) \<and>
    (b = 0xF0 \<longrightarrow> 0x90 \<le> c) \<and> (b = 0xF4 \<longrightarrow> c \<le> 0x8F)"

fun utf8_step :: "bytes \<Rightarrow> nat" where
  "utf8_step [] = 0"
| "utf8_step (b # r) =
    (let n = lead_len b in
     if n = 0 \<or> length r < n - 1 then 0
     else if list_all cont (take (n - 1) r) \<and> (2 \<le> n \<longrightarrow> second_ok b (r ! 0)) then n
     else 0)"

declare utf8_step.simps(2) [simp del]

lemma lead_len_le_4: "lead_len b \<le> 4"
  by (simp add: lead_len_def)

lemma lead_len_cont: "cont b \<Longrightarrow> lead_len b = 0"
  by (auto simp: lead_len_def cont_def between_def word_le_nat_alt)

lemma utf8_step_nonzero:
  "0 < utf8_step (b # r) \<longleftrightarrow>
     0 < lead_len b \<and> lead_len b - Suc 0 \<le> length r \<and> list_all cont (take (lead_len b - Suc 0) r) \<and>
     (2 \<le> lead_len b \<longrightarrow> second_ok b (r ! 0))"
  by (auto simp: utf8_step.simps Let_def not_less)

lemma utf8_step_value: "utf8_step (b # r) \<noteq> 0 \<Longrightarrow> utf8_step (b # r) = lead_len b"
  by (auto simp: utf8_step.simps Let_def split: if_splits)

lemma utf8_step_le: "utf8_step bs \<le> length bs"
  by (cases bs) (auto simp: utf8_step.simps Let_def)

lemma utf8_step_le_4: "utf8_step bs \<le> 4"
  by (cases bs) (auto simp: utf8_step.simps Let_def lead_len_le_4)

lemma utf8_step_cont:
  assumes "0 < i" and "i < utf8_step bs"
  shows "cont (bs ! i)"
proof (cases bs)
  case (Cons b r)
  with assms have nz: "utf8_step (b # r) \<noteq> 0" by simp
  with assms Cons have i: "i - 1 < lead_len b - 1" using utf8_step_value[OF nz] by simp
  from nz have "list_all cont (take (lead_len b - 1) r)" "lead_len b - 1 \<le> length r"
    by (simp_all add: utf8_step_nonzero)
  with i have "cont (r ! (i - 1))" by (simp add: list_all_length)
  with Cons assms(1) show ?thesis by simp
qed (use assms in simp)

lemma utf8_step_head: "utf8_step (b # r) \<noteq> 0 \<Longrightarrow> \<not> cont b"
  using lead_len_cont[of b] by (auto simp: utf8_step_nonzero)

lemma utf8_step_append:
  assumes "utf8_step bs \<noteq> 0"
  shows "utf8_step (bs @ xs) = utf8_step bs"
proof (cases bs)
  case (Cons b r)
  with assms have nz: "utf8_step (b # r) \<noteq> 0" by simp
  then have nz': "utf8_step (b # (r @ xs)) \<noteq> 0"
    by (auto simp: utf8_step_nonzero nth_append)
  show ?thesis using Cons utf8_step_value[OF nz] utf8_step_value[OF nz'] by simp
qed (use assms in simp)

lemma utf8_step_take:
  assumes nz: "utf8_step bs \<noteq> 0" and i: "utf8_step bs \<le> i"
  shows "utf8_step (take i bs) = utf8_step bs"
proof (cases bs)
  case (Cons b r)
  with nz have nz1: "utf8_step (b # r) \<noteq> 0" by simp
  then have l: "lead_len b \<noteq> 0" by (simp add: utf8_step_nonzero)
  have li: "lead_len b \<le> i" using i Cons utf8_step_value[OF nz1] by simp
  then obtain j where j: "i = Suc j" using l by (cases i) auto
  have nz2: "utf8_step (b # take j r) \<noteq> 0"
    using nz1 li j by (auto simp: utf8_step_nonzero min_def)
  show ?thesis using Cons j utf8_step_value[OF nz1] utf8_step_value[OF nz2] by simp
qed (use nz in simp)

function utf8_valid :: "bytes \<Rightarrow> bool" where
  "utf8_valid bs =
    (if bs = [] then True
     else if utf8_step bs = 0 then False
     else utf8_valid (drop (utf8_step bs) bs))"
  by pat_completeness auto
termination
  by (relation "measure length") auto

declare utf8_valid.simps [simp del]

lemma utf8_valid_Nil [simp]: "utf8_valid []"
  by (simp add: utf8_valid.simps)

lemma utf8_valid_step:
  "bs \<noteq> [] \<Longrightarrow> utf8_valid bs \<longleftrightarrow> utf8_step bs \<noteq> 0 \<and> utf8_valid (drop (utf8_step bs) bs)"
  by (subst utf8_valid.simps) simp

lemma utf8_valid_append: "utf8_valid xs \<Longrightarrow> utf8_valid ys \<Longrightarrow> utf8_valid (xs @ ys)"
proof (induction xs rule: utf8_valid.induct)
  case (1 xs)
  show ?case
  proof (cases "xs = []")
    case False
    with 1 have "utf8_step xs \<noteq> 0" "utf8_valid (drop (utf8_step xs) xs @ ys)"
      by (auto simp: utf8_valid_step)
    with False show ?thesis
      using utf8_step_le[of xs] by (simp add: utf8_valid_step utf8_step_append)
  qed (use 1 in simp)
qed

lemma utf8_valid_append_iff: "utf8_valid xs \<Longrightarrow> utf8_valid (xs @ ys) \<longleftrightarrow> utf8_valid ys"
proof (induction xs rule: utf8_valid.induct)
  case (1 xs)
  show ?case
  proof (cases "xs = []")
    case False
    with 1 have "utf8_step xs \<noteq> 0" "utf8_valid (drop (utf8_step xs) xs @ ys) \<longleftrightarrow> utf8_valid ys"
      by (auto simp: utf8_valid_step)
    with False show ?thesis
      using utf8_step_le[of xs] by (simp add: utf8_valid_step utf8_step_append)
  qed simp
qed

text \<open>ASCII text is valid.\<close>

lemma utf8_valid_ascii: "\<forall>b \<in> set bs. b \<le> 0x7F \<Longrightarrow> utf8_valid bs"
  by (induction bs) (auto simp: utf8_valid_step utf8_step.simps lead_len_def Let_def)

text \<open>\<open>str::is_char_boundary\<close>.\<close>

definition is_char_boundary :: "bytes \<Rightarrow> nat \<Rightarrow> bool" where
  "is_char_boundary bs i =
    (if i = 0 then True
     else if length bs \<le> i then i = length bs
     else \<not> cont (bs ! i))"

lemma is_char_boundary_0 [simp]: "is_char_boundary bs 0"
  by (simp add: is_char_boundary_def)

lemma is_char_boundary_length [simp]: "is_char_boundary bs (length bs)"
  by (simp add: is_char_boundary_def)

lemma boundary_after_step:
  assumes "utf8_step bs \<noteq> 0" and "is_char_boundary bs i" and "0 < i"
  shows "utf8_step bs \<le> i" and "is_char_boundary (drop (utf8_step bs) bs) (i - utf8_step bs)"
proof -
  show le: "utf8_step bs \<le> i"
  proof (rule ccontr)
    assume "\<not> ?thesis"
    with utf8_step_cont[OF assms(3)] utf8_step_le[of bs] assms(2,3) show False
      by (auto simp: is_char_boundary_def split: if_splits)
  qed
  show "is_char_boundary (drop (utf8_step bs) bs) (i - utf8_step bs)"
    using assms(2,3) le utf8_step_le[of bs]
    by (auto simp: is_char_boundary_def split: if_splits)
qed

text \<open>Cutting valid text at a character boundary leaves two valid pieces.\<close>

lemma utf8_valid_cut:
  "utf8_valid bs \<Longrightarrow> is_char_boundary bs i \<Longrightarrow>
   utf8_valid (take i bs) \<and> utf8_valid (drop i bs)"
proof (induction bs arbitrary: i rule: utf8_valid.induct)
  case (1 bs)
  show ?case
  proof (cases "bs = [] \<or> i = 0")
    case False
    define n where "n = utf8_step bs"
    from False 1 have n: "n \<noteq> 0" and v: "utf8_valid (drop n bs)"
      by (auto simp: n_def utf8_valid_step)
    from boundary_after_step[of bs i] False 1 n
    have le: "n \<le> i" and bd: "is_char_boundary (drop n bs) (i - n)"
      by (auto simp: n_def)
    have IH: "utf8_valid (take (i - n) (drop n bs)) \<and> utf8_valid (drop (i - n) (drop n bs))"
      using 1(1)[of "i - n"] False n v bd by (auto simp: n_def)
    have "take i bs \<noteq> []" using False by auto
    moreover have "utf8_step (take i bs) = n"
      using n le by (simp add: n_def utf8_step_take)
    ultimately have "utf8_valid (take i bs)"
      using IH n by (simp add: utf8_valid_step drop_take)
    with IH le show ?thesis by (simp add: add.commute)
  qed (use 1 in auto)
qed

text \<open>\<open>std::str::from_utf8(bytes).ok()\<close>, and the strings that are values of the Rust type.\<close>

definition from_utf8 :: "bytes \<Rightarrow> string option" where
  "from_utf8 bs = (if utf8_valid bs then Some (of_bytes bs) else None)"

definition valid_str :: "string \<Rightarrow> bool" where
  "valid_str s \<longleftrightarrow> utf8_valid (as_bytes s)"

lemma from_utf8_as_bytes [simp]: "valid_str s \<Longrightarrow> from_utf8 (as_bytes s) = Some s"
  by (simp add: from_utf8_def valid_str_def)

lemma from_utf8_Some: "from_utf8 bs = Some s \<longleftrightarrow> valid_str s \<and> bs = as_bytes s"
  by (auto simp: from_utf8_def valid_str_def)

lemma valid_str_Nil [simp]: "valid_str []"
  by (simp add: valid_str_def)

lemma valid_str_append: "valid_str s \<Longrightarrow> valid_str t \<Longrightarrow> valid_str (s @ t)"
  by (simp add: valid_str_def utf8_valid_append)

definition str_boundary :: "string \<Rightarrow> nat \<Rightarrow> bool" where
  "str_boundary s i = is_char_boundary (as_bytes s) i"

lemma valid_str_take: "valid_str s \<Longrightarrow> str_boundary s i \<Longrightarrow> valid_str (take i s)"
  by (simp add: valid_str_def str_boundary_def as_bytes_take utf8_valid_cut)

text \<open>Conversely, a cut that leaves a valid front piece is at a character boundary.\<close>

lemma utf8_valid_take_boundary:
  "utf8_valid bs \<Longrightarrow> utf8_valid (take i bs) \<Longrightarrow> i \<le> length bs \<Longrightarrow> is_char_boundary bs i"
proof (induction bs arbitrary: i rule: utf8_valid.induct)
  case (1 bs)
  show ?case
  proof (cases "bs = [] \<or> i = 0")
    case False
    define n where "n = utf8_step bs"
    from False 1 have n: "0 < n" and v: "utf8_valid (drop n bs)"
      by (auto simp: n_def utf8_valid_step)
    from False have ne: "take i bs \<noteq> []" by simp
    then have st: "0 < utf8_step (take i bs)" and vt: "utf8_valid (drop (utf8_step (take i bs)) (take i bs))"
      using 1(3) by (auto simp: utf8_valid_step)
    have eq: "utf8_step (take i bs) = n"
      using utf8_step_append[of "take i bs" "drop i bs"] st by (simp add: n_def)
    then have le: "n \<le> i" using utf8_step_le[of "take i bs"] 1(4) by simp
    have "utf8_valid (take (i - n) (drop n bs))" using vt eq by (simp add: drop_take)
    then have bd: "is_char_boundary (drop n bs) (i - n)"
      using 1(1)[of "i - n"] 1(4) False n v by (auto simp: n_def)
    show ?thesis
    proof (cases "i = n")
      case True
      show ?thesis
      proof (cases "drop n bs")
        case Nil
        with True 1(4) have "i = length bs" by simp
        then show ?thesis by simp
      next
        case (Cons b r)
        with v have "\<not> cont b" by (auto simp: utf8_valid_step utf8_step_head)
        moreover have "bs ! n = b" using Cons by (rule nth_via_drop)
        moreover have "n < length bs" using Cons by (metis drop_eq_Nil leI list.distinct(1))
        ultimately show ?thesis using True by (simp add: is_char_boundary_def)
      qed
    next
      case False
      with bd le show ?thesis by (auto simp: is_char_boundary_def split: if_splits)
    qed
  qed (use 1 in auto)
qed

lemma valid_str_take_iff:
  "valid_str s \<Longrightarrow> i \<le> length s \<Longrightarrow> valid_str (take i s) \<longleftrightarrow> str_boundary s i"
  using utf8_valid_take_boundary[of "as_bytes s" i] utf8_valid_cut[of "as_bytes s" i]
  by (auto simp: valid_str_def str_boundary_def as_bytes_take)

text \<open>No run of more than three continuation bytes occurs in valid text.\<close>

lemma utf8_boundary_near:
  "utf8_valid bs \<Longrightarrow> i \<le> length bs \<Longrightarrow> \<exists>j \<le> i. i \<le> j + 3 \<and> is_char_boundary bs j"
proof (induction bs arbitrary: i rule: utf8_valid.induct)
  case (1 bs)
  show ?case
  proof (cases "i < utf8_step bs")
    case True
    then have "i \<le> 0 + 3" using utf8_step_le_4[of bs] by simp
    then show ?thesis using is_char_boundary_0 by blast
  next
    case False
    define n where "n = utf8_step bs"
    show ?thesis
    proof (cases "bs = []")
      case False
      with 1 have n: "n \<noteq> 0" and v: "utf8_valid (drop n bs)"
        by (auto simp: n_def utf8_valid_step)
      have "i - n \<le> length (drop n bs)" using 1 by simp
      with 1(1)[of "i - n"] False n v obtain j
        where j: "j \<le> i - n" "i - n \<le> j + 3" "is_char_boundary (drop n bs) j"
        by (auto simp: n_def)
      have "is_char_boundary bs (n + j)"
      proof (cases "j = 0")
        case True
        show ?thesis
        proof (cases "n < length bs")
          case True
          with v obtain b r where br: "drop n bs = b # r" and "utf8_step (b # r) \<noteq> 0"
            by (cases "drop n bs") (auto simp: utf8_valid_step)
          then have "\<not> cont b" by (simp add: utf8_step_head)
          moreover have "bs ! n = b" using br True by (metis nth_via_drop)
          ultimately show ?thesis using \<open>j = 0\<close> True by (simp add: is_char_boundary_def)
        next
          case False
          then have "n = length bs" using utf8_step_le[of bs] by (simp add: n_def)
          then show ?thesis using \<open>j = 0\<close> by simp
        qed
      next
        case False
        with j(3) show ?thesis by (auto simp: is_char_boundary_def split: if_splits)
      qed
      with j \<open>\<not> i < utf8_step bs\<close> show ?thesis
        by (intro exI[of _ "n + j"]) (auto simp: n_def)
    qed (use 1 in auto)
  qed
qed

text \<open>\<open>&s[..i]\<close>: \<open>None\<close> stands for the panic on an offset that is no boundary.\<close>

definition slice_to :: "string \<Rightarrow> nat \<Rightarrow> string option" where
  "slice_to s i = (if str_boundary s i then Some (take i s) else None)"

end
