(* ===== verification/Rust_Text.thy ===== *)
theory Rust_Text
  imports Rust_Strings
begin

text \<open>
  The text operations of the Rust standard library the program calls: ASCII case mapping,
  trimming of Unicode white space, searching and splitting, and the formatting of
  integers by \<open>format!\<close>. All work on the bytes of the text, which for valid UTF-8 is what
  the character-wise definitions compute: an ASCII character never occurs inside the
  encoding of another one, and the encodings of two characters are never proper parts of
  each other.
\<close>

section \<open>ASCII case\<close>

definition ascii_lower_char :: "char \<Rightarrow> char" where
  "ascii_lower_char c =
    (let n = of_char c :: nat in if 65 \<le> n \<and> n \<le> 90 then char_of (n + 32) else c)"

definition ascii_upper_char :: "char \<Rightarrow> char" where
  "ascii_upper_char c =
    (let n = of_char c :: nat in if 97 \<le> n \<and> n \<le> 122 then char_of (n - 32) else c)"

definition to_ascii_lowercase :: "string \<Rightarrow> string" where
  "to_ascii_lowercase s = map ascii_lower_char s"

definition to_ascii_uppercase :: "string \<Rightarrow> string" where
  "to_ascii_uppercase s = map ascii_upper_char s"

definition eq_ignore_ascii_case :: "string \<Rightarrow> string \<Rightarrow> bool" where
  "eq_ignore_ascii_case s t \<longleftrightarrow> to_ascii_lowercase s = to_ascii_lowercase t"

lemma length_to_ascii_lowercase [simp]: "length (to_ascii_lowercase s) = length s"
  by (simp add: to_ascii_lowercase_def)

lemma ascii_lower_char_idem [simp]: "ascii_lower_char (ascii_lower_char c) = ascii_lower_char c"
proof (cases "65 \<le> (of_char c :: nat) \<and> (of_char c :: nat) \<le> 90")
  case True
  then have "(of_char (char_of (of_char c + 32 :: nat)) :: nat) = of_char c + 32" by simp
  with True show ?thesis by (simp add: ascii_lower_char_def Let_def)
qed (auto simp: ascii_lower_char_def Let_def)

lemma to_ascii_lowercase_idem [simp]:
  "to_ascii_lowercase (to_ascii_lowercase s) = to_ascii_lowercase s"
  by (simp add: to_ascii_lowercase_def)

lemma to_ascii_lowercase_append [simp]:
  "to_ascii_lowercase (s @ t) = to_ascii_lowercase s @ to_ascii_lowercase t"
  by (simp add: to_ascii_lowercase_def)

section \<open>White space\<close>

text \<open>The UTF-8 encodings of the characters with the Unicode property \<open>White_Space\<close>.\<close>

definition ws_encodings :: "bytes list" where
  "ws_encodings =
    [[0x20], [0x09], [0x0A], [0x0B], [0x0C], [0x0D], [0xC2, 0x85], [0xC2, 0xA0],
     [0xE1, 0x9A, 0x80], [0xE2, 0x80, 0x80], [0xE2, 0x80, 0x81], [0xE2, 0x80, 0x82],
     [0xE2, 0x80, 0x83], [0xE2, 0x80, 0x84], [0xE2, 0x80, 0x85], [0xE2, 0x80, 0x86],
     [0xE2, 0x80, 0x87], [0xE2, 0x80, 0x88], [0xE2, 0x80, 0x89], [0xE2, 0x80, 0x8A],
     [0xE2, 0x80, 0xA8], [0xE2, 0x80, 0xA9], [0xE2, 0x80, 0xAF], [0xE2, 0x81, 0x9F],
     [0xE3, 0x80, 0x80]]"

definition ws_front :: "bytes \<Rightarrow> nat" where
  "ws_front bs = (case find (\<lambda>w. prefix w bs) ws_encodings of None \<Rightarrow> 0 | Some w \<Rightarrow> length w)"

definition ws_back :: "bytes \<Rightarrow> nat" where
  "ws_back bs = (case find (\<lambda>w. suffix w bs) ws_encodings of None \<Rightarrow> 0 | Some w \<Rightarrow> length w)"

lemma ws_front_Nil [simp]: "ws_front [] = 0" and ws_back_Nil [simp]: "ws_back [] = 0"
  by (simp_all add: ws_front_def ws_back_def ws_encodings_def)

function trim_start_bytes :: "bytes \<Rightarrow> bytes" where
  "trim_start_bytes bs =
    (if ws_front bs = 0 then bs else trim_start_bytes (drop (ws_front bs) bs))"
  by pat_completeness auto
termination
proof (relation "measure length")
  fix bs assume "ws_front bs \<noteq> 0"
  then show "(drop (ws_front bs) bs, bs) \<in> measure length" by (cases bs) auto
qed simp

function trim_end_bytes :: "bytes \<Rightarrow> bytes" where
  "trim_end_bytes bs =
    (if ws_back bs = 0 then bs else trim_end_bytes (take (length bs - ws_back bs) bs))"
  by pat_completeness auto
termination
proof (relation "measure length")
  fix bs assume "ws_back bs \<noteq> 0"
  then show "(take (length bs - ws_back bs) bs, bs) \<in> measure length" by (cases bs) auto
qed simp

declare trim_start_bytes.simps [simp del] trim_end_bytes.simps [simp del]

definition trim_start :: "string \<Rightarrow> string" where
  "trim_start s = of_bytes (trim_start_bytes (as_bytes s))"

definition trim_end :: "string \<Rightarrow> string" where
  "trim_end s = of_bytes (trim_end_bytes (as_bytes s))"

definition trim :: "string \<Rightarrow> string" where
  "trim s = trim_end (trim_start s)"

lemma trim_start_bytes_id: "ws_front bs = 0 \<Longrightarrow> trim_start_bytes bs = bs"
  by (simp add: trim_start_bytes.simps)

lemma trim_end_bytes_id: "ws_back bs = 0 \<Longrightarrow> trim_end_bytes bs = bs"
  by (simp add: trim_end_bytes.simps)

lemma trim_Nil [simp]: "trim [] = []"
  by (simp add: trim_def trim_start_def trim_end_def trim_start_bytes_id trim_end_bytes_id of_bytes_def)

lemma length_trim_start_bytes: "length (trim_start_bytes bs) \<le> length bs"
  by (induction bs rule: trim_start_bytes.induct) (subst trim_start_bytes.simps, force)

lemma length_trim_end_bytes: "length (trim_end_bytes bs) \<le> length bs"
  by (induction bs rule: trim_end_bytes.induct) (subst trim_end_bytes.simps, force)

lemma length_trim: "length (trim s) \<le> length s"
  using length_trim_start_bytes[of "as_bytes s"] length_trim_end_bytes[of "trim_start_bytes (as_bytes s)"]
  by (simp add: trim_def trim_start_def trim_end_def)

text \<open>\<open>char::is_whitespace\<close> somewhere in the text.\<close>

fun has_whitespace :: "bytes \<Rightarrow> bool" where
  "has_whitespace [] = False"
| "has_whitespace (b # bs) = (ws_front (b # bs) \<noteq> 0 \<or> has_whitespace bs)"

section \<open>Searching and splitting\<close>

fun str_contains :: "string \<Rightarrow> string \<Rightarrow> bool" where
  "str_contains [] pat = (pat = [])"
| "str_contains (c # s) pat = (prefix pat (c # s) \<or> str_contains s pat)"

lemma str_contains_iff: "str_contains s pat \<longleftrightarrow> (\<exists>p q. s = p @ pat @ q)"
proof (induction s)
  case (Cons c s)
  show ?case
  proof
    assume "str_contains (c # s) pat"
    then show "\<exists>p q. c # s = p @ pat @ q"
      using Cons by (auto simp: prefix_def) (metis append_Cons append_Nil)+
  next
    assume "\<exists>p q. c # s = p @ pat @ q"
    then obtain p q where pq: "c # s = p @ pat @ q" by blast
    show "str_contains (c # s) pat"
    proof (cases p)
      case Nil
      with pq have "prefix pat (c # s)" by (auto simp: prefix_def)
      then show ?thesis by simp
    next
      case (Cons d p')
      with pq Cons.IH show ?thesis by auto
    qed
  qed
qed auto

definition is_path_sep :: "char \<Rightarrow> bool" where
  "is_path_sep c \<longleftrightarrow> c = CHR 0x5C \<or> c = CHR ''/''"

text \<open>\<open>s.rsplit(['\\', '/']).next()\<close>: the text after the last separator.\<close>

definition last_segment :: "string \<Rightarrow> string" where
  "last_segment s = rev (takeWhile (\<lambda>c. \<not> is_path_sep c) (rev s))"

lemma last_segment_no_sep: "c \<in> set (last_segment s) \<Longrightarrow> \<not> is_path_sep c"
  by (auto simp: last_segment_def dest: set_takeWhileD)

lemma last_segment_suffix: "suffix (last_segment s) s"
proof -
  have "rev s = takeWhile (\<lambda>c. \<not> is_path_sep c) (rev s) @ dropWhile (\<lambda>c. \<not> is_path_sep c) (rev s)"
    by simp
  then have "s = rev (dropWhile (\<lambda>c. \<not> is_path_sep c) (rev s)) @ last_segment s"
    unfolding last_segment_def by (metis rev_append rev_rev_ident)
  then show ?thesis unfolding suffix_def by blast
qed

definition trim_end_matches :: "(char \<Rightarrow> bool) \<Rightarrow> string \<Rightarrow> string" where
  "trim_end_matches P s = rev (dropWhile P (rev s))"

definition trim_start_matches :: "(char \<Rightarrow> bool) \<Rightarrow> string \<Rightarrow> string" where
  "trim_start_matches P s = dropWhile P s"

definition replace_char :: "char \<Rightarrow> string \<Rightarrow> string \<Rightarrow> string" where
  "replace_char c by_str s = concat (map (\<lambda>d. if d = c then by_str else [d]) s)"

lemma replace_char_single [simp]:
  "replace_char c [d] s = map (\<lambda>e. if e = c then d else e) s"
  by (induction s) (auto simp: replace_char_def)

text \<open>\<open>s.split(c)\<close>: the pieces between the separators, one more than there are separators.\<close>

fun split_char :: "char \<Rightarrow> string \<Rightarrow> string list" where
  "split_char c [] = [[]]"
| "split_char c (d # s) =
    (if d = c then [] # split_char c s
     else case split_char c s of [] \<Rightarrow> [[d]] | p # ps \<Rightarrow> (d # p) # ps)"

text \<open>\<open>str::lines\<close>: split at line feeds, drop one carriage return at the end of a line, and
  no empty last line.\<close>

definition strip_cr :: "string \<Rightarrow> string" where
  "strip_cr s = (if s \<noteq> [] \<and> last s = CHR 0x0D then butlast s else s)"

fun lines_raw :: "string \<Rightarrow> string \<Rightarrow> string list" where
  "lines_raw cur [] = (if cur = [] then [] else [rev cur])"
| "lines_raw cur (c # s) =
    (if c = CHR 0x0A then strip_cr (rev cur) # lines_raw [] s else lines_raw (c # cur) s)"

definition str_lines :: "string \<Rightarrow> string list" where
  "str_lines s = lines_raw [] s"

text \<open>\<open>s.split_once(c)\<close>.\<close>

fun split_once :: "char \<Rightarrow> string \<Rightarrow> (string \<times> string) option" where
  "split_once c [] = None"
| "split_once c (d # s) =
    (if d = c then Some ([], s)
     else map_option (\<lambda>(a, b). (d # a, b)) (split_once c s))"

text \<open>\<open>parts.join(sep)\<close>.\<close>

fun join :: "string \<Rightarrow> string list \<Rightarrow> string" where
  "join sep [] = []"
| "join sep [x] = x"
| "join sep (x # y # xs) = x @ sep @ join sep (y # xs)"

section \<open>Formatting integers\<close>

definition digit_char :: "nat \<Rightarrow> char" where
  "digit_char d = (if d < 10 then char_of (48 + d) else char_of (87 + d))"

text \<open>\<open>format!("{n}")\<close> with \<open>base = 10\<close>, \<open>format!("{n:x}")\<close> with \<open>base = 16\<close>.\<close>

fun show_base :: "nat \<Rightarrow> nat \<Rightarrow> string" where
  "show_base base n =
    (if base < 2 \<or> n < base then [digit_char n]
     else show_base base (n div base) @ [digit_char (n mod base)])"

declare show_base.simps [simp del]

definition show_nat :: "nat \<Rightarrow> string" where
  "show_nat n = show_base 10 n"

definition show_int :: "int \<Rightarrow> string" where
  "show_int i = (if i < 0 then CHR ''-'' # show_nat (nat (- i)) else show_nat (nat i))"

text \<open>\<open>format!("{b:02x}")\<close>.\<close>

definition show_hex2 :: "byte \<Rightarrow> string" where
  "show_hex2 b = [digit_char (unat b div 16), digit_char (unat b mod 16)]"

lemma show_base_nonempty: "show_base base n \<noteq> []"
  by (subst show_base.simps) simp

end
