(* ===== verification/Core_Model.thy ===== *)
theory Core_Model
  imports Rust_Text
begin

text \<open>
  The shared host-side types of \<open>crates/vb-core/src/lib.rs\<close>: terminal and agent kinds,
  agent sessions and activities, board session ids, token usage, conversation turns,
  permission requests and decisions, with their labels and the classification of
  terminal windows.
\<close>

section \<open>Kinds and statuses\<close>

datatype terminal_kind = WindowsTerminal | ConsoleHost | PowerShell | Cmd | Wsl | TerminalLike | UnknownTerminal

datatype agent_kind = Claude | Codex | Terminal | UnknownAgent

definition agent_kind_as_str :: "agent_kind \<Rightarrow> string" where
  "agent_kind_as_str k = (case k of
      Claude \<Rightarrow> ''claude'' | Codex \<Rightarrow> ''codex'' | Terminal \<Rightarrow> ''terminal'' | UnknownAgent \<Rightarrow> ''unknown'')"

definition agent_kind_from_label :: "string \<Rightarrow> agent_kind" where
  "agent_kind_from_label value =
    (let v = to_ascii_lowercase (trim value) in
     if v \<in> {''claude'', ''claude-code''} then Claude
     else if v \<in> {''codex'', ''codex-cli'', ''codex-tui''} then Codex
     else if v \<in> {''terminal'', ''shell'', ''vibe-terminal'', ''capture-shell''} then Terminal
     else UnknownAgent)"

datatype agent_status = Running | WaitingInput | Idle | Done | StatusError | UnknownStatus

definition agent_status_as_str :: "agent_status \<Rightarrow> string" where
  "agent_status_as_str s = (case s of
      Running \<Rightarrow> ''running'' | WaitingInput \<Rightarrow> ''waiting-input'' | Idle \<Rightarrow> ''idle''
    | Done \<Rightarrow> ''done'' | StatusError \<Rightarrow> ''error'' | UnknownStatus \<Rightarrow> ''unknown'')"

definition terminal_kind_as_str :: "terminal_kind \<Rightarrow> string" where
  "terminal_kind_as_str k = (case k of
      WindowsTerminal \<Rightarrow> ''windows-terminal'' | ConsoleHost \<Rightarrow> ''console-host''
    | PowerShell \<Rightarrow> ''powershell'' | Cmd \<Rightarrow> ''cmd'' | Wsl \<Rightarrow> ''wsl''
    | TerminalLike \<Rightarrow> ''terminal-like'' | UnknownTerminal \<Rightarrow> ''unknown'')"

record terminal_window =
  tw_hwnd :: "64 word"
  tw_pid :: "32 word"
  tw_title :: string
  tw_process_path :: string
  tw_kind :: terminal_kind

record agent_session =
  as_agent_id :: string
  as_kind :: agent_kind
  as_name :: string
  as_cwd :: string
  as_transcript_path :: string
  as_status :: agent_status
  as_terminal_hwnd :: "64 word option"

datatype agent_activity_kind =
    Seen | UserInput | AssistantOutput | ToolActivity | ActWaitingInput | Completed | ActError

definition agent_activity_kind_as_str :: "agent_activity_kind \<Rightarrow> string" where
  "agent_activity_kind_as_str a = (case a of
      Seen \<Rightarrow> ''seen'' | UserInput \<Rightarrow> ''user-input'' | AssistantOutput \<Rightarrow> ''assistant-output''
    | ToolActivity \<Rightarrow> ''tool-activity'' | ActWaitingInput \<Rightarrow> ''waiting-input''
    | Completed \<Rightarrow> ''completed'' | ActError \<Rightarrow> ''error'')"

record agent_activity =
  aa_agent_id :: string
  aa_kind :: agent_kind
  aa_activity :: agent_activity_kind
  aa_status :: agent_status
  aa_transcript_path :: string

section \<open>Terminal windows\<close>

definition process_basename :: "terminal_window \<Rightarrow> string" where
  "process_basename w = last_segment (tw_process_path w)"

definition is_terminal_candidate :: "terminal_window \<Rightarrow> bool" where
  "is_terminal_candidate w \<longleftrightarrow> tw_kind w \<noteq> UnknownTerminal"

definition classify_terminal_process :: "string \<Rightarrow> string \<Rightarrow> terminal_kind" where
  "classify_terminal_process process_path title =
    (let exe = to_ascii_lowercase (last_segment process_path);
         ttl = to_ascii_lowercase title;
         trusted = (exe = [] \<or> exe = ''applicationframehost.exe'')
     in if exe \<in> {''windowsterminal.exe'', ''wt.exe''} then WindowsTerminal
        else if exe \<in> {''openconsole.exe'', ''conhost.exe''} then ConsoleHost
        else if exe \<in> {''powershell.exe'', ''pwsh.exe''} then PowerShell
        else if exe = ''cmd.exe'' then Cmd
        else if exe \<in> {''wsl.exe'', ''ubuntu.exe'', ''ubuntu2204.exe'', ''ubuntu-22.04.exe''} then Wsl
        else if exe \<in> {''wezterm-gui.exe'', ''alacritty.exe'', ''mintty.exe'', ''tabby.exe'', ''hyper.exe''}
          then TerminalLike
        else if trusted \<and> str_contains ttl ''windows powershell'' then PowerShell
        else if trusted \<and> str_contains ttl ''command prompt'' then Cmd
        else if trusted \<and> (str_contains ttl ''ubuntu'' \<or> str_contains ttl ''wsl'') then Wsl
        else if trusted \<and> str_contains ttl ''windows terminal'' then WindowsTerminal
        else UnknownTerminal)"

section \<open>Board session ids, usage, turns, permissions\<close>

datatype board_sid = BoardSid (sid_raw: "16 word")

definition sid_broadcast :: board_sid where
  "sid_broadcast = BoardSid 0"

definition is_broadcast :: "board_sid \<Rightarrow> bool" where
  "is_broadcast s \<longleftrightarrow> sid_raw s = 0"

lemma is_broadcast_iff: "is_broadcast s \<longleftrightarrow> s = sid_broadcast"
  by (cases s) (simp add: is_broadcast_def sid_broadcast_def)

record token_usage =
  tu_input :: "64 word"
  tu_output :: "64 word"
  tu_cost_cents :: "64 word"

definition token_usage_default :: token_usage where
  "token_usage_default = \<lparr>tu_input = 0, tu_output = 0, tu_cost_cents = 0\<rparr>"

datatype turn_role = RoleUser | RoleAssistant | RoleTool | RoleSystem

definition turn_role_as_str :: "turn_role \<Rightarrow> string" where
  "turn_role_as_str r = (case r of
      RoleUser \<Rightarrow> ''user'' | RoleAssistant \<Rightarrow> ''assistant'' | RoleTool \<Rightarrow> ''tool'' | RoleSystem \<Rightarrow> ''system'')"

record conversation_turn =
  ct_sid :: board_sid
  ct_role :: turn_role
  ct_text :: string
  ct_ts_ms :: "64 word"

record permission_request =
  pr_req_id :: "64 word"
  pr_sid :: board_sid
  pr_tool :: string
  pr_args_summary :: string

datatype permission_decision = Allow | Deny | Always

definition permission_decision_as_str :: "permission_decision \<Rightarrow> string" where
  "permission_decision_as_str d = (case d of Allow \<Rightarrow> ''allow'' | Deny \<Rightarrow> ''deny'' | Always \<Rightarrow> ''always'')"

section \<open>Properties\<close>

lemma last_segment_after_sep: "is_path_sep c \<Longrightarrow> last_segment (d @ c # e) = last_segment e"
  by (simp add: last_segment_def takeWhile_tail)

lemma is_path_sep_code: "is_path_sep c \<longleftrightarrow> (of_char c :: nat) = 92 \<or> (of_char c :: nat) = 47"
proof -
  have "(of_char (CHR 0x5C) :: nat) = 92" "(of_char (CHR ''/'') :: nat) = 47" by simp_all
  then show ?thesis unfolding is_path_sep_def by (metis of_char_eq_iff)
qed

lemma is_path_sep_lower [simp]: "is_path_sep (ascii_lower_char c) \<longleftrightarrow> is_path_sep c"
proof (cases "65 \<le> (of_char c :: nat) \<and> (of_char c :: nat) \<le> 90")
  case True
  then have "(of_char (ascii_lower_char c) :: nat) = of_char c + 32"
    by (simp add: ascii_lower_char_def Let_def)
  with True show ?thesis unfolding is_path_sep_code by linarith
qed (auto simp: ascii_lower_char_def Let_def)

lemma last_segment_lower:
  "to_ascii_lowercase (last_segment s) = last_segment (to_ascii_lowercase s)"
  by (simp add: to_ascii_lowercase_def last_segment_def rev_map takeWhile_map comp_def)

text \<open>
  The classification of a terminal window depends on the file name of its executable
  alone: it is the same for every directory prefix, in either separator style, and for
  every mixture of ASCII upper and lower case in the name and in the title.
\<close>
theorem classify_ignores_directory_and_case:
  assumes "is_path_sep c" and "eq_ignore_ascii_case exe exe'" and "eq_ignore_ascii_case title title'"
  shows "classify_terminal_process (dir @ c # exe) title = classify_terminal_process exe' title'"
  using assms
  by (simp add: classify_terminal_process_def last_segment_after_sep last_segment_lower
      eq_ignore_ascii_case_def)

text \<open>
  A window title alone never makes a terminal: unless the executable name is unknown to
  the host (empty) or the application frame host, the title is ignored.
\<close>
theorem classify_title_untrusted:
  assumes "to_ascii_lowercase (last_segment path) \<noteq> []"
    and "to_ascii_lowercase (last_segment path) \<noteq> ''applicationframehost.exe''"
  shows "classify_terminal_process path title = classify_terminal_process path title'"
  using assms by (simp add: classify_terminal_process_def Let_def)

end
