(* ===== verification/Hid_Frames.thy ===== *)
theory Hid_Frames
  imports Core_Model
begin

text \<open>
  The HID protocol of \<open>crates/vb-protocol/src/lib.rs\<close> and \<open>codec.rs\<close>: the command bytes,
  the 64-byte report with its 6-byte header, the splitting of long payloads into reports,
  and the interface every single-report payload codec satisfies.
\<close>

section \<open>Constants and commands\<close>

definition HID_REPORT_LEN :: nat where "HID_REPORT_LEN = 64"
definition HID_HEADER_SIZE :: nat where "HID_HEADER_SIZE = 6"
definition HID_MAX_PAYLOAD :: nat where "HID_MAX_PAYLOAD = HID_REPORT_LEN - HID_HEADER_SIZE"

definition REPORT_ID_HOST_BOUND :: byte where "REPORT_ID_HOST_BOUND = 0x10"
definition REPORT_ID_DEVICE_BOUND :: byte where "REPORT_ID_DEVICE_BOUND = 0x20"

definition PLUGIN_HINT_MAX :: nat where "PLUGIN_HINT_MAX = 24"

lemmas hid_consts =
  HID_REPORT_LEN_def HID_HEADER_SIZE_def HID_MAX_PAYLOAD_def PLUGIN_HINT_MAX_def

lemma HID_MAX_PAYLOAD_58 [simp]: "HID_MAX_PAYLOAD = 58"
  by (simp add: hid_consts)

datatype cmd =
    RequestSession | SessionResponse | SessionInvalid | SessionHeartbeat | SessionFocus
  | KeyEvent | EncoderEvent | PermissionRes | AbortSession | SendKey
  | Vt100Stream | UiScaleChange | StatusUpdate
  | TokenUsage | TurnAppend | PermissionReq | AgentMeta
  | FeedbackEvent | ErrorCmd

text \<open>The discriminants (\<open>cmd as u8\<close>).\<close>

definition cmd_byte :: "cmd \<Rightarrow> byte" where
  "cmd_byte c = (case c of
      RequestSession \<Rightarrow> 0x01 | SessionResponse \<Rightarrow> 0x02 | SessionInvalid \<Rightarrow> 0x03
    | SessionHeartbeat \<Rightarrow> 0x04 | SessionFocus \<Rightarrow> 0x05
    | KeyEvent \<Rightarrow> 0x10 | EncoderEvent \<Rightarrow> 0x11 | PermissionRes \<Rightarrow> 0x12
    | AbortSession \<Rightarrow> 0x13 | SendKey \<Rightarrow> 0x14
    | Vt100Stream \<Rightarrow> 0x30 | UiScaleChange \<Rightarrow> 0x40 | StatusUpdate \<Rightarrow> 0x50
    | TokenUsage \<Rightarrow> 0x51 | TurnAppend \<Rightarrow> 0x52 | PermissionReq \<Rightarrow> 0x53 | AgentMeta \<Rightarrow> 0x54
    | FeedbackEvent \<Rightarrow> 0x60 | ErrorCmd \<Rightarrow> 0xFF)"

definition cmd_from_u8 :: "byte \<Rightarrow> cmd option" where
  "cmd_from_u8 value =
    (if value = 0x01 then Some RequestSession
     else if value = 0x02 then Some SessionResponse
     else if value = 0x03 then Some SessionInvalid
     else if value = 0x04 then Some SessionHeartbeat
     else if value = 0x05 then Some SessionFocus
     else if value = 0x10 then Some KeyEvent
     else if value = 0x11 then Some EncoderEvent
     else if value = 0x12 then Some PermissionRes
     else if value = 0x13 then Some AbortSession
     else if value = 0x14 then Some SendKey
     else if value = 0x30 then Some Vt100Stream
     else if value = 0x40 then Some UiScaleChange
     else if value = 0x50 then Some StatusUpdate
     else if value = 0x51 then Some TokenUsage
     else if value = 0x52 then Some TurnAppend
     else if value = 0x53 then Some PermissionReq
     else if value = 0x54 then Some AgentMeta
     else if value = 0x60 then Some FeedbackEvent
     else if value = 0xFF then Some ErrorCmd
     else None)"

lemma cmd_from_u8_cmd_byte [simp]: "cmd_from_u8 (cmd_byte c) = Some c"
  by (cases c) (simp_all add: cmd_from_u8_def cmd_byte_def)

lemma cmd_from_u8_eq_Some: "cmd_from_u8 b = Some c \<longleftrightarrow> b = cmd_byte c"
proof
  assume "cmd_from_u8 b = Some c"
  then show "b = cmd_byte c"
    unfolding cmd_from_u8_def by (auto simp: cmd_byte_def split: if_splits)
qed simp

text \<open>Status, state, decision and role bytes.\<close>

datatype session_status_byte =
  SsbOk | SsbCreated | SsbInvalidS | SsbExpired | SsbPoolFull | SsbReclaimed | SsbDisconnected

definition session_status_u8 :: "session_status_byte \<Rightarrow> byte" where
  "session_status_u8 s = (case s of
      SsbOk \<Rightarrow> 0 | SsbCreated \<Rightarrow> 1 | SsbInvalidS \<Rightarrow> 2 | SsbExpired \<Rightarrow> 3
    | SsbPoolFull \<Rightarrow> 4 | SsbReclaimed \<Rightarrow> 5 | SsbDisconnected \<Rightarrow> 6)"

datatype session_state_byte = StConnected | StDisconnected | StRun | StWait | StDone | StError

definition session_state_u8 :: "session_state_byte \<Rightarrow> byte" where
  "session_state_u8 s = (case s of
      StConnected \<Rightarrow> 0 | StDisconnected \<Rightarrow> 1 | StRun \<Rightarrow> 2 | StWait \<Rightarrow> 3 | StDone \<Rightarrow> 4 | StError \<Rightarrow> 5)"

datatype permission_decision_byte = PdAllow | PdDeny | PdAlways

definition permission_decision_u8 :: "permission_decision_byte \<Rightarrow> byte" where
  "permission_decision_u8 d = (case d of PdAllow \<Rightarrow> 0 | PdDeny \<Rightarrow> 1 | PdAlways \<Rightarrow> 2)"

datatype turn_role_byte = TrUser | TrAssistant | TrTool | TrSystem

definition turn_role_u8 :: "turn_role_byte \<Rightarrow> byte" where
  "turn_role_u8 r = (case r of TrUser \<Rightarrow> 0 | TrAssistant \<Rightarrow> 1 | TrTool \<Rightarrow> 2 | TrSystem \<Rightarrow> 3)"

section \<open>Reports\<close>

record hid_frame =
  hf_report_id :: byte
  hf_cmd :: cmd
  hf_sid :: "16 word"
  hf_payload :: bytes

datatype frame_error = TooShort | PayloadTooLarge | UnknownCmd byte | HeaderLenMismatch

definition frame_error_display :: "frame_error \<Rightarrow> string" where
  "frame_error_display e = (case e of
      TooShort \<Rightarrow> ''frame shorter than HID header''
    | PayloadTooLarge \<Rightarrow> ''payload exceeds HID_MAX_PAYLOAD ('' @ show_nat HID_MAX_PAYLOAD @ '')''
    | UnknownCmd c \<Rightarrow> ''unknown command byte: 0x'' @ show_hex2 c
    | HeaderLenMismatch \<Rightarrow> ''header length exceeds frame size'')"

text \<open>\<open>buf[i..i + src.len()].copy_from_slice(src)\<close>.\<close>

definition copy_at :: "nat \<Rightarrow> bytes \<Rightarrow> bytes \<Rightarrow> bytes" where
  "copy_at i src buf = take i buf @ src @ drop (i + length src) buf"

lemma length_copy_at [bytes_simps]:
  "i + length src \<le> length buf \<Longrightarrow> length (copy_at i src buf) = length buf"
  by (simp add: copy_at_def)

definition frame_encode :: "hid_frame \<Rightarrow> frame_error + bytes" where
  "frame_encode f =
    (if HID_MAX_PAYLOAD < length (hf_payload f) then Inl PayloadTooLarge
     else
       let buf = replicate HID_REPORT_LEN 0;
           buf = buf[0 := hf_report_id f];
           buf = buf[1 := cmd_byte (hf_cmd f)];
           buf = copy_at 2 (to_le_bytes 2 (hf_sid f)) buf;
           len = (of_nat (length (hf_payload f)) :: 16 word);
           buf = copy_at 4 (to_le_bytes 2 len) buf;
           buf = copy_at HID_HEADER_SIZE (hf_payload f) buf
       in Inr buf)"

definition frame_decode :: "bytes \<Rightarrow> frame_error + hid_frame" where
  "frame_decode data =
    (if length data < HID_HEADER_SIZE then Inl TooShort
     else
       let report_id = data ! 0 in
       bind_res (ok_or (cmd_from_u8 (data ! 1)) (UnknownCmd (data ! 1))) (\<lambda>cmd.
       let sid = from_le_bytes [data ! 2, data ! 3];
           len = unat (from_le_bytes [data ! 4, data ! 5] :: 16 word)
       in if length data < HID_HEADER_SIZE + len then Inl HeaderLenMismatch
          else Inr \<lparr>hf_report_id = report_id, hf_cmd = cmd, hf_sid = sid,
                    hf_payload = take len (drop HID_HEADER_SIZE data)\<rparr>))"

definition split_host_to_board :: "cmd \<Rightarrow> 16 word \<Rightarrow> bytes \<Rightarrow> hid_frame list" where
  "split_host_to_board c sid payload =
    (if payload = [] then
       [\<lparr>hf_report_id = REPORT_ID_DEVICE_BOUND, hf_cmd = c, hf_sid = sid, hf_payload = []\<rparr>]
     else map (\<lambda>chunk. \<lparr>hf_report_id = REPORT_ID_DEVICE_BOUND, hf_cmd = c, hf_sid = sid,
                         hf_payload = chunk\<rparr>) (chunks HID_MAX_PAYLOAD payload))"

definition build_board_to_host :: "cmd \<Rightarrow> 16 word \<Rightarrow> bytes \<Rightarrow> frame_error + hid_frame" where
  "build_board_to_host c sid payload =
    (if HID_MAX_PAYLOAD < length payload then Inl PayloadTooLarge
     else Inr \<lparr>hf_report_id = REPORT_ID_HOST_BOUND, hf_cmd = c, hf_sid = sid, hf_payload = payload\<rparr>)"

section \<open>Layout of a report\<close>

lemma replicate_64: "replicate 64 x = x # x # x # x # x # x # replicate 58 x"
  by (simp add: numeral_eq_Suc)

lemma frame_encode_layout:
  assumes "length (hf_payload f) \<le> 58"
  shows "frame_encode f =
    Inr ([hf_report_id f, cmd_byte (hf_cmd f)] @ to_le_bytes 2 (hf_sid f) @
         to_le_bytes 2 (of_nat (length (hf_payload f)) :: 16 word) @
         hf_payload f @ replicate (58 - length (hf_payload f)) 0)"
  using assms
  by (simp add: frame_encode_def hid_consts copy_at_def replicate_64 to_le_bytes_2 Let_def)

lemma frame_encode_too_large:
  "58 < length (hf_payload f) \<Longrightarrow> frame_encode f = Inl PayloadTooLarge"
  by (simp add: frame_encode_def)

lemma frame_encode_length: "frame_encode f = Inr bs \<Longrightarrow> length bs = 64"
  by (cases "length (hf_payload f) \<le> 58")
     (auto simp: frame_encode_layout frame_encode_too_large)

lemma frame_decode_layout:
  assumes "unat (from_le_bytes ls :: 16 word) \<le> length rest" and "length ss = 2" and "length ls = 2"
  shows "frame_decode ([rid, cmd_byte c] @ ss @ ls @ rest) =
    Inr \<lparr>hf_report_id = rid, hf_cmd = c, hf_sid = from_le_bytes ss,
         hf_payload = take (unat (from_le_bytes ls :: 16 word)) rest\<rparr>"
proof -
  obtain s0 s1 where ss: "ss = [s0, s1]" using assms(2)
    by (metis (no_types) length_0_conv length_Suc_conv numeral_2_eq_2)
  obtain l0 l1 where ls: "ls = [l0, l1]" using assms(3)
    by (metis (no_types) length_0_conv length_Suc_conv numeral_2_eq_2)
  show ?thesis using assms(1)
    by (simp add: frame_decode_def hid_consts ss ls Let_def del: from_le_bytes.simps)
qed

lemma frame_roundtrip:
  assumes "frame_encode f = Inr bs"
  shows "frame_decode (bs @ junk) = Inr f"
proof -
  have len: "length (hf_payload f) \<le> 58"
    using assms frame_encode_too_large[of f] by (cases "length (hf_payload f) \<le> 58") auto
  then have "unat (of_nat (length (hf_payload f)) :: 16 word) = length (hf_payload f)"
    by (simp add: unat_of_nat)
  then show ?thesis
    using assms len
      frame_decode_layout[of "to_le_bytes 2 (of_nat (length (hf_payload f)) :: 16 word)"
        "hf_payload f @ replicate (58 - length (hf_payload f)) 0 @ junk"
        "to_le_bytes 2 (hf_sid f)" "hf_report_id f" "hf_cmd f"]
    by (auto simp: frame_encode_layout)
qed

lemma split_frames_fit: "f \<in> set (split_host_to_board c sid p) \<Longrightarrow> length (hf_payload f) \<le> 58"
  by (auto simp: split_host_to_board_def dest: chunks_bounds[rotated] split: if_splits)

lemma split_frames_header:
  "f \<in> set (split_host_to_board c sid p) \<Longrightarrow>
   hf_report_id f = REPORT_ID_DEVICE_BOUND \<and> hf_cmd f = c \<and> hf_sid f = sid"
  by (auto simp: split_host_to_board_def split: if_splits)

lemma split_frames_concat: "concat (map hf_payload (split_host_to_board c sid p)) = p"
  by (simp add: split_host_to_board_def comp_def concat_chunks)

lemma split_single:
  "length p \<le> 58 \<Longrightarrow> split_host_to_board c sid p =
     [\<lparr>hf_report_id = REPORT_ID_DEVICE_BOUND, hf_cmd = c, hf_sid = sid, hf_payload = p\<rparr>]"
  by (simp add: split_host_to_board_def chunks_short)

section \<open>The interface of payload codecs\<close>

text \<open>
  Each typed payload of the protocol comes as an encoder and a decoder. What the daemon
  and the board rely on is the law below, for the values in the codec's domain; a codec
  that also fits one report travels in a single frame.
\<close>

locale payload_codec =
  fixes enc :: "'a \<Rightarrow> bytes"
    and dec :: "bytes \<Rightarrow> 'a option"
    and dom_ok :: "'a \<Rightarrow> bool"
  assumes dec_enc: "dom_ok x \<Longrightarrow> dec (enc x) = Some x"
begin

lemma enc_inj: "dom_ok x \<Longrightarrow> dom_ok y \<Longrightarrow> enc x = enc y \<Longrightarrow> x = y"
  by (metis dec_enc option.inject)

end

locale single_frame_codec = payload_codec +
  assumes enc_fits: "dom_ok x \<Longrightarrow> length (enc x) \<le> 58"
begin

lemma one_frame:
  "dom_ok x \<Longrightarrow> split_host_to_board c sid (enc x) =
     [\<lparr>hf_report_id = REPORT_ID_DEVICE_BOUND, hf_cmd = c, hf_sid = sid, hf_payload = enc x\<rparr>]"
  by (simp add: split_single enc_fits)

lemma over_the_wire:
  assumes "dom_ok x"
  shows "\<exists>f raw. split_host_to_board c sid (enc x) = [f] \<and> frame_encode f = Inr raw \<and>
    length raw = 64 \<and>
    (\<exists>g. frame_decode raw = Inr g \<and> hf_cmd g = c \<and> hf_sid g = sid \<and> dec (hf_payload g) = Some x)"
proof -
  let ?f = "\<lparr>hf_report_id = REPORT_ID_DEVICE_BOUND, hf_cmd = c, hf_sid = sid, hf_payload = enc x\<rparr>"
  obtain raw where raw: "frame_encode ?f = Inr raw"
    using enc_fits[OF assms] by (simp add: frame_encode_layout)
  then have "frame_decode raw = Inr ?f" using frame_roundtrip[OF raw, of "[]"] by simp
  with raw show ?thesis
    using one_frame[OF assms] frame_encode_length[OF raw] dec_enc[OF assms] by auto
qed

end

section \<open>Properties\<close>

text \<open>
  C11: a frame encodes exactly when its payload fits 58 bytes, the report is then 64 bytes
  long, and decoding the report gives the frame back, whatever bytes follow it.
\<close>
theorem frame_encode_decode:
  "(\<exists>raw. frame_encode f = Inr raw \<and> length raw = HID_REPORT_LEN \<and> frame_decode (raw @ junk) = Inr f)
    \<longleftrightarrow> length (hf_payload f) \<le> HID_MAX_PAYLOAD"
proof
  assume "\<exists>raw. frame_encode f = Inr raw \<and> length raw = HID_REPORT_LEN \<and> frame_decode (raw @ junk) = Inr f"
  then show "length (hf_payload f) \<le> HID_MAX_PAYLOAD"
    using frame_encode_too_large[of f] by (cases "58 < length (hf_payload f)") auto
next
  assume "length (hf_payload f) \<le> HID_MAX_PAYLOAD"
  then obtain raw where "frame_encode f = Inr raw" by (simp add: frame_encode_layout)
  then show "\<exists>raw. frame_encode f = Inr raw \<and> length raw = HID_REPORT_LEN \<and> frame_decode (raw @ junk) = Inr f"
    using frame_roundtrip frame_encode_length by (auto simp: HID_REPORT_LEN_def)
qed

text \<open>The report layout a frame stands for: header fields, payload, anything after it.\<close>

definition frame_image :: "hid_frame \<Rightarrow> bytes" where
  "frame_image f = [hf_report_id f, cmd_byte (hf_cmd f)] @ to_le_bytes 2 (hf_sid f) @
     to_le_bytes 2 (of_nat (length (hf_payload f)) :: 16 word) @ hf_payload f"

lemma list_6_cases:
  assumes "6 \<le> length xs"
  obtains a b c d e f ys where "xs = a # b # c # d # e # f # ys"
  using assms by (auto simp: numeral_eq_Suc Suc_le_length_iff)

lemma frame_decode_image:
  assumes "frame_decode data = Inr f"
  shows "length (hf_payload f) < 2 ^ 16 \<and> (\<exists>rest. data = frame_image f @ rest)"
proof -
  have "6 \<le> length data"
    using assms by (auto simp: frame_decode_def hid_consts not_less split: if_splits)
  then obtain a b c d e g ys where data: "data = a # b # c # d # e # g # ys"
    by (rule list_6_cases)
  define n where "n = unat (from_le_bytes [e, g] :: 16 word)"
  have n: "n < 2 ^ 16" unfolding n_def using unsigned_less[of "from_le_bytes [e, g] :: 16 word", where 'a = nat] by simp
  have f: "cmd_from_u8 b = Some (hf_cmd f)" "n \<le> length ys" "hf_report_id f = a"
      "hf_sid f = from_le_bytes [c, d]" "hf_payload f = take n ys"
    using assms
    by (auto simp: frame_decode_def data hid_consts Let_def bind_res_eq_Inr n_def
        simp del: from_le_bytes.simps split: if_splits)
  have "to_le_bytes 2 (from_le_bytes [c, d] :: 16 word) = [c, d]"
    "to_le_bytes 2 (from_le_bytes [e, g] :: 16 word) = [e, g]"
    by (rule to_from_le_bytes; simp)+
  moreover have "(of_nat n :: 16 word) = from_le_bytes [e, g]" by (simp add: n_def)
  ultimately have "frame_image f = [a, b, c, d, e, g] @ take n ys"
    using f by (simp add: frame_image_def cmd_from_u8_eq_Some min_def del: from_le_bytes.simps)
  then have "data = frame_image f @ drop n ys" by (simp add: data)
  then show ?thesis using f n by auto
qed

text \<open>
  The decoder accepts exactly the byte sequences that start with the image of a frame
  (header, little-endian session id and length, payload): a report it accepts has one
  reading only, and every well-formed report is accepted.
\<close>
theorem frame_decode_iff:
  "frame_decode data = Inr f \<longleftrightarrow>
     length (hf_payload f) < 2 ^ 16 \<and> (\<exists>rest. data = frame_image f @ rest)"
proof
  assume "length (hf_payload f) < 2 ^ 16 \<and> (\<exists>rest. data = frame_image f @ rest)"
  then obtain rest where len: "length (hf_payload f) < 2 ^ 16" and data: "data = frame_image f @ rest"
    by blast
  have "unat (of_nat (length (hf_payload f)) :: 16 word) = length (hf_payload f)"
    using len by (simp add: unat_of_nat)
  then show "frame_decode data = Inr f"
    using frame_decode_layout[of "to_le_bytes 2 (of_nat (length (hf_payload f)) :: 16 word)"
        "hf_payload f @ rest" "to_le_bytes 2 (hf_sid f)" "hf_report_id f" "hf_cmd f"]
    by (simp add: data frame_image_def)
qed (rule frame_decode_image)

text \<open>
  C10: splitting a payload for the board gives frames that all encode, carry the command and
  the session id of the message under the device-bound report id, and decode to payloads
  whose concatenation is the payload sent; there are as many as 58-byte pieces, one at least.
\<close>
theorem split_reassembles:
  "\<exists>raws. map frame_encode (split_host_to_board c sid p) = map Inr raws \<and>
     map frame_decode raws = map Inr (split_host_to_board c sid p) \<and>
     concat (map hf_payload (split_host_to_board c sid p)) = p \<and>
     list_all (\<lambda>f. hf_report_id f = REPORT_ID_DEVICE_BOUND \<and> hf_cmd f = c \<and> hf_sid f = sid)
       (split_host_to_board c sid p) \<and>
     length (split_host_to_board c sid p) = max 1 ((length p + 57) div 58)"
proof -
  let ?fs = "split_host_to_board c sid p"
  define raw where "raw f = (SOME r. frame_encode f = Inr r)" for f
  have enc: "frame_encode f = Inr (raw f)" if "f \<in> set ?fs" for f
    using split_frames_fit[OF that] by (auto simp: raw_def frame_encode_layout)
  have "map frame_encode ?fs = map Inr (map raw ?fs)" using enc by simp
  moreover have "map frame_decode (map raw ?fs) = map Inr ?fs"
    using frame_roundtrip[OF enc, of _ "[]"] by simp
  moreover have "length ?fs = max 1 ((length p + 57) div 58)"
    by (cases p) (simp_all add: split_host_to_board_def length_chunks)
  ultimately show ?thesis
    using split_frames_concat[of c sid p] split_frames_header[of _ c sid p]
    by (intro exI[of _ "map raw ?fs"]) (auto simp: list_all_iff)
qed

text \<open>
  The command decoder is the exact inverse of the discriminants: a byte is accepted as
  a command only when it is that command's byte.
\<close>
theorem cmd_bytes_bijective: "cmd_from_u8 b = Some c \<longleftrightarrow> b = cmd_byte c"
  by (rule cmd_from_u8_eq_Some)

end
