(* ===== verification/Payload_Codecs.thy ===== *)
theory Payload_Codecs
  imports Hid_Frames
begin

text \<open>
  The typed single-report payloads of \<open>crates/vb-protocol/src/payloads.rs\<close>: token usage,
  turn text, permission requests and responses, agent metadata. Every codec that is lossless
  on a domain is an interpretation of \<open>single_frame_codec\<close>; what the encoders do outside
  that domain (truncation) is stated for every input.
\<close>

section \<open>Encoders and decoders\<close>

definition encode_token_usage :: "token_usage \<Rightarrow> bytes" where
  "encode_token_usage u =
    to_le_bytes 8 (tu_input u) @ to_le_bytes 8 (tu_output u) @ to_le_bytes 8 (tu_cost_cents u)"

definition decode_token_usage :: "bytes \<Rightarrow> token_usage option" where
  "decode_token_usage payload =
    (if length payload < 24 then None
     else Some \<lparr>tu_input = from_le_bytes (take 8 payload),
                tu_output = from_le_bytes (take 8 (drop 8 payload)),
                tu_cost_cents = from_le_bytes (take 8 (drop 16 payload))\<rparr>)"

text \<open>\<open>while cut > 0 && !text.is_char_boundary(cut) { cut -= 1 }\<close>.\<close>

fun cut_back :: "string \<Rightarrow> nat \<Rightarrow> nat" where
  "cut_back text 0 = 0"
| "cut_back text (Suc n) = (if str_boundary text (Suc n) then Suc n else cut_back text n)"

definition encode_turn_append :: "turn_role_byte \<Rightarrow> string \<Rightarrow> bytes" where
  "encode_turn_append role text =
    (let max_text = HID_MAX_PAYLOAD - 1;
         truncated = (if max_text < length text then take (cut_back text max_text) text else text)
     in turn_role_u8 role # as_bytes truncated)"

definition turn_role_from_u8 :: "byte \<Rightarrow> turn_role_byte option" where
  "turn_role_from_u8 b =
    (if b = 0 then Some TrUser else if b = 1 then Some TrAssistant
     else if b = 2 then Some TrTool else if b = 3 then Some TrSystem else None)"

definition decode_turn_append :: "bytes \<Rightarrow> (turn_role_byte \<times> string) option" where
  "decode_turn_append payload =
    (case payload of [] \<Rightarrow> None
     | b # rest \<Rightarrow>
        Option.bind (turn_role_from_u8 b) (\<lambda>role.
        Option.bind (from_utf8 rest) (\<lambda>text. Some (role, text))))"

definition encode_permission_request :: "64 word \<Rightarrow> string \<Rightarrow> string \<Rightarrow> bytes" where
  "encode_permission_request req_id tool args_summary =
    (let tool_len = min (length tool) 24;
         buf = to_le_bytes 8 req_id @ [of_nat tool_len] @ take tool_len (as_bytes tool);
         remaining = HID_MAX_PAYLOAD - length buf;
         args_len = min (length args_summary) remaining
     in buf @ take args_len (as_bytes args_summary))"

definition decode_permission_request :: "bytes \<Rightarrow> (64 word \<times> string \<times> string) option" where
  "decode_permission_request payload =
    (if length payload < 9 then None
     else
       let req_id = from_le_bytes (take 8 payload);
           tool_len = unat (payload ! 8)
       in if length payload < 9 + tool_len then None
          else
            Option.bind (from_utf8 (take tool_len (drop 9 payload))) (\<lambda>tool.
            Option.bind (from_utf8 (drop (9 + tool_len) payload)) (\<lambda>args.
            Some (req_id, tool, args))))"

definition encode_permission_response :: "64 word \<Rightarrow> permission_decision_byte \<Rightarrow> bytes" where
  "encode_permission_response req_id decision =
    to_le_bytes 8 req_id @ [permission_decision_u8 decision]"

definition permission_decision_from_u8 :: "byte \<Rightarrow> permission_decision_byte option" where
  "permission_decision_from_u8 b =
    (if b = 0 then Some PdAllow else if b = 1 then Some PdDeny
     else if b = 2 then Some PdAlways else None)"

definition decode_permission_response :: "bytes \<Rightarrow> (64 word \<times> permission_decision_byte) option" where
  "decode_permission_response payload =
    (if length payload < 9 then None
     else
       let req_id = from_le_bytes (take 8 payload) in
       Option.bind (permission_decision_from_u8 (payload ! 8)) (\<lambda>decision.
       Some (req_id, decision)))"

definition encode_abort_session :: bytes where
  "encode_abort_session = []"

definition encode_agent_meta :: "byte \<Rightarrow> string \<Rightarrow> string \<Rightarrow> bytes" where
  "encode_agent_meta kind cwd branch =
    (let cwd_max = HID_MAX_PAYLOAD - (2 + min (length branch) 16);
         cwd_len = min (min (length cwd) cwd_max) 255;
         buf = [kind, of_nat cwd_len] @ take cwd_len (as_bytes cwd);
         remaining = HID_MAX_PAYLOAD - length buf;
         branch_len = min (length branch) remaining
     in buf @ take branch_len (as_bytes branch))"

definition decode_agent_meta :: "bytes \<Rightarrow> (byte \<times> string \<times> string) option" where
  "decode_agent_meta payload =
    (if length payload < 2 then None
     else
       let kind = payload ! 0;
           cwd_len = unat (payload ! 1)
       in if length payload < 2 + cwd_len then None
          else
            Option.bind (from_utf8 (take cwd_len (drop 2 payload))) (\<lambda>cwd.
            Option.bind (from_utf8 (drop (2 + cwd_len) payload)) (\<lambda>branch.
            Some (kind, cwd, branch))))"

definition fmt_sid :: "board_sid \<Rightarrow> string" where
  "fmt_sid sid = (if is_broadcast sid then ''BROADCAST'' else ''sid='' @ show_nat (unat (sid_raw sid)))"

section \<open>Lemmas on the fields\<close>

lemma turn_role_from_to [simp]: "turn_role_from_u8 (turn_role_u8 r) = Some r"
  by (cases r) (simp_all add: turn_role_from_u8_def turn_role_u8_def)

lemma permission_decision_from_to [simp]:
  "permission_decision_from_u8 (permission_decision_u8 d) = Some d"
  by (cases d) (simp_all add: permission_decision_from_u8_def permission_decision_u8_def)

lemma unat_small_byte: "n < 256 \<Longrightarrow> unat (of_nat n :: byte) = n"
  by (simp add: unat_of_nat)

lemma from_utf8_take_as_bytes:
  assumes "valid_str s" and "n \<le> length s"
  shows "from_utf8 (take n (as_bytes s)) = (if str_boundary s n then Some (take n s) else None)"
  using valid_str_take_iff[OF assms]
  by (auto simp: from_utf8_def valid_str_def of_bytes_def as_bytes_def take_map comp_def)

lemma cut_back_le: "cut_back text n \<le> n"
  by (induction n) auto

lemma cut_back_boundary: "str_boundary text (cut_back text n)"
  by (induction n) (auto simp: str_boundary_def)

lemma cut_back_greatest: "str_boundary text j \<Longrightarrow> j \<le> n \<Longrightarrow> j \<le> cut_back text n"
  by (induction n) (auto simp: le_Suc_eq)

lemma cut_back_loses_at_most_3:
  assumes "valid_str text" and "n \<le> length text"
  shows "n \<le> cut_back text n + 3"
proof -
  obtain j where "j \<le> n" and "n \<le> j + 3" and "str_boundary text j"
    using utf8_boundary_near[of "as_bytes text" n] assms by (auto simp: valid_str_def str_boundary_def)
  then have "j \<le> cut_back text n" by (intro cut_back_greatest)
  with \<open>n \<le> j + 3\<close> show ?thesis by linarith
qed

section \<open>The codecs on their lossless domains\<close>

interpretation token_usage_codec:
  single_frame_codec encode_token_usage decode_token_usage "\<lambda>_. True"
  by unfold_locales (simp_all add: encode_token_usage_def decode_token_usage_def)

interpretation permission_response_codec:
  single_frame_codec "\<lambda>(r, d). encode_permission_response r d" decode_permission_response "\<lambda>_. True"
  by unfold_locales
    (auto simp: encode_permission_response_def decode_permission_response_def nth_append)

definition turn_append_ok :: "turn_role_byte \<times> string \<Rightarrow> bool" where
  "turn_append_ok = (\<lambda>(r, text). valid_str text \<and> length text \<le> 57)"

interpretation turn_append_codec:
  single_frame_codec "\<lambda>(r, text). encode_turn_append r text" decode_turn_append turn_append_ok
  by unfold_locales
    (auto simp: encode_turn_append_def decode_turn_append_def turn_append_ok_def)

text \<open>What the permission request decoder returns for every pair of valid texts.\<close>

definition perm_tool_len :: "string \<Rightarrow> nat" where
  "perm_tool_len tool = min (length tool) 24"

definition perm_args_len :: "string \<Rightarrow> string \<Rightarrow> nat" where
  "perm_args_len tool args = min (length args) (49 - perm_tool_len tool)"

lemma decode_encode_permission_request:
  assumes "valid_str tool" and "valid_str args"
  shows "decode_permission_request (encode_permission_request r tool args) =
    (if str_boundary tool (perm_tool_len tool) \<and> str_boundary args (perm_args_len tool args)
     then Some (r, take (perm_tool_len tool) tool, take (perm_args_len tool args) args) else None)"
proof -
  let ?t = "perm_tool_len tool" and ?a = "perm_args_len tool args"
  have t: "?t \<le> 24" "?t \<le> length tool" and a: "?a \<le> length args"
    by (auto simp: perm_tool_len_def perm_args_len_def)
  have enc: "encode_permission_request r tool args =
      to_le_bytes 8 r @ [of_nat ?t] @ take ?t (as_bytes tool) @ take ?a (as_bytes args)"
    using t by (simp add: encode_permission_request_def Let_def perm_tool_len_def perm_args_len_def min_def)
  show ?thesis
    using t a assms
    by (simp add: enc decode_permission_request_def Let_def nth_append unat_small_byte
        from_utf8_take_as_bytes)
qed

lemma encode_permission_request_fits: "length (encode_permission_request r tool args) \<le> 58"
  by (simp add: encode_permission_request_def Let_def)

definition permission_request_ok :: "64 word \<times> string \<times> string \<Rightarrow> bool" where
  "permission_request_ok = (\<lambda>(r, tool, args).
     valid_str tool \<and> valid_str args \<and> length tool \<le> 24 \<and> length tool + length args \<le> 49)"

lemma str_boundary_length [simp]: "str_boundary s (length s)"
  using is_char_boundary_length[of "as_bytes s"] by (simp add: str_boundary_def)

interpretation permission_request_codec:
  single_frame_codec "\<lambda>(r, tool, args). encode_permission_request r tool args"
    decode_permission_request permission_request_ok
proof unfold_locales
  fix x assume "permission_request_ok x"
  then show "decode_permission_request (case x of (r, tool, args) \<Rightarrow> encode_permission_request r tool args) = Some x"
    by (cases x) (auto simp: permission_request_ok_def decode_encode_permission_request
        perm_tool_len_def perm_args_len_def min_def split: if_splits)
qed (auto simp: encode_permission_request_fits split: prod.split)

definition meta_cwd_len :: "string \<Rightarrow> string \<Rightarrow> nat" where
  "meta_cwd_len cwd branch = min (length cwd) (56 - min (length branch) 16)"

definition meta_branch_len :: "string \<Rightarrow> string \<Rightarrow> nat" where
  "meta_branch_len cwd branch = min (length branch) (56 - meta_cwd_len cwd branch)"

lemma decode_encode_agent_meta:
  assumes "valid_str cwd" and "valid_str branch"
  shows "decode_agent_meta (encode_agent_meta k cwd branch) =
    (if str_boundary cwd (meta_cwd_len cwd branch) \<and> str_boundary branch (meta_branch_len cwd branch)
     then Some (k, take (meta_cwd_len cwd branch) cwd, take (meta_branch_len cwd branch) branch) else None)"
proof -
  let ?c = "meta_cwd_len cwd branch" and ?b = "meta_branch_len cwd branch"
  have c: "?c \<le> 56" "?c \<le> length cwd" and b: "?b \<le> length branch"
    by (auto simp: meta_cwd_len_def meta_branch_len_def)
  have enc: "encode_agent_meta k cwd branch =
      [k, of_nat ?c] @ take ?c (as_bytes cwd) @ take ?b (as_bytes branch)"
    using c by (simp add: encode_agent_meta_def Let_def meta_cwd_len_def meta_branch_len_def min_def)
  show ?thesis
    using c b assms
    by (simp add: enc decode_agent_meta_def Let_def unat_small_byte from_utf8_take_as_bytes)
qed

lemma encode_agent_meta_fits: "length (encode_agent_meta k cwd branch) \<le> 58"
  by (auto simp add: encode_agent_meta_def Let_def min_def)

definition agent_meta_ok :: "byte \<times> string \<times> string \<Rightarrow> bool" where
  "agent_meta_ok = (\<lambda>(k, cwd, branch).
     valid_str cwd \<and> valid_str branch \<and> length branch \<le> 16 \<and> length cwd + length branch \<le> 56)"

interpretation agent_meta_codec:
  single_frame_codec "\<lambda>(k, cwd, branch). encode_agent_meta k cwd branch"
    decode_agent_meta agent_meta_ok
proof unfold_locales
  fix x assume "agent_meta_ok x"
  then show "decode_agent_meta (case x of (k, cwd, branch) \<Rightarrow> encode_agent_meta k cwd branch) = Some x"
    by (cases x) (auto simp: agent_meta_ok_def decode_encode_agent_meta
        meta_cwd_len_def meta_branch_len_def min_def split: if_splits)
qed (auto simp: encode_agent_meta_fits split: prod.split)

section \<open>Properties\<close>

text \<open>
  C36: a conversation turn of any length arrives as a prefix of its text: the role is kept,
  the cut is at a character boundary (so the board decodes it as UTF-8), it is the longest
  such cut within 57 bytes, and it loses at most three of them.
\<close>
theorem turn_append_truncates_at_boundary:
  assumes "valid_str msg"
  shows "\<exists>k. decode_turn_append (encode_turn_append role msg) = Some (role, take k msg) \<and>
    str_boundary msg k \<and> k \<le> 57 \<and> min 54 (length msg) \<le> k \<and>
    (\<forall>j. str_boundary msg j \<and> j \<le> 57 \<longrightarrow> j \<le> k)"
proof (cases "57 < length msg")
  case True
  let ?k = "cut_back msg 57"
  have k: "?k \<le> length msg" using cut_back_le[of msg 57] True by simp
  have "from_utf8 (as_bytes (take ?k msg)) = Some (take ?k msg)"
    using from_utf8_take_as_bytes[OF assms k] cut_back_boundary by (simp add: as_bytes_take)
  with True have "decode_turn_append (encode_turn_append role msg) = Some (role, take ?k msg)"
    by (simp add: decode_turn_append_def encode_turn_append_def Let_def)
  with True assms show ?thesis
    using cut_back_boundary cut_back_le[of msg 57] cut_back_greatest[of msg _ 57]
      cut_back_loses_at_most_3[of msg 57]
    by (intro exI[of _ ?k]) auto
next
  case False
  then show ?thesis
    using turn_append_codec.dec_enc[of "(role, msg)"] assms
    by (intro exI[of _ "length msg"])
       (auto simp: turn_append_ok_def str_boundary_def is_char_boundary_def split: if_splits)
qed

text \<open>Sample texts of three-byte characters, for the witnesses.\<close>

definition sample_text :: "nat \<Rightarrow> string" where
  "sample_text n = of_bytes (concat (replicate n [0xE4, 0xB8, 0xAD]))"

lemma valid_sample_text: "valid_str (sample_text n)"
proof -
  have "utf8_valid (concat (replicate n [0xE4, 0xB8, 0xAD]))"
    by (induction n)
       (simp_all add: utf8_valid_step utf8_step.simps lead_len_def between_def second_ok_def cont_def)
  then show ?thesis by (simp add: sample_text_def valid_str_def)
qed

lemma turn_append_truncates_at_boundary_witness:
  "valid_str (sample_text 20) \<and> length (sample_text 20) = 60 \<and>
   (\<exists>k. decode_turn_append (encode_turn_append TrAssistant (sample_text 20)) =
          Some (TrAssistant, take k (sample_text 20)) \<and> 54 \<le> k \<and> k \<le> 57)"
proof -
  have "length (sample_text 20) = 60"
    by (simp add: sample_text_def length_concat sum_list_replicate)
  then show ?thesis
    using turn_append_truncates_at_boundary[OF valid_sample_text[of 20], of TrAssistant]
      valid_sample_text[of 20]
    by auto
qed

text \<open>
  C37: what the board decodes from a permission request, for every tool name and argument
  summary: the request id, the first 24 bytes of the tool and what then fits of the
  summary - but only when both cuts fall on character boundaries; otherwise the payload
  the encoder produced does not decode at all.
\<close>
theorem permission_request_decodes_iff_boundaries:
  assumes "valid_str tool" and "valid_str args"
  shows "length (encode_permission_request r tool args) \<le> HID_MAX_PAYLOAD \<and>
    decode_permission_request (encode_permission_request r tool args) =
    (if str_boundary tool (perm_tool_len tool) \<and> str_boundary args (perm_args_len tool args)
     then Some (r, take (perm_tool_len tool) tool, take (perm_args_len tool args) args) else None)"
  using decode_encode_permission_request[OF assms] encode_permission_request_fits by simp

lemma permission_request_decodes_iff_boundaries_witness:
  "valid_str (''a'' @ sample_text 8) \<and> valid_str ''x'' \<and>
   decode_permission_request (encode_permission_request 7 (''a'' @ sample_text 8) ''x'') = None"
proof -
  have ascii: "valid_str ''a''" "valid_str ''x''"
    unfolding valid_str_def by (rule utf8_valid_ascii; simp add: as_bytes_def byte_of_char_def)+
  then have v: "valid_str (''a'' @ sample_text 8)" "valid_str ''x''"
    by (auto intro: valid_str_append[of "''a''", simplified] valid_sample_text)
  have len: "length (sample_text 8) = 24"
    by (simp add: sample_text_def length_concat sum_list_replicate)
  have "as_bytes (sample_text 8) ! 23 = 0xAD"
    by (simp add: sample_text_def numeral_eq_Suc)
  then have "\<not> str_boundary (''a'' @ sample_text 8) (perm_tool_len (''a'' @ sample_text 8))"
    by (simp add: str_boundary_def is_char_boundary_def perm_tool_len_def len as_bytes_Cons cont_def)
  with v permission_request_decodes_iff_boundaries[OF v, of 7] show ?thesis by simp
qed

text \<open>
  The same for agent metadata: the working directory keeps its first 40 to 56 bytes, the
  branch what remains, and the payload decodes exactly when both cuts are character boundaries.
\<close>
theorem agent_meta_decodes_iff_boundaries:
  assumes "valid_str cwd" and "valid_str branch"
  shows "length (encode_agent_meta k cwd branch) \<le> HID_MAX_PAYLOAD \<and>
    decode_agent_meta (encode_agent_meta k cwd branch) =
    (if str_boundary cwd (meta_cwd_len cwd branch) \<and> str_boundary branch (meta_branch_len cwd branch)
     then Some (k, take (meta_cwd_len cwd branch) cwd, take (meta_branch_len cwd branch) branch) else None)"
  using decode_encode_agent_meta[OF assms] encode_agent_meta_fits by simp

lemma agent_meta_decodes_iff_boundaries_witness:
  "valid_str ''/home/rv'' \<and> valid_str ''main'' \<and>
   decode_agent_meta (encode_agent_meta 1 ''/home/rv'' ''main'') = Some (1, ''/home/rv'', ''main'')"
proof -
  have v: "valid_str ''/home/rv''" "valid_str ''main''"
    unfolding valid_str_def by (rule utf8_valid_ascii; simp add: as_bytes_def byte_of_char_def)+
  have "str_boundary ''/home/rv'' (meta_cwd_len ''/home/rv'' ''main'')"
    "str_boundary ''main'' (meta_branch_len ''/home/rv'' ''main'')"
    by (simp_all add: str_boundary_def is_char_boundary_def meta_cwd_len_def meta_branch_len_def)
  with v agent_meta_decodes_iff_boundaries[OF v, of 1] show ?thesis
    by (simp add: meta_cwd_len_def meta_branch_len_def)
qed

text \<open>
  A token usage snapshot survives the wire: the payload is one frame, the frame encodes
  to one 64-byte report, and the decoded report holds the same three counters.
\<close>
theorem token_usage_over_the_wire:
  "\<exists>f raw. split_host_to_board TokenUsage sid (encode_token_usage u) = [f] \<and>
     frame_encode f = Inr raw \<and> length raw = HID_REPORT_LEN \<and>
     (\<exists>g. frame_decode raw = Inr g \<and> hf_cmd g = TokenUsage \<and> hf_sid g = sid \<and>
          decode_token_usage (hf_payload g) = Some u)"
  using token_usage_codec.over_the_wire[where x = u and c = TokenUsage and sid = sid] by (simp add: HID_REPORT_LEN_def)

text \<open>
  A permission decision the board encodes is the decision the daemon decodes, with its
  request id, in one report; and a payload with any other decision byte is rejected.
\<close>
theorem permission_response_exact:
  "decode_permission_response p = Some (r, d) \<longleftrightarrow>
     (\<exists>rest. p = encode_permission_response r d @ rest)"
proof
  assume L: "decode_permission_response p = Some (r, d)"
  then have len: "9 \<le> length p" by (auto simp: decode_permission_response_def split: if_splits)
  then have r: "r = from_le_bytes (take 8 p)" and d: "permission_decision_from_u8 (p ! 8) = Some d"
    using L by (auto simp: decode_permission_response_def Let_def bind_eq_Some_conv)
  from d have "p ! 8 = permission_decision_u8 d"
    by (auto simp: permission_decision_from_u8_def permission_decision_u8_def split: if_splits)
  moreover have "to_le_bytes 8 r = take 8 p"
    unfolding r by (rule to_from_le_bytes) (use len in simp_all)
  moreover have "p = take 8 p @ [p ! 8] @ drop 9 p"
    using len id_take_nth_drop[of 8 p] by simp
  ultimately show "\<exists>rest. p = encode_permission_response r d @ rest"
    unfolding encode_permission_response_def by (metis append.assoc)
qed (auto simp: encode_permission_response_def decode_permission_response_def nth_append)

end
