(* ===== verification/Text_Codecs.thy ===== *)
theory Text_Codecs
  imports Rust_Text
begin

text \<open>
  The text encodings of binary data: the hexadecimal codec of \<open>crates/vb-daemon/src/lib.rs\<close>
  (terminal bytes over the JSON interface), and the two Base64 encoders with the decoder of
  \<open>crates/vb-daemon/src/main.rs\<close> and \<open>crates/vb-host/src/agent_discovery.rs\<close>.
\<close>

section \<open>Hexadecimal\<close>

definition hex_nibble :: "byte \<Rightarrow> byte option" where
  "hex_nibble b =
    (if 0x30 \<le> b \<and> b \<le> 0x39 then Some (b - 0x30)
     else if 0x61 \<le> b \<and> b \<le> 0x66 then Some (b - 0x61 + 10)
     else if 0x41 \<le> b \<and> b \<le> 0x46 then Some (b - 0x41 + 10)
     else None)"

fun hex_pairs :: "bytes \<Rightarrow> bytes option" where
  "hex_pairs [] = Some []"
| "hex_pairs [_] = None"
| "hex_pairs (h # l # rest) =
    Option.bind (hex_nibble h) (\<lambda>hi.
    Option.bind (hex_nibble l) (\<lambda>lo.
    map_option (\<lambda>out. (push_bit 4 hi OR lo) # out) (hex_pairs rest)))"

definition hex_decode :: "string \<Rightarrow> bytes option" where
  "hex_decode input = (if length input mod 2 \<noteq> 0 then None else hex_pairs (as_bytes input))"

definition HEX :: string where
  "HEX = ''0123456789abcdef''"

definition hex_encode :: "bytes \<Rightarrow> string" where
  "hex_encode bs = concat (map (\<lambda>b. [HEX ! unat (drop_bit 4 b), HEX ! unat (b AND 0x0f)]) bs)"

section \<open>Base64\<close>

definition b64_alphabet :: string where
  "b64_alphabet = ''ABCDEFGHIJKLMNOPQRSTUVWXYZabcdefghijklmnopqrstuvwxyz0123456789+/''"

definition group_word :: "byte \<Rightarrow> byte \<Rightarrow> byte \<Rightarrow> 32 word" where
  "group_word b0 b1 b2 = push_bit 16 (ucast b0) OR push_bit 8 (ucast b1) OR ucast b2"

definition b64_chunk :: "bytes \<Rightarrow> string" where
  "b64_chunk chunk =
    (let b0 = chunk ! 0;
         b1 = (if 1 < length chunk then chunk ! 1 else 0);
         b2 = (if 2 < length chunk then chunk ! 2 else 0);
         n = group_word b0 b1 b2
     in [b64_alphabet ! unat (drop_bit 18 n AND 0x3f),
         b64_alphabet ! unat (drop_bit 12 n AND 0x3f),
         (if 2 \<le> length chunk then b64_alphabet ! unat (drop_bit 6 n AND 0x3f) else CHR ''=''),
         (if 3 \<le> length chunk then b64_alphabet ! unat (n AND 0x3f) else CHR ''='')])"

definition base64_encode_bytes :: "bytes \<Rightarrow> string" where
  "base64_encode_bytes input = concat (map b64_chunk (chunks 3 input))"

text \<open>The second encoder, of the process scanner, which shifts the bytes directly.\<close>

definition scan_b64_chunk :: "bytes \<Rightarrow> string" where
  "scan_b64_chunk chunk =
    (let b0 = chunk ! 0;
         b1 = (if 1 < length chunk then chunk ! 1 else 0);
         b2 = (if 2 < length chunk then chunk ! 2 else 0)
     in [b64_alphabet ! unat (drop_bit 2 b0),
         b64_alphabet ! unat (push_bit 4 (b0 AND 0x03) OR drop_bit 4 b1),
         (if 1 < length chunk then b64_alphabet ! unat (push_bit 2 (b1 AND 0x0f) OR drop_bit 6 b2)
          else CHR ''=''),
         (if 2 < length chunk then b64_alphabet ! unat (b2 AND 0x3f) else CHR ''='')])"

definition scan_base64_encode_bytes :: "bytes \<Rightarrow> string" where
  "scan_base64_encode_bytes input = concat (map scan_b64_chunk (chunks 3 input))"

definition is_ascii_whitespace :: "byte \<Rightarrow> bool" where
  "is_ascii_whitespace b \<longleftrightarrow> b = 0x20 \<or> b = 0x09 \<or> b = 0x0A \<or> b = 0x0C \<or> b = 0x0D"

definition b64_value :: "byte \<Rightarrow> byte option" where
  "b64_value b =
    (if 0x41 \<le> b \<and> b \<le> 0x5A then Some (b - 0x41)
     else if 0x61 \<le> b \<and> b \<le> 0x7A then Some (b - 0x61 + 26)
     else if 0x30 \<le> b \<and> b \<le> 0x39 then Some (b - 0x30 + 52)
     else if b = 0x2B then Some 62
     else if b = 0x2F then Some 63
     else None)"

text \<open>The inner loop over one group of four: the values and the number of padding bytes.\<close>

fun b64_group :: "bytes \<Rightarrow> nat \<Rightarrow> (bytes \<times> nat) result" where
  "b64_group [] padding = Inr ([], padding)"
| "b64_group (b # r) padding =
    (if b = 0x3D then bind_res (b64_group r (Suc padding)) (\<lambda>(vs, p). Inr (0 # vs, p))
     else if 0 < padding then Inl ''base64 padding appears before the end''
     else case b64_value b of
       None \<Rightarrow> Inl (''invalid base64 byte: 0x'' @ show_hex2 b)
     | Some v \<Rightarrow> bind_res (b64_group r padding) (\<lambda>(vs, p). Inr (v # vs, p)))"

definition sextets_word :: "byte \<Rightarrow> byte \<Rightarrow> byte \<Rightarrow> byte \<Rightarrow> 32 word" where
  "sextets_word v0 v1 v2 v3 =
    push_bit 18 (ucast v0) OR push_bit 12 (ucast v1) OR push_bit 6 (ucast v2) OR ucast v3"

definition b64_bytes :: "bytes \<Rightarrow> nat \<Rightarrow> bytes" where
  "b64_bytes values padding =
    (let n = sextets_word (values ! 0) (values ! 1) (values ! 2) (values ! 3)
     in [ucast (drop_bit 16 n AND 0xff)] @
        (if padding < 2 then [ucast (drop_bit 8 n AND 0xff)] else []) @
        (if padding < 1 then [ucast (n AND 0xff)] else []))"

fun b64_groups :: "bytes list \<Rightarrow> bytes result" where
  "b64_groups [] = Inr []"
| "b64_groups (chunk # cs) =
    bind_res (b64_group chunk 0) (\<lambda>(values, padding).
    if 2 < padding then Inl ''base64 has too much padding''
    else bind_res (b64_groups cs) (\<lambda>out. Inr (b64_bytes values padding @ out)))"

definition base64_decode_bytes :: "string \<Rightarrow> bytes result" where
  "base64_decode_bytes input =
    (let clean = filter (\<lambda>b. \<not> is_ascii_whitespace b) (as_bytes input)
     in if length clean mod 4 \<noteq> 0 then Inl ''base64 length is not a multiple of 4''
        else b64_groups (chunks 4 clean))"

section \<open>Lemmas: hexadecimal\<close>

lemma and_masks:
  "(w :: 'a::len word) AND 0x03 = take_bit 2 w"
  "w AND 0x0f = take_bit 4 w"
  "w AND 0x3f = take_bit 6 w"
  "w AND 0xff = take_bit 8 w"
  by (simp_all add: take_bit_eq_mask mask_eq_exp_minus_1)

lemma byte_split: "push_bit 4 (drop_bit 4 b) OR take_bit 4 b = (b :: byte)"
  by (rule bit_eqI) (auto simp: bit_simps)

lemma HEX_nth: "k < 16 \<Longrightarrow> HEX ! k = digit_char k"
proof -
  have "list_all (\<lambda>k. HEX ! k = digit_char k) [0..<16]" by code_simp
  then show "k < 16 \<Longrightarrow> HEX ! k = digit_char k" by (auto simp: list_all_iff)
qed

lemma of_char_digit_char:
  "k < 16 \<Longrightarrow> (of_char (digit_char k) :: nat) = (if k < 10 then 48 + k else 87 + k)"
  by (simp add: digit_char_def)

lemma unat_byte_of_char: "unat (byte_of_char c) = of_char c"
  by (simp add: byte_of_char_def unat_of_nat)

lemma of_char_lower:
  "(of_char (ascii_lower_char c) :: nat) =
    (if 65 \<le> (of_char c :: nat) \<and> (of_char c :: nat) \<le> 90 then of_char c + 32 else of_char c)"
  by (simp add: ascii_lower_char_def Let_def)

lemma hex_nibble_iff:
  "hex_nibble (byte_of_char c) = Some n \<longleftrightarrow> unat n < 16 \<and> ascii_lower_char c = HEX ! unat n"
proof -
  define u where "u = (of_char c :: nat)"
  have u: "u < 256" by (simp add: u_def)
  have ub: "unat (byte_of_char c) = u" by (simp add: unat_byte_of_char u_def)
  have nib: "hex_nibble (byte_of_char c) = Some n \<longleftrightarrow>
     (48 \<le> u \<and> u \<le> 57 \<and> unat n = u - 48) \<or> (97 \<le> u \<and> u \<le> 102 \<and> unat n = u - 87) \<or>
     (65 \<le> u \<and> u \<le> 70 \<and> unat n = u - 55)"
    using u by (auto simp: hex_nibble_def word_le_nat_alt ub word_unat_eq_iff unat_sub unat_word_ariths)
  have "ascii_lower_char c = HEX ! unat n \<longleftrightarrow>
     (of_char (ascii_lower_char c) :: nat) = (if unat n < 10 then 48 + unat n else 87 + unat n)"
    if "unat n < 16"
    using that by (metis HEX_nth of_char_digit_char of_char_eq_iff)
  then show ?thesis
    using u unfolding nib of_char_lower u_def[symmetric] by (auto split: if_splits)
qed

lemma byte_of_nibbles:
  assumes "unat hi < 16" and "unat lo < 16"
  shows "push_bit 4 hi OR lo = b \<longleftrightarrow> hi = drop_bit 4 b \<and> lo = take_bit 4 (b :: byte)"
proof
  have small: "take_bit 4 w = w" if "unat w < 16" for w :: byte
    unfolding word_unat_eq_iff unsigned_take_bit_eq
    using that by (intro take_bit_nat_eq_self) simp
  have hi: "\<not> bit hi i" "\<not> bit lo i" if "4 \<le> i" for i
    using small[OF assms(1)] small[OF assms(2)] that by (metis bit_take_bit_iff not_le)+
  assume b: "push_bit 4 hi OR lo = b"
  have "hi = drop_bit 4 b" unfolding b[symmetric]
    by (rule bit_eqI) (auto simp: bit_simps hi intro: ccontr dest: hi(1)[OF leI])
  moreover have "lo = take_bit 4 b" unfolding b[symmetric]
    by (rule bit_eqI) (auto simp: bit_simps hi intro: ccontr dest: hi(2)[OF leI])
  ultimately show "hi = drop_bit 4 b \<and> lo = take_bit 4 b" ..
qed (simp add: byte_split)

lemma unat_drop_bit_4: "unat (drop_bit 4 (b :: byte)) < 16"
proof -
  have "unat b < 256" using unsigned_less[of b, where 'a = nat] by simp
  then show ?thesis by (simp add: drop_bit_eq_div unat_div)
qed

lemma unat_take_bit_4: "unat (take_bit 4 (b :: byte)) < 16"
  using take_bit_nat_less_exp[of 4 "unat b"] unfolding unsigned_take_bit_eq by simp

lemma byte_of_nibbles_ex:
  "(\<exists>hi lo. (unat hi < 16 \<and> P hi) \<and> (unat lo < 16 \<and> Q lo) \<and> push_bit 4 hi OR lo = b \<and> R) \<longleftrightarrow>
    P (drop_bit 4 b) \<and> Q (take_bit 4 (b :: byte)) \<and> R"
  by (metis byte_of_nibbles unat_drop_bit_4 unat_take_bit_4)

lemma hex_pairs_iff: "hex_pairs (as_bytes s) = Some bs \<longleftrightarrow> to_ascii_lowercase s = hex_encode bs"
proof (induction s arbitrary: bs rule: induct_list012)
  case 1
  show ?case by (cases bs) (auto simp: hex_encode_def to_ascii_lowercase_def)
next
  case (2 c)
  show ?case by (cases bs) (auto simp: hex_encode_def to_ascii_lowercase_def as_bytes_Cons)
next
  case (3 h l rest)
  show ?case
  proof (cases bs)
    case Nil
    then show ?thesis
      by (auto simp: hex_encode_def to_ascii_lowercase_def as_bytes_Cons bind_eq_Some_conv)
  next
    case (Cons b bs')
    have "hex_pairs (as_bytes (h # l # rest)) = Some bs \<longleftrightarrow>
      (\<exists>hi lo. hex_nibble (byte_of_char h) = Some hi \<and> hex_nibble (byte_of_char l) = Some lo \<and>
        push_bit 4 hi OR lo = b \<and> to_ascii_lowercase rest = hex_encode bs')"
      by (auto simp: Cons as_bytes_Cons bind_eq_Some_conv "3.IH"(1))
    also have "\<dots> \<longleftrightarrow> ascii_lower_char h = HEX ! unat (drop_bit 4 b) \<and>
        ascii_lower_char l = HEX ! unat (take_bit 4 b) \<and> to_ascii_lowercase rest = hex_encode bs'"
      unfolding hex_nibble_iff by (rule byte_of_nibbles_ex)
    also have "\<dots> \<longleftrightarrow> to_ascii_lowercase (h # l # rest) = hex_encode bs"
      by (auto simp: Cons hex_encode_def to_ascii_lowercase_def and_masks)
    finally show ?thesis .
  qed
qed

lemma length_hex_encode [bytes_simps]: "length (hex_encode bs) = 2 * length bs"
  by (induction bs) (auto simp: hex_encode_def)

lemma hex_encode_lower: "to_ascii_lowercase (hex_encode bs) = hex_encode bs"
proof -
  have low: "ascii_lower_char (HEX ! k) = HEX ! k" if "k < 16" for k
  proof -
    have "list_all (\<lambda>k. ascii_lower_char (HEX ! k) = HEX ! k) [0..<16]" by code_simp
    with that show ?thesis by (auto simp: list_all_iff)
  qed
  show ?thesis
    by (induction bs)
      (auto simp: hex_encode_def to_ascii_lowercase_def and_masks low unat_drop_bit_4 unat_take_bit_4)
qed

section \<open>Lemmas: Base64\<close>

definition b64_code :: "nat \<Rightarrow> nat" where
  "b64_code k =
    (if k < 26 then 65 + k else if k < 52 then 71 + k else if k < 62 then k - 4
     else if k = 62 then 43 else 47)"

lemma b64_alphabet_codes: "map of_char b64_alphabet = map b64_code [0..<64]"
  by code_simp

lemma b64_alphabet_code:
  assumes "k < 64"
  shows "(of_char (b64_alphabet ! k) :: nat) = b64_code k"
proof -
  have "length b64_alphabet = length (map b64_code [0..<64])"
    using arg_cong[OF b64_alphabet_codes, of length] by simp
  then have "(of_char (b64_alphabet ! k) :: nat) = map of_char b64_alphabet ! k"
    using assms by simp
  then show ?thesis using assms by (simp add: b64_alphabet_codes)
qed

text \<open>The value of a byte, read through its numeric code.\<close>

lemma b64_value_code:
  "b64_value b =
    (if 65 \<le> unat b \<and> unat b \<le> 90 then Some (of_nat (unat b - 65))
     else if 97 \<le> unat b \<and> unat b \<le> 122 then Some (of_nat (unat b - 71))
     else if 48 \<le> unat b \<and> unat b \<le> 57 then Some (of_nat (unat b + 4))
     else if unat b = 43 then Some 62
     else if unat b = 47 then Some 63
     else None)"
proof -
  have c: "(0x41 \<le> b) = (65 \<le> unat b)" "(b \<le> 0x5A) = (unat b \<le> 90)"
    "(0x61 \<le> b) = (97 \<le> unat b)" "(b \<le> 0x7A) = (unat b \<le> 122)"
    "(0x30 \<le> b) = (48 \<le> unat b)" "(b \<le> 0x39) = (unat b \<le> 57)"
    "(b = 0x2B) = (unat b = 43)" "(b = 0x2F) = (unat b = 47)"
    by (simp_all add: word_le_nat_alt word_unat_eq_iff)
  have v: "65 \<le> unat b \<Longrightarrow> b - 0x41 = of_nat (unat b - 65)"
    "97 \<le> unat b \<Longrightarrow> b - 0x61 + 26 = of_nat (unat b - 71)"
    "48 \<le> unat b \<Longrightarrow> b - 0x30 + 52 = of_nat (unat b + 4)"
    by (simp_all add: of_nat_diff)
  show ?thesis unfolding b64_value_def c using v by simp
qed

lemma b64_alphabet_value:
  assumes "k < 64"
  shows "b64_value (byte_of_char (b64_alphabet ! k)) = Some (of_nat k)"
    and "byte_of_char (b64_alphabet ! k) \<noteq> 0x3D"
    and "\<not> is_ascii_whitespace (byte_of_char (b64_alphabet ! k))"
proof -
  have u: "unat (byte_of_char (b64_alphabet ! k)) = b64_code k"
    using b64_alphabet_code[OF assms] by (simp add: unat_byte_of_char)
  have "b64_code k \<notin> {0x3D, 0x20, 0x09, 0x0A, 0x0C, 0x0D}"
    using assms by (simp add: b64_code_def) linarith
  then show "byte_of_char (b64_alphabet ! k) \<noteq> 0x3D"
    and "\<not> is_ascii_whitespace (byte_of_char (b64_alphabet ! k))"
    unfolding is_ascii_whitespace_def word_unat_eq_iff u by simp_all
  show "b64_value (byte_of_char (b64_alphabet ! k)) = Some (of_nat k)"
  proof -
    have "k < 26 \<or> 26 \<le> k \<and> k < 52 \<or> (\<exists>j. k = 52 + j \<and> j < 10) \<or> k = 62 \<or> k = 63"
      using assms by presburger
    then consider "k < 26" | "26 \<le> k" "k < 52" | j where "k = 52 + j" "j < 10" | "k = 62" | "k = 63"
      by blast
    then show ?thesis
      unfolding b64_value_code u by cases (simp_all add: b64_code_def)
  qed
qed

lemma unat_take_bit_6: "unat (take_bit 6 (w :: 'a::len word)) < 64"
  using take_bit_nat_less_exp[of 6 "unat w"] unfolding unsigned_take_bit_eq by simp

lemma eq_byte: "byte_of_char (CHR ''='') = 0x3D"
  by (simp add: byte_of_char_def)

text \<open>One group: the four characters of a chunk decode to the chunk.\<close>

lemma sextet_value:
  "b64_value (byte_of_char (b64_alphabet ! unat (take_bit 6 (w :: 32 word)))) = Some (ucast (take_bit 6 w))"
  using b64_alphabet_value(1)[OF unat_take_bit_6[of w]] by simp

lemma sextet_not_eq: "byte_of_char (b64_alphabet ! unat (take_bit 6 (w :: 32 word))) \<noteq> 0x3D"
  by (rule b64_alphabet_value(2)[OF unat_take_bit_6])

lemma list_1_2_3:
  assumes "c \<noteq> []" and "length c \<le> 3"
  obtains a where "c = [a]" | a b where "c = [a, b]" | a b d where "c = [a, b, d]"
proof -
  from assms consider "length c = 1" | "length c = 2" | "length c = 3"
    by (cases c) (auto simp: le_Suc_eq numeral_eq_Suc)
  then show ?thesis
    by cases (use that in \<open>auto simp: length_Suc_conv numeral_eq_Suc\<close>)
qed

lemma bit_byte_high [simp]: "\<not> bit (b :: byte) (8 + n)" "\<not> bit (b :: byte) (16 + n)"
  using bit_imp_le_length[of b "8 + n"] bit_imp_le_length[of b "16 + n"] by auto

lemma group_bits:
  "ucast (take_bit 8 (drop_bit 16 (group_word a b c))) = a"
  "ucast (take_bit 8 (drop_bit 8 (group_word a b c))) = b"
  "ucast (take_bit 8 (group_word a b c)) = c"
  "take_bit 24 (group_word a b c) = group_word a b c"
proof -
  show "ucast (take_bit 8 (drop_bit 16 (group_word a b c))) = a"
    unfolding group_word_def by (rule bit_eqI) (auto simp: bit_simps)
  show "ucast (take_bit 8 (drop_bit 8 (group_word a b c))) = b"
    unfolding group_word_def by (rule bit_eqI) (auto simp: bit_simps)
  show "ucast (take_bit 8 (group_word a b c)) = c"
    unfolding group_word_def by (rule bit_eqI) (auto simp: bit_simps)
  show "take_bit 24 (group_word a b c) = group_word a b c"
    unfolding group_word_def by (rule bit_eqI) (auto simp: bit_simps dest: bit_imp_le_length)
qed

lemma group_zero:
  "take_bit 6 (group_word a b 0) = 0" "take_bit 6 (drop_bit 6 (group_word a 0 0)) = 0"
proof -
  show "take_bit 6 (group_word a b 0) = 0"
    unfolding group_word_def by (rule bit_eqI) (auto simp: bit_simps)
  show "take_bit 6 (drop_bit 6 (group_word a 0 0)) = 0"
    unfolding group_word_def by (rule bit_eqI) (auto simp: bit_simps)
qed

lemma sextet_through_byte: "ucast (ucast (take_bit 6 w) :: byte) = (take_bit 6 w :: 32 word)"
  by (rule bit_eqI) (auto simp: bit_simps)

lemma take_bit_join:
  "push_bit k (take_bit 6 (drop_bit k n)) OR take_bit k n = take_bit (k + 6) (n :: 32 word)"
  by (rule bit_eqI) (auto simp: bit_simps)

lemma group_sextets:
  "sextets_word (ucast (take_bit 6 (drop_bit 18 n))) (ucast (take_bit 6 (drop_bit 12 n)))
     (ucast (take_bit 6 (drop_bit 6 n))) (ucast (take_bit 6 n)) = take_bit 24 n"
  unfolding sextets_word_def sextet_through_byte
  using take_bit_join[of 18 n] take_bit_join[of 12 n] take_bit_join[of 6 n]
  by (simp add: or.assoc)

lemma group_word_sextets:
  "sextets_word (ucast (take_bit 6 (drop_bit 18 (group_word a b c))))
     (ucast (take_bit 6 (drop_bit 12 (group_word a b c))))
     (ucast (take_bit 6 (drop_bit 6 (group_word a b c)))) (ucast (take_bit 6 (group_word a b c)))
   = group_word a b c"
  "sextets_word (ucast (take_bit 6 (drop_bit 18 (group_word a b 0))))
     (ucast (take_bit 6 (drop_bit 12 (group_word a b 0))))
     (ucast (take_bit 6 (drop_bit 6 (group_word a b 0)))) 0 = group_word a b 0"
  "sextets_word (ucast (take_bit 6 (drop_bit 18 (group_word a 0 0))))
     (ucast (take_bit 6 (drop_bit 12 (group_word a 0 0)))) 0 0 = group_word a 0 0"
  using group_sextets[of "group_word a b c"] group_sextets[of "group_word a b 0"]
    group_sextets[of "group_word a 0 0"]
  by (simp_all add: group_bits group_zero)

lemma length_b64_chunk [simp]: "length (b64_chunk c) = 4"
  by (simp add: b64_chunk_def Let_def)

lemma b64_group_chunk:
  assumes "c \<noteq> []" and "length c \<le> 3"
  shows "\<exists>vs. b64_group (as_bytes (b64_chunk c)) 0 = Inr (vs, 3 - length c) \<and>
    b64_bytes vs (3 - length c) = c"
  using assms
  by (cases rule: list_1_2_3)
    (simp_all add: b64_chunk_def Let_def as_bytes_Cons and_masks eq_byte sextet_value sextet_not_eq
      b64_bytes_def group_word_sextets group_bits)

lemma b64_chunk_no_space:
  assumes "b \<in> set (as_bytes (b64_chunk c))"
  shows "\<not> is_ascii_whitespace b"
proof -
  have "\<not> is_ascii_whitespace 0x3D" by (simp add: is_ascii_whitespace_def)
  moreover have "\<not> is_ascii_whitespace (byte_of_char (b64_alphabet ! unat (take_bit 6 w)))"
    for w :: "32 word" by (rule b64_alphabet_value(3)[OF unat_take_bit_6])
  ultimately show ?thesis
    using assms unfolding b64_chunk_def Let_def and_masks
    by (auto simp: as_bytes_Cons eq_byte split: if_splits)
qed

lemma b64_groups_roundtrip:
  assumes "\<forall>c \<in> set cs. c \<noteq> [] \<and> length c \<le> 3"
  shows "b64_groups (map (\<lambda>c. as_bytes (b64_chunk c)) cs) = Inr (concat cs)"
  using assms
proof (induction cs)
  case (Cons c cs)
  then obtain vs where vs: "b64_group (as_bytes (b64_chunk c)) 0 = Inr (vs, 3 - length c)"
      "b64_bytes vs (3 - length c) = c" and ne: "c \<noteq> []"
    using b64_group_chunk[of c] by auto
  then have "3 - length c \<le> 2" by (cases c) auto
  with Cons vs show ?case by simp
qed simp

lemma chunks_concat_groups:
  "\<forall>g \<in> set gs. length g = n \<Longrightarrow> 0 < n \<Longrightarrow> chunks n (concat gs) = gs"
  by (induction gs) (auto simp: chunks_append)

text \<open>The sextets of a group, written as the scanner's encoder shifts them.\<close>

lemma group_word_scan:
  "ucast (take_bit 6 (drop_bit 18 (group_word a b c))) = drop_bit 2 a"
  "ucast (take_bit 6 (drop_bit 12 (group_word a b c))) = push_bit 4 (take_bit 2 a) OR drop_bit 4 b"
  "ucast (take_bit 6 (drop_bit 6 (group_word a b c))) = push_bit 2 (take_bit 4 b) OR drop_bit 6 c"
  "ucast (take_bit 6 (group_word a b c)) = take_bit 6 c"
proof -
  have hi: "\<not> bit x n" if "8 \<le> n" for x :: byte and n
    using that bit_imp_le_length[of x n] by auto
  show "ucast (take_bit 6 (drop_bit 18 (group_word a b c))) = drop_bit 2 a"
    unfolding group_word_def
    by (rule bit_eqI) (auto simp: bit_simps hi intro: ccontr dest: bit_imp_le_length)
  show "ucast (take_bit 6 (drop_bit 12 (group_word a b c))) = push_bit 4 (take_bit 2 a) OR drop_bit 4 b"
    unfolding group_word_def by (rule bit_eqI) (auto simp: bit_simps hi)
  show "ucast (take_bit 6 (drop_bit 6 (group_word a b c))) = push_bit 2 (take_bit 4 b) OR drop_bit 6 c"
    unfolding group_word_def by (rule bit_eqI) (auto simp: bit_simps hi)
  show "ucast (take_bit 6 (group_word a b c)) = take_bit 6 c"
    unfolding group_word_def by (rule bit_eqI) (auto simp: bit_simps hi)
qed

section \<open>Properties\<close>

text \<open>
  The hexadecimal decoder accepts exactly the encodings, in any mixture of upper and
  lower case: a text decodes to \<open>bs\<close> when, lowered, it is the encoding of \<open>bs\<close>.
\<close>
theorem hex_decode_iff: "hex_decode s = Some bs \<longleftrightarrow> to_ascii_lowercase s = hex_encode bs"
proof -
  have "even (length s)" if "to_ascii_lowercase s = hex_encode bs"
    using arg_cong[OF that, of length] by (simp add: length_hex_encode)
  then show ?thesis by (auto simp: hex_decode_def hex_pairs_iff even_iff_mod_2_eq_zero)
qed

text \<open>Decoding what the hexadecimal encoder wrote gives the bytes back.\<close>
theorem hex_roundtrip: "hex_decode (hex_encode bs) = Some bs \<and> length (hex_encode bs) = 2 * length bs"
proof -
  have "even (length (hex_encode bs))" by (simp add: length_hex_encode)
  then have "hex_decode (hex_encode bs) = Some bs"
    by (simp add: hex_decode_def hex_pairs_iff hex_encode_lower even_iff_mod_2_eq_zero)
  then show ?thesis by (simp add: length_hex_encode)
qed

text \<open>Decoding what the Base64 encoder of the launcher wrote gives the bytes back.\<close>
lemma base64_decode_encode: "base64_decode_bytes (base64_encode_bytes bs) = Inr bs"
proof -
  let ?gs = "map (\<lambda>c. as_bytes (b64_chunk c)) (chunks 3 bs)"
  have enc: "as_bytes (base64_encode_bytes bs) = concat ?gs"
    by (simp add: base64_encode_bytes_def as_bytes_def map_concat comp_def)
  have clean: "filter (\<lambda>b. \<not> is_ascii_whitespace b) (concat ?gs) = concat ?gs"
    by (rule filter_True) (auto dest: b64_chunk_no_space)
  have "length (concat ?gs) = 4 * length (chunks 3 bs)"
    by (simp add: length_concat comp_def sum_list_triv)
  moreover have "chunks 4 (concat ?gs) = ?gs" by (rule chunks_concat_groups) auto
  moreover have "b64_groups ?gs = Inr (concat (chunks 3 bs))"
    by (rule b64_groups_roundtrip) (auto dest: chunks_bounds[rotated])
  ultimately show ?thesis
    by (simp add: base64_decode_bytes_def enc clean Let_def concat_chunks)
qed

text \<open>
  The two Base64 encoders of the workspace, one regrouping a 24-bit word and one shifting
  the bytes, compute the same text.
\<close>
theorem base64_encoders_agree: "scan_base64_encode_bytes bs = base64_encode_bytes bs"
proof -
  have "unat (take_bit 6 w) = unat (ucast (take_bit 6 w) :: byte)" for w :: "32 word"
    using unat_take_bit_6[of w] by (simp add: unsigned_ucast_eq take_bit_nat_eq_self)
  then have "scan_b64_chunk c = b64_chunk c" for c
    by (simp add: scan_b64_chunk_def b64_chunk_def Let_def and_masks group_word_scan)
  then have "scan_b64_chunk = b64_chunk" by (rule ext)
  then show ?thesis by (simp add: scan_base64_encode_bytes_def base64_encode_bytes_def)
qed

end
