(* ===== verification/Rust_Parse.thy ===== *)
theory Rust_Parse
  imports Rust_Text
begin

text \<open>
  Searching in strings and the integer parsers of Rust's standard library: \<open>str::find\<close>,
  \<open>str::get\<close> with a range, \<open>strip_prefix\<close>, and \<open>uN::from_str_radix\<close> / \<open>str::parse\<close> with their
  error kinds, as the command line and the device paths are read.
\<close>

section \<open>Searching\<close>

fun str_find :: "string \<Rightarrow> string \<Rightarrow> nat option" where
  "str_find [] pat = (if pat = [] then Some 0 else None)"
| "str_find (c # s) pat =
    (if take (length pat) (c # s) = pat then Some 0 else map_option Suc (str_find s pat))"

lemma str_find_Some:
  assumes "str_find s pat = Some i"
  shows "i + length pat \<le> length s \<and> take (length pat) (drop i s) = pat"
  using assms
proof (induction s arbitrary: i)
  case (Cons c s)
  show ?case
  proof (cases "take (length pat) (c # s) = pat")
    case True
    then have "length pat \<le> length (c # s)" by (metis length_take min.cobounded1)
    with True Cons.prems show ?thesis by simp
  qed (use Cons in auto)
qed (auto split: if_splits)

lemma str_find_None: "str_find s pat = None \<longleftrightarrow> \<not> str_contains s pat"
proof
  assume n: "str_find s pat = None"
  have "str_find (p @ pat @ q) pat \<noteq> None" for p q :: string
  proof (induction p)
    case Nil
    show ?case
    proof (cases "pat @ q")
      case (Cons c r)
      then have "take (length pat) (c # r) = pat" by (metis append_eq_conv_conj)
      then show ?thesis by (simp add: Cons)
    qed simp
  qed auto
  with n show "\<not> str_contains s pat" unfolding str_contains_iff by blast
next
  assume c: "\<not> str_contains s pat"
  show "str_find s pat = None"
  proof (rule ccontr)
    assume "str_find s pat \<noteq> None"
    then obtain i where i: "str_find s pat = Some i" by blast
    have "s = take i s @ drop i s" by simp
    also have "drop i s = take (length pat) (drop i s) @ drop (length pat) (drop i s)"
      by (rule append_take_drop_id[symmetric])
    also have "take (length pat) (drop i s) = pat" using str_find_Some[OF i] by blast
    finally show False using c unfolding str_contains_iff by metis
  qed
qed

text \<open>\<open>text.get(a..b)\<close>: the slice, when both ends are character boundaries inside the text.\<close>

definition str_get :: "string \<Rightarrow> nat \<Rightarrow> nat \<Rightarrow> string option" where
  "str_get s a b =
    (if a \<le> b \<and> b \<le> length s \<and> str_boundary s a \<and> str_boundary s b
     then Some (take (b - a) (drop a s)) else None)"

definition strip_prefix :: "string \<Rightarrow> string \<Rightarrow> string option" where
  "strip_prefix pre s = (if take (length pre) s = pre then Some (drop (length pre) s) else None)"

lemma strip_prefix_eq_Some: "strip_prefix pre s = Some r \<longleftrightarrow> s = pre @ r"
  unfolding strip_prefix_def by (metis append_eq_conv_conj append_take_drop_id option.inject
      option.distinct(1))

definition starts_with :: "string \<Rightarrow> string \<Rightarrow> bool" where
  "starts_with s pre \<longleftrightarrow> take (length pre) s = pre"

definition ends_with :: "string \<Rightarrow> string \<Rightarrow> bool" where
  "ends_with s suf \<longleftrightarrow> length suf \<le> length s \<and> drop (length s - length suf) s = suf"

section \<open>Integers\<close>

datatype parse_int_error = Empty | InvalidDigit | PosOverflow | NegOverflow

definition parse_int_error_display :: "parse_int_error \<Rightarrow> string" where
  "parse_int_error_display e = (case e of
      Empty \<Rightarrow> ''cannot parse integer from empty string''
    | InvalidDigit \<Rightarrow> ''invalid digit found in string''
    | PosOverflow \<Rightarrow> ''number too large to fit in target type''
    | NegOverflow \<Rightarrow> ''number too small to fit in target type'')"

definition to_digit :: "nat \<Rightarrow> char \<Rightarrow> nat option" where
  "to_digit radix c =
    (let n = of_char c;
         d = (if 48 \<le> n \<and> n \<le> 57 then n - 48
              else if 97 \<le> n \<and> n \<le> 122 then n - 87
              else if 65 \<le> n \<and> n \<le> 90 then n - 55 else radix)
     in if d < radix then Some d else None)"

text \<open>The digit loop: the multiplication is checked after the digit is.\<close>

fun parse_digits :: "nat \<Rightarrow> nat \<Rightarrow> nat \<Rightarrow> string \<Rightarrow> parse_int_error + nat" where
  "parse_digits radix limit acc [] = Inr acc"
| "parse_digits radix limit acc (c # s) =
    (case to_digit radix c of
       None \<Rightarrow> Inl InvalidDigit
     | Some d \<Rightarrow>
        if limit \<le> acc * radix + d then Inl PosOverflow
        else parse_digits radix limit (acc * radix + d) s)"

definition from_str_radix :: "nat \<Rightarrow> nat \<Rightarrow> string \<Rightarrow> parse_int_error + nat" where
  "from_str_radix radix limit src =
    (if src = [] then Inl Empty
     else if src = ''+'' \<or> src = ''-'' then Inl InvalidDigit
     else if hd src = CHR ''+'' then parse_digits radix limit 0 (tl src)
     else parse_digits radix limit 0 src)"

definition parse_u16_hex :: "string \<Rightarrow> parse_int_error + 16 word" where
  "parse_u16_hex s = map_sum id of_nat (from_str_radix 16 (2 ^ 16) s)"

definition parse_u64 :: "string \<Rightarrow> parse_int_error + 64 word" where
  "parse_u64 s = map_sum id of_nat (from_str_radix 10 (2 ^ 64) s)"

definition parse_u32 :: "string \<Rightarrow> parse_int_error + 32 word" where
  "parse_u32 s = map_sum id of_nat (from_str_radix 10 (2 ^ 32) s)"

lemma parse_digits_less: "parse_digits r l acc s = Inr n \<Longrightarrow> acc < l \<Longrightarrow> n < l"
  by (induction r l acc s rule: parse_digits.induct) (auto split: option.splits if_splits)

lemma from_str_radix_less: "from_str_radix r l s = Inr n \<Longrightarrow> 0 < l \<Longrightarrow> n < l"
  by (auto simp: from_str_radix_def split: if_splits dest: parse_digits_less)

lemma parse_digits_append:
  "parse_digits r l acc (s @ t) = (case parse_digits r l acc s of
     Inl e \<Rightarrow> Inl e | Inr n \<Rightarrow> parse_digits r l n t)"
  by (induction r l acc s rule: parse_digits.induct) (auto split: option.splits)

lemma to_digit_digit_char: "d < r \<Longrightarrow> r \<le> 16 \<Longrightarrow> to_digit r (digit_char d) = Some d"
  by (auto simp: to_digit_def digit_char_def Let_def)

lemma parse_show_base:
  assumes "2 \<le> r" and "r \<le> 16" and "n < l"
  shows "parse_digits r l 0 (show_base r n) = Inr n"
  using assms
proof (induction r n rule: show_base.induct)
  case (1 r n)
  show ?case
  proof (cases "n < r")
    case True
    then show ?thesis using 1 by (simp add: show_base.simps to_digit_digit_char)
  next
    case False
    then have "n div r < l" using 1 by (meson div_le_dividend le_less_trans)
    moreover have "to_digit r (digit_char (n mod r)) = Some (n mod r)"
      using 1 by (intro to_digit_digit_char) auto
    ultimately show ?thesis
      using 1 False by (simp add: show_base.simps[of r n] parse_digits_append)
  qed
qed

lemma show_base_head:
  "2 \<le> r \<Longrightarrow> r \<le> 16 \<Longrightarrow> \<exists>d < r. hd (show_base r n) = digit_char d"
proof (induction r n rule: show_base.induct)
  case (1 r n)
  then show ?case
    by (cases "n < r") (auto simp: show_base.simps[of r n] hd_append show_base_nonempty)
qed

lemma digit_char_not_sign: "d < 16 \<Longrightarrow> digit_char d \<noteq> CHR ''+'' \<and> digit_char d \<noteq> CHR ''-''"
proof -
  assume "d < 16"
  then have d: "(of_char (digit_char d) :: nat) = (if d < 10 then 48 + d else 87 + d)"
    by (simp add: digit_char_def)
  have "(of_char (digit_char d) :: nat) \<noteq> 43" "(of_char (digit_char d) :: nat) \<noteq> 45"
    unfolding d by (cases "d < 10", simp_all)+
  moreover have "(of_char (CHR ''+'') :: nat) = 43" "(of_char (CHR ''-'') :: nat) = 45" by simp_all
  ultimately show ?thesis by metis
qed

lemma from_str_radix_show_base:
  assumes "2 \<le> r" and "r \<le> 16" and "n < l"
  shows "from_str_radix r l (show_base r n) = Inr n"
proof -
  obtain d where d: "d < r" "hd (show_base r n) = digit_char d"
    using show_base_head[OF assms(1,2)] by blast
  then have "hd (show_base r n) \<noteq> CHR ''+''" "hd (show_base r n) \<noteq> CHR ''-''"
    using digit_char_not_sign[of d] assms by auto
  then show ?thesis
    using parse_show_base[OF assms] by (auto simp: from_str_radix_def show_base_nonempty)
qed

lemma parse_u64_show: "parse_u64 (show_nat (unat w)) = Inr w"
proof -
  have "unat w < 2 ^ 64" using unsigned_less[of w, where 'a = nat] by simp
  then show ?thesis
    by (simp add: parse_u64_def show_nat_def from_str_radix_show_base)
qed

text \<open>\<open>i16::from_str\<close>: a minus sign counts down, with the lower bound one further.\<close>

definition parse_i16 :: "string \<Rightarrow> parse_int_error + 16 word" where
  "parse_i16 s =
    (if s = [] then Inl Empty
     else if s = ''+'' \<or> s = ''-'' then Inl InvalidDigit
     else if hd s = CHR ''-'' then
       (case parse_digits 10 (2 ^ 15 + 1) 0 (tl s) of
          Inl PosOverflow \<Rightarrow> Inl NegOverflow
        | Inl e \<Rightarrow> Inl e
        | Inr n \<Rightarrow> Inr (- of_nat n))
     else map_sum id of_nat (parse_digits 10 (2 ^ 15) 0 (if hd s = CHR ''+'' then tl s else s)))"

definition show_i16 :: "16 word \<Rightarrow> string" where
  "show_i16 w = show_int (sint w)"

lemma parse_i16_show: "parse_i16 (show_i16 w) = Inr w"
proof (cases "sint w < 0")
  case True
  let ?n = "nat (- sint w)"
  have "- (2 ^ 15) \<le> sint w" using sint_ge[of w] by simp
  then have n: "?n < 2 ^ 15 + 1" by simp
  have p: "parse_digits 10 (2 ^ 15 + 1) 0 (show_nat ?n) = Inr ?n"
    unfolding show_nat_def by (rule parse_show_base) (use n in simp_all)
  have "(- of_nat ?n :: 16 word) = of_int (sint w)" using True by simp
  then have w: "(- of_nat ?n :: 16 word) = w" by simp
  have ne: "show_nat ?n \<noteq> []" by (simp add: show_nat_def show_base_nonempty)
  show ?thesis using True p w ne by (simp add: parse_i16_def show_i16_def show_int_def)
next
  case False
  let ?n = "nat (sint w)"
  have n: "?n < 2 ^ 15" using sint_lt[of w] False by simp
  have p: "parse_digits 10 (2 ^ 15) 0 (show_nat ?n) = Inr ?n"
    unfolding show_nat_def by (rule parse_show_base) (use n in simp_all)
  obtain d where "d < 10" "hd (show_nat ?n) = digit_char d"
    using show_base_head[of 10 ?n] by (auto simp: show_nat_def)
  then have "hd (show_nat ?n) \<noteq> CHR ''+''" "hd (show_nat ?n) \<noteq> CHR ''-''"
    using digit_char_not_sign[of d] by auto
  moreover have "show_nat ?n \<noteq> []" by (simp add: show_nat_def show_base_nonempty)
  moreover have "(of_nat ?n :: 16 word) = w" using False by simp
  ultimately show ?thesis using False p by (auto simp: parse_i16_def show_i16_def show_int_def)
qed

end
