(* ===== verification/Hid_Transport.thy ===== *)
theory Hid_Transport
  imports Hid_Frames Rust_Parse
begin

text \<open>
  The transport layer: the messages, errors and the \<open>HidTransport\<close> interface of
  \<open>crates/vb-transport/src/lib.rs\<close>, and its Windows implementation
  \<open>crates/vb-transport/src/windows.rs\<close>. The Win32 calls are not code of the repository:
  each operation takes their outcomes as an argument and yields the calls it makes with
  its result. \<open>ReopenWinHidTransport\<close> is a state machine over the cached handle; it is an
  interpretation of the interface.
\<close>

section \<open>Messages and errors\<close>

record hid_message =
  hm_cmd :: cmd
  hm_sid :: "16 word"
  hm_payload :: bytes

datatype transport_error = NotConnected | IoError string | DecodeError string | Timeout

definition transport_error_display :: "transport_error \<Rightarrow> string" where
  "transport_error_display e = (case e of
      NotConnected \<Rightarrow> ''transport not connected''
    | IoError msg \<Rightarrow> ''transport io error: '' @ msg
    | DecodeError msg \<Rightarrow> ''transport decode error: '' @ msg
    | Timeout \<Rightarrow> ''transport timeout'')"

section \<open>One report through the Win32 API\<close>

definition ERROR_IO_PENDING :: "32 word" where "ERROR_IO_PENDING = 997"
definition ERROR_OPERATION_ABORTED :: "32 word" where "ERROR_OPERATION_ABORTED = 995"
definition WAIT_OBJECT_0 :: "32 word" where "WAIT_OBJECT_0 = 0"
definition WAIT_TIMEOUT :: "32 word" where "WAIT_TIMEOUT = 258"
definition HID_WRITE_TIMEOUT :: nat where "HID_WRITE_TIMEOUT = 1500"

text \<open>
  What the system answers during one transfer: whether the event could be created, whether
  the handle's mutex is poisoned, what the transfer, the wait and the completion query
  return, the error codes behind them, and the number of bytes or the buffer transferred.
\<close>

record io_env =
  io_event_null :: bool
  io_poisoned :: bool
  io_ok :: bool
  io_wait :: "32 word"
  io_result_ok :: bool
  io_event_error :: "32 word"
  io_error :: "32 word"
  io_wait_error :: "32 word"
  io_result_error :: "32 word"
  io_written :: "32 word"
  io_buf :: bytes

text \<open>The calls made, a transfer with whether it was left pending.\<close>

datatype win_call =
    CreateEventW
  | WriteFile bytes bool
  | ReadFile bool
  | WaitForSingleObject "32 word"
  | CancelIoEx
  | GetOverlappedResult bool
  | CloseHandle

definition last_error_code :: "string \<Rightarrow> 32 word \<Rightarrow> transport_error" where
  "last_error_code ctx code =
    IoError (ctx @ '' failed with Win32 error '' @ show_nat (unat code))"

definition duration_to_ms :: "nat \<Rightarrow> 32 word" where
  "duration_to_ms ms = (if 2 ^ 32 - 1 < ms then - 1 else of_nat ms)"

definition io_pending :: "io_env \<Rightarrow> bool" where
  "io_pending e \<longleftrightarrow> \<not> io_ok e \<and> io_error e = ERROR_IO_PENDING"

definition check_written :: "io_env \<Rightarrow> bytes \<Rightarrow> transport_error + unit" where
  "check_written e raw =
    (if io_written e \<noteq> of_nat (length raw)
     then Inl (IoError (''short HID write: '' @ show_nat (unat (io_written e)) @ ''/'' @
                        show_nat (length raw)))
     else Inr ())"

text \<open>The closure of \<open>WinHidTransport::send\<close> between the creation and the closing of the event.\<close>

definition write_report :: "io_env \<Rightarrow> bytes \<Rightarrow> win_call list \<times> (transport_error + unit)" where
  "write_report e raw =
    (if io_poisoned e then ([], Inl (IoError ''HID handle mutex poisoned''))
     else
       let w = WriteFile raw (io_pending e);
           wait = WaitForSingleObject (duration_to_ms HID_WRITE_TIMEOUT) in
       if io_ok e then ([w], check_written e raw)
       else if io_error e \<noteq> ERROR_IO_PENDING then ([w], Inl (last_error_code ''WriteFile'' (io_error e)))
       else if io_wait e = WAIT_TIMEOUT then
         ([w, wait, CancelIoEx, GetOverlappedResult True], Inl Timeout)
       else if io_wait e \<noteq> WAIT_OBJECT_0 then
         ([w, wait, CancelIoEx], Inl (last_error_code ''WaitForSingleObject'' (io_wait_error e)))
       else if \<not> io_result_ok e then
         ([w, wait, GetOverlappedResult False],
          Inl (last_error_code ''GetOverlappedResult'' (io_result_error e)))
       else ([w, wait, GetOverlappedResult False], check_written e raw))"

definition message_frame :: "hid_message \<Rightarrow> hid_frame" where
  "message_frame msg =
    \<lparr>hf_report_id = REPORT_ID_DEVICE_BOUND, hf_cmd = hm_cmd msg, hf_sid = hm_sid msg,
     hf_payload = hm_payload msg\<rparr>"

definition frame_message :: "hid_frame \<Rightarrow> hid_message" where
  "frame_message f = \<lparr>hm_cmd = hf_cmd f, hm_sid = hf_sid f, hm_payload = hf_payload f\<rparr>"

definition with_event ::
  "io_env \<Rightarrow> win_call list \<times> (transport_error + 'r) \<Rightarrow> win_call list \<times> (transport_error + 'r)" where
  "with_event e body =
    (if io_event_null e then ([CreateEventW], Inl (last_error_code ''CreateEventW'' (io_event_error e)))
     else (CreateEventW # fst body @ [CloseHandle], snd body))"

definition win_send :: "io_env \<Rightarrow> hid_message \<Rightarrow> win_call list \<times> (transport_error + unit)" where
  "win_send e msg =
    (case frame_encode (message_frame msg) of
       Inl err \<Rightarrow> ([], Inl (DecodeError (frame_error_display err)))
     | Inr raw \<Rightarrow> with_event e (write_report e raw))"

definition decode_report :: "bytes \<Rightarrow> transport_error + hid_message option" where
  "decode_report buf =
    (case frame_decode buf of
       Inl err \<Rightarrow> Inl (DecodeError (frame_error_display err))
     | Inr f \<Rightarrow> Inr (Some (frame_message f)))"

definition read_report ::
  "io_env \<Rightarrow> nat \<Rightarrow> win_call list \<times> (transport_error + hid_message option)" where
  "read_report e timeout =
    (if io_poisoned e then ([], Inl (IoError ''HID handle mutex poisoned''))
     else
       let r = ReadFile (io_pending e);
           wait = WaitForSingleObject (duration_to_ms timeout) in
       if io_ok e then ([r], decode_report (io_buf e))
       else if io_error e \<noteq> ERROR_IO_PENDING then ([r], Inl (last_error_code ''ReadFile'' (io_error e)))
       else if io_wait e = WAIT_TIMEOUT then
         ([r, wait, CancelIoEx, GetOverlappedResult True], Inr None)
       else if io_wait e \<noteq> WAIT_OBJECT_0 then
         ([r, wait, CancelIoEx], Inl (last_error_code ''WaitForSingleObject'' (io_wait_error e)))
       else if \<not> io_result_ok e then
         ([r, wait, GetOverlappedResult False],
          if io_result_error e = ERROR_OPERATION_ABORTED then Inr None
          else Inl (last_error_code ''GetOverlappedResult'' (io_result_error e)))
       else ([r, wait, GetOverlappedResult False], decode_report (io_buf e)))"

definition win_recv_timeout ::
  "io_env \<Rightarrow> nat \<Rightarrow> win_call list \<times> (transport_error + hid_message option)" where
  "win_recv_timeout e timeout = with_event e (read_report e timeout)"

definition win_recv :: "io_env \<Rightarrow> win_call list \<times> (transport_error + hid_message)" where
  "win_recv e =
    (let (calls, r) = win_recv_timeout e (2 ^ 32 - 1)
     in (calls, bind_res r (\<lambda>msg. ok_or msg Timeout)))"

type_synonym handle = "64 word"

definition INVALID_HANDLE_VALUE :: handle where "INVALID_HANDLE_VALUE = - 1"

definition win_is_connected :: "handle \<Rightarrow> bool" where
  "win_is_connected h \<longleftrightarrow> h \<noteq> 0 \<and> h \<noteq> INVALID_HANDLE_VALUE"

section \<open>Finding and opening the device\<close>

definition VIBE_USB_VID :: "16 word" where "VIBE_USB_VID = 0x359f"
definition VIBE_USB_PID :: "16 word" where "VIBE_USB_PID = 0x2120"

record dev_info =
  dev_path :: string
  dev_vid :: "16 word option"
  dev_pid :: "16 word option"

definition ok :: "'e + 'a \<Rightarrow> 'a option" where
  "ok r = (case r of Inl _ \<Rightarrow> None | Inr v \<Rightarrow> Some v)"

definition extract_hex_after :: "string \<Rightarrow> string \<Rightarrow> 16 word option" where
  "extract_hex_after txt marker =
    Option.bind (str_find txt marker) (\<lambda>idx.
    Option.bind (str_get txt (idx + length marker) (idx + length marker + 4)) (\<lambda>value.
    ok (parse_u16_hex value)))"

definition extract_vid_pid :: "string \<Rightarrow> 16 word option \<times> 16 word option" where
  "extract_vid_pid path =
    (let lower = to_ascii_lowercase path
     in (extract_hex_after lower ''vid_'', extract_hex_after lower ''pid_''))"

text \<open>The body of the enumeration loop of \<open>list_win_hid_devices\<close>, one interface path.\<close>

definition device_of_path :: "string \<Rightarrow> dev_info" where
  "device_of_path path =
    (let (vid, pid) = extract_vid_pid path
     in \<lparr>dev_path = path, dev_vid = vid, dev_pid = pid\<rparr>)"

text \<open>
  What an attempt to open finds: the environment variable, the enumerated interface paths,
  the handle \<open>CreateFileW\<close> returns for a path and the error code.
\<close>

record open_env =
  oe_var :: "string option"
  oe_paths :: "transport_error + string list"
  oe_create :: "string \<Rightarrow> handle"
  oe_error :: "32 word"

definition resolve_win_hid_device :: "open_env \<Rightarrow> transport_error + string option" where
  "resolve_win_hid_device e =
    (case oe_var e of
       Some path \<Rightarrow>
         if trim path \<noteq> [] then Inr (Some path)
         else bind_res (oe_paths e) (\<lambda>ps. Inr (map_option dev_path (find (\<lambda>d.
             dev_vid d = Some VIBE_USB_VID \<and> dev_pid d = Some VIBE_USB_PID) (map device_of_path ps))))
     | None \<Rightarrow> bind_res (oe_paths e) (\<lambda>ps. Inr (map_option dev_path (find (\<lambda>d.
             dev_vid d = Some VIBE_USB_VID \<and> dev_pid d = Some VIBE_USB_PID) (map device_of_path ps)))))"

definition win_open :: "open_env \<Rightarrow> string \<Rightarrow> transport_error + handle" where
  "win_open e path =
    (let h = oe_create e path
     in if h = INVALID_HANDLE_VALUE then Inl (last_error_code ''CreateFileW'' (oe_error e)) else Inr h)"

definition win_open_auto :: "open_env \<Rightarrow> transport_error + handle" where
  "win_open_auto e =
    bind_res (resolve_win_hid_device e) (\<lambda>p.
    bind_res (ok_or p (IoError ''no Vibe HID 359f:2120 device found'')) (win_open e))"

definition open_device :: "open_env \<Rightarrow> string \<Rightarrow> transport_error + handle" where
  "open_device e device = (if device = ''auto'' then win_open_auto e else win_open e device)"

section \<open>The transport that reopens its device\<close>

text \<open>
  The state of a \<open>ReopenWinHidTransport\<close> together with the world it acts on: the cached
  handle, and for every coming instant what opening and transferring will find. The wire is
  the log of the reports whose transfer completed in full.
\<close>

record reopen_world =
  rw_device :: string
  rw_inner :: "handle option"
  rw_poisoned :: bool
  rw_now :: nat
  rw_open_env :: "nat \<Rightarrow> open_env"
  rw_io_env :: "nat \<Rightarrow> io_env"
  rw_wire :: "bytes list"

definition rw_tick :: "reopen_world \<Rightarrow> reopen_world" where
  "rw_tick w = w\<lparr>rw_now := Suc (rw_now w)\<rparr>"

definition invalidate :: "reopen_world \<Rightarrow> reopen_world" where
  "invalidate w = (if rw_poisoned w then w else w\<lparr>rw_inner := None\<rparr>)"

text \<open>The locked block at the head of the retry loop.\<close>

definition acquire :: "reopen_world \<Rightarrow> reopen_world \<times> (transport_error + handle)" where
  "acquire w =
    (if rw_poisoned w then (w, Inl (IoError ''HID reopen mutex poisoned''))
     else case rw_inner w of
       Some h \<Rightarrow> (w, Inr h)
     | None \<Rightarrow>
        (case open_device (rw_open_env w (rw_now w)) (rw_device w) of
           Inl err \<Rightarrow> (rw_tick w, Inl err)
         | Inr h \<Rightarrow> (rw_tick w\<lparr>rw_inner := Some h\<rparr>, Inr h)))"

type_synonym 'r hid_op = "handle \<Rightarrow> reopen_world \<Rightarrow> reopen_world \<times> (transport_error + 'r)"

fun with_attempts ::
  "'r hid_op \<Rightarrow> nat list \<Rightarrow> reopen_world \<Rightarrow> reopen_world \<times> (transport_error + 'r)" where
  "with_attempts op [] w = (w, Inl NotConnected)"
| "with_attempts op (attempt # later) w =
    (case acquire w of
       (w1, Inl err) \<Rightarrow> (w1, Inl err)
     | (w1, Inr h) \<Rightarrow>
        (case op h w1 of
           (w2, Inr v) \<Rightarrow> (w2, Inr v)
         | (w2, Inl err) \<Rightarrow>
            if 0 < attempt then (invalidate w2, Inl err)
            else with_attempts op later (invalidate w2)))"

definition with_transport ::
  "'r hid_op \<Rightarrow> reopen_world \<Rightarrow> reopen_world \<times> (transport_error + 'r)" where
  "with_transport op = with_attempts op [0..<2]"

text \<open>One transfer over an open handle, on the world: a completed report goes on the wire.\<close>

fun reports_of :: "win_call list \<Rightarrow> bytes list" where
  "reports_of [] = []"
| "reports_of (WriteFile raw p # cs) = raw # reports_of cs"
| "reports_of (c # cs) = reports_of cs"

definition send_op :: "hid_message \<Rightarrow> unit hid_op" where
  "send_op msg h w =
    (let (calls, r) = win_send (rw_io_env w (rw_now w)) msg in
     (rw_tick w\<lparr>rw_wire := rw_wire w @ (if r = Inr () then reports_of calls else [])\<rparr>, r))"

definition recv_op :: "hid_message hid_op" where
  "recv_op h w = (rw_tick w, snd (win_recv (rw_io_env w (rw_now w))))"

definition reopen_send :: "reopen_world \<Rightarrow> hid_message \<Rightarrow> reopen_world \<times> (transport_error + unit)" where
  "reopen_send w msg = with_transport (send_op msg) w"

definition reopen_recv :: "reopen_world \<Rightarrow> reopen_world \<times> (transport_error + hid_message)" where
  "reopen_recv w =
    (case with_transport recv_op w of
       (w', Inr msg) \<Rightarrow> (w', Inr msg)
     | (w', Inl err) \<Rightarrow> (invalidate w', Inl err))"

definition reopen_is_connected :: "reopen_world \<Rightarrow> bool" where
  "reopen_is_connected w \<longleftrightarrow>
    \<not> rw_poisoned w \<and> (case rw_inner w of None \<Rightarrow> False | Some h \<Rightarrow> win_is_connected h)"

text \<open>\<open>open_lazy\<close> leaves the device to be opened by the first transfer.\<close>

definition open_lazy :: "string \<Rightarrow> reopen_world \<Rightarrow> reopen_world" where
  "open_lazy device w = w\<lparr>rw_device := device, rw_inner := None, rw_poisoned := False\<rparr>"

definition reopen_open :: "string \<Rightarrow> reopen_world \<Rightarrow> reopen_world \<times> (transport_error + unit)" where
  "reopen_open device w =
    (case open_device (rw_open_env w (rw_now w)) device of
       Inl err \<Rightarrow> (rw_tick w, Inl err)
     | Inr h \<Rightarrow> (rw_tick w\<lparr>rw_device := device, rw_inner := Some h, rw_poisoned := False\<rparr>, Inr ()))"

section \<open>The interface\<close>

text \<open>
  What the daemon relies on when it sends: a message is delivered when \<open>send\<close> returns \<open>Ok\<close>
  and only then, and delivery is in order.
\<close>

locale hid_transport =
  fixes send :: "'w \<Rightarrow> hid_message \<Rightarrow> 'w \<times> (transport_error + unit)"
    and delivered :: "'w \<Rightarrow> hid_message list"
  assumes send_ok: "send w m = (w', Inr ()) \<Longrightarrow> delivered w' = delivered w @ [m]"
    and send_err: "send w m = (w', Inl e) \<Longrightarrow> delivered w' = delivered w"
begin

lemma delivered_send:
  "delivered (fst (send w m)) = delivered w @ (if snd (send w m) = Inr () then [m] else [])"
proof (cases "send w m")
  case (Pair w' r)
  show ?thesis
  proof (cases r)
    case (Inl e)
    then show ?thesis using Pair send_err by simp
  next
    case (Inr u)
    then have "send w m = (w', Inr ())" using Pair by simp
    then show ?thesis using send_ok by simp
  qed
qed

end

section \<open>Lemmas: one transfer\<close>

lemmas win_consts =
  ERROR_IO_PENDING_def ERROR_OPERATION_ABORTED_def WAIT_OBJECT_0_def WAIT_TIMEOUT_def

text \<open>Whether a transfer started by the calls is still outstanding at their end.\<close>

fun outstanding :: "bool \<Rightarrow> win_call list \<Rightarrow> bool" where
  "outstanding p [] \<longleftrightarrow> p"
| "outstanding p (WriteFile raw q # cs) \<longleftrightarrow> outstanding q cs"
| "outstanding p (ReadFile q # cs) \<longleftrightarrow> outstanding q cs"
| "outstanding p (GetOverlappedResult wait # cs) \<longleftrightarrow> outstanding False cs"
| "outstanding p (c # cs) \<longleftrightarrow> outstanding p cs"

lemma outstanding_close [simp]: "outstanding p (cs @ [CloseHandle]) = outstanding p cs"
  by (induction p cs rule: outstanding.induct) auto

text \<open>The wait itself failed while a transfer was pending.\<close>

definition wait_failed :: "io_env \<Rightarrow> bool" where
  "wait_failed e \<longleftrightarrow> io_pending e \<and> io_wait e \<noteq> WAIT_TIMEOUT \<and> io_wait e \<noteq> WAIT_OBJECT_0"

definition event_closed :: "io_env \<Rightarrow> win_call list \<Rightarrow> bool" where
  "event_closed e calls \<longleftrightarrow>
    count_list calls CloseHandle = (if io_event_null e then 0 else count_list calls CreateEventW)"

lemma count_list_append' [simp]: "count_list (xs @ ys) c = count_list xs c + count_list ys c"
  by (induction xs) auto

lemma outstanding_write:
  "outstanding False (fst (write_report e raw)) \<longleftrightarrow> \<not> io_poisoned e \<and> wait_failed e"
  by (auto simp: write_report_def wait_failed_def io_pending_def Let_def)

lemma outstanding_read:
  "outstanding False (fst (read_report e t)) \<longleftrightarrow> \<not> io_poisoned e \<and> wait_failed e"
  by (auto simp: read_report_def wait_failed_def io_pending_def Let_def)

lemma with_event_calls:
  "outstanding False (fst (with_event e body)) \<longleftrightarrow>
     \<not> io_event_null e \<and> outstanding False (fst body)"
  "count_list (fst body) CreateEventW = 0 \<Longrightarrow> count_list (fst body) CloseHandle = 0 \<Longrightarrow>
     event_closed e (fst (with_event e body))"
  by (auto simp: with_event_def event_closed_def)

lemma no_event_calls [simp]:
  "count_list (fst (write_report e raw)) CreateEventW = 0"
  "count_list (fst (write_report e raw)) CloseHandle = 0"
  "count_list (fst (read_report e t)) CreateEventW = 0"
  "count_list (fst (read_report e t)) CloseHandle = 0"
  by (auto simp: write_report_def read_report_def Let_def)

lemma reports_of_append [simp]: "reports_of (cs @ ds) = reports_of cs @ reports_of ds"
  by (induction cs rule: reports_of.induct) auto

lemma reports_of_write:
  "snd (write_report e raw) = Inr () \<Longrightarrow> reports_of (fst (write_report e raw)) = [raw]"
  by (auto simp: write_report_def Let_def split: if_splits)

lemma frame_encode_message:
  "(\<exists>raw. frame_encode (message_frame msg) = Inr raw) \<longleftrightarrow> length (hm_payload msg) \<le> 58"
proof (cases "length (hm_payload msg) \<le> 58")
  case True
  then show ?thesis by (simp add: frame_encode_layout message_frame_def)
next
  case False
  then show ?thesis using frame_encode_too_large[of "message_frame msg"] by (simp add: message_frame_def)
qed

lemma win_send_ok:
  assumes "snd (win_send e msg) = Inr ()"
  obtains raw where "reports_of (fst (win_send e msg)) = [raw]"
    and "frame_decode raw = Inr (message_frame msg)" and "length raw = 64"
proof -
  obtain raw where raw: "frame_encode (message_frame msg) = Inr raw"
    using assms by (cases "frame_encode (message_frame msg)") (auto simp: win_send_def)
  with assms have "snd (with_event e (write_report e raw)) = Inr ()" by (simp add: win_send_def)
  then have "reports_of (fst (with_event e (write_report e raw))) = [raw]"
    by (auto simp: with_event_def reports_of_write split: if_splits)
  then show ?thesis
    using that raw frame_roundtrip[OF raw, of "[]"] frame_encode_length[OF raw]
    by (simp add: win_send_def)
qed

lemma frame_message_frame [simp]: "frame_message (message_frame msg) = msg"
  by (simp add: frame_message_def message_frame_def)

section \<open>Lemmas: the retry loop\<close>

definition wire_messages :: "reopen_world \<Rightarrow> hid_message list" where
  "wire_messages w = concat (map (\<lambda>raw. case frame_decode raw of
     Inl _ \<Rightarrow> [] | Inr f \<Rightarrow> [frame_message f]) (rw_wire w))"

lemma wire_frame [simp]:
  "rw_wire (rw_tick w) = rw_wire w" "rw_wire (invalidate w) = rw_wire w"
  "rw_wire (fst (acquire w)) = rw_wire w"
  by (simp_all add: rw_tick_def invalidate_def acquire_def split: option.split sum.split)

lemma poisoned_frame [simp]:
  "rw_poisoned (rw_tick w) = rw_poisoned w" "rw_poisoned (invalidate w) = rw_poisoned w"
  "rw_poisoned (fst (acquire w)) = rw_poisoned w"
  by (simp_all add: rw_tick_def invalidate_def acquire_def split: option.split sum.split)

lemma send_op_wire:
  "rw_wire (fst (send_op msg h w)) = rw_wire w @
     (if snd (send_op msg h w) = Inr ()
      then reports_of (fst (win_send (rw_io_env w (rw_now w)) msg)) else [])"
  by (simp add: send_op_def rw_tick_def split: prod.split)

lemma send_op_messages:
  "wire_messages (fst (send_op msg h w)) = wire_messages w @
     (if snd (send_op msg h w) = Inr () then [msg] else [])"
proof (cases "snd (send_op msg h w) = Inr ()")
  case True
  then have "snd (win_send (rw_io_env w (rw_now w)) msg) = Inr ()"
    by (simp add: send_op_def split: prod.splits)
  then obtain raw where "reports_of (fst (win_send (rw_io_env w (rw_now w)) msg)) = [raw]"
    and "frame_decode raw = Inr (message_frame msg)" by (rule win_send_ok)
  with True show ?thesis by (simp add: wire_messages_def send_op_wire)
qed (simp add: wire_messages_def send_op_wire)

text \<open>What an operation keeps, the retry loop keeps.\<close>

lemma wire_messages_frame [simp]:
  "wire_messages (invalidate w) = wire_messages w"
  "wire_messages (fst (acquire w)) = wire_messages w"
  by (simp_all add: wire_messages_def)

lemma with_attempts_messages:
  "wire_messages (fst (with_attempts (send_op msg) as w)) = wire_messages w @
     (if snd (with_attempts (send_op msg) as w) = Inr () then [msg] else [])"
proof (induction as arbitrary: w)
  case (Cons a as)
  obtain w1 r1 where acq: "acquire w = (w1, r1)" by fastforce
  then have w1: "wire_messages w1 = wire_messages w" using wire_messages_frame(2)[of w] by simp
  show ?case
  proof (cases r1)
    case (Inr h)
    obtain w2 r2 where op: "send_op msg h w1 = (w2, r2)" by fastforce
    then have "wire_messages w2 = wire_messages w1 @ (if r2 = Inr () then [msg] else [])"
      using send_op_messages[of msg h w1] by simp
    with acq Inr op w1 Cons.IH show ?thesis by (cases r2) simp_all
  qed (use acq w1 in simp)
qed simp

interpretation reopen: hid_transport reopen_send wire_messages
proof
  show "wire_messages w' = wire_messages w @ [m]" if "reopen_send w m = (w', Inr ())" for w w' m
    using with_attempts_messages[of m "[0..<2]" w] that
    by (simp add: reopen_send_def with_transport_def)
  show "wire_messages w' = wire_messages w" if "reopen_send w m = (w', Inl e)" for w w' m e
    using with_attempts_messages[of m "[0..<2]" w] that
    by (simp add: reopen_send_def with_transport_def)
qed

lemma invalidate_inner [simp]:
  "rw_inner (invalidate w) = (if rw_poisoned w then rw_inner w else None)"
  by (simp add: invalidate_def)

lemma acquire_cases:
  assumes "acquire w = (w1, r)" and "\<not> rw_poisoned w"
  shows "\<not> rw_poisoned w1 \<and> (case r of Inl _ \<Rightarrow> rw_inner w1 = None | Inr h \<Rightarrow> rw_inner w1 = Some h)"
  using assms by (auto simp: acquire_def rw_tick_def split: option.splits sum.splits)

lemma send_op_inner [simp]:
  "rw_inner (fst (send_op msg h w)) = rw_inner w"
  "rw_poisoned (fst (send_op msg h w)) = rw_poisoned w"
  by (simp_all add: send_op_def rw_tick_def split: prod.split)

lemma with_attempts_inner:
  assumes "with_attempts (send_op msg) as w = (w', r)" and "\<not> rw_poisoned w" and "last as \<noteq> 0" and "as \<noteq> []"
  shows "(rw_inner w' = None) \<longleftrightarrow> r \<noteq> Inr ()"
  using assms
proof (induction as arbitrary: w)
  case (Cons a as)
  obtain w1 r1 where acq: "acquire w = (w1, r1)" by fastforce
  note c = acquire_cases[OF acq Cons.prems(2)]
  show ?case
  proof (cases r1)
    case (Inr h)
    obtain w2 r2 where op: "send_op msg h w1 = (w2, r2)" by fastforce
    then have w2: "rw_inner w2 = Some h" "\<not> rw_poisoned w2"
      using send_op_inner[of msg h w1] c Inr by simp_all
    show ?thesis
    proof (cases r2)
      case (Inl err)
      show ?thesis
      proof (cases "0 < a")
        case False
        then have "as \<noteq> []" "last as \<noteq> 0" using Cons.prems(3) by (auto split: if_splits)
        then show ?thesis
          using Cons.IH[of "invalidate w2"] Cons.prems(1) False acq Inr op Inl w2 by simp
      qed (use Cons.prems(1) acq Inr op Inl w2 in auto)
    qed (use Cons.prems(1) acq Inr op w2 in auto)
  qed (use Cons.prems(1) acq c in auto)
qed simp

section \<open>Properties\<close>

text \<open>
  C38: a transfer, in either direction, closes the event it created on every path, and leaves
  an overlapped operation outstanding (whose buffers live on the stack of the function that
  returns) exactly when the wait itself fails: only the time-out path waits for the
  cancelled operation.
\<close>
theorem transfers_settle_unless_wait_fails:
  "event_closed e (fst (win_recv_timeout e t)) \<and> event_closed e (fst (win_send e msg)) \<and>
   (outstanding False (fst (win_recv_timeout e t)) \<longleftrightarrow>
      \<not> io_event_null e \<and> \<not> io_poisoned e \<and> wait_failed e) \<and>
   (outstanding False (fst (win_send e msg)) \<longleftrightarrow>
      length (hm_payload msg) \<le> HID_MAX_PAYLOAD \<and>
      \<not> io_event_null e \<and> \<not> io_poisoned e \<and> wait_failed e)"
proof -
  have "outstanding False (fst (win_send e msg)) \<longleftrightarrow>
    length (hm_payload msg) \<le> 58 \<and> \<not> io_event_null e \<and> \<not> io_poisoned e \<and> wait_failed e"
    using frame_encode_message[of msg]
    by (cases "frame_encode (message_frame msg)")
      (auto simp: win_send_def with_event_calls outstanding_write)
  moreover have "event_closed e (fst (win_send e msg))"
    by (cases "frame_encode (message_frame msg)")
      (auto simp: win_send_def with_event_calls event_closed_def[of e "[]"])
  ultimately show ?thesis
    by (simp add: win_recv_timeout_def with_event_calls outstanding_read)
qed


text \<open>A device whose first write times out and which opens again under another handle.\<close>

definition flaky_world :: reopen_world where
  "flaky_world = \<lparr>rw_device = ''hid'', rw_inner = Some 7, rw_poisoned = False, rw_now = 0,
    rw_open_env = (\<lambda>_. \<lparr>oe_var = None, oe_paths = Inr [], oe_create = (\<lambda>_. 9), oe_error = 0\<rparr>),
    rw_io_env = (\<lambda>n. \<lparr>io_event_null = False, io_poisoned = False, io_ok = (n = 2), io_wait = WAIT_TIMEOUT,
      io_result_ok = True, io_event_error = 0, io_error = ERROR_IO_PENDING, io_wait_error = 0,
      io_result_error = 0, io_written = 64, io_buf = []\<rparr>),
    rw_wire = []\<rparr>"

definition heartbeat :: hid_message where
  "heartbeat = \<lparr>hm_cmd = SessionHeartbeat, hm_sid = 3, hm_payload = []\<rparr>"


end
