(* ===== verification/Agent_Registry.thy ===== *)
theory Agent_Registry
  imports Payload_Codecs Text_Codecs Hid_Transport
begin

text \<open>
  One registered agent of \<open>crates/vb-daemon/src/lib.rs\<close>: the record \<open>RegisteredAgent\<close>, its
  bounded terminal buffer, its conversion from and to sessions, the label parsers, and the
  messages the daemon renders from an agent for the board.
\<close>

section \<open>The record\<close>

definition VT100_BUFFER_BYTES :: nat where "VT100_BUFFER_BYTES = 64 * 1024"
definition PASSIVE_MISSING_GRACE_POLLS :: byte where "PASSIVE_MISSING_GRACE_POLLS = 3"
definition MAX_RETAINED_TURNS_PER_AGENT :: nat where "MAX_RETAINED_TURNS_PER_AGENT = 50"

definition SCREEN_CLEAR :: bytes where
  "SCREEN_CLEAR = [0x1b, 0x5b, 0x32, 0x4a, 0x1b, 0x5b, 0x48]"

type_synonym agent_key = "agent_kind \<times> string"

record registered_agent =
  ra_agent_id :: string
  ra_kind :: agent_kind
  ra_name :: string
  ra_cwd :: string
  ra_focus_target :: "string option"
  ra_terminal_hwnd :: "64 word option"
  ra_status :: agent_status
  ra_board_sid :: "board_sid option"
  ra_usage :: token_usage
  ra_turns :: "conversation_turn list"
  ra_pending :: "permission_request list"
  ra_resolved :: "64 word \<rightharpoonup> permission_decision"
  ra_from_hook :: bool
  ra_from_launch :: bool
  ra_buffer :: "bytes list"
  ra_buffer_len :: nat
  ra_attached :: "agent_key option"

definition ra_key :: "registered_agent \<Rightarrow> agent_key" where
  "ra_key a = (ra_kind a, ra_agent_id a)"

section \<open>The terminal buffer\<close>

text \<open>The eviction loop of \<open>append_terminal_bytes\<close>, on the chunks and the stored length.\<close>

fun evict :: "bytes list \<Rightarrow> nat \<Rightarrow> bytes list \<times> nat" where
  "evict [] len = (if VT100_BUFFER_BYTES < len then ([], 0) else ([], len))"
| "evict (front # rest) len =
    (if VT100_BUFFER_BYTES < len then
       let overflow = len - VT100_BUFFER_BYTES in
       if length front \<le> overflow then evict rest (len - length front)
       else (drop overflow front # rest, len - overflow)
     else (front # rest, len))"

definition append_terminal_bytes :: "bytes \<Rightarrow> registered_agent \<Rightarrow> registered_agent" where
  "append_terminal_bytes bs a =
    (if bs = [] then a
     else if VT100_BUFFER_BYTES \<le> length bs then
       let keep_from = length bs - VT100_BUFFER_BYTES
       in a\<lparr>ra_buffer := [drop keep_from bs], ra_buffer_len := VT100_BUFFER_BYTES\<rparr>
     else
       let (buffer, len) = evict (ra_buffer a @ [bs]) (ra_buffer_len a + length bs)
       in a\<lparr>ra_buffer := buffer, ra_buffer_len := len\<rparr>)"

definition terminal_snapshot :: "registered_agent \<Rightarrow> bytes" where
  "terminal_snapshot a = concat (ra_buffer a)"

section \<open>Conversions\<close>

text \<open>\<open>s.chars().take(n).collect()\<close>: the first \<open>n\<close> characters of a UTF-8 text.\<close>

fun take_chars :: "nat \<Rightarrow> bytes \<Rightarrow> bytes" where
  "take_chars 0 bs = []"
| "take_chars (Suc n) bs =
    (if utf8_step bs = 0 then []
     else take (utf8_step bs) bs @ take_chars n (drop (utf8_step bs) bs))"

definition chars_take :: "nat \<Rightarrow> string \<Rightarrow> string" where
  "chars_take n s = of_bytes (take_chars n (as_bytes s))"

definition to_session :: "registered_agent \<Rightarrow> agent_session" where
  "to_session a =
    \<lparr>as_agent_id = ra_agent_id a, as_kind = ra_kind a,
     as_name = (if ra_name a = [] then chars_take 8 (ra_agent_id a) else ra_name a),
     as_cwd = ra_cwd a, as_transcript_path = [], as_status = ra_status a,
     as_terminal_hwnd = ra_terminal_hwnd a\<rparr>"

definition from_session :: "agent_session \<Rightarrow> registered_agent" where
  "from_session s =
    \<lparr>ra_agent_id = as_agent_id s, ra_kind = as_kind s, ra_name = as_name s, ra_cwd = as_cwd s,
     ra_focus_target = None, ra_terminal_hwnd = as_terminal_hwnd s, ra_status = as_status s,
     ra_board_sid = None, ra_usage = token_usage_default, ra_turns = [], ra_pending = [],
     ra_resolved = Map.empty, ra_from_hook = False, ra_from_launch = False,
     ra_buffer = [], ra_buffer_len = 0, ra_attached = None\<rparr>"

definition agent_kind_byte :: "agent_kind \<Rightarrow> byte" where
  "agent_kind_byte k = (case k of
      Claude \<Rightarrow> 0 | Codex \<Rightarrow> 1 | Terminal \<Rightarrow> 0xFF | UnknownAgent \<Rightarrow> 0xFF)"

definition status_byte :: "agent_status \<Rightarrow> session_state_byte" where
  "status_byte s = (case s of
      Running \<Rightarrow> StRun | WaitingInput \<Rightarrow> StWait | Idle \<Rightarrow> StConnected | Done \<Rightarrow> StDone
    | StatusError \<Rightarrow> StError | UnknownStatus \<Rightarrow> StConnected)"

definition turn_role_to_byte :: "turn_role \<Rightarrow> turn_role_byte" where
  "turn_role_to_byte r = (case r of
      RoleUser \<Rightarrow> TrUser | RoleAssistant \<Rightarrow> TrAssistant | RoleTool \<Rightarrow> TrTool | RoleSystem \<Rightarrow> TrSystem)"

definition permission_decision_from_byte :: "permission_decision_byte \<Rightarrow> permission_decision" where
  "permission_decision_from_byte d = (case d of
      PdAllow \<Rightarrow> Allow | PdDeny \<Rightarrow> Deny | PdAlways \<Rightarrow> Always)"

definition parse_kind :: "string \<Rightarrow> agent_kind result" where
  "parse_kind value =
    (let kind = agent_kind_from_label value
     in if kind = UnknownAgent then Inl (''unknown agent kind: '' @ value) else Inr kind)"

definition parse_role :: "string \<Rightarrow> turn_role result" where
  "parse_role value =
    (let v = to_ascii_lowercase (trim value) in
     if v = ''user'' then Inr RoleUser
     else if v \<in> {''assistant'', ''model''} then Inr RoleAssistant
     else if v \<in> {''tool'', ''tool_use'', ''tool_result''} then Inr RoleTool
     else if v = ''system'' then Inr RoleSystem
     else Inl (''unknown turn role: '' @ v))"

definition status_from_label :: "string \<Rightarrow> agent_status" where
  "status_from_label value =
    (let v = to_ascii_lowercase (trim value) in
     if v = ''running'' then Running
     else if v \<in> {''waiting-input'', ''waiting_input'', ''waiting''} then WaitingInput
     else if v = ''idle'' then Idle
     else if v \<in> {''done'', ''completed'', ''complete''} then Done
     else if v \<in> {''error'', ''failed''} then StatusError
     else UnknownStatus)"

definition activity_from_label :: "string \<Rightarrow> agent_activity_kind" where
  "activity_from_label value =
    (let v = to_ascii_lowercase (trim value) in
     if v = ''seen'' then Seen
     else if v \<in> {''user-input'', ''user_input'', ''user''} then UserInput
     else if v \<in> {''assistant-output'', ''assistant_output'', ''assistant''} then AssistantOutput
     else if v \<in> {''waiting-input'', ''waiting_input'', ''waiting''} then ActWaitingInput
     else if v \<in> {''completed'', ''complete'', ''done''} then Completed
     else if v \<in> {''error'', ''failed''} then ActError
     else ToolActivity)"

section \<open>Messages for the board\<close>

definition sid_message :: "registered_agent \<Rightarrow> cmd \<Rightarrow> bytes \<Rightarrow> hid_message option" where
  "sid_message a c payload =
    map_option (\<lambda>sid. \<lparr>hm_cmd = c, hm_sid = sid_raw sid, hm_payload = payload\<rparr>) (ra_board_sid a)"

definition meta_message_for_agent :: "registered_agent \<Rightarrow> hid_message option" where
  "meta_message_for_agent a =
    sid_message a AgentMeta (encode_agent_meta (agent_kind_byte (ra_kind a)) (ra_cwd a) [])"

definition status_message_for_agent :: "registered_agent \<Rightarrow> hid_message option" where
  "status_message_for_agent a = sid_message a StatusUpdate [session_state_u8 (status_byte (ra_status a))]"

definition token_message_for_agent :: "registered_agent \<Rightarrow> hid_message option" where
  "token_message_for_agent a =
    (if ra_usage a = token_usage_default then None
     else sid_message a TokenUsage (encode_token_usage (ra_usage a)))"

definition turn_message_for_agent :: "registered_agent \<Rightarrow> conversation_turn \<Rightarrow> hid_message option" where
  "turn_message_for_agent a turn =
    sid_message a TurnAppend (encode_turn_append (turn_role_to_byte (ct_role turn)) (ct_text turn))"

definition permission_message_for_agent :: "registered_agent \<Rightarrow> permission_request \<Rightarrow> hid_message option" where
  "permission_message_for_agent a p =
    sid_message a PermissionReq
      (encode_permission_request (pr_req_id p) (pr_tool p) (pr_args_summary p))"

definition ansi :: "string \<Rightarrow> string" where
  "ansi code = CHR 0x1B # ''['' @ code"

definition crlf :: string where
  "crlf = [CHR 0x0D, CHR 0x0A]"

definition render_passive_placeholder :: "registered_agent \<Rightarrow> string" where
  "render_passive_placeholder a =
    (let reset = ansi ''0m''; bold = ansi ''1m''; dim = ansi ''90m'';
         fg_kind = ansi ''36m''; fg_name = ansi ''33m'';
         name = (if ra_name a = [] then ra_agent_id a else ra_name a)
     in bold @ fg_kind @ agent_kind_as_str (ra_kind a) @ reset @ ''  '' @ fg_name @ name @ reset @ crlf @
        dim @ ''No live terminal capture for this passive session.'' @ reset @ crlf @
        dim @ ''Open a Vibe-captured Windows Terminal profile for 1:1 replay.'' @ reset @ crlf)"

definition terminal_replay_message_for_agent :: "registered_agent \<Rightarrow> hid_message option" where
  "terminal_replay_message_for_agent a =
    (case ra_board_sid a of
       None \<Rightarrow> None
     | Some sid \<Rightarrow>
        let snapshot = terminal_snapshot a;
            vt100 = (\<lambda>payload. \<lparr>hm_cmd = Vt100Stream, hm_sid = sid_raw sid, hm_payload = payload\<rparr>)
        in if snapshot \<noteq> [] then Some (vt100 (SCREEN_CLEAR @ snapshot))
           else if ra_attached a \<noteq> None then None
           else if ra_from_launch a then Some (vt100 SCREEN_CLEAR)
           else Some (vt100 (SCREEN_CLEAR @ as_bytes (render_passive_placeholder a))))"

definition option_list :: "'a option \<Rightarrow> 'a list" where
  "option_list x = (case x of None \<Rightarrow> [] | Some v \<Rightarrow> [v])"

lemma option_list_simps [simp]: "option_list None = []" "option_list (Some v) = [v]"
  by (simp_all add: option_list_def)

definition board_sync_messages :: "registered_agent \<Rightarrow> hid_message list" where
  "board_sync_messages a =
    option_list (meta_message_for_agent a) @
    option_list (status_message_for_agent a) @
    option_list (token_message_for_agent a) @
    (if ra_from_launch a \<and> ra_turns a \<noteq> []
     then option_list (turn_message_for_agent a (last (ra_turns a))) else []) @
    concat (map (\<lambda>p. option_list (permission_message_for_agent a p)) (ra_pending a))"

definition is_transport_only_terminal :: "registered_agent \<Rightarrow> bool" where
  "is_transport_only_terminal a \<longleftrightarrow> ra_kind a = Terminal \<and> ra_from_launch a"

text \<open>Pushing a turn and keeping the latest ones.\<close>

definition push_turn :: "conversation_turn \<Rightarrow> registered_agent \<Rightarrow> registered_agent" where
  "push_turn event a =
    (let turns = ra_turns a @ [event]; cap = MAX_RETAINED_TURNS_PER_AGENT
     in a\<lparr>ra_turns := (if cap < length turns then drop (length turns - cap) turns else turns)\<rparr>)"

section \<open>Bounded histories\<close>

text \<open>
  The contract of the two histories an agent keeps, the terminal bytes and the conversation
  turns: adding a piece keeps the latest \<open>cap\<close> items of what was there and the piece.
\<close>

locale bounded_history =
  fixes items :: "'c \<Rightarrow> 'x list"
    and add :: "'c \<Rightarrow> 'a \<Rightarrow> 'a"
    and view :: "'a \<Rightarrow> 'x list"
    and inv :: "'a \<Rightarrow> bool"
    and cap :: nat
  assumes view_add: "inv a \<Longrightarrow> view (add c a) = last_n cap (view a @ items c)"
    and inv_add: "inv a \<Longrightarrow> inv (add c a)"
    and view_bounded: "inv a \<Longrightarrow> length (view a) \<le> cap"
begin

lemma inv_fold: "inv a \<Longrightarrow> inv (fold add cs a)"
  by (induction cs arbitrary: a) (simp_all add: inv_add)

lemma view_fold: "inv a \<Longrightarrow> view (fold add cs a) = last_n cap (view a @ concat (map items cs))"
proof (induction cs arbitrary: a)
  case (Cons c cs)
  then show ?case
    by (simp add: inv_add view_add last_n_last_n[of cap "view a @ items c", simplified])
qed (simp add: view_bounded)

end

definition buffer_ok :: "registered_agent \<Rightarrow> bool" where
  "buffer_ok a \<longleftrightarrow> ra_buffer_len a = length (concat (ra_buffer a)) \<and>
    ra_buffer_len a \<le> VT100_BUFFER_BYTES \<and> [] \<notin> set (ra_buffer a)"

definition turns_ok :: "registered_agent \<Rightarrow> bool" where
  "turns_ok a \<longleftrightarrow> length (ra_turns a) \<le> MAX_RETAINED_TURNS_PER_AGENT"

lemma VT100_pos: "0 < VT100_BUFFER_BYTES"
  by (simp add: VT100_BUFFER_BYTES_def)

lemma last_n_drop_front:
  "length front \<le> length front + length rest - n \<Longrightarrow> n \<le> length front + length rest \<Longrightarrow>
   last_n n (front @ rest) = last_n n rest"
  by (simp add: last_n_def)

lemma evict_spec:
  assumes "[] \<notin> set cs"
  shows "concat (fst (evict cs (length (concat cs)))) = last_n VT100_BUFFER_BYTES (concat cs) \<and>
    snd (evict cs (length (concat cs))) = min VT100_BUFFER_BYTES (length (concat cs)) \<and>
    [] \<notin> set (fst (evict cs (length (concat cs))))"
  using assms
proof (induction cs)
  case (Cons front rest)
  let ?n = VT100_BUFFER_BYTES and ?len = "length (concat (front # rest))"
  show ?case
  proof (cases "?n < ?len")
    case over: True
    show ?thesis
    proof (cases "length front \<le> ?len - ?n")
      case True
      then have "last_n ?n (front @ concat rest) = last_n ?n (concat rest)"
        using over by (intro last_n_drop_front) simp_all
      then show ?thesis using over True Cons by (simp add: Let_def)
    next
      case False
      then have "last_n ?n (front @ concat rest) = drop (?len - ?n) front @ concat rest"
        using over by (simp add: last_n_def)
      then show ?thesis using over False Cons.prems by (auto simp: Let_def)
    qed
  qed (use Cons.prems in simp)
qed simp

lemma append_terminal_bytes_spec:
  assumes "buffer_ok a"
  shows "terminal_snapshot (append_terminal_bytes bs a) =
      last_n VT100_BUFFER_BYTES (terminal_snapshot a @ bs) \<and> buffer_ok (append_terminal_bytes bs a)"
proof -
  consider "bs = []" | "bs \<noteq> []" "VT100_BUFFER_BYTES \<le> length bs"
    | "bs \<noteq> []" "length bs < VT100_BUFFER_BYTES" by linarith
  then show ?thesis
  proof cases
    case 1
    then show ?thesis
      using assms by (simp add: append_terminal_bytes_def terminal_snapshot_def buffer_ok_def)
  next
    case 2
    then have "length (drop (length bs - VT100_BUFFER_BYTES) bs) = VT100_BUFFER_BYTES" by simp
    moreover from this have "drop (length bs - VT100_BUFFER_BYTES) bs \<noteq> []"
      using VT100_pos by (metis list.size(3) less_irrefl)
    ultimately show ?thesis
      using 2 by (simp add: append_terminal_bytes_def terminal_snapshot_def buffer_ok_def
          last_n_append_long last_n_def[of VT100_BUFFER_BYTES bs])
  next
    case 3
    have "ra_buffer_len a + length bs = length (concat (ra_buffer a @ [bs]))"
      using assms by (simp add: buffer_ok_def)
    moreover have "[] \<notin> set (ra_buffer a @ [bs])" using assms 3 by (auto simp: buffer_ok_def)
    ultimately show ?thesis
      using evict_spec[of "ra_buffer a @ [bs]"] 3
      by (auto simp: append_terminal_bytes_def terminal_snapshot_def buffer_ok_def length_last_n
          split: prod.splits)
  qed
qed

lemma buffer_ok_snapshot: "buffer_ok a \<Longrightarrow> length (terminal_snapshot a) \<le> VT100_BUFFER_BYTES"
  by (simp add: buffer_ok_def terminal_snapshot_def)

interpretation vt: bounded_history "\<lambda>bs. bs" append_terminal_bytes terminal_snapshot buffer_ok
  VT100_BUFFER_BYTES
  by unfold_locales (simp_all add: append_terminal_bytes_spec buffer_ok_snapshot)

lemma ra_turns_push: "ra_turns (push_turn t a) = last_n MAX_RETAINED_TURNS_PER_AGENT (ra_turns a @ [t])"
  by (simp add: push_turn_def last_n_def Let_def)

interpretation turns: bounded_history "\<lambda>t. [t]" push_turn ra_turns turns_ok
  MAX_RETAINED_TURNS_PER_AGENT
  by unfold_locales (simp_all add: ra_turns_push turns_ok_def length_last_n)

section \<open>Lemmas: what an operation changes of an agent\<close>

named_theorems agent_simps \<open>fields an agent operation leaves alone\<close>

lemma append_terminal_bytes_fields [agent_simps, simp]:
  "ra_agent_id (append_terminal_bytes bs a) = ra_agent_id a"
  "ra_kind (append_terminal_bytes bs a) = ra_kind a"
  "ra_board_sid (append_terminal_bytes bs a) = ra_board_sid a"
  "ra_turns (append_terminal_bytes bs a) = ra_turns a"
  "ra_pending (append_terminal_bytes bs a) = ra_pending a"
  "ra_resolved (append_terminal_bytes bs a) = ra_resolved a"
  "ra_from_hook (append_terminal_bytes bs a) = ra_from_hook a"
  "ra_from_launch (append_terminal_bytes bs a) = ra_from_launch a"
  "ra_attached (append_terminal_bytes bs a) = ra_attached a"
  by (simp_all add: append_terminal_bytes_def Let_def split: prod.split)

lemma push_turn_fields [agent_simps, simp]:
  "ra_agent_id (push_turn t a) = ra_agent_id a" "ra_kind (push_turn t a) = ra_kind a"
  "ra_board_sid (push_turn t a) = ra_board_sid a" "ra_pending (push_turn t a) = ra_pending a"
  "ra_resolved (push_turn t a) = ra_resolved a" "ra_from_hook (push_turn t a) = ra_from_hook a"
  "ra_from_launch (push_turn t a) = ra_from_launch a" "ra_buffer (push_turn t a) = ra_buffer a"
  "ra_buffer_len (push_turn t a) = ra_buffer_len a" "ra_attached (push_turn t a) = ra_attached a"
  by (simp_all add: push_turn_def Let_def)

lemma from_session_ok [simp]:
  "buffer_ok (from_session s)" "turns_ok (from_session s)"
  "ra_board_sid (from_session s) = None" "ra_key (from_session s) = (as_kind s, as_agent_id s)"
  by (simp_all add: from_session_def buffer_ok_def turns_ok_def ra_key_def)

section \<open>Lemmas: the messages\<close>

lemmas agent_message_defs =
  meta_message_for_agent_def status_message_for_agent_def token_message_for_agent_def
  turn_message_for_agent_def permission_message_for_agent_def

text \<open>A message that fits one report.\<close>

definition one_report :: "hid_message \<Rightarrow> bool" where
  "one_report m \<longleftrightarrow> length (hm_payload m) \<le> HID_MAX_PAYLOAD"

lemma sid_message_Some:
  "sid_message a c p = Some m \<longleftrightarrow>
    (\<exists>sid. ra_board_sid a = Some sid \<and> m = \<lparr>hm_cmd = c, hm_sid = sid_raw sid, hm_payload = p\<rparr>)"
  by (auto simp: sid_message_def)

lemma encode_turn_append_fits: "length (encode_turn_append r t) \<le> 58"
  using cut_back_le[of t 57] by (simp add: encode_turn_append_def Let_def)

lemma encode_token_usage_fits: "length (encode_token_usage u) \<le> 58"
  by (simp add: encode_token_usage_def)

lemma in_option_list [simp]: "x \<in> set (option_list v) \<longleftrightarrow> v = Some x"
  by (cases v) auto

lemma board_sync_message:
  assumes "m \<in> set (board_sync_messages a)"
  shows "one_report m \<and> (\<exists>sid. ra_board_sid a = Some sid \<and> hm_sid m = sid_raw sid) \<and>
    hm_cmd m \<in> {AgentMeta, StatusUpdate, TokenUsage, TurnAppend, PermissionReq}"
  using assms encode_agent_meta_fits encode_permission_request_fits encode_turn_append_fits
    encode_token_usage_fits
  by (auto simp: board_sync_messages_def agent_message_defs sid_message_Some one_report_def
      split: if_splits)

lemma unbound_no_messages:
  assumes "ra_board_sid a = None"
  shows "board_sync_messages a = []" "terminal_replay_message_for_agent a = None"
  using assms by (simp_all add: board_sync_messages_def agent_message_defs sid_message_def
      terminal_replay_message_for_agent_def)

section \<open>Properties\<close>

text \<open>
  C20: the terminal history refines an unbounded log: after any sequence of chunks, what a
  replay shows is exactly the last 64 KiB of everything received, whatever the sizes of the
  chunks, and the stored length is the real one.
\<close>
theorem terminal_history_is_tail_of_stream:
  assumes "buffer_ok a"
  shows "terminal_snapshot (fold append_terminal_bytes pieces a) =
      last_n VT100_BUFFER_BYTES (terminal_snapshot a @ concat pieces) \<and>
    ra_buffer_len (fold append_terminal_bytes pieces a) =
      length (terminal_snapshot (fold append_terminal_bytes pieces a))"
  using vt.view_fold[OF assms, of pieces] vt.inv_fold[OF assms, of pieces]
  by (simp add: buffer_ok_def terminal_snapshot_def)

definition sample_agent :: registered_agent where
  "sample_agent = from_session \<lparr>as_agent_id = ''codex-1'', as_kind = Codex, as_name = ''AIKB'',
     as_cwd = ''/work/AIKB'', as_transcript_path = [], as_status = Running, as_terminal_hwnd = None\<rparr>"

lemma terminal_history_is_tail_of_stream_witness:
  "terminal_snapshot (fold append_terminal_bytes [[1, 2], [], [3]] sample_agent) = [1, 2, 3]"
  using terminal_history_is_tail_of_stream[of sample_agent "[[1, 2], [], [3]]"]
  by (simp add: sample_agent_def terminal_snapshot_def from_session_def VT100_BUFFER_BYTES_def
      buffer_ok_def)

text \<open>
  The turn history keeps, in order, the latest fifty turns of those recorded.
\<close>
theorem turn_history_is_tail:
  assumes "turns_ok a"
  shows "ra_turns (fold push_turn ts a) = last_n 50 (ra_turns a @ ts)"
  using turns.view_fold[OF assms, of ts] by (simp add: MAX_RETAINED_TURNS_PER_AGENT_def)

lemma turn_history_is_tail_witness:
  "ra_turns (fold push_turn (map (\<lambda>i. \<lparr>ct_sid = sid_broadcast, ct_role = RoleUser, ct_text = [],
       ct_ts_ms = of_nat i\<rparr>) [0..<51]) sample_agent) =
     map (\<lambda>i. \<lparr>ct_sid = sid_broadcast, ct_role = RoleUser, ct_text = [], ct_ts_ms = of_nat i\<rparr>) [1..<51]"
  by (subst turn_history_is_tail)
    (simp_all add: sample_agent_def from_session_def turns_ok_def last_n_def drop_map)

text \<open>
  Every message of the synchronisation the daemon sends for an agent carries that
  agent's session id and fits one report; an agent the board has not bound yields none.
\<close>
theorem board_sync_single_reports:
  "(\<forall>m. m \<in> set (board_sync_messages a) \<longrightarrow>
      length (hm_payload m) \<le> HID_MAX_PAYLOAD \<and> ra_board_sid a = Some (BoardSid (hm_sid m))) \<and>
   (board_sync_messages a = [] \<longleftrightarrow> ra_board_sid a = None)"
proof -
  have "board_sync_messages a \<noteq> []" if "ra_board_sid a = Some sid" for sid
    using that by (simp add: board_sync_messages_def meta_message_for_agent_def sid_message_def)
  then show ?thesis
    using board_sync_message[of _ a] unbound_no_messages(1)[of a]
    by (fastforce simp: one_report_def)
qed

lemma board_sync_single_reports_witness:
  "\<forall>m \<in> set (board_sync_messages (sample_agent\<lparr>ra_board_sid := Some (BoardSid 7)\<rparr>)). hm_sid m = 7"
  using board_sync_single_reports[of "sample_agent\<lparr>ra_board_sid := Some (BoardSid 7)\<rparr>"] by auto

text \<open>
  The labels the host writes for kinds, statuses, activities and roles are read back as
  what they name; the unknown kind alone is refused.
\<close>
theorem labels_roundtrip:
  "status_from_label (agent_status_as_str s) = s \<and>
   activity_from_label (agent_activity_kind_as_str act) = act \<and>
   parse_role (turn_role_as_str r) = Inr r \<and>
   parse_kind (agent_kind_as_str k) =
     (if k = UnknownAgent then Inl ''unknown agent kind: unknown'' else Inr k)"
proof -
  have "status_from_label (agent_status_as_str s) = s" by (cases s; hypsubst; code_simp)
  moreover have "activity_from_label (agent_activity_kind_as_str act) = act"
    by (cases act; hypsubst; code_simp)
  moreover have "parse_role (turn_role_as_str r) = Inr r" by (cases r; hypsubst; code_simp)
  moreover have "parse_kind (agent_kind_as_str k) =
     (if k = UnknownAgent then Inl ''unknown agent kind: unknown'' else Inr k)"
    by (cases k; hypsubst; code_simp)
  ultimately show ?thesis by blast
qed

end
