(* ===== verification/Ipc_Requests.thy ===== *)
theory Ipc_Requests
  imports Agent_Registry "HOL-Library.Monad_Syntax"
begin

text \<open>
  The requests of the local JSON interface of \<open>crates/vb-daemon/src/lib.rs\<close>: the envelope and
  its payload structures as the derived deserialisers read them from a JSON value (camel-case
  names, defaults, optional fields), and their conversion into agents and activities. The
  reader of JSON text is \<open>serde_json\<close>, not code of the repository: it is a parameter.
\<close>

section \<open>JSON values\<close>

text \<open>Integers are kept as such; any other number literal keeps its text.\<close>

datatype json =
    JNull
  | JBool bool
  | JNum int
  | JFloat string
  | JStr string
  | JArr "json list"
  | JObj "(string \<times> json) list"

definition json_str :: "json \<Rightarrow> string option" where
  "json_str v = (case v of JStr s \<Rightarrow> Some s | _ \<Rightarrow> None)"

definition json_bool :: "json \<Rightarrow> bool option" where
  "json_bool v = (case v of JBool b \<Rightarrow> Some b | _ \<Rightarrow> None)"

definition json_u64 :: "json \<Rightarrow> 64 word option" where
  "json_u64 v = (case v of JNum i \<Rightarrow> if 0 \<le> i \<and> i < 2 ^ 64 then Some (word_of_int i) else None | _ \<Rightarrow> None)"

section \<open>Derived deserialisers\<close>

text \<open>
  A structure is read from an object, by name, with a repeated field an error and an unknown
  one ignored, or from an array, by position. The outer \<open>None\<close> is an error, the inner one a
  missing field.
\<close>

fun field :: "json \<Rightarrow> nat \<Rightarrow> string \<Rightarrow> json option option" where
  "field (JObj kvs) i name =
    (case filter (\<lambda>kv. fst kv = name) kvs of
       [] \<Rightarrow> Some None | [kv] \<Rightarrow> Some (Some (snd kv)) | _ \<Rightarrow> None)"
| "field (JArr xs) i name = Some (if i < length xs then Some (xs ! i) else None)"
| "field _ i name = None"

definition required :: "(json \<Rightarrow> 'a option) \<Rightarrow> json \<Rightarrow> nat \<Rightarrow> string \<Rightarrow> 'a option" where
  "required rd j i name = do { m \<leftarrow> field j i name; v \<leftarrow> m; rd v }"

text \<open>\<open>#[serde(default)]\<close>.\<close>

definition defaulted :: "(json \<Rightarrow> 'a option) \<Rightarrow> 'a \<Rightarrow> json \<Rightarrow> nat \<Rightarrow> string \<Rightarrow> 'a option" where
  "defaulted rd d j i name =
    do { m \<leftarrow> field j i name; case m of None \<Rightarrow> Some d | Some v \<Rightarrow> rd v }"

definition nullable :: "(json \<Rightarrow> 'a option) \<Rightarrow> json \<Rightarrow> 'a option option" where
  "nullable rd v = (if v = JNull then Some None else map_option Some (rd v))"

text \<open>A plain \<open>Option\<close> field may be missing from an object, not from an array.\<close>

definition optional :: "(json \<Rightarrow> 'a option) \<Rightarrow> json \<Rightarrow> nat \<Rightarrow> string \<Rightarrow> 'a option option" where
  "optional rd j i name =
    do { m \<leftarrow> field j i name;
         case m of
           None \<Rightarrow> (case j of JObj _ \<Rightarrow> Some None | _ \<Rightarrow> None)
         | Some v \<Rightarrow> nullable rd v }"

definition fits :: "nat \<Rightarrow> json \<Rightarrow> unit option" where
  "fits n j = (case j of JArr xs \<Rightarrow> if length xs \<le> n then Some () else None | _ \<Rightarrow> Some ())"

section \<open>Payload structures\<close>

record registration_agent_payload =
  rp_agent_id :: string
  rp_kind :: string
  rp_name :: string
  rp_cwd :: string
  rp_focus_target :: "string option"
  rp_terminal_hwnd :: "64 word option"
  rp_status :: "string option"
  rp_parent_agent_id :: "string option"
  rp_parent_kind :: "string option"
  rp_from_launch :: bool

definition registration_agent_of_json :: "json \<Rightarrow> registration_agent_payload option" where
  "registration_agent_of_json j = do {
     fits 10 j;
     agent_id \<leftarrow> required json_str j 0 ''agentId'';
     kind \<leftarrow> required json_str j 1 ''kind'';
     name \<leftarrow> defaulted json_str [] j 2 ''name'';
     cwd \<leftarrow> defaulted json_str [] j 3 ''cwd'';
     focus_target \<leftarrow> optional json_str j 4 ''focusTarget'';
     terminal_hwnd \<leftarrow> optional json_u64 j 5 ''terminalHwnd'';
     status \<leftarrow> defaulted (nullable json_str) None j 6 ''status'';
     parent_agent_id \<leftarrow> defaulted (nullable json_str) None j 7 ''parentAgentId'';
     parent_kind \<leftarrow> defaulted (nullable json_str) None j 8 ''parentKind'';
     from_launch \<leftarrow> defaulted json_bool False j 9 ''fromLaunch'';
     Some \<lparr>rp_agent_id = agent_id, rp_kind = kind, rp_name = name, rp_cwd = cwd,
           rp_focus_target = focus_target, rp_terminal_hwnd = terminal_hwnd, rp_status = status,
           rp_parent_agent_id = parent_agent_id, rp_parent_kind = parent_kind,
           rp_from_launch = from_launch\<rparr> }"

record activity_payload =
  ap_agent_id :: string
  ap_kind :: string
  ap_activity :: string
  ap_status :: string
  ap_transcript_path :: string

definition activity_of_json :: "json \<Rightarrow> activity_payload option" where
  "activity_of_json j = do {
     fits 5 j;
     agent_id \<leftarrow> required json_str j 0 ''agentId'';
     kind \<leftarrow> required json_str j 1 ''kind'';
     activity \<leftarrow> required json_str j 2 ''activity'';
     status \<leftarrow> required json_str j 3 ''status'';
     transcript_path \<leftarrow> defaulted json_str [] j 4 ''transcriptPath'';
     Some \<lparr>ap_agent_id = agent_id, ap_kind = kind, ap_activity = activity, ap_status = status,
           ap_transcript_path = transcript_path\<rparr> }"

record token_update_payload =
  tk_agent_id :: string
  tk_kind :: string
  tk_input :: "64 word"
  tk_output :: "64 word"
  tk_cost_cents :: "64 word"

definition token_update_of_json :: "json \<Rightarrow> token_update_payload option" where
  "token_update_of_json j = do {
     fits 5 j;
     agent_id \<leftarrow> required json_str j 0 ''agentId'';
     kind \<leftarrow> required json_str j 1 ''kind'';
     inp \<leftarrow> defaulted json_u64 0 j 2 ''input'';
     outp \<leftarrow> defaulted json_u64 0 j 3 ''output'';
     cost \<leftarrow> defaulted json_u64 0 j 4 ''costCents'';
     Some \<lparr>tk_agent_id = agent_id, tk_kind = kind, tk_input = inp, tk_output = outp,
           tk_cost_cents = cost\<rparr> }"

record turn_payload =
  tn_agent_id :: string
  tn_kind :: string
  tn_role :: string
  tn_text :: string
  tn_ts_ms :: "64 word"

definition turn_of_json :: "json \<Rightarrow> turn_payload option" where
  "turn_of_json j = do {
     fits 5 j;
     agent_id \<leftarrow> required json_str j 0 ''agentId'';
     kind \<leftarrow> required json_str j 1 ''kind'';
     role \<leftarrow> required json_str j 2 ''role'';
     content \<leftarrow> required json_str j 3 ''text'';
     ts \<leftarrow> defaulted json_u64 0 j 4 ''tsMs'';
     Some \<lparr>tn_agent_id = agent_id, tn_kind = kind, tn_role = role, tn_text = content, tn_ts_ms = ts\<rparr> }"

record permission_request_payload =
  pp_agent_id :: string
  pp_kind :: string
  pp_req_id :: "64 word"
  pp_tool :: string
  pp_args_summary :: string

definition permission_request_of_json :: "json \<Rightarrow> permission_request_payload option" where
  "permission_request_of_json j = do {
     fits 5 j;
     agent_id \<leftarrow> required json_str j 0 ''agentId'';
     kind \<leftarrow> required json_str j 1 ''kind'';
     req_id \<leftarrow> required json_u64 j 2 ''reqId'';
     tool \<leftarrow> required json_str j 3 ''tool'';
     args \<leftarrow> defaulted json_str [] j 4 ''argsSummary'';
     Some \<lparr>pp_agent_id = agent_id, pp_kind = kind, pp_req_id = req_id, pp_tool = tool,
           pp_args_summary = args\<rparr> }"

text \<open>\<open>PermissionResolvePayload\<close> and \<open>PermissionPollPayload\<close> have the same fields.\<close>

record permission_ref_payload =
  pf_agent_id :: string
  pf_kind :: string
  pf_req_id :: "64 word"

definition permission_ref_of_json :: "json \<Rightarrow> permission_ref_payload option" where
  "permission_ref_of_json j = do {
     fits 3 j;
     agent_id \<leftarrow> required json_str j 0 ''agentId'';
     kind \<leftarrow> required json_str j 1 ''kind'';
     req_id \<leftarrow> required json_u64 j 2 ''reqId'';
     Some \<lparr>pf_agent_id = agent_id, pf_kind = kind, pf_req_id = req_id\<rparr> }"

record abort_payload =
  ab_agent_id :: string
  ab_kind :: string

definition abort_of_json :: "json \<Rightarrow> abort_payload option" where
  "abort_of_json j = do {
     fits 2 j;
     agent_id \<leftarrow> required json_str j 0 ''agentId'';
     kind \<leftarrow> required json_str j 1 ''kind'';
     Some \<lparr>ab_agent_id = agent_id, ab_kind = kind\<rparr> }"

record terminal_stream_payload =
  ts_agent_id :: string
  ts_kind :: string
  ts_data_hex :: string

definition terminal_stream_of_json :: "json \<Rightarrow> terminal_stream_payload option" where
  "terminal_stream_of_json j = do {
     fits 3 j;
     agent_id \<leftarrow> required json_str j 0 ''agentId'';
     kind \<leftarrow> required json_str j 1 ''kind'';
     data_hex \<leftarrow> required json_str j 2 ''dataHex'';
     Some \<lparr>ts_agent_id = agent_id, ts_kind = kind, ts_data_hex = data_hex\<rparr> }"

record registration_envelope =
  en_type :: string
  en_agent :: "registration_agent_payload option"
  en_activity :: "activity_payload option"
  en_token :: "token_update_payload option"
  en_turn :: "turn_payload option"
  en_permission :: "permission_request_payload option"
  en_resolve :: "permission_ref_payload option"
  en_poll :: "permission_ref_payload option"
  en_abort :: "abort_payload option"
  en_stream :: "terminal_stream_payload option"

definition envelope_of_json :: "json \<Rightarrow> registration_envelope option" where
  "envelope_of_json j = do {
     fits 10 j;
     message_type \<leftarrow> required json_str j 0 ''type'';
     agent \<leftarrow> optional registration_agent_of_json j 1 ''agent'';
     activity \<leftarrow> optional activity_of_json j 2 ''activity'';
     token \<leftarrow> optional token_update_of_json j 3 ''token'';
     turn \<leftarrow> optional turn_of_json j 4 ''turn'';
     permission \<leftarrow> optional permission_request_of_json j 5 ''permission'';
     resolve \<leftarrow> optional permission_ref_of_json j 6 ''resolve'';
     poll \<leftarrow> optional permission_ref_of_json j 7 ''poll'';
     abort \<leftarrow> optional abort_of_json j 8 ''abort'';
     stream \<leftarrow> optional terminal_stream_of_json j 9 ''stream'';
     Some \<lparr>en_type = message_type, en_agent = agent, en_activity = activity, en_token = token,
           en_turn = turn, en_permission = permission, en_resolve = resolve, en_poll = poll,
           en_abort = abort, en_stream = stream\<rparr> }"

text \<open>
  \<open>serde_json::from_str::<RegistrationEnvelope>\<close>, over the text reader and the wording of the
  error for a value of the wrong shape.
\<close>

record json_reader =
  jr_parse :: "string \<Rightarrow> json result"
  jr_shape_error :: "json \<Rightarrow> string"

definition read_envelope :: "json_reader \<Rightarrow> string \<Rightarrow> registration_envelope result" where
  "read_envelope rd line =
    bind_res (jr_parse rd line) (\<lambda>j. ok_or (envelope_of_json j) (jr_shape_error rd j))"

section \<open>Conversions\<close>

definition attached_terminal_of :: "registration_agent_payload \<Rightarrow> agent_key option result" where
  "attached_terminal_of p =
    (case (rp_parent_kind p, rp_parent_agent_id p) of
       (Some parent_kind, Some parent_agent_id) \<Rightarrow>
         if trim parent_agent_id \<noteq> [] then
           let kind = agent_kind_from_label parent_kind in
           if kind = UnknownAgent then Inl ''unknown parent kind: Unknown''
           else Inr (Some (kind, parent_agent_id))
         else Inr None
     | _ \<Rightarrow> Inr None)"

definition into_registered_agent :: "registration_agent_payload \<Rightarrow> registered_agent result" where
  "into_registered_agent p =
    (let kind = agent_kind_from_label (rp_kind p) in
     if kind = UnknownAgent then Inl (''unknown agent kind: '' @ rp_kind p)
     else if trim (rp_agent_id p) = [] then Inl ''agent_id is required''
     else bind_res (attached_terminal_of p) (\<lambda>attached. Inr
       \<lparr>ra_agent_id = rp_agent_id p, ra_kind = kind, ra_name = rp_name p, ra_cwd = rp_cwd p,
        ra_focus_target = rp_focus_target p, ra_terminal_hwnd = rp_terminal_hwnd p,
        ra_status = status_from_label (case rp_status p of None \<Rightarrow> ''running'' | Some s \<Rightarrow> s),
        ra_board_sid = None, ra_usage = token_usage_default, ra_turns = [], ra_pending = [],
        ra_resolved = Map.empty, ra_from_hook = True, ra_from_launch = rp_from_launch p,
        ra_buffer = [], ra_buffer_len = 0, ra_attached = attached\<rparr>))"

definition into_agent_activity :: "activity_payload \<Rightarrow> agent_activity result" where
  "into_agent_activity p =
    (let kind = agent_kind_from_label (ap_kind p) in
     if kind = UnknownAgent then Inl (''unknown agent kind: '' @ ap_kind p)
     else if trim (ap_agent_id p) = [] then Inl ''agent_id is required''
     else Inr \<lparr>aa_agent_id = ap_agent_id p, aa_kind = kind,
               aa_activity = activity_from_label (ap_activity p),
               aa_status = status_from_label (ap_status p),
               aa_transcript_path = ap_transcript_path p\<rparr>)"

section \<open>Lemmas\<close>

lemma into_registered_agent_Inr:
  assumes "into_registered_agent p = Inr a"
  shows "ra_kind a = agent_kind_from_label (rp_kind p)" "ra_kind a \<noteq> UnknownAgent"
    "ra_agent_id a = rp_agent_id p" "ra_board_sid a = None" "ra_pending a = []"
    "ra_resolved a = Map.empty" "buffer_ok a" "turns_ok a" "ra_from_hook a"
    "ra_from_launch a = rp_from_launch p" "ra_turns a = []"
  using assms
  by (auto simp: into_registered_agent_def Let_def bind_res_eq_Inr buffer_ok_def turns_ok_def
      split: if_splits)

lemma into_agent_activity_Inr:
  assumes "into_agent_activity p = Inr ev"
  shows "aa_kind ev \<noteq> UnknownAgent" "aa_agent_id ev = ap_agent_id p"
  using assms by (auto simp: into_agent_activity_def Let_def split: if_splits)

lemma parse_kind_Inr: "parse_kind v = Inr k \<longleftrightarrow> agent_kind_from_label v = k \<and> k \<noteq> UnknownAgent"
  by (auto simp: parse_kind_def Let_def)

lemma field_lookup:
  assumes "filter (\<lambda>kv. fst kv = name) kvs = filter (\<lambda>kv. fst kv = name) kvs'"
  shows "field (JObj kvs) i name = field (JObj kvs') i name"
  using assms by simp

lemma reader_cong:
  assumes "filter (\<lambda>kv. fst kv = name) kvs = filter (\<lambda>kv. fst kv = name) kvs'"
  shows "required rd (JObj kvs) i name = required rd (JObj kvs') i name"
    and "optional rd' (JObj kvs) i name = optional rd' (JObj kvs') i name"
  unfolding required_def optional_def field_lookup[OF assms] by (auto simp: bind_eq_None_conv
      split: option.split intro!: arg_cong[of _ _ "Option.bind _"])

definition envelope_fields :: "string set" where
  "envelope_fields = {''type'', ''agent'', ''activity'', ''token'', ''turn'', ''permission'',
     ''resolve'', ''poll'', ''abort'', ''stream''}"

section \<open>Properties\<close>

text \<open>
  A request is read by its field names only: fields the daemon does not know, and the
  order of the others, make no difference.
\<close>
theorem envelope_ignores_unknown_fields_and_order:
  assumes "\<And>name. name \<in> envelope_fields \<Longrightarrow>
    filter (\<lambda>kv. fst kv = name) kvs = filter (\<lambda>kv. fst kv = name) kvs'"
  shows "envelope_of_json (JObj kvs) = envelope_of_json (JObj kvs')"
proof -
  note r = reader_cong[OF assms, unfolded envelope_fields_def]
  show ?thesis
    unfolding envelope_of_json_def
    by (simp add: fits_def r(1)[of "''type''"] r(2)[of "''agent''"] r(2)[of "''activity''"]
        r(2)[of "''token''"] r(2)[of "''turn''"] r(2)[of "''permission''"] r(2)[of "''resolve''"]
        r(2)[of "''poll''"] r(2)[of "''abort''"] r(2)[of "''stream''"])
qed

lemma envelope_ignores_unknown_fields_and_order_witness:
  "envelope_of_json (JObj [(''version'', JNum 2), (''agent'', JNull), (''type'', JStr ''daemon.snapshot'')]) =
   envelope_of_json (JObj [(''type'', JStr ''daemon.snapshot''), (''agent'', JNull)])"
  by (rule envelope_ignores_unknown_fields_and_order) (auto simp: envelope_fields_def)

text \<open>
  A registration is accepted exactly when its kind is known, its agent id is not blank,
  and a parent that is named at all (kind and non-blank id) has a known kind.
\<close>
theorem registration_accepted_iff:
  "(\<exists>a. into_registered_agent p = Inr a) \<longleftrightarrow>
    agent_kind_from_label (rp_kind p) \<noteq> UnknownAgent \<and> trim (rp_agent_id p) \<noteq> [] \<and>
    \<not> (\<exists>k i. rp_parent_kind p = Some k \<and> rp_parent_agent_id p = Some i \<and> trim i \<noteq> [] \<and>
         agent_kind_from_label k = UnknownAgent)"
  by (auto simp: into_registered_agent_def attached_terminal_of_def Let_def bind_res_eq_Inr
      split: option.split)

end
