(* ===== verification/Poll_Types.thy ===== *)
theory Poll_Types
  imports Core_Model
begin

text \<open>
  What one round of transcript discovery hands to the daemon: the types of
  \<open>crates/vb-host/src/agent_discovery.rs\<close> that both sides use.
\<close>

record discovered_turn =
  dt_kind :: agent_kind
  dt_agent_id :: string
  dt_role :: turn_role
  dt_text :: string

record poll_snapshot =
  ps_sessions :: "agent_session list"
  ps_activities :: "agent_activity list"
  ps_turns :: "discovered_turn list"

definition session_key :: "agent_session \<Rightarrow> agent_kind \<times> string" where
  "session_key s = (as_kind s, as_agent_id s)"

end
