(* ===== verification/Bridge_Daemon.thy ===== *)
theory Bridge_Daemon
  imports Ipc_Requests Poll_Types "HOL-Library.List_Lexorder" "HOL-Library.Char_ord"
begin

text \<open>
  The daemon of \<open>crates/vb-daemon/src/lib.rs\<close>: the state of \<open>BridgeDaemon\<close>, one definition per
  branch of \<open>handle_json_line\<close> and \<open>handle_board_message\<close>, and the operations passive discovery
  calls. The hash map of agents is an association list whose order is the iteration order;
  what the transcript poller found is an argument of the operations that call it.
\<close>

section \<open>State\<close>

record bridge_daemon =
  bd_registered :: "(agent_key \<times> registered_agent) list"
  bd_activities :: "agent_activity list"
  bd_pending :: "agent_key list"
  bd_missing :: "agent_key \<rightharpoonup> byte"
  bd_outbox :: "hid_message list"
  bd_focused :: "board_sid option"

definition bridge_daemon_new :: bridge_daemon where
  "bridge_daemon_new = \<lparr>bd_registered = [], bd_activities = [], bd_pending = [],
     bd_missing = Map.empty, bd_outbox = [], bd_focused = None\<rparr>"

record daemon_snapshot =
  sn_sessions :: "agent_session list"
  sn_activities :: "agent_activity list"
  sn_registered_agents :: nat

definition get_agent :: "bridge_daemon \<Rightarrow> agent_key \<Rightarrow> registered_agent option" where
  "get_agent d key = map_of (bd_registered d) key"

definition update_agent :: "agent_key \<Rightarrow> (registered_agent \<Rightarrow> registered_agent) \<Rightarrow> bridge_daemon \<Rightarrow> bridge_daemon" where
  "update_agent key f d = d\<lparr>bd_registered := alter key f (bd_registered d)\<rparr>"

definition push_outbox :: "hid_message list \<Rightarrow> bridge_daemon \<Rightarrow> bridge_daemon" where
  "push_outbox msgs d = d\<lparr>bd_outbox := bd_outbox d @ msgs\<rparr>"

definition push_activity :: "agent_activity \<Rightarrow> bridge_daemon \<Rightarrow> bridge_daemon" where
  "push_activity ev d = d\<lparr>bd_activities := bd_activities d @ [ev]\<rparr>"

section \<open>Polling\<close>

definition merge_sessions :: "agent_session list \<Rightarrow> registered_agent list \<Rightarrow> agent_session list" where
  "merge_sessions sessions agents = fold (\<lambda>r acc.
     if \<exists>s \<in> set acc. as_kind s = ra_kind r \<and> as_agent_id s = ra_agent_id r then acc
     else acc @ [to_session r]) agents sessions"

text \<open>The stable descending sort \<open>sort_by(|a, b| b.agent_id.cmp(&a.agent_id))\<close>.\<close>

definition sort_sessions_desc :: "agent_session list \<Rightarrow> agent_session list" where
  "sort_sessions_desc ss = rev (sort_key as_agent_id (rev ss))"

definition poll_once :: "poll_snapshot result \<Rightarrow> bridge_daemon \<Rightarrow> bridge_daemon \<times> daemon_snapshot result" where
  "poll_once polled d =
    (case polled of
       Inl e \<Rightarrow> (d, Inl e)
     | Inr p \<Rightarrow>
        let d' = d\<lparr>bd_activities := bd_activities d @ ps_activities p\<rparr>;
            sessions = merge_sessions (ps_sessions p) (map snd (bd_registered d'))
        in (d', Inr \<lparr>sn_sessions = sort_sessions_desc sessions, sn_activities = bd_activities d',
                    sn_registered_agents = length (bd_registered d')\<rparr>))"

section \<open>Requests to the board\<close>

definition session_hint :: "registered_agent \<Rightarrow> bytes" where
  "session_hint a =
    take PLUGIN_HINT_MAX (as_bytes (if ra_name a = [] then ra_agent_id a else ra_name a))"

definition enqueue_board_session_request :: "registered_agent \<Rightarrow> bridge_daemon \<Rightarrow> bridge_daemon" where
  "enqueue_board_session_request a d =
    (if ra_key a \<in> set (bd_pending d) then d
     else push_outbox [\<lparr>hm_cmd = RequestSession, hm_sid = sid_raw sid_broadcast, hm_payload = session_hint a\<rparr>]
            (d\<lparr>bd_pending := bd_pending d @ [ra_key a]\<rparr>))"

section \<open>The JSON interface\<close>

definition ok_response :: "string \<Rightarrow> (string \<times> json) list \<Rightarrow> json" where
  "ok_response ty extra = JObj ([(''ok'', JBool True), (''type'', JStr ty)] @ extra)"

definition error_response :: "string \<Rightarrow> json" where
  "error_response e = JObj [(''ok'', JBool False), (''error'', JStr e)]"

type_synonym handled = "bridge_daemon \<times> json result"

definition no_agent :: "string \<Rightarrow> agent_kind \<Rightarrow> string \<Rightarrow> string" where
  "no_agent what kind agent_id =
    ''no registered agent for '' @ what @ '': '' @ agent_kind_as_str kind @ ''/'' @ agent_id"

text \<open>What a re-registration keeps of the agent already there.\<close>

definition carry_over :: "registered_agent \<Rightarrow> registered_agent \<Rightarrow> registered_agent" where
  "carry_over existing agent = agent\<lparr>
     ra_board_sid := ra_board_sid existing, ra_usage := ra_usage existing,
     ra_turns := ra_turns existing, ra_pending := ra_pending existing,
     ra_resolved := ra_resolved existing, ra_from_hook := True,
     ra_buffer := ra_buffer existing, ra_buffer_len := ra_buffer_len existing,
     ra_attached := (if ra_attached agent = None then ra_attached existing else ra_attached agent),
     ra_from_launch := ra_from_launch agent \<or> ra_from_launch existing\<rparr>"

definition seen_activity :: "registered_agent \<Rightarrow> string \<Rightarrow> agent_activity" where
  "seen_activity a path = \<lparr>aa_agent_id = ra_agent_id a, aa_kind = ra_kind a, aa_activity = Seen,
     aa_status = ra_status a, aa_transcript_path = path\<rparr>"

definition handle_register :: "registration_agent_payload option \<Rightarrow> bridge_daemon \<Rightarrow> handled" where
  "handle_register payload d =
    (case payload of
       None \<Rightarrow> (d, Inl ''agent.register requires agent payload'')
     | Some p \<Rightarrow>
       (case into_registered_agent p of
          Inl e \<Rightarrow> (d, Inl e)
        | Inr fresh \<Rightarrow>
          let key = ra_key fresh;
              (agent, was_already_bound) = (case get_agent d key of
                 Some existing \<Rightarrow> (carry_over existing fresh, ra_board_sid existing \<noteq> None)
               | None \<Rightarrow> (fresh, False));
              d1 = push_activity (seen_activity agent []) d;
              d2 = (if was_already_bound then d1
                    else if ra_board_sid agent \<noteq> None then push_outbox (board_sync_messages agent) d1
                    else if is_transport_only_terminal agent then d1
                    else enqueue_board_session_request agent d1)
          in (d2\<lparr>bd_registered := AList.update key agent (bd_registered d2)\<rparr>,
              Inr (ok_response ''agent.registered'' []))))"

definition handle_activity :: "activity_payload option \<Rightarrow> bridge_daemon \<Rightarrow> handled" where
  "handle_activity payload d =
    (case payload of
       None \<Rightarrow> (d, Inl ''agent.activity requires activity payload'')
     | Some p \<Rightarrow>
       (case into_agent_activity p of
          Inl e \<Rightarrow> (d, Inl e)
        | Inr event \<Rightarrow>
          let key = (aa_kind event, aa_agent_id event);
              d1 = (case get_agent d key of
                      None \<Rightarrow> d
                    | Some a \<Rightarrow>
                       let a' = a\<lparr>ra_status := aa_status event\<rparr>
                       in push_outbox (option_list (status_message_for_agent a'))
                            (update_agent key (\<lambda>_. a') d))
          in (push_activity event d1, Inr (ok_response ''agent.activity.accepted'' []))))"

definition handle_snapshot :: "poll_snapshot result \<Rightarrow> bridge_daemon \<Rightarrow> handled" where
  "handle_snapshot polled d =
    (let (d', r) = poll_once polled d in
     (d', bind_res r (\<lambda>sn. Inr (ok_response ''daemon.snapshot''
        [(''sessions'', JNum (int (length (sn_sessions sn)))),
         (''activities'', JNum (int (length (sn_activities sn)))),
         (''registeredAgents'', JNum (int (sn_registered_agents sn)))]))))"

definition handle_token :: "token_update_payload option \<Rightarrow> bridge_daemon \<Rightarrow> handled" where
  "handle_token payload d =
    (case payload of
       None \<Rightarrow> (d, Inl ''token.update requires token payload'')
     | Some p \<Rightarrow>
       (case parse_kind (tk_kind p) of
          Inl e \<Rightarrow> (d, Inl e)
        | Inr kind \<Rightarrow>
          let key = (kind, tk_agent_id p) in
          (case get_agent d key of
             None \<Rightarrow> (d, Inl (no_agent ''token update'' kind (tk_agent_id p)))
           | Some a \<Rightarrow>
             let a' = a\<lparr>ra_usage := \<lparr>tu_input = tk_input p, tu_output = tk_output p,
                                   tu_cost_cents = tk_cost_cents p\<rparr>\<rparr>
             in (push_outbox (option_list (token_message_for_agent a')) (update_agent key (\<lambda>_. a') d),
                 Inr (ok_response ''token.accepted'' [])))))"

definition sid_or_broadcast :: "registered_agent \<Rightarrow> board_sid" where
  "sid_or_broadcast a = (case ra_board_sid a of None \<Rightarrow> sid_broadcast | Some sid \<Rightarrow> sid)"

text \<open>The live re-rendering of a passive agent that has the board's focus.\<close>

definition passive_replay :: "registered_agent \<Rightarrow> bridge_daemon \<Rightarrow> bridge_daemon" where
  "passive_replay a d =
    (if \<not> ra_from_launch a \<and> ra_board_sid a \<noteq> None \<and> ra_board_sid a = bd_focused d
     then push_outbox (option_list (terminal_replay_message_for_agent a)) d else d)"

definition handle_turn :: "turn_payload option \<Rightarrow> bridge_daemon \<Rightarrow> handled" where
  "handle_turn payload d =
    (case payload of
       None \<Rightarrow> (d, Inl ''turn.append requires turn payload'')
     | Some p \<Rightarrow>
       (case parse_kind (tn_kind p) of
          Inl e \<Rightarrow> (d, Inl e)
        | Inr kind \<Rightarrow>
          (case parse_role (tn_role p) of
             Inl e \<Rightarrow> (d, Inl e)
           | Inr role \<Rightarrow>
             let key = (kind, tn_agent_id p) in
             (case get_agent d key of
                None \<Rightarrow> (d, Inl (no_agent ''turn'' kind (tn_agent_id p)))
              | Some a \<Rightarrow>
                let event = \<lparr>ct_sid = sid_or_broadcast a, ct_role = role, ct_text = tn_text p,
                             ct_ts_ms = tn_ts_ms p\<rparr>;
                    a' = push_turn event a
                in (passive_replay a' (update_agent key (\<lambda>_. a') d),
                    Inr (ok_response ''turn.accepted'' []))))))"

definition handle_permission_request :: "permission_request_payload option \<Rightarrow> bridge_daemon \<Rightarrow> handled" where
  "handle_permission_request payload d =
    (case payload of
       None \<Rightarrow> (d, Inl ''permission.request requires permission payload'')
     | Some p \<Rightarrow>
       (case parse_kind (pp_kind p) of
          Inl e \<Rightarrow> (d, Inl e)
        | Inr kind \<Rightarrow>
          let key = (kind, pp_agent_id p) in
          (case get_agent d key of
             None \<Rightarrow> (d, Inl (no_agent ''permission'' kind (pp_agent_id p)))
           | Some a \<Rightarrow>
             let event = \<lparr>pr_req_id = pp_req_id p, pr_sid = sid_or_broadcast a, pr_tool = pp_tool p,
                          pr_args_summary = pp_args_summary p\<rparr>;
                 a' = a\<lparr>ra_resolved := (ra_resolved a)(pp_req_id p := None),
                        ra_pending := ra_pending a @ [event]\<rparr>;
                 d1 = push_outbox (option_list (permission_message_for_agent a' event))
                        (update_agent key (\<lambda>_. a') d)
             in (passive_replay a' d1, Inr (ok_response ''permission.queued'' [])))))"

definition drop_request :: "64 word \<Rightarrow> permission_request list \<Rightarrow> permission_request list" where
  "drop_request req_id ps = filter (\<lambda>p. pr_req_id p \<noteq> req_id) ps"

definition handle_permission_resolve :: "permission_ref_payload option \<Rightarrow> bridge_daemon \<Rightarrow> handled" where
  "handle_permission_resolve payload d =
    (case payload of
       None \<Rightarrow> (d, Inl ''permission.resolve requires resolve payload'')
     | Some p \<Rightarrow>
       (case parse_kind (pf_kind p) of
          Inl e \<Rightarrow> (d, Inl e)
        | Inr kind \<Rightarrow>
          let key = (kind, pf_agent_id p) in
          (case get_agent d key of
             None \<Rightarrow> (d, Inl (no_agent ''resolve'' kind (pf_agent_id p)))
           | Some a \<Rightarrow>
             let rest = drop_request (pf_req_id p) (ra_pending a);
                 removed = length (ra_pending a) - length rest
             in (update_agent key (\<lambda>_. a\<lparr>ra_pending := rest\<rparr>) d,
                 Inr (ok_response ''permission.resolved'' [(''removed'', JNum (int removed))])))))"

definition handle_permission_poll :: "permission_ref_payload option \<Rightarrow> bridge_daemon \<Rightarrow> handled" where
  "handle_permission_poll payload d =
    (case payload of
       None \<Rightarrow> (d, Inl ''permission.poll requires poll payload'')
     | Some p \<Rightarrow>
       (case parse_kind (pf_kind p) of
          Inl e \<Rightarrow> (d, Inl e)
        | Inr kind \<Rightarrow>
          let key = (kind, pf_agent_id p); req = JNum (uint (pf_req_id p)) in
          (case get_agent d key of
             None \<Rightarrow> (d, Inl (no_agent ''poll'' kind (pf_agent_id p)))
           | Some a \<Rightarrow>
             (case ra_resolved a (pf_req_id p) of
                Some decision \<Rightarrow>
                  (update_agent key (\<lambda>_. a\<lparr>ra_resolved := (ra_resolved a)(pf_req_id p := None)\<rparr>) d,
                   Inr (ok_response ''permission.decision''
                     [(''reqId'', req), (''decision'', JStr (permission_decision_as_str decision))]))
              | None \<Rightarrow>
                  (d, Inr (ok_response ''permission.pending''
                     [(''reqId'', req),
                      (''pending'', JBool (\<exists>q \<in> set (ra_pending a). pr_req_id q = pf_req_id p))]))))))"

text \<open>One mirror of a terminal stream: append, and forward when the board looks at it.\<close>

definition mirror_stream :: "bytes \<Rightarrow> agent_key \<Rightarrow> bridge_daemon \<Rightarrow> bridge_daemon" where
  "mirror_stream bs key d =
    (case get_agent d key of
       None \<Rightarrow> d
     | Some a \<Rightarrow>
       let a' = append_terminal_bytes bs a;
           d1 = update_agent key (\<lambda>_. a') d
       in (case ra_board_sid a' of
             Some sid \<Rightarrow>
               if bd_focused d = Some sid
               then push_outbox [\<lparr>hm_cmd = Vt100Stream, hm_sid = sid_raw sid, hm_payload = bs\<rparr>] d1
               else d1
           | None \<Rightarrow> d1))"

definition mirror_keys :: "agent_key \<Rightarrow> bridge_daemon \<Rightarrow> agent_key list" where
  "mirror_keys key d =
    key # map fst (filter (\<lambda>(k, a). ra_attached a = Some key) (bd_registered d))"

definition handle_stream :: "terminal_stream_payload option \<Rightarrow> bridge_daemon \<Rightarrow> handled" where
  "handle_stream payload d =
    (case payload of
       None \<Rightarrow> (d, Inl ''terminal.stream requires stream payload'')
     | Some p \<Rightarrow>
       (case parse_kind (ts_kind p) of
          Inl e \<Rightarrow> (d, Inl e)
        | Inr kind \<Rightarrow>
          (case hex_decode (ts_data_hex p) of
             None \<Rightarrow> (d, Inl ''terminal.stream dataHex invalid'')
           | Some bs \<Rightarrow>
             let key = (kind, ts_agent_id p) in
             if get_agent d key = None then (d, Inl (no_agent ''terminal stream'' kind (ts_agent_id p)))
             else ((if bs \<noteq> [] then fold (mirror_stream bs) (mirror_keys key d) d else d),
                   Inr (ok_response ''terminal.stream.accepted'' [])))))"

definition handle_abort :: "abort_payload option \<Rightarrow> bridge_daemon \<Rightarrow> handled" where
  "handle_abort payload d =
    (case payload of
       None \<Rightarrow> (d, Inl ''session.abort requires abort payload'')
     | Some p \<Rightarrow>
       (case parse_kind (ab_kind p) of
          Inl e \<Rightarrow> (d, Inl e)
        | Inr kind \<Rightarrow>
          let key = (kind, ab_agent_id p) in
          (case get_agent d key of
             None \<Rightarrow> (d, Inl (no_agent ''abort'' kind (ab_agent_id p)))
           | Some _ \<Rightarrow>
             (d\<lparr>bd_registered := AList.delete key (bd_registered d),
                bd_pending := filter (\<lambda>k. k \<noteq> key) (bd_pending d)\<rparr>,
              Inr (ok_response ''session.abort.accepted'' [])))))"

definition handle_request :: "poll_snapshot result \<Rightarrow> registration_envelope \<Rightarrow> bridge_daemon \<Rightarrow> handled" where
  "handle_request polled req d =
    (if en_type req = ''agent.register'' then handle_register (en_agent req) d
     else if en_type req = ''agent.activity'' then handle_activity (en_activity req) d
     else if en_type req = ''daemon.snapshot'' then handle_snapshot polled d
     else if en_type req = ''token.update'' then handle_token (en_token req) d
     else if en_type req = ''turn.append'' then handle_turn (en_turn req) d
     else if en_type req = ''permission.request'' then handle_permission_request (en_permission req) d
     else if en_type req = ''permission.resolve'' then handle_permission_resolve (en_resolve req) d
     else if en_type req = ''permission.poll'' then handle_permission_poll (en_poll req) d
     else if en_type req = ''terminal.stream'' then handle_stream (en_stream req) d
     else if en_type req = ''session.abort'' then handle_abort (en_abort req) d
     else (d, Inl (''unknown message type: '' @ en_type req)))"

definition handle_json_line ::
  "json_reader \<Rightarrow> poll_snapshot result \<Rightarrow> string \<Rightarrow> bridge_daemon \<Rightarrow> handled" where
  "handle_json_line rd polled line d =
    (case read_envelope rd line of
       Inl err \<Rightarrow> (d, Inl (''invalid json: '' @ err))
     | Inr req \<Rightarrow> handle_request polled req d)"

section \<open>Passive discovery\<close>

definition ingest_turn :: "discovered_turn \<Rightarrow> bridge_daemon \<times> nat \<Rightarrow> bridge_daemon \<times> nat" where
  "ingest_turn turn st =
    (let (d, ingested) = st; key = (dt_kind turn, dt_agent_id turn) in
     case get_agent d key of
       None \<Rightarrow> st
     | Some a \<Rightarrow>
       let event = \<lparr>ct_sid = sid_or_broadcast a, ct_role = dt_role turn, ct_text = dt_text turn,
                    ct_ts_ms = 0\<rparr>
       in (update_agent key (push_turn event) d, Suc ingested))"

definition ingest_discovered_turns :: "discovered_turn list \<Rightarrow> bridge_daemon \<Rightarrow> bridge_daemon \<times> nat" where
  "ingest_discovered_turns turns d = fold ingest_turn turns (d, 0)"

definition prune_candidate :: "registered_agent \<Rightarrow> bool" where
  "prune_candidate a \<longleftrightarrow> \<not> ra_from_launch a \<and> \<not> ra_from_hook a \<and> ra_board_sid a \<noteq> None"

text \<open>\<open>u8::saturating_add(1)\<close>.\<close>

definition saturating_inc :: "byte \<Rightarrow> byte" where
  "saturating_inc c = (if c = 255 then 255 else c + 1)"

definition count_missing ::
  "agent_key set \<Rightarrow> agent_key \<Rightarrow> (agent_key \<rightharpoonup> byte) \<times> agent_key list \<Rightarrow>
   (agent_key \<rightharpoonup> byte) \<times> agent_key list" where
  "count_missing seen key st =
    (let (missing, to_drop) = st in
     if key \<in> seen then st
     else case missing key of
       Some count \<Rightarrow>
         let count' = saturating_inc count in
         (missing(key \<mapsto> count'),
          if PASSIVE_MISSING_GRACE_POLLS \<le> count' then to_drop @ [key] else to_drop)
     | None \<Rightarrow> (missing(key \<mapsto> 1), to_drop))"

definition drop_agent :: "agent_key \<Rightarrow> bridge_daemon \<Rightarrow> bridge_daemon" where
  "drop_agent key d =
    d\<lparr>bd_registered := AList.delete key (bd_registered d),
      bd_pending := filter (\<lambda>k. k \<noteq> key) (bd_pending d),
      bd_missing := (bd_missing d)(key := None)\<rparr>"

definition prune_missing_passive_sessions ::
  "agent_session list \<Rightarrow> bridge_daemon \<Rightarrow> bridge_daemon \<times> agent_key list" where
  "prune_missing_passive_sessions latest d =
    (let seen = set (map session_key latest);
         d1 = d\<lparr>bd_missing := (\<lambda>k. if k \<in> seen then None else bd_missing d k)\<rparr>;
         candidates = map fst (filter (\<lambda>(k, a). prune_candidate a) (bd_registered d1));
         (missing, to_drop) = fold (count_missing seen) candidates (bd_missing d1, [])
     in (fold drop_agent to_drop (d1\<lparr>bd_missing := missing\<rparr>), to_drop))"

definition register_discovered :: "agent_session \<Rightarrow> bridge_daemon \<times> nat \<Rightarrow> bridge_daemon \<times> nat" where
  "register_discovered session st =
    (let (d, newly) = st; key = session_key session in
     if get_agent d key \<noteq> None then (d\<lparr>bd_missing := (bd_missing d)(key := None)\<rparr>, newly)
     else
       let agent = from_session session;
           d1 = push_activity (seen_activity agent (as_transcript_path session)) d;
           d2 = enqueue_board_session_request agent d1
       in (d2\<lparr>bd_missing := (bd_missing d2)(key := None),
             bd_registered := AList.update key agent (bd_registered d2)\<rparr>, Suc newly))"

definition register_discovered_sessions :: "agent_session list \<Rightarrow> bridge_daemon \<Rightarrow> bridge_daemon \<times> nat" where
  "register_discovered_sessions sessions d = fold register_discovered sessions (d, 0)"

definition drain_board_outbox :: "bridge_daemon \<Rightarrow> bridge_daemon \<times> hid_message list" where
  "drain_board_outbox d = (d\<lparr>bd_outbox := []\<rparr>, bd_outbox d)"

section \<open>Messages from the board\<close>

definition cmd_debug :: "cmd \<Rightarrow> string" where
  "cmd_debug c = (case c of
      RequestSession \<Rightarrow> ''RequestSession'' | SessionResponse \<Rightarrow> ''SessionResponse''
    | SessionInvalid \<Rightarrow> ''SessionInvalid'' | SessionHeartbeat \<Rightarrow> ''SessionHeartbeat''
    | SessionFocus \<Rightarrow> ''SessionFocus'' | KeyEvent \<Rightarrow> ''KeyEvent'' | EncoderEvent \<Rightarrow> ''EncoderEvent''
    | PermissionRes \<Rightarrow> ''PermissionRes'' | AbortSession \<Rightarrow> ''AbortSession'' | SendKey \<Rightarrow> ''SendKey''
    | Vt100Stream \<Rightarrow> ''Vt100Stream'' | UiScaleChange \<Rightarrow> ''UiScaleChange''
    | StatusUpdate \<Rightarrow> ''StatusUpdate'' | TokenUsage \<Rightarrow> ''TokenUsage'' | TurnAppend \<Rightarrow> ''TurnAppend''
    | PermissionReq \<Rightarrow> ''PermissionReq'' | AgentMeta \<Rightarrow> ''AgentMeta''
    | FeedbackEvent \<Rightarrow> ''FeedbackEvent'' | ErrorCmd \<Rightarrow> ''Error'')"

definition stale_keys :: "board_sid \<Rightarrow> agent_key option \<Rightarrow> bridge_daemon \<Rightarrow> agent_key list" where
  "stale_keys sid keep d =
    map fst (filter (\<lambda>(k, a). ra_board_sid a = Some sid \<and> keep \<noteq> Some k) (bd_registered d))"

definition detach :: "agent_key \<Rightarrow> bridge_daemon \<Rightarrow> bridge_daemon" where
  "detach key d = update_agent key (\<lambda>a. a\<lparr>ra_board_sid := None\<rparr>) d"

definition clear_board_sid_owners ::
  "board_sid \<Rightarrow> agent_key option \<Rightarrow> bridge_daemon \<Rightarrow> bridge_daemon \<times> nat" where
  "clear_board_sid_owners sid keep d =
    (let stale = stale_keys sid keep d;
         d1 = fold detach stale d
     in (if keep = None \<and> bd_focused d1 = Some sid then d1\<lparr>bd_focused := None\<rparr> else d1, length stale))"

definition first_byte :: "bytes \<Rightarrow> byte \<Rightarrow> byte" where
  "first_byte payload d = (case payload of [] \<Rightarrow> d | b # _ \<Rightarrow> b)"

definition handle_session_response :: "16 word \<Rightarrow> bytes \<Rightarrow> bridge_daemon \<Rightarrow> bridge_daemon \<times> unit result" where
  "handle_session_response sid payload d =
    (if sid = 0 then (d, Inl ''SESSION_RESPONSE with sid=0'')
     else
       let status = first_byte payload (session_status_u8 SsbOk) in
       if status \<noteq> session_status_u8 SsbOk \<and> status \<noteq> session_status_u8 SsbCreated
       then (d, Inl (''SESSION_RESPONSE failed status=0x'' @ show_hex2 status))
       else
         (case bd_pending d of
            [] \<Rightarrow> (d, Inl ''SESSION_RESPONSE without pending agent'')
          | key # rest \<Rightarrow>
            let d1 = d\<lparr>bd_pending := rest\<rparr>;
                board_sid = BoardSid sid;
                old_sid = Option.bind (get_agent d1 key) ra_board_sid;
                (d2, _) = clear_board_sid_owners board_sid (Some key) d1
            in (case get_agent d2 key of
                  None \<Rightarrow> (d2, Inl ''pending agent disappeared before SESSION_RESPONSE'')
                | Some a \<Rightarrow>
                  let a' = a\<lparr>ra_board_sid := Some board_sid\<rparr>;
                      d3 = update_agent key (\<lambda>_. a') d2;
                      d4 = (if old_sid \<noteq> None \<and> bd_focused d3 = old_sid
                            then d3\<lparr>bd_focused := Some board_sid\<rparr> else d3)
                  in (push_outbox (board_sync_messages a') d4, Inr ()))))"

definition handle_session_invalid :: "16 word \<Rightarrow> bytes \<Rightarrow> bridge_daemon \<Rightarrow> bridge_daemon \<times> unit result" where
  "handle_session_invalid sid payload d =
    (if sid = sid_raw sid_broadcast then (d, Inr ())
     else (fst (clear_board_sid_owners (BoardSid sid) None d), Inr ()))"

definition owner_of :: "board_sid \<Rightarrow> bridge_daemon \<Rightarrow> agent_key option" where
  "owner_of sid d =
    map_option fst (find (\<lambda>(k, a). ra_board_sid a = Some sid) (bd_registered d))"

definition terminal_replay_message_for_key :: "bridge_daemon \<Rightarrow> agent_key \<Rightarrow> hid_message option" where
  "terminal_replay_message_for_key d key =
    Option.bind (get_agent d key) terminal_replay_message_for_agent"

definition focus_board_sid :: "16 word \<Rightarrow> bridge_daemon \<Rightarrow> bridge_daemon" where
  "focus_board_sid sid d =
    (if sid = 0 then d
     else
       let board_sid = BoardSid sid; d1 = d\<lparr>bd_focused := Some board_sid\<rparr> in
       case owner_of board_sid d1 of
         None \<Rightarrow> d1
       | Some key \<Rightarrow> push_outbox (option_list (terminal_replay_message_for_key d1 key)) d1)"

definition handle_permission_response :: "16 word \<Rightarrow> bytes \<Rightarrow> bridge_daemon \<Rightarrow> bridge_daemon \<times> unit result" where
  "handle_permission_response sid payload d =
    (if sid = 0 then (d, Inl ''PERMISSION_RES with sid=0'')
     else case decode_permission_response payload of
       None \<Rightarrow> (d, Inl ''invalid PERMISSION_RES payload'')
     | Some (req_id, decision_byte) \<Rightarrow>
       (case owner_of (BoardSid sid) d of
          None \<Rightarrow> (d, Inl (''PERMISSION_RES for unknown sid='' @ show_nat (unat sid)))
        | Some key \<Rightarrow>
          (update_agent key (\<lambda>a. a\<lparr>ra_pending := drop_request req_id (ra_pending a),
             ra_resolved := (ra_resolved a)(req_id \<mapsto> permission_decision_from_byte decision_byte)\<rparr>) d,
           Inr ())))"

definition handle_board_message :: "hid_message \<Rightarrow> bridge_daemon \<Rightarrow> bridge_daemon \<times> unit result" where
  "handle_board_message msg d =
    (case hm_cmd msg of
       SessionResponse \<Rightarrow> handle_session_response (hm_sid msg) (hm_payload msg) d
     | SessionFocus \<Rightarrow> (focus_board_sid (hm_sid msg) d, Inr ())
     | PermissionRes \<Rightarrow> handle_permission_response (hm_sid msg) (hm_payload msg) d
     | SessionInvalid \<Rightarrow> handle_session_invalid (hm_sid msg) (hm_payload msg) d
     | EncoderEvent \<Rightarrow> (d, Inr ())
     | KeyEvent \<Rightarrow> (d, Inr ())
     | c \<Rightarrow> (d, Inl (''unsupported board message for daemon binding: '' @ cmd_debug c)))"

section \<open>The threads of the HID daemon\<close>

text \<open>The heartbeat thread: one broadcast, and one message per bound agent.\<close>

definition heartbeat_message :: "board_sid \<Rightarrow> hid_message" where
  "heartbeat_message sid = \<lparr>hm_cmd = SessionHeartbeat, hm_sid = sid_raw sid, hm_payload = []\<rparr>"

definition heartbeat_tick :: "bridge_daemon \<Rightarrow> bridge_daemon" where
  "heartbeat_tick d =
    push_outbox (heartbeat_message sid_broadcast #
      concat (map (\<lambda>(_, a). option_list (map_option heartbeat_message (ra_board_sid a)))
        (bd_registered d))) d"

text \<open>One round of the passive discovery thread, under the lock.\<close>

definition discovery_round :: "poll_snapshot \<Rightarrow> bridge_daemon \<Rightarrow> bridge_daemon" where
  "discovery_round p d =
    (let (d1, _) = register_discovered_sessions (ps_sessions p) d;
         (d2, _) = ingest_discovered_turns (ps_turns p) d1
     in fst (prune_missing_passive_sessions (ps_sessions p) d2))"

definition env_flag_enabled :: "string option \<Rightarrow> bool" where
  "env_flag_enabled value =
    (case value of None \<Rightarrow> False
     | Some v \<Rightarrow> to_ascii_lowercase (trim v) \<in> {''1'', ''true'', ''yes'', ''on''})"

end
