(* ===== verification/Daemon_Invariant.thy ===== *)
theory Daemon_Invariant
  imports Bridge_Daemon "HOL-Library.Multiset"
begin

text \<open>
  The daemon as a state machine: the steps its threads take under the lock, the reachable
  states, and the invariant every one of them satisfies.
\<close>

declare split_paired_All [simp del] split_paired_Ex [simp del]

section \<open>Steps\<close>

text \<open>
  Every locked section of \<open>crates/vb-daemon/src/lib.rs\<close> is a step. Sending empties the outbox
  from the front, up to some message. The iteration order of the hash map may change at any
  time.
\<close>

inductive daemon_step :: "bridge_daemon \<Rightarrow> bridge_daemon \<Rightarrow> bool" where
  step_line: "daemon_step d (fst (handle_json_line rd polled line d))"
| step_board: "daemon_step d (fst (handle_board_message msg d))"
| step_discovery: "daemon_step d (discovery_round p d)"
| step_heartbeat: "daemon_step d (heartbeat_tick d)"
| step_flush: "daemon_step d (d\<lparr>bd_outbox := drop n (bd_outbox d)\<rparr>)"
| step_rehash: "mset r = mset (bd_registered d) \<Longrightarrow> daemon_step d (d\<lparr>bd_registered := r\<rparr>)"

inductive_cases daemon_step_cases: "daemon_step d d'"

inductive reachable :: "bridge_daemon \<Rightarrow> bool" where
  reach_init: "reachable bridge_daemon_new"
| reach_step: "reachable d \<Longrightarrow> daemon_step d d' \<Longrightarrow> reachable d'"

section \<open>The invariant\<close>

definition agent_ok :: "registered_agent \<Rightarrow> bool" where
  "agent_ok a \<longleftrightarrow> buffer_ok a \<and> turns_ok a \<and> ra_board_sid a \<noteq> Some sid_broadcast \<and>
    (\<forall>p \<in> set (ra_pending a). ra_resolved a (pr_req_id p) = None)"

definition registry_ok :: "bridge_daemon \<Rightarrow> bool" where
  "registry_ok d \<longleftrightarrow> distinct (map fst (bd_registered d)) \<and>
    (\<forall>k a. get_agent d k = Some a \<longrightarrow> ra_key a = k \<and> agent_ok a)"

definition sids_unique :: "bridge_daemon \<Rightarrow> bool" where
  "sids_unique d \<longleftrightarrow> (\<forall>k k' a a' s. get_agent d k = Some a \<longrightarrow> get_agent d k' = Some a' \<longrightarrow>
     ra_board_sid a = Some s \<longrightarrow> ra_board_sid a' = Some s \<longrightarrow> k = k')"

definition pending_ok :: "bridge_daemon \<Rightarrow> bool" where
  "pending_ok d \<longleftrightarrow> distinct (bd_pending d) \<and>
    (\<forall>k \<in> set (bd_pending d). \<exists>a. get_agent d k = Some a \<and> ra_board_sid a = None)"

definition missing_ok :: "bridge_daemon \<Rightarrow> bool" where
  "missing_ok d \<longleftrightarrow> (\<forall>k c. bd_missing d k = Some c \<longrightarrow> c = 1 \<or> c = 2)"

definition outbox_ok :: "bridge_daemon \<Rightarrow> bool" where
  "outbox_ok d \<longleftrightarrow> (\<forall>m \<in> set (bd_outbox d). hm_cmd m = Vt100Stream \<or> one_report m)"

definition daemon_ok :: "bridge_daemon \<Rightarrow> bool" where
  "daemon_ok d \<longleftrightarrow> registry_ok d \<and> sids_unique d \<and> pending_ok d \<and> missing_ok d \<and> outbox_ok d \<and>
    bd_focused d \<noteq> Some sid_broadcast"

lemmas daemon_ok_defs =
  daemon_ok_def registry_ok_def sids_unique_def pending_ok_def missing_ok_def outbox_ok_def

section \<open>Lookups after an operation\<close>

lemma get_agent_simps [simp]:
  "get_agent (d\<lparr>bd_activities := acts\<rparr>) k = get_agent d k"
  "get_agent (d\<lparr>bd_pending := ps\<rparr>) k = get_agent d k"
  "get_agent (d\<lparr>bd_missing := mis\<rparr>) k = get_agent d k"
  "get_agent (d\<lparr>bd_outbox := out\<rparr>) k = get_agent d k"
  "get_agent (d\<lparr>bd_focused := foc\<rparr>) k = get_agent d k"
  "get_agent (d\<lparr>bd_registered := AList.update key a (bd_registered d)\<rparr>) k =
     (if k = key then Some a else get_agent d k)"
  "get_agent (d\<lparr>bd_registered := AList.delete key (bd_registered d)\<rparr>) k =
     (if k = key then None else get_agent d k)"
  "get_agent (update_agent key f d) k = (if k = key then map_option f (get_agent d k) else get_agent d k)"
  "get_agent (push_outbox ms d) k = get_agent d k"
  "get_agent (push_activity ev d) k = get_agent d k"
  by (auto simp: get_agent_def update_agent_def push_outbox_def push_activity_def alist_simps)

lemma push_outbox_fields [simp]:
  "bd_registered (push_outbox ms d) = bd_registered d" "bd_pending (push_outbox ms d) = bd_pending d"
  "bd_missing (push_outbox ms d) = bd_missing d" "bd_focused (push_outbox ms d) = bd_focused d"
  "bd_outbox (push_outbox ms d) = bd_outbox d @ ms" "bd_activities (push_outbox ms d) = bd_activities d"
  by (simp_all add: push_outbox_def)

lemma push_activity_fields [simp]:
  "bd_registered (push_activity ev d) = bd_registered d" "bd_pending (push_activity ev d) = bd_pending d"
  "bd_missing (push_activity ev d) = bd_missing d" "bd_focused (push_activity ev d) = bd_focused d"
  "bd_outbox (push_activity ev d) = bd_outbox d"
  by (simp_all add: push_activity_def)

lemma update_agent_fields [simp]:
  "map fst (bd_registered (update_agent key f d)) = map fst (bd_registered d)"
  "bd_pending (update_agent key f d) = bd_pending d" "bd_missing (update_agent key f d) = bd_missing d"
  "bd_focused (update_agent key f d) = bd_focused d" "bd_outbox (update_agent key f d) = bd_outbox d"
  by (simp_all add: update_agent_def)

lemma in_registered:
  "distinct (map fst (bd_registered d)) \<Longrightarrow> (k, a) \<in> set (bd_registered d) \<longleftrightarrow> get_agent d k = Some a"
  by (simp add: get_agent_def)

section \<open>Preservation by the building blocks\<close>

lemma daemon_ok_push_activity [simp]: "daemon_ok (push_activity ev d) = daemon_ok d"
  by (simp add: daemon_ok_defs)

lemma daemon_ok_activities [simp]: "daemon_ok (d\<lparr>bd_activities := acts\<rparr>) = daemon_ok d"
  by (simp add: daemon_ok_defs)

lemma daemon_ok_push_outbox:
  assumes "daemon_ok d" and "\<And>m. m \<in> set ms \<Longrightarrow> hm_cmd m = Vt100Stream \<or> one_report m"
  shows "daemon_ok (push_outbox ms d)"
  using assms by (auto simp: daemon_ok_defs)

lemma sids_uniqueD:
  "sids_unique d \<Longrightarrow> get_agent d k = Some a \<Longrightarrow> ra_board_sid a = Some s \<Longrightarrow>
   get_agent d k' = Some a' \<Longrightarrow> ra_board_sid a' = Some s \<Longrightarrow> k = k'"
  unfolding sids_unique_def by blast

lemma daemon_ok_pending:
  assumes "daemon_ok d" and "distinct ps"
    and "\<And>k. k \<in> set ps \<Longrightarrow> \<exists>a. get_agent d k = Some a \<and> ra_board_sid a = None"
  shows "daemon_ok (d\<lparr>bd_pending := ps\<rparr>)"
  using assms by (simp add: daemon_ok_defs)

lemma daemon_ok_missing:
  assumes "daemon_ok d" and "\<And>k c. missing k = Some c \<Longrightarrow> c = 1 \<or> c = 2"
  shows "daemon_ok (d\<lparr>bd_missing := missing\<rparr>)"
  using assms by (simp add: daemon_ok_defs)

lemma daemon_ok_focused:
  "daemon_ok d \<Longrightarrow> foc \<noteq> Some sid_broadcast \<Longrightarrow> daemon_ok (d\<lparr>bd_focused := foc\<rparr>)"
  by (simp add: daemon_ok_defs)

lemma daemon_ok_update_agent:
  assumes "daemon_ok d"
    and "\<And>a. get_agent d key = Some a \<Longrightarrow> agent_ok a \<Longrightarrow> agent_ok (f a) \<and> ra_key (f a) = ra_key a \<and>
      (ra_board_sid (f a) = ra_board_sid a \<or> ra_board_sid (f a) = None)"
  shows "daemon_ok (update_agent key f d)"
proof -
  have reg: "registry_ok (update_agent key f d)"
    using assms by (auto simp: daemon_ok_def registry_ok_def)
  have sid: "\<exists>b. get_agent d k = Some b \<and> (ra_board_sid a = ra_board_sid b \<or> ra_board_sid a = None)"
    if g: "get_agent (update_agent key f d) k = Some a" for k a
  proof (cases "k = key")
    case True
    then obtain b where "get_agent d key = Some b" "a = f b" using g by auto
    then show ?thesis using assms True by (auto simp: daemon_ok_def registry_ok_def)
  qed (use g in auto)
  have "sids_unique (update_agent key f d)"
    unfolding sids_unique_def
  proof (intro allI impI)
    fix k k' a a' s
    assume "get_agent (update_agent key f d) k = Some a" "get_agent (update_agent key f d) k' = Some a'"
      "ra_board_sid a = Some s" "ra_board_sid a' = Some s"
    moreover obtain b b' where "get_agent d k = Some b" "ra_board_sid b = Some s"
      "get_agent d k' = Some b'" "ra_board_sid b' = Some s"
      using sid[of k a] sid[of k' a'] calculation by auto
    ultimately show "k = k'" using sids_uniqueD assms(1) by (metis daemon_ok_def)
  qed
  moreover have "pending_ok (update_agent key f d)"
    unfolding pending_ok_def
  proof (intro conjI ballI)
    show "distinct (bd_pending (update_agent key f d))"
      using assms(1) by (simp add: daemon_ok_def pending_ok_def)
    fix k assume "k \<in> set (bd_pending (update_agent key f d))"
    then obtain a where "get_agent d k = Some a" "ra_board_sid a = None" "agent_ok a"
      using assms(1) by (auto simp: daemon_ok_defs)
    then show "\<exists>a. get_agent (update_agent key f d) k = Some a \<and> ra_board_sid a = None"
      using assms(2)[of a] by (cases "k = key") auto
  qed
  ultimately show ?thesis
    using reg assms(1) by (simp add: daemon_ok_def missing_ok_def outbox_ok_def)
qed

lemma daemon_ok_set_agent:
  assumes "daemon_ok d" and "get_agent d key = Some a" and "agent_ok a'" and "ra_key a' = key"
    and "ra_board_sid a' = ra_board_sid a"
  shows "daemon_ok (update_agent key (\<lambda>_. a') d)"
  using assms by (intro daemon_ok_update_agent) (auto simp: daemon_ok_def registry_ok_def)

lemma daemon_ok_agent:
  "daemon_ok d \<Longrightarrow> get_agent d k = Some a \<Longrightarrow> ra_key a = k \<and> agent_ok a"
  by (simp add: daemon_ok_def registry_ok_def)

lemma session_hint_fits: "length (session_hint a) \<le> 24"
  by (simp add: session_hint_def PLUGIN_HINT_MAX_def)

text \<open>Requesting a session and storing the unbound agent it is for.\<close>

lemma daemon_ok_insert:
  assumes "daemon_ok d" and "agent_ok a" and "ra_key a = key"
    and "case get_agent d key of None \<Rightarrow> ra_board_sid a = None
         | Some b \<Rightarrow> ra_board_sid a = ra_board_sid b"
  shows "daemon_ok (d\<lparr>bd_registered := AList.update key a (bd_registered d)\<rparr>)"
proof -
  let ?d = "d\<lparr>bd_registered := AList.update key a (bd_registered d)\<rparr>"
  have "registry_ok ?d" using assms by (simp add: daemon_ok_def registry_ok_def distinct_update)
  moreover have "sids_unique ?d"
    unfolding sids_unique_def
  proof (intro allI impI)
    fix k k' b b' s
    assume g: "get_agent ?d k = Some b" "get_agent ?d k' = Some b'"
      "ra_board_sid b = Some s" "ra_board_sid b' = Some s"
    have old: "\<exists>c. get_agent d i = Some c \<and> ra_board_sid c = Some s"
      if "get_agent ?d i = Some e" "ra_board_sid e = Some s" for i e
      using that assms(4) by (auto split: if_splits option.splits)
    obtain c c' where "get_agent d k = Some c" "ra_board_sid c = Some s"
      "get_agent d k' = Some c'" "ra_board_sid c' = Some s"
      using old[OF g(1,3)] old[OF g(2,4)] by blast
    then show "k = k'" using sids_uniqueD assms(1) by (metis daemon_ok_def)
  qed
  moreover have "pending_ok ?d"
    using assms by (auto simp: daemon_ok_def pending_ok_def split: option.splits)
  ultimately show ?thesis using assms(1) by (simp add: daemon_ok_def missing_ok_def outbox_ok_def)
qed

lemma daemon_ok_enqueue_insert:
  assumes "daemon_ok d" and "agent_ok a" and "ra_key a = key" and "ra_board_sid a = None"
    and "case get_agent d key of None \<Rightarrow> True | Some b \<Rightarrow> ra_board_sid b = None"
  shows "daemon_ok ((enqueue_board_session_request a d)\<lparr>bd_registered :=
    AList.update key a (bd_registered (enqueue_board_session_request a d))\<rparr>)"
proof -
  let ?i = "\<lambda>d. d\<lparr>bd_registered := AList.update key a (bd_registered d)\<rparr>"
  have i: "daemon_ok (?i d)"
    using assms by (intro daemon_ok_insert) (auto split: option.splits)
  show ?thesis
  proof (cases "key \<in> set (bd_pending d)")
    case False
    have "?i (enqueue_board_session_request a d) =
      push_outbox [\<lparr>hm_cmd = RequestSession, hm_sid = sid_raw sid_broadcast, hm_payload = session_hint a\<rparr>]
        ((?i d)\<lparr>bd_pending := bd_pending d @ [key]\<rparr>)"
      using False assms(3) by (simp add: enqueue_board_session_request_def push_outbox_def)
    moreover have "daemon_ok ((?i d)\<lparr>bd_pending := bd_pending d @ [key]\<rparr>)"
    proof (rule daemon_ok_pending[OF i])
      show "distinct (bd_pending d @ [key])" using False assms(1) by (simp add: daemon_ok_defs)
      show "\<exists>b. get_agent (?i d) k = Some b \<and> ra_board_sid b = None"
        if "k \<in> set (bd_pending d @ [key])" for k
        using that assms(1,4) by (auto simp: daemon_ok_def pending_ok_def)
    qed
    ultimately show ?thesis
      using session_hint_fits[of a] by (auto intro!: daemon_ok_push_outbox simp: one_report_def)
  qed (use i assms(3) in \<open>simp add: enqueue_board_session_request_def\<close>)
qed

lemma daemon_ok_delete:
  assumes "daemon_ok d"
  shows "daemon_ok (d\<lparr>bd_registered := AList.delete key (bd_registered d),
    bd_pending := filter (\<lambda>k. k \<noteq> key) (bd_pending d)\<rparr>)"
proof -
  have "get_agent (d\<lparr>bd_registered := AList.delete key (bd_registered d),
      bd_pending := filter (\<lambda>k. k \<noteq> key) (bd_pending d)\<rparr>) k = (if k = key then None else get_agent d k)" for k
    by (simp add: get_agent_def alist_simps)
  then show ?thesis
    using assms by (auto simp: daemon_ok_defs distinct_delete split: if_splits)
qed

section \<open>Preservation by the JSON requests\<close>

lemma agent_message_small:
  "status_message_for_agent a = Some m \<Longrightarrow> one_report m"
  "token_message_for_agent a = Some m \<Longrightarrow> one_report m"
  "permission_message_for_agent a p = Some m \<Longrightarrow> one_report m"
  using encode_token_usage_fits encode_permission_request_fits
  by (auto simp: agent_message_defs sid_message_Some one_report_def split: if_splits)

lemma replay_is_vt100: "terminal_replay_message_for_agent a = Some m \<Longrightarrow> hm_cmd m = Vt100Stream"
  by (auto simp: terminal_replay_message_for_agent_def Let_def split: option.splits if_splits)

lemma daemon_ok_passive_replay: "daemon_ok d \<Longrightarrow> daemon_ok (passive_replay a d)"
  by (auto simp: passive_replay_def intro!: daemon_ok_push_outbox dest: replay_is_vt100)

lemma agent_ok_updates:
  "agent_ok a \<Longrightarrow> agent_ok (a\<lparr>ra_status := st\<rparr>)"
  "agent_ok a \<Longrightarrow> agent_ok (a\<lparr>ra_usage := us\<rparr>)"
  "agent_ok a \<Longrightarrow> agent_ok (push_turn t a)"
  "agent_ok a \<Longrightarrow> agent_ok (append_terminal_bytes bs a)"
  "agent_ok a \<Longrightarrow> agent_ok (a\<lparr>ra_pending := drop_request r (ra_pending a)\<rparr>)"
  "agent_ok a \<Longrightarrow> agent_ok (a\<lparr>ra_resolved := (ra_resolved a)(r := None)\<rparr>)"
  "agent_ok a \<Longrightarrow> agent_ok (a\<lparr>ra_board_sid := None\<rparr>)"
  "agent_ok a \<Longrightarrow> agent_ok (a\<lparr>ra_pending := drop_request r (ra_pending a),
     ra_resolved := (ra_resolved a)(r \<mapsto> dec)\<rparr>)"
  "agent_ok a \<Longrightarrow> agent_ok (a\<lparr>ra_resolved := (ra_resolved a)(pr_req_id e := None),
     ra_pending := ra_pending a @ [e]\<rparr>)"
  using vt.inv_add[of a bs] turns.inv_add[of a t]
  by (auto simp: agent_ok_def buffer_ok_def turns_ok_def drop_request_def)

lemma ra_key_updates [simp]:
  "ra_key (a\<lparr>ra_status := st\<rparr>) = ra_key a" "ra_key (a\<lparr>ra_usage := us\<rparr>) = ra_key a"
  "ra_key (push_turn t a) = ra_key a" "ra_key (append_terminal_bytes bs a) = ra_key a"
  "ra_key (a\<lparr>ra_pending := ps\<rparr>) = ra_key a" "ra_key (a\<lparr>ra_resolved := rs\<rparr>) = ra_key a"
  "ra_key (a\<lparr>ra_board_sid := sid\<rparr>) = ra_key a"
  by (simp_all add: ra_key_def)

lemma agent_ok_carry_over:
  assumes "agent_ok existing" and "agent_ok fresh"
  shows "agent_ok (carry_over existing fresh)"
  using assms by (simp add: agent_ok_def carry_over_def buffer_ok_def turns_ok_def)

lemma carry_over_fields [simp]:
  "ra_key (carry_over existing fresh) = ra_key fresh"
  "ra_board_sid (carry_over existing fresh) = ra_board_sid existing"
  by (simp_all add: carry_over_def ra_key_def)

lemma fresh_agent_ok: "into_registered_agent p = Inr a \<Longrightarrow> agent_ok a"
  using into_registered_agent_Inr[of p a] by (simp add: agent_ok_def)

text \<open>
  A registration in normal form: the stored agent, and a session request when it is neither
  bound nor a terminal that only transports. The branch that would synchronise a bound agent
  again is never taken.
\<close>

definition stored_agent :: "bridge_daemon \<Rightarrow> registered_agent \<Rightarrow> registered_agent" where
  "stored_agent d fresh = (case get_agent d (ra_key fresh) of
     None \<Rightarrow> fresh | Some existing \<Rightarrow> carry_over existing fresh)"

definition store :: "registered_agent \<Rightarrow> bridge_daemon \<Rightarrow> bridge_daemon" where
  "store a d = d\<lparr>bd_registered := AList.update (ra_key a) a (bd_registered d)\<rparr>"

lemma ra_key_stored [simp]: "ra_key (stored_agent d fresh) = ra_key fresh"
  by (simp add: stored_agent_def split: option.split)

lemma handle_register_Inr:
  fixes d :: bridge_daemon
  assumes "into_registered_agent p = Inr fresh"
  defines "a \<equiv> stored_agent d fresh"
  defines "d1 \<equiv> push_activity (seen_activity a []) d"
  shows "handle_register (Some p) d =
    (store a (if ra_board_sid a = None \<and> \<not> is_transport_only_terminal a
              then enqueue_board_session_request a d1 else d1),
     Inr (ok_response ''agent.registered'' []))"
proof (cases "get_agent d (ra_key fresh)")
  case None
  then show ?thesis using into_registered_agent_Inr(4)[OF assms(1)]
    by (simp add: handle_register_def assms(1) a_def d1_def stored_agent_def store_def Let_def)
next
  case (Some existing)
  then show ?thesis
    by (simp add: handle_register_def assms(1) a_def d1_def stored_agent_def store_def Let_def)
qed

lemma ok_register:
  assumes d: "daemon_ok d"
  shows "daemon_ok (fst (handle_register payload d))"
proof (cases payload)
  case (Some p)
  show ?thesis
  proof (cases "into_registered_agent p")
    case (Inr fresh)
    let ?a = "stored_agent d fresh"
    have a: "agent_ok ?a" "case get_agent d (ra_key fresh) of
        None \<Rightarrow> ra_board_sid ?a = None | Some b \<Rightarrow> ra_board_sid ?a = ra_board_sid b"
      using fresh_agent_ok[OF Inr] into_registered_agent_Inr(4)[OF Inr]
      by (auto simp: stored_agent_def intro: agent_ok_carry_over dest: daemon_ok_agent[OF d]
          split: option.split)
    have "daemon_ok (store ?a (push_activity (seen_activity ?a []) d))"
      unfolding store_def by (rule daemon_ok_insert) (use a d in simp_all)
    moreover have "daemon_ok (store ?a (enqueue_board_session_request ?a (push_activity (seen_activity ?a []) d)))"
      if "ra_board_sid ?a = None"
      unfolding store_def
      by (rule daemon_ok_enqueue_insert) (use a d that in \<open>auto split: option.splits\<close>)
    ultimately show ?thesis by (simp add: Some handle_register_Inr[OF Inr])
  qed (use Some d in \<open>simp add: handle_register_def\<close>)
qed (use d in \<open>simp add: handle_register_def\<close>)

lemma ok_activity: "daemon_ok d \<Longrightarrow> daemon_ok (fst (handle_activity payload d))"
  by (auto simp: handle_activity_def Let_def split: option.split sum.split
      dest: daemon_ok_agent agent_message_small
      intro!: daemon_ok_push_outbox daemon_ok_set_agent agent_ok_updates)

lemma ok_snapshot: "daemon_ok d \<Longrightarrow> daemon_ok (fst (handle_snapshot polled d))"
  by (auto simp: handle_snapshot_def poll_once_def Let_def split: sum.split)

lemma ok_token: "daemon_ok d \<Longrightarrow> daemon_ok (fst (handle_token payload d))"
  by (auto simp: handle_token_def Let_def split: option.split sum.split
      dest: daemon_ok_agent agent_message_small
      intro!: daemon_ok_push_outbox daemon_ok_set_agent agent_ok_updates)

lemma ok_turn: "daemon_ok d \<Longrightarrow> daemon_ok (fst (handle_turn payload d))"
  by (auto simp: handle_turn_def Let_def split: option.split sum.split dest: daemon_ok_agent
      intro!: daemon_ok_passive_replay daemon_ok_set_agent agent_ok_updates)

lemma agent_ok_new_request:
  "agent_ok a \<Longrightarrow> agent_ok (a\<lparr>ra_resolved := (ra_resolved a)(r := None),
     ra_pending := ra_pending a @ [\<lparr>pr_req_id = r, pr_sid = s, pr_tool = t, pr_args_summary = g\<rparr>]\<rparr>)"
  using agent_ok_updates(9)[of a "\<lparr>pr_req_id = r, pr_sid = s, pr_tool = t, pr_args_summary = g\<rparr>"] by simp

lemma ok_permission_request: "daemon_ok d \<Longrightarrow> daemon_ok (fst (handle_permission_request payload d))"
  by (auto simp: handle_permission_request_def Let_def split: option.split sum.split
      dest: daemon_ok_agent agent_message_small
      intro!: daemon_ok_passive_replay daemon_ok_push_outbox daemon_ok_set_agent agent_ok_new_request)

lemma ok_permission_resolve: "daemon_ok d \<Longrightarrow> daemon_ok (fst (handle_permission_resolve payload d))"
  by (auto simp: handle_permission_resolve_def Let_def split: option.split sum.split
      dest: daemon_ok_agent intro!: daemon_ok_set_agent agent_ok_updates)

lemma ok_permission_poll: "daemon_ok d \<Longrightarrow> daemon_ok (fst (handle_permission_poll payload d))"
  by (auto simp: handle_permission_poll_def Let_def split: option.split sum.split
      dest: daemon_ok_agent intro!: daemon_ok_set_agent agent_ok_updates)

lemma ok_mirror: "daemon_ok d \<Longrightarrow> daemon_ok (mirror_stream bs key d)"
  by (auto simp: mirror_stream_def Let_def split: option.split
      dest: daemon_ok_agent intro!: daemon_ok_push_outbox daemon_ok_set_agent agent_ok_updates)

lemma ok_fold: "(\<And>x d. daemon_ok d \<Longrightarrow> daemon_ok (f x d)) \<Longrightarrow> daemon_ok d \<Longrightarrow> daemon_ok (fold f xs d)"
  by (induction xs arbitrary: d) auto

lemma ok_stream: "daemon_ok d \<Longrightarrow> daemon_ok (fst (handle_stream payload d))"
  by (auto simp: handle_stream_def Let_def split: option.split sum.split intro!: ok_fold ok_mirror)

lemma ok_abort: "daemon_ok d \<Longrightarrow> daemon_ok (fst (handle_abort payload d))"
  by (auto simp: handle_abort_def Let_def split: option.split sum.split intro!: daemon_ok_delete)

lemmas request_oks = ok_register ok_activity ok_snapshot ok_token ok_turn ok_permission_request
  ok_permission_resolve ok_permission_poll ok_stream ok_abort

lemma ok_request: "daemon_ok d \<Longrightarrow> daemon_ok (fst (handle_request polled req d))"
  by (simp add: handle_request_def request_oks)

lemma ok_line: "daemon_ok d \<Longrightarrow> daemon_ok (fst (handle_json_line rd polled line d))"
  by (simp add: handle_json_line_def ok_request split: sum.split)

section \<open>Preservation by the board messages\<close>

lemma get_agent_detach [simp]:
  "get_agent (detach key d) k =
     (if k = key then map_option (\<lambda>a. a\<lparr>ra_board_sid := None\<rparr>) (get_agent d k) else get_agent d k)"
  by (simp add: detach_def)

lemma detach_fields [simp]:
  "bd_pending (detach key d) = bd_pending d" "bd_missing (detach key d) = bd_missing d"
  "bd_focused (detach key d) = bd_focused d" "bd_outbox (detach key d) = bd_outbox d"
  "map fst (bd_registered (detach key d)) = map fst (bd_registered d)"
  by (simp_all add: detach_def)

lemma fold_detach_fields [simp]:
  "bd_pending (fold detach ks d) = bd_pending d" "bd_missing (fold detach ks d) = bd_missing d"
  "bd_focused (fold detach ks d) = bd_focused d" "bd_outbox (fold detach ks d) = bd_outbox d"
  "map fst (bd_registered (fold detach ks d)) = map fst (bd_registered d)"
  by (induction ks arbitrary: d) simp_all

lemma get_agent_fold_detach:
  "get_agent (fold detach ks d) k =
     (if k \<in> set ks then map_option (\<lambda>a. a\<lparr>ra_board_sid := None\<rparr>) (get_agent d k) else get_agent d k)"
  by (induction ks arbitrary: d) (auto simp: option.map_comp comp_def intro!: option.map_cong)

lemma ok_detach: "daemon_ok d \<Longrightarrow> daemon_ok (detach key d)"
  unfolding detach_def by (rule daemon_ok_update_agent) (auto intro: agent_ok_updates)

lemma stale_keys_iff:
  assumes "distinct (map fst (bd_registered d))"
  shows "k \<in> set (stale_keys sid keep d) \<longleftrightarrow>
    keep \<noteq> Some k \<and> (\<exists>a. get_agent d k = Some a \<and> ra_board_sid a = Some sid)"
proof -
  have "k \<in> set (stale_keys sid keep d) \<longleftrightarrow>
    (\<exists>a. (k, a) \<in> set (bd_registered d) \<and> ra_board_sid a = Some sid \<and> keep \<noteq> Some k)"
    by (force simp: stale_keys_def)
  then show ?thesis by (auto simp: in_registered[OF assms])
qed

lemma clear_owners_get:
  assumes "distinct (map fst (bd_registered d))"
  shows "get_agent (fst (clear_board_sid_owners sid keep d)) k = (case get_agent d k of
     None \<Rightarrow> None
   | Some a \<Rightarrow> Some (if ra_board_sid a = Some sid \<and> keep \<noteq> Some k then a\<lparr>ra_board_sid := None\<rparr> else a))"
  using stale_keys_iff[OF assms, of k sid keep]
  by (auto simp: clear_board_sid_owners_def Let_def get_agent_fold_detach split: option.split)

lemma clear_owners_fields [simp]:
  "bd_pending (fst (clear_board_sid_owners sid keep d)) = bd_pending d"
  "bd_missing (fst (clear_board_sid_owners sid keep d)) = bd_missing d"
  "bd_outbox (fst (clear_board_sid_owners sid keep d)) = bd_outbox d"
  "bd_focused (fst (clear_board_sid_owners sid keep d)) =
     (if keep = None \<and> bd_focused d = Some sid then None else bd_focused d)"
  by (auto simp: clear_board_sid_owners_def Let_def)

lemma ok_clear_owners:
  assumes "daemon_ok d"
  shows "daemon_ok (fst (clear_board_sid_owners sid keep d))"
  using assms by (auto simp: clear_board_sid_owners_def Let_def
      intro!: daemon_ok_focused ok_fold ok_detach)

text \<open>Binding the agent at the head of the queue to a session id nobody owns.\<close>

lemma daemon_ok_bind:
  assumes d: "daemon_ok d" and key: "get_agent d key = Some a" and "key \<notin> set (bd_pending d)"
    and free: "\<And>k b. get_agent d k = Some b \<Longrightarrow> ra_board_sid b \<noteq> Some s"
    and "s \<noteq> sid_broadcast"
  shows "daemon_ok (update_agent key (\<lambda>_. a\<lparr>ra_board_sid := Some s\<rparr>) d)"
proof -
  let ?a = "a\<lparr>ra_board_sid := Some s\<rparr>" and ?d = "update_agent key (\<lambda>_. a\<lparr>ra_board_sid := Some s\<rparr>) d"
  have a: "agent_ok ?a" "ra_key ?a = key"
    using daemon_ok_agent[OF d key] assms(5) by (auto simp: agent_ok_def buffer_ok_def turns_ok_def)
  have g: "get_agent ?d k = (if k = key then Some ?a else get_agent d k)" for k
    using key by simp
  have "registry_ok ?d" using d a unfolding daemon_ok_def registry_ok_def g by simp
  moreover have "sids_unique ?d"
    unfolding sids_unique_def g
  proof (intro allI impI)
    fix k k' b b' t
    assume *: "(if k = key then Some ?a else get_agent d k) = Some b"
      "(if k' = key then Some ?a else get_agent d k') = Some b'"
      "ra_board_sid b = Some t" "ra_board_sid b' = Some t"
    show "k = k'"
    proof (cases "k = key \<or> k' = key")
      case True
      then show ?thesis using * free[of k b] free[of k' b'] by (auto split: if_splits)
    next
      case False
      then show ?thesis using * d sids_uniqueD[of d k b t k' b'] by (simp add: daemon_ok_def)
    qed
  qed
  moreover have "pending_ok ?d"
    using d assms(3) unfolding daemon_ok_def pending_ok_def g by auto
  ultimately show ?thesis using d by (simp add: daemon_ok_def missing_ok_def outbox_ok_def)
qed

lemma ok_board_sync: "m \<in> set (board_sync_messages a) \<Longrightarrow> one_report m"
  using board_sync_message by blast

text \<open>
  A successful session response in normal form: the head of the queue gets the session id,
  whoever else had it loses it, nothing else of the registry changes.
\<close>

lemma session_response_binds:
  assumes d: "daemon_ok d" and "sid \<noteq> 0"
    and status: "first_byte payload 0 = 0 \<or> first_byte payload 0 = 1"
    and pending: "bd_pending d = key # rest"
  obtains a where "get_agent d key = Some a" and "ra_board_sid a = None"
    and "handle_session_response sid payload d =
      (push_outbox (board_sync_messages (a\<lparr>ra_board_sid := Some (BoardSid sid)\<rparr>))
        (update_agent key (\<lambda>_. a\<lparr>ra_board_sid := Some (BoardSid sid)\<rparr>)
          (fst (clear_board_sid_owners (BoardSid sid) (Some key) (d\<lparr>bd_pending := rest\<rparr>)))), Inr ())"
proof -
  obtain a where a: "get_agent d key = Some a" "ra_board_sid a = None"
    using d pending by (auto simp: daemon_ok_def pending_ok_def)
  have "distinct (map fst (bd_registered (d\<lparr>bd_pending := rest\<rparr>)))"
    using d by (simp add: daemon_ok_def registry_ok_def)
  then have "get_agent (fst (clear_board_sid_owners (BoardSid sid) (Some key) (d\<lparr>bd_pending := rest\<rparr>))) key = Some a"
    by (simp add: clear_owners_get a)
  then have "handle_session_response sid payload d =
      (push_outbox (board_sync_messages (a\<lparr>ra_board_sid := Some (BoardSid sid)\<rparr>))
        (update_agent key (\<lambda>_. a\<lparr>ra_board_sid := Some (BoardSid sid)\<rparr>)
          (fst (clear_board_sid_owners (BoardSid sid) (Some key) (d\<lparr>bd_pending := rest\<rparr>)))), Inr ())"
    using status a assms(2)
    by (elim disjE)
      (simp_all add: handle_session_response_def pending Let_def session_status_u8_def case_prod_unfold)
  then show ?thesis by (rule that[OF a])
qed

lemma first_byte_default: "first_byte p (session_status_u8 SsbOk) = first_byte p 0"
  by (simp add: session_status_u8_def)

lemma session_response_error:
  assumes "daemon_ok d" and "snd (handle_session_response sid payload d) = Inl e"
  shows "fst (handle_session_response sid payload d) = d"
proof (cases "sid = 0 \<or> \<not> (first_byte payload 0 = 0 \<or> first_byte payload 0 = 1)")
  case True
  then show ?thesis by (auto simp: handle_session_response_def session_status_u8_def Let_def)
next
  case False
  show ?thesis
  proof (cases "bd_pending d")
    case Nil
    then show ?thesis by (simp add: handle_session_response_def Let_def)
  next
    case (Cons key rest)
    then show ?thesis using session_response_binds[OF assms(1) _ _ Cons, of sid payload] False assms(2)
      by (metis Inl_Inr_False snd_conv)
  qed
qed

lemma ok_session_response:
  assumes d: "daemon_ok d"
  shows "daemon_ok (fst (handle_session_response sid payload d))"
proof (cases "snd (handle_session_response sid payload d)")
  case Inl
  then show ?thesis using session_response_error[OF d] d by simp
next
  case (Inr u)
  then have ok: "sid \<noteq> 0" "first_byte payload 0 = 0 \<or> first_byte payload 0 = 1" "bd_pending d \<noteq> []"
    by (auto simp: handle_session_response_def session_status_u8_def Let_def split: if_splits)
  then obtain key rest where p: "bd_pending d = key # rest" by (cases "bd_pending d") auto
  let ?d1 = "d\<lparr>bd_pending := rest\<rparr>"
  let ?d2 = "fst (clear_board_sid_owners (BoardSid sid) (Some key) ?d1)"
  obtain a where a: "get_agent d key = Some a" "ra_board_sid a = None"
    and r: "handle_session_response sid payload d =
      (push_outbox (board_sync_messages (a\<lparr>ra_board_sid := Some (BoardSid sid)\<rparr>))
        (update_agent key (\<lambda>_. a\<lparr>ra_board_sid := Some (BoardSid sid)\<rparr>) ?d2), Inr ())"
    using session_response_binds[OF d ok(1,2) p] by blast
  have d1: "daemon_ok ?d1"
    using d p by (intro daemon_ok_pending) (auto simp: daemon_ok_def pending_ok_def)
  have dist: "distinct (map fst (bd_registered ?d1))" using d1 by (simp add: daemon_ok_def registry_ok_def)
  have "daemon_ok (update_agent key (\<lambda>_. a\<lparr>ra_board_sid := Some (BoardSid sid)\<rparr>) ?d2)"
  proof (rule daemon_ok_bind)
    show "daemon_ok ?d2" by (rule ok_clear_owners[OF d1])
    show "get_agent ?d2 key = Some a" by (simp add: clear_owners_get[OF dist] a)
    show "key \<notin> set (bd_pending ?d2)" using d p by (simp add: daemon_ok_def pending_ok_def)
    show "ra_board_sid b \<noteq> Some (BoardSid sid)" if "get_agent ?d2 k = Some b" for k b
      using that a by (auto simp: clear_owners_get[OF dist] split: option.splits if_splits)
    show "BoardSid sid \<noteq> sid_broadcast" using ok(1) by (simp add: sid_broadcast_def)
  qed
  then show ?thesis unfolding r by (auto intro!: daemon_ok_push_outbox dest: ok_board_sync)
qed

lemma ok_session_invalid: "daemon_ok d \<Longrightarrow> daemon_ok (fst (handle_session_invalid sid payload d))"
  by (auto simp: handle_session_invalid_def intro: ok_clear_owners)

lemma ok_focus: "daemon_ok d \<Longrightarrow> daemon_ok (focus_board_sid sid d)"
  by (auto simp: focus_board_sid_def Let_def sid_broadcast_def terminal_replay_message_for_key_def
      split: option.split intro!: daemon_ok_push_outbox daemon_ok_focused
      dest!: replay_is_vt100 bind_eq_Some_conv[THEN iffD1])

lemma ok_permission_response: "daemon_ok d \<Longrightarrow> daemon_ok (fst (handle_permission_response sid payload d))"
  by (auto simp: handle_permission_response_def split: option.split
      intro!: daemon_ok_update_agent agent_ok_updates)

lemma ok_board_message: "daemon_ok d \<Longrightarrow> daemon_ok (fst (handle_board_message msg d))"
  by (simp add: handle_board_message_def ok_session_response ok_focus ok_permission_response
      ok_session_invalid split: cmd.split)

section \<open>Preservation by discovery\<close>

lemma ok_ingest: "daemon_ok (fst st) \<Longrightarrow> daemon_ok (fst (ingest_turn t st))"
  by (auto simp: ingest_turn_def Let_def case_prod_unfold split: option.split
      intro!: daemon_ok_update_agent agent_ok_updates)

lemma ok_fold_fst:
  "(\<And>x st. daemon_ok (fst st) \<Longrightarrow> daemon_ok (fst (f x st))) \<Longrightarrow> daemon_ok (fst st) \<Longrightarrow>
   daemon_ok (fst (fold f xs st))"
  by (induction xs arbitrary: st) auto

lemma ok_ingest_turns: "daemon_ok d \<Longrightarrow> daemon_ok (fst (ingest_discovered_turns ts d))"
  by (simp add: ingest_discovered_turns_def ok_fold_fst ok_ingest)

lemma agent_ok_from_session: "agent_ok (from_session s)"
  by (simp add: agent_ok_def) (simp add: from_session_def)

lemma daemon_ok_forget: "daemon_ok d \<Longrightarrow> daemon_ok (d\<lparr>bd_missing := (bd_missing d)(k := None)\<rparr>)"
  by (rule daemon_ok_missing) (auto simp: daemon_ok_def missing_ok_def split: if_splits)

lemma upd_missing_registered:
  "(d :: bridge_daemon)\<lparr>bd_missing := m, bd_registered := r\<rparr> = d\<lparr>bd_registered := r, bd_missing := m\<rparr>"
  by (cases d) simp

lemma ok_register_discovered:
  assumes "daemon_ok (fst st)"
  shows "daemon_ok (fst (register_discovered session st))"
proof -
  obtain d n where st: "st = (d, n)" by fastforce
  let ?a = "from_session session" and ?k = "session_key session"
  have k: "ra_key ?a = ?k" by (simp add: session_key_def)
  show ?thesis
  proof (cases "get_agent d ?k")
    case None
    let ?d1 = "push_activity (seen_activity ?a (as_transcript_path session)) d"
    let ?d2 = "enqueue_board_session_request ?a ?d1"
    let ?d3 = "?d2\<lparr>bd_registered := AList.update ?k ?a (bd_registered ?d2)\<rparr>"
    have "daemon_ok ?d3"
      by (rule daemon_ok_enqueue_insert) (use assms st None k agent_ok_from_session in simp_all)
    then have "daemon_ok (?d3\<lparr>bd_missing := (bd_missing ?d3)(?k := None)\<rparr>)"
      by (rule daemon_ok_forget)
    then show ?thesis using None
      by (simp add: st register_discovered_def Let_def upd_missing_registered)
  next
    case (Some a)
    then show ?thesis using assms by (simp add: st register_discovered_def Let_def daemon_ok_forget)
  qed
qed

lemma ok_register_sessions: "daemon_ok d \<Longrightarrow> daemon_ok (fst (register_discovered_sessions ss d))"
  by (simp add: register_discovered_sessions_def ok_fold_fst ok_register_discovered)

definition next_missing :: "byte option \<Rightarrow> byte" where
  "next_missing c = (case c of None \<Rightarrow> 1 | Some n \<Rightarrow> saturating_inc n)"

lemma count_missing_fold:
  assumes "distinct ks"
  shows "fold (count_missing seen) ks (m, td) =
    ((\<lambda>k. if k \<in> set ks \<and> k \<notin> seen then Some (next_missing (m k)) else m k),
     td @ filter (\<lambda>k. k \<notin> seen \<and> m k \<noteq> None \<and> 3 \<le> next_missing (m k)) ks)"
  using assms
proof (induction ks arbitrary: m td)
  case (Cons key ks)
  show ?case
  proof (cases "key \<in> seen")
    case True
    then show ?thesis using Cons by (auto simp: count_missing_def fun_eq_iff)
  next
    case False
    have "filter (\<lambda>k. k \<notin> seen \<and> (m(key \<mapsto> v)) k \<noteq> None \<and> 3 \<le> next_missing ((m(key \<mapsto> v)) k)) ks =
        filter (\<lambda>k. k \<notin> seen \<and> m k \<noteq> None \<and> 3 \<le> next_missing (m k)) ks" for v
      using Cons.prems by (intro filter_cong) auto
    then show ?thesis using False Cons
      by (cases "m key") (auto simp: count_missing_def Let_def next_missing_def fun_eq_iff
          PASSIVE_MISSING_GRACE_POLLS_def)
  qed
qed simp

lemma get_agent_drop [simp]: "get_agent (drop_agent key d) k = (if k = key then None else get_agent d k)"
  by (simp add: drop_agent_def get_agent_def alist_simps)

lemma get_agent_fold_drop:
  "get_agent (fold drop_agent ks d) k = (if k \<in> set ks then None else get_agent d k)"
  by (induction ks arbitrary: d) auto

lemma missing_fold_drop:
  "bd_missing (fold drop_agent ks d) k = (if k \<in> set ks then None else bd_missing d k)"
  by (induction ks arbitrary: d) (auto simp: drop_agent_def)

definition prune_candidates :: "bridge_daemon \<Rightarrow> agent_key list" where
  "prune_candidates d = map fst (filter (\<lambda>(k, a). prune_candidate a) (bd_registered d))"

lemma prune_candidates_iff:
  assumes "distinct (map fst (bd_registered d))"
  shows "k \<in> set (prune_candidates d) \<longleftrightarrow> (\<exists>a. get_agent d k = Some a \<and> prune_candidate a)"
    and "distinct (prune_candidates d)"
proof -
  show "k \<in> set (prune_candidates d) \<longleftrightarrow> (\<exists>a. get_agent d k = Some a \<and> prune_candidate a)"
  proof -
    have "k \<in> set (prune_candidates d) \<longleftrightarrow> (\<exists>a. (k, a) \<in> set (bd_registered d) \<and> prune_candidate a)"
      by (force simp: prune_candidates_def)
    then show ?thesis by (simp add: in_registered[OF assms])
  qed
  show "distinct (prune_candidates d)"
    using assms unfolding prune_candidates_def by (rule distinct_map_filter)
qed

lemma grace_counts: "c = 1 \<or> c = 2 \<Longrightarrow> (3 \<le> saturating_inc c) = (c = 2)"
  "saturating_inc 1 = 2" "saturating_inc 2 = 3"
  by (auto simp: saturating_inc_def)

text \<open>Pruning in normal form: the keys to drop are at their third missing round.\<close>

definition pruned :: "agent_session list \<Rightarrow> bridge_daemon \<Rightarrow> agent_key list" where
  "pruned latest d = filter (\<lambda>k. k \<notin> set (map session_key latest) \<and> bd_missing d k = Some 2)
     (prune_candidates d)"

lemma prune_normal_form:
  fixes latest :: "agent_session list"
  assumes d: "daemon_ok d"
  defines "seen \<equiv> set (map session_key latest)"
  shows "prune_missing_passive_sessions latest d =
    (fold drop_agent (pruned latest d) (d\<lparr>bd_missing := (\<lambda>k.
       if k \<in> seen then None
       else if k \<in> set (prune_candidates d) then Some (next_missing (bd_missing d k))
       else bd_missing d k)\<rparr>), pruned latest d)"
proof -
  let ?m = "\<lambda>k. if k \<in> seen then None else bd_missing d k"
  let ?ks = "prune_candidates d"
  have dist: "distinct ?ks"
    using prune_candidates_iff(2) d by (simp add: daemon_ok_def registry_ok_def)
  have "(k \<notin> seen \<and> ?m k \<noteq> None \<and> 3 \<le> next_missing (?m k)) = (k \<notin> seen \<and> bd_missing d k = Some 2)" for k
  proof (cases "bd_missing d k")
    case (Some c)
    then have "c = 1 \<or> c = 2" using d by (simp add: daemon_ok_def missing_ok_def)
    then show ?thesis using grace_counts(1)[of c] Some by (auto simp: next_missing_def)
  qed simp
  then have td: "filter (\<lambda>k. k \<notin> seen \<and> ?m k \<noteq> None \<and> 3 \<le> next_missing (?m k)) ?ks = pruned latest d"
    by (simp add: pruned_def seen_def)
  have fold: "fold (count_missing seen) ?ks (?m, []) =
    ((\<lambda>k. if k \<in> set ?ks \<and> k \<notin> seen then Some (next_missing (?m k)) else ?m k), pruned latest d)"
    using count_missing_fold[OF dist, of seen ?m "[]"] td by simp
  have m: "(\<lambda>k. if k \<in> set ?ks \<and> k \<notin> seen then Some (next_missing (?m k)) else ?m k) =
    (\<lambda>k. if k \<in> seen then None
       else if k \<in> set ?ks then Some (next_missing (bd_missing d k)) else bd_missing d k)"
    by (auto simp: fun_eq_iff)
  have "map fst (filter (\<lambda>(k, a). prune_candidate a) (bd_registered (d\<lparr>bd_missing := ?m\<rparr>))) = ?ks"
    by (simp add: prune_candidates_def)
  then show ?thesis
    unfolding prune_missing_passive_sessions_def seen_def[symmetric] Let_def
    using fold m by simp
qed

lemma prune_missing_after:
  assumes d: "daemon_ok d"
  shows "bd_missing (fst (prune_missing_passive_sessions latest d)) k =
    (if k \<in> set (map session_key latest) \<or> k \<in> set (pruned latest d) then None
     else if k \<in> set (prune_candidates d) then Some (next_missing (bd_missing d k))
     else bd_missing d k)"
  using prune_normal_form[OF d, of latest] by (auto simp: missing_fold_drop pruned_def)

text \<open>The invariant without the counts, which pruning keeps at every drop.\<close>

lemma daemon_ok_split:
  "daemon_ok d \<longleftrightarrow> daemon_ok (d\<lparr>bd_missing := Map.empty\<rparr>) \<and> missing_ok d"
proof -
  have "registry_ok (d\<lparr>bd_missing := m\<rparr>) = registry_ok d" "sids_unique (d\<lparr>bd_missing := m\<rparr>) = sids_unique d"
    "pending_ok (d\<lparr>bd_missing := m\<rparr>) = pending_ok d" "outbox_ok (d\<lparr>bd_missing := m\<rparr>) = outbox_ok d" for m
    by (simp_all add: registry_ok_def sids_unique_def pending_ok_def outbox_ok_def)
  moreover have "missing_ok (d\<lparr>bd_missing := Map.empty\<rparr>)" by (simp add: missing_ok_def)
  ultimately show ?thesis unfolding daemon_ok_def by (simp add: conj_ac)
qed

lemma ok_core_drop:
  assumes "daemon_ok (d\<lparr>bd_missing := Map.empty\<rparr>)"
  shows "daemon_ok ((drop_agent key d)\<lparr>bd_missing := Map.empty\<rparr>)"
proof -
  have "(drop_agent key d)\<lparr>bd_missing := Map.empty\<rparr> =
    (d\<lparr>bd_missing := Map.empty\<rparr>)\<lparr>bd_registered := AList.delete key (bd_registered d),
      bd_pending := filter (\<lambda>k. k \<noteq> key) (bd_pending d)\<rparr>"
    by (cases d) (simp add: drop_agent_def)
  then show ?thesis using daemon_ok_delete[OF assms, of key] by simp
qed

lemma ok_core_fold_drop:
  "daemon_ok (d\<lparr>bd_missing := Map.empty\<rparr>) \<Longrightarrow>
   daemon_ok ((fold drop_agent ks d)\<lparr>bd_missing := Map.empty\<rparr>)"
  by (induction ks arbitrary: d) (simp_all add: ok_core_drop)

lemma ok_prune:
  assumes d: "daemon_ok d"
  shows "daemon_ok (fst (prune_missing_passive_sessions latest d))"
proof -
  let ?d' = "fst (prune_missing_passive_sessions latest d)"
  have "daemon_ok (d\<lparr>bd_missing := Map.empty\<rparr>)" using d daemon_ok_split by blast
  then have "daemon_ok (?d'\<lparr>bd_missing := Map.empty\<rparr>)"
    by (simp add: prune_normal_form[OF d] ok_core_fold_drop)
  moreover have "missing_ok ?d'"
    unfolding missing_ok_def
  proof (intro allI impI)
    fix k c assume c: "bd_missing ?d' k = Some c"
    show "c = 1 \<or> c = 2"
    proof (cases "bd_missing d k")
      case None
      then show ?thesis using c unfolding prune_missing_after[OF d] by (auto simp: next_missing_def split: if_splits)
    next
      case (Some n)
      then have "n = 1 \<or> n = 2" using d by (simp add: daemon_ok_def missing_ok_def)
      then show ?thesis using c Some unfolding prune_missing_after[OF d]
        by (auto simp: next_missing_def pruned_def grace_counts split: if_splits)
    qed
  qed
  ultimately show ?thesis using daemon_ok_split by blast
qed

lemma ok_discovery_round: "daemon_ok d \<Longrightarrow> daemon_ok (discovery_round p d)"
  by (simp add: discovery_round_def case_prod_unfold ok_prune ok_ingest_turns ok_register_sessions)

section \<open>The invariant of the reachable states\<close>

lemma ok_heartbeat: "daemon_ok d \<Longrightarrow> daemon_ok (heartbeat_tick d)"
  unfolding heartbeat_tick_def
  by (rule daemon_ok_push_outbox) (auto simp: heartbeat_message_def one_report_def)

lemma ok_rehash:
  assumes "daemon_ok d" and "mset r = mset (bd_registered d)"
  shows "daemon_ok (d\<lparr>bd_registered := r\<rparr>)"
proof -
  have r: "distinct (map fst (bd_registered d))" using assms(1) by (simp add: daemon_ok_def registry_ok_def)
  have "mset (map fst r) = mset (map fst (bd_registered d))" using assms(2) by simp
  then have r': "distinct (map fst r)" using r by (metis mset_eq_imp_distinct_iff)
  have "get_agent (d\<lparr>bd_registered := r\<rparr>) k = get_agent d k" for k
    using map_of_inject_set[OF r' r] mset_eq_setD[OF assms(2)] by (simp add: get_agent_def)
  then show ?thesis using assms(1) r' by (simp add: daemon_ok_defs)
qed

lemma ok_step: "daemon_step d d' \<Longrightarrow> daemon_ok d \<Longrightarrow> daemon_ok d'"
proof (induction rule: daemon_step.induct)
  case (step_flush d n)
  then show ?case using in_set_dropD by (fastforce simp: daemon_ok_defs)
qed (simp_all add: ok_line ok_board_message ok_discovery_round ok_heartbeat ok_rehash)

lemma ok_reachable: "reachable d \<Longrightarrow> daemon_ok d"
proof (induction rule: reachable.induct)
  case reach_init
  show ?case by (simp add: daemon_ok_defs bridge_daemon_new_def get_agent_def)
qed (simp add: ok_step)

end
