(* ===== verification/Daemon_Properties.thy ===== *)
theory Daemon_Properties
  imports Daemon_Invariant
begin

text \<open>
  What the daemon guarantees: the binding of agents to board sessions as a refinement of a
  small abstract machine, the permission dialogue, passive pruning, terminal mirroring, and
  the behaviour of its error paths.
\<close>

section \<open>The abstract binding machine\<close>

text \<open>
  The board side of the daemon, without buffers, histories and messages: which agents are
  registered and launched, which session id each one has, whose request is in flight, and
  the session in focus.
\<close>

record board_view =
  bv_launched :: "agent_key \<rightharpoonup> bool"
  bv_bound :: "agent_key \<rightharpoonup> board_sid"
  bv_queue :: "agent_key list"
  bv_focus :: "board_sid option"

definition board_view :: "bridge_daemon \<Rightarrow> board_view" where
  "board_view d = \<lparr>bv_launched = (\<lambda>k. map_option ra_from_launch (get_agent d k)),
     bv_bound = (\<lambda>k. Option.bind (get_agent d k) ra_board_sid),
     bv_queue = bd_pending d, bv_focus = bd_focused d\<rparr>"

definition unbind :: "board_sid \<Rightarrow> (agent_key \<rightharpoonup> board_sid) \<Rightarrow> (agent_key \<rightharpoonup> board_sid)" where
  "unbind s b = (\<lambda>k. if b k = Some s then None else b k)"

definition abs_board :: "hid_message \<Rightarrow> board_view \<Rightarrow> board_view" where
  "abs_board msg v =
    (let s = BoardSid (hm_sid msg) in
     if hm_sid msg = 0 then v
     else if hm_cmd msg = SessionResponse then
       (if first_byte (hm_payload msg) 0 \<notin> {0, 1} \<or> bv_queue v = [] then v
        else v\<lparr>bv_bound := (unbind s (bv_bound v))(hd (bv_queue v) \<mapsto> s), bv_queue := tl (bv_queue v)\<rparr>)
     else if hm_cmd msg = SessionInvalid then
       v\<lparr>bv_bound := unbind s (bv_bound v), bv_focus := (if bv_focus v = Some s then None else bv_focus v)\<rparr>
     else if hm_cmd msg = SessionFocus then v\<lparr>bv_focus := Some s\<rparr>
     else v)"

definition abs_register :: "registered_agent \<Rightarrow> board_view \<Rightarrow> board_view" where
  "abs_register a v =
    (let k = ra_key a; launched = (ra_from_launch a \<or> bv_launched v k = Some True) in
     v\<lparr>bv_launched := (bv_launched v)(k \<mapsto> launched),
       bv_queue := (if bv_bound v k = None \<and> \<not> (fst k = Terminal \<and> launched) \<and> k \<notin> set (bv_queue v)
                    then bv_queue v @ [k] else bv_queue v)\<rparr>)"

definition abs_request :: "registration_envelope \<Rightarrow> board_view \<Rightarrow> board_view" where
  "abs_request req v =
    (if en_type req = ''agent.register'' then
       (case en_agent req of None \<Rightarrow> v | Some p \<Rightarrow>
         (case into_registered_agent p of Inl _ \<Rightarrow> v | Inr a \<Rightarrow> abs_register a v))
     else if en_type req = ''session.abort'' then
       (case en_abort req of None \<Rightarrow> v | Some p \<Rightarrow>
         (case parse_kind (ab_kind p) of Inl _ \<Rightarrow> v | Inr kind \<Rightarrow>
            let k = (kind, ab_agent_id p) in
            v\<lparr>bv_launched := (bv_launched v)(k := None), bv_bound := (bv_bound v)(k := None),
              bv_queue := filter (\<lambda>q. q \<noteq> k) (bv_queue v)\<rparr>))
     else v)"

section \<open>Lemmas: the view\<close>

lemma view_eqI:
  assumes "\<And>k. map_option ra_from_launch (get_agent d k) = map_option ra_from_launch (get_agent d' k)"
    and "\<And>k. Option.bind (get_agent d k) ra_board_sid = Option.bind (get_agent d' k) ra_board_sid"
    and "bd_pending d = bd_pending d'" and "bd_focused d = bd_focused d'"
  shows "board_view d = board_view d'"
  using assms by (simp add: board_view_def)

lemma view_update_agent:
  assumes "\<And>a. get_agent d key = Some a \<Longrightarrow>
    ra_from_launch (f a) = ra_from_launch a \<and> ra_board_sid (f a) = ra_board_sid a"
  shows "board_view (update_agent key f d) = board_view d"
  by (rule view_eqI) (use assms in \<open>cases "get_agent d key"; auto\<close>)+

lemma view_simps [simp]:
  "board_view (push_outbox ms d) = board_view d"
  "board_view (push_activity ev d) = board_view d"
  "board_view (d\<lparr>bd_activities := acts\<rparr>) = board_view d"
  by (simp_all add: board_view_def push_outbox_def push_activity_def get_agent_def)

lemma view_set_agent:
  assumes "get_agent d key = Some a" and "ra_from_launch a' = ra_from_launch a"
    and "ra_board_sid a' = ra_board_sid a"
  shows "board_view (update_agent key (\<lambda>_. a') d) = board_view d"
  using assms by (intro view_update_agent) auto

lemma view_passive_replay [simp]: "board_view (passive_replay a d) = board_view d"
  by (simp add: passive_replay_def)

lemma board_view_fold:
  "(\<And>x d. board_view (f x d) = board_view d) \<Longrightarrow> board_view (fold f xs d) = board_view d"
  by (induction xs arbitrary: d) auto

lemma view_mirror: "board_view (mirror_stream bs key d) = board_view d"
  by (auto simp: mirror_stream_def Let_def split: option.split intro!: view_set_agent)

lemma view_activity: "board_view (fst (handle_activity p d)) = board_view d"
  by (auto simp: handle_activity_def Let_def view_set_agent split: option.split sum.split)

lemma view_snapshot: "board_view (fst (handle_snapshot polled d)) = board_view d"
  by (auto simp: handle_snapshot_def poll_once_def Let_def split: sum.split)

lemma view_token: "board_view (fst (handle_token p d)) = board_view d"
  by (auto simp: handle_token_def Let_def view_set_agent split: option.split sum.split)

lemma view_turn: "board_view (fst (handle_turn p d)) = board_view d"
  by (auto simp: handle_turn_def Let_def view_set_agent split: option.split sum.split)

lemma view_permission_request: "board_view (fst (handle_permission_request p d)) = board_view d"
  by (auto simp: handle_permission_request_def Let_def view_set_agent split: option.split sum.split)

lemma view_permission_resolve: "board_view (fst (handle_permission_resolve p d)) = board_view d"
  by (auto simp: handle_permission_resolve_def Let_def view_set_agent split: option.split sum.split)

lemma view_permission_poll: "board_view (fst (handle_permission_poll p d)) = board_view d"
  by (auto simp: handle_permission_poll_def Let_def view_set_agent split: option.split sum.split)

lemma view_stream: "board_view (fst (handle_stream p d)) = board_view d"
  by (auto simp: handle_stream_def Let_def split: option.split sum.split intro!: board_view_fold view_mirror)

lemmas view_unchanged = view_activity view_snapshot view_token view_turn view_permission_request
  view_permission_resolve view_permission_poll view_stream

lemma view_register:
  assumes "into_registered_agent p = Inr fresh"
  shows "board_view (fst (handle_register (Some p) d)) = abs_register fresh (board_view d)"
proof -
  let ?k = "ra_key fresh" and ?a = "stored_agent d fresh"
  have kind: "ra_kind ?a = fst ?k" using ra_key_stored[of d fresh] by (simp add: ra_key_def)
  have launched: "ra_from_launch ?a = (ra_from_launch fresh \<or> map_option ra_from_launch (get_agent d ?k) = Some True)"
    by (auto simp: stored_agent_def carry_over_def split: option.split)
  have sid: "ra_board_sid ?a = Option.bind (get_agent d ?k) ra_board_sid"
    using into_registered_agent_Inr(4)[OF assms] by (simp add: stored_agent_def split: option.split)
  have transport: "is_transport_only_terminal ?a \<longleftrightarrow> fst ?k = Terminal \<and> ra_from_launch ?a"
    by (simp add: is_transport_only_terminal_def kind)
  have g: "get_agent (store ?a d') k = (if k = ?k then Some ?a else get_agent d' k)" for d' k
    by (simp add: store_def)
  have e: "get_agent (enqueue_board_session_request ?a d') k = get_agent d' k"
    "bd_pending (enqueue_board_session_request ?a d') =
       (if ?k \<in> set (bd_pending d') then bd_pending d' else bd_pending d' @ [?k])"
    "bd_focused (enqueue_board_session_request ?a d') = bd_focused d'" for d' k
    by (simp_all add: enqueue_board_session_request_def)
  have b: "bd_pending (store ?a d') = bd_pending d'" "bd_focused (store ?a d') = bd_focused d'" for d'
    by (simp_all add: store_def)
  show ?thesis
    by (auto simp: handle_register_Inr[OF assms] board_view_def abs_register_def Let_def g e b
        launched sid transport fun_eq_iff)
qed

lemma view_abort:
  assumes d: "daemon_ok d"
  shows "board_view (fst (handle_abort (Some p) d)) =
    (case parse_kind (ab_kind p) of Inl _ \<Rightarrow> board_view d | Inr kind \<Rightarrow>
      let k = (kind, ab_agent_id p); v = board_view d in
      v\<lparr>bv_launched := (bv_launched v)(k := None), bv_bound := (bv_bound v)(k := None),
        bv_queue := filter (\<lambda>q. q \<noteq> k) (bv_queue v)\<rparr>)"
proof (cases "parse_kind (ab_kind p)")
  case (Inr kind)
  let ?k = "(kind, ab_agent_id p)"
  have g: "get_agent (d\<lparr>bd_registered := AList.delete ?k (bd_registered d), bd_pending := ps\<rparr>) k =
    (if k = ?k then None else get_agent d k)" for k ps
    by (simp add: get_agent_def alist_simps)
  show ?thesis
  proof (cases "get_agent d ?k")
    case None
    then have "?k \<notin> set (bd_pending d)" using d by (auto simp: daemon_ok_def pending_ok_def)
    then have "filter (\<lambda>q. q \<noteq> ?k) (bd_pending d) = bd_pending d" by (auto intro!: filter_True)
    then show ?thesis using None Inr
      by (auto simp: handle_abort_def Let_def board_view_def fun_eq_iff)
  qed (use Inr g in \<open>auto simp: handle_abort_def Let_def board_view_def fun_eq_iff\<close>)
qed (simp add: handle_abort_def)

lemma view_clear_owners:
  assumes "distinct (map fst (bd_registered d))" and "\<And>k. keep = Some k \<Longrightarrow> Option.bind (get_agent d k) ra_board_sid \<noteq> Some s"
  shows "board_view (fst (clear_board_sid_owners s keep d)) =
    (board_view d)\<lparr>bv_bound := unbind s (bv_bound (board_view d)),
      bv_focus := (if keep = None \<and> bd_focused d = Some s then None else bd_focused d)\<rparr>"
proof -
  have "Option.bind (get_agent (fst (clear_board_sid_owners s keep d)) k) ra_board_sid =
      unbind s (\<lambda>k. Option.bind (get_agent d k) ra_board_sid) k" for k
    using assms(2)[of k] by (auto simp: clear_owners_get[OF assms(1)] unbind_def split: option.split)
  moreover have "map_option ra_from_launch (get_agent (fst (clear_board_sid_owners s keep d)) k) =
      map_option ra_from_launch (get_agent d k)" for k
    by (auto simp: clear_owners_get[OF assms(1)] split: option.split)
  ultimately show ?thesis by (simp add: board_view_def)
qed

lemma view_session_response:
  assumes d: "daemon_ok d" and "hm_cmd msg = SessionResponse"
  shows "board_view (fst (handle_session_response (hm_sid msg) (hm_payload msg) d)) =
    abs_board msg (board_view d)"
proof (cases "hm_sid msg = 0 \<or> first_byte (hm_payload msg) 0 \<notin> {0, 1} \<or> bd_pending d = []")
  case True
  then show ?thesis
    using assms(2) by (auto simp: handle_session_response_def session_status_u8_def Let_def abs_board_def
        board_view_def)
next
  case False
  then obtain key rest where p: "bd_pending d = key # rest" by (cases "bd_pending d") auto
  let ?s = "BoardSid (hm_sid msg)" and ?d1 = "d\<lparr>bd_pending := rest\<rparr>"
  let ?d2 = "fst (clear_board_sid_owners ?s (Some key) ?d1)"
  obtain a where a: "get_agent d key = Some a" "ra_board_sid a = None"
    and r: "handle_session_response (hm_sid msg) (hm_payload msg) d =
      (push_outbox (board_sync_messages (a\<lparr>ra_board_sid := Some ?s\<rparr>))
        (update_agent key (\<lambda>_. a\<lparr>ra_board_sid := Some ?s\<rparr>) ?d2), Inr ())"
    using session_response_binds[OF d _ _ p, of "hm_sid msg" "hm_payload msg"] False by auto
  have dist: "distinct (map fst (bd_registered ?d1))" using d by (simp add: daemon_ok_def registry_ok_def)
  have d2: "board_view ?d2 = (board_view ?d1)\<lparr>bv_bound := unbind ?s (bv_bound (board_view ?d1)),
      bv_focus := bd_focused d\<rparr>"
    by (subst view_clear_owners[OF dist]) (use a in auto)
  have key: "get_agent ?d2 key = Some a" by (simp add: clear_owners_get[OF dist] a)
  then have "board_view (update_agent key (\<lambda>_. a\<lparr>ra_board_sid := Some ?s\<rparr>) ?d2) =
      (board_view ?d2)\<lparr>bv_bound := (bv_bound (board_view ?d2))(key \<mapsto> ?s)\<rparr>"
    by (auto simp: board_view_def fun_eq_iff)
  then have "board_view (fst (handle_session_response (hm_sid msg) (hm_payload msg) d)) =
      (board_view ?d2)\<lparr>bv_bound := (bv_bound (board_view ?d2))(key \<mapsto> ?s)\<rparr>"
    by (simp add: r)
  also have "\<dots> = abs_board msg (board_view d)"
    unfolding d2 using False p assms(2) by (simp add: abs_board_def board_view_def Let_def)
  finally show ?thesis .
qed

lemma view_board_message:
  assumes d: "daemon_ok d"
  shows "board_view (fst (handle_board_message msg d)) = abs_board msg (board_view d)"
proof -
  have dist: "distinct (map fst (bd_registered d))" using d by (simp add: daemon_ok_def registry_ok_def)
  consider "hm_cmd msg = SessionResponse" | "hm_cmd msg = SessionInvalid" | "hm_cmd msg = SessionFocus"
    | "hm_cmd msg = PermissionRes"
    | "hm_cmd msg \<notin> {SessionResponse, SessionInvalid, SessionFocus, PermissionRes}" by blast
  then show ?thesis
  proof cases
    case 1
    then show ?thesis using view_session_response[OF d 1] by (simp add: handle_board_message_def)
  next
    case 2
    then show ?thesis
      using view_clear_owners[OF dist, of None]
      by (simp add: handle_board_message_def handle_session_invalid_def abs_board_def Let_def
          sid_broadcast_def board_view_def)
  next
    case 3
    then show ?thesis
      by (simp add: handle_board_message_def focus_board_sid_def abs_board_def Let_def board_view_def
          split: option.split)
  next
    case 4
    then show ?thesis
      by (auto simp: handle_board_message_def handle_permission_response_def abs_board_def Let_def
          split: option.split intro!: view_update_agent)
  next
    case 5
    then show ?thesis
      by (cases "hm_cmd msg") (auto simp: handle_board_message_def abs_board_def Let_def)
  qed
qed

section \<open>A sample run\<close>

definition register_json :: "string \<Rightarrow> string \<Rightarrow> json" where
  "register_json kind agent_id = JObj [(''type'', JStr ''agent.register''),
     (''agent'', JObj [(''agentId'', JStr agent_id), (''kind'', JStr kind)])]"

definition sample_reader :: "json \<Rightarrow> json_reader" where
  "sample_reader j = \<lparr>jr_parse = (\<lambda>_. Inr j), jr_shape_error = (\<lambda>_. ''shape'')\<rparr>"

definition register_sample :: "string \<Rightarrow> string \<Rightarrow> bridge_daemon \<Rightarrow> bridge_daemon" where
  "register_sample kind agent_id d =
    fst (handle_json_line (sample_reader (register_json kind agent_id)) (Inl []) [] d)"

definition respond :: "16 word \<Rightarrow> byte \<Rightarrow> bridge_daemon \<Rightarrow> bridge_daemon" where
  "respond sid status d =
    fst (handle_board_message \<lparr>hm_cmd = SessionResponse, hm_sid = sid, hm_payload = [status]\<rparr> d)"

text \<open>A codex agent bound to session 7, and two agents waiting for the board.\<close>

definition bound_daemon :: bridge_daemon where
  "bound_daemon = respond 7 1 (register_sample ''codex'' ''c1'' bridge_daemon_new)"

definition waiting_daemon :: bridge_daemon where
  "waiting_daemon = register_sample ''claude'' ''a2'' (register_sample ''claude'' ''a1'' bridge_daemon_new)"

lemma reachable_register: "reachable d \<Longrightarrow> reachable (register_sample kind agent_id d)"
  unfolding register_sample_def by (rule reach_step[OF _ step_line])

lemma reachable_respond: "reachable d \<Longrightarrow> reachable (respond sid status d)"
  unfolding respond_def by (rule reach_step[OF _ step_board])

lemma reachable_samples: "reachable bound_daemon" "reachable waiting_daemon"
  by (simp_all add: bound_daemon_def waiting_daemon_def reachable_register reachable_respond reach_init)

lemma bound_sample:
  "map_option ra_board_sid (get_agent bound_daemon (Codex, ''c1'')) = Some (Some (BoardSid 7))"
  "map_option ra_from_launch (get_agent bound_daemon (Codex, ''c1'')) = Some False"
  "map_option ra_from_hook (get_agent bound_daemon (Codex, ''c1'')) = Some True"
  by code_simp+

lemma waiting_sample:
  "bd_pending waiting_daemon = [(Claude, ''a1''), (Claude, ''a2'')]"
  by code_simp

section \<open>Lemmas: errors and owners\<close>

lemma error_register: "snd (handle_register p d) = Inl e \<Longrightarrow> fst (handle_register p d) = d"
  by (auto simp: handle_register_def Let_def split: option.splits sum.splits prod.splits if_splits)

lemma error_activity: "snd (handle_activity p d) = Inl e \<Longrightarrow> fst (handle_activity p d) = d"
  by (auto simp: handle_activity_def Let_def split: option.splits sum.splits prod.splits if_splits)

lemma error_token: "snd (handle_token p d) = Inl e \<Longrightarrow> fst (handle_token p d) = d"
  by (auto simp: handle_token_def Let_def split: option.splits sum.splits prod.splits if_splits)

lemma error_turn: "snd (handle_turn p d) = Inl e \<Longrightarrow> fst (handle_turn p d) = d"
  by (auto simp: handle_turn_def Let_def split: option.splits sum.splits prod.splits if_splits)

lemma error_permission_request: "snd (handle_permission_request p d) = Inl e \<Longrightarrow> fst (handle_permission_request p d) = d"
  by (auto simp: handle_permission_request_def Let_def split: option.splits sum.splits prod.splits if_splits)

lemma error_permission_resolve: "snd (handle_permission_resolve p d) = Inl e \<Longrightarrow> fst (handle_permission_resolve p d) = d"
  by (auto simp: handle_permission_resolve_def Let_def split: option.splits sum.splits prod.splits if_splits)

lemma error_permission_poll: "snd (handle_permission_poll p d) = Inl e \<Longrightarrow> fst (handle_permission_poll p d) = d"
  by (auto simp: handle_permission_poll_def Let_def split: option.splits sum.splits prod.splits if_splits)

lemma error_stream: "snd (handle_stream p d) = Inl e \<Longrightarrow> fst (handle_stream p d) = d"
  by (auto simp: handle_stream_def Let_def split: option.splits sum.splits prod.splits if_splits)

lemma error_abort: "snd (handle_abort p d) = Inl e \<Longrightarrow> fst (handle_abort p d) = d"
  by (auto simp: handle_abort_def Let_def split: option.splits sum.splits prod.splits if_splits)

lemma error_snapshot: "snd (handle_snapshot polled d) = Inl e \<Longrightarrow> fst (handle_snapshot polled d) = d"
  by (auto simp: handle_snapshot_def poll_once_def Let_def split: sum.splits)

lemma request_error_unchanged: "snd (handle_request polled req d) = Inl e \<Longrightarrow> fst (handle_request polled req d) = d"
  unfolding handle_request_def
  by (simp add: error_register error_activity error_snapshot error_token error_turn
      error_permission_request error_permission_resolve error_permission_poll error_stream error_abort
      split: if_splits)

lemma find_SomeD: "find P xs = Some x \<Longrightarrow> x \<in> set xs \<and> P x"
  by (induction xs) (auto split: if_splits)

lemma board_error_unchanged:
  assumes "daemon_ok d" and "snd (handle_board_message msg d) = Inl e"
  shows "fst (handle_board_message msg d) = d"
proof (cases "hm_cmd msg = SessionResponse")
  case True
  then show ?thesis using assms session_response_error[OF assms(1)] by (simp add: handle_board_message_def)
next
  case False
  then show ?thesis using assms(2)
    by (auto simp: handle_board_message_def handle_permission_response_def handle_session_invalid_def
        split: cmd.splits if_splits option.splits)
qed

lemma find_memI: "x \<in> set xs \<Longrightarrow> P x \<Longrightarrow> find P xs \<noteq> None"
  by (induction xs) auto

lemma view_bound_iff:
  "bv_bound (board_view d) k = Some s \<longleftrightarrow> (\<exists>a. get_agent d k = Some a \<and> ra_board_sid a = Some s)"
  by (simp add: board_view_def bind_eq_Some_conv)

lemma owner_of_iff:
  assumes d: "daemon_ok d"
  shows "owner_of s d = Some k \<longleftrightarrow> (\<exists>a. get_agent d k = Some a \<and> ra_board_sid a = Some s)"
proof
  have dist: "distinct (map fst (bd_registered d))" using d by (simp add: daemon_ok_def registry_ok_def)
  have fwd: "\<exists>a. get_agent d k = Some a \<and> ra_board_sid a = Some s" if "owner_of s d = Some k" for k
  proof -
    from that obtain a where "find (\<lambda>(k, a). ra_board_sid a = Some s) (bd_registered d) = Some (k, a)"
      by (auto simp: owner_of_def)
    then have "(k, a) \<in> set (bd_registered d)" "ra_board_sid a = Some s"
      by (auto dest: find_SomeD)
    then show ?thesis using in_registered[OF dist] by blast
  qed
  show "\<exists>a. get_agent d k = Some a \<and> ra_board_sid a = Some s" if "owner_of s d = Some k"
    by (rule fwd[OF that])
  assume "\<exists>a. get_agent d k = Some a \<and> ra_board_sid a = Some s"
  then obtain a where a: "get_agent d k = Some a" "ra_board_sid a = Some s" by blast
  then have "(k, a) \<in> set (bd_registered d)" by (simp add: in_registered[OF dist])
  then have "owner_of s d \<noteq> None"
    using a find_memI[of "(k, a)" "bd_registered d" "\<lambda>(k, a). ra_board_sid a = Some s"]
    by (simp add: owner_of_def)
  then obtain k' where k': "owner_of s d = Some k'" by blast
  then show "owner_of s d = Some k"
    using fwd[OF k'] a d sids_uniqueD by (metis daemon_ok_def)
qed

section \<open>Properties: the state machine\<close>

text \<open>
  C1: in every reachable state agents are stored under their own key; no two share a board
  session id and none has the broadcast id; agents whose request is queued are registered
  and unbound, each queued once; terminal and turn histories are bounded; no request is both
  undecided and decided; and no passive agent is kept past its grace.
\<close>
theorem reachable_daemon_invariant:
  assumes "reachable d"
  shows "distinct (map fst (bd_registered d)) \<and> distinct (bd_pending d) \<and>
    (\<forall>k s. bv_bound (board_view d) k = Some s \<longrightarrow>
       s \<noteq> sid_broadcast \<and> (\<forall>k'. bv_bound (board_view d) k' = Some s \<longrightarrow> k' = k)) \<and>
    (\<forall>k \<in> set (bd_pending d). bv_launched (board_view d) k \<noteq> None \<and> bv_bound (board_view d) k = None) \<and>
    (\<forall>k a. get_agent d k = Some a \<longrightarrow> ra_key a = k \<and>
       length (terminal_snapshot a) \<le> 64 * 1024 \<and> length (ra_turns a) \<le> 50 \<and>
       (\<forall>p \<in> set (ra_pending a). ra_resolved a (pr_req_id p) = None)) \<and>
    (\<forall>k c. bd_missing d k = Some c \<longrightarrow> c < PASSIVE_MISSING_GRACE_POLLS)"
proof -
  note ok = ok_reachable[OF assms]
  have a: "ra_key a = k \<and> length (terminal_snapshot a) \<le> 64 * 1024 \<and> length (ra_turns a) \<le> 50 \<and>
       (\<forall>p \<in> set (ra_pending a). ra_resolved a (pr_req_id p) = None)" if "get_agent d k = Some a" for k a
    using daemon_ok_agent[OF ok that] buffer_ok_snapshot[of a]
    by (simp add: agent_ok_def turns_ok_def VT100_BUFFER_BYTES_def MAX_RETAINED_TURNS_PER_AGENT_def)
  have s: "s \<noteq> sid_broadcast \<and> (\<forall>k'. bv_bound (board_view d) k' = Some s \<longrightarrow> k' = k)"
    if b: "bv_bound (board_view d) k = Some s" for k s
  proof -
    obtain a where a: "get_agent d k = Some a" "ra_board_sid a = Some s"
      using b view_bound_iff by blast
    have "sids_unique d" using ok by (simp add: daemon_ok_def)
    then have "k' = k" if "bv_bound (board_view d) k' = Some s" for k'
      using that a sids_uniqueD by (metis view_bound_iff)
    moreover have "s \<noteq> sid_broadcast" using daemon_ok_agent[OF ok a(1)] a(2) by (auto simp: agent_ok_def)
    ultimately show ?thesis by blast
  qed
  have p: "bv_launched (board_view d) k \<noteq> None \<and> bv_bound (board_view d) k = None" if "k \<in> set (bd_pending d)" for k
    using ok that by (auto simp: daemon_ok_def pending_ok_def board_view_def)
  have "c < PASSIVE_MISSING_GRACE_POLLS" if "bd_missing d k = Some c" for k c
  proof -
    have "c = 1 \<or> c = 2" using ok that by (simp add: daemon_ok_def missing_ok_def)
    then show ?thesis by (auto simp: PASSIVE_MISSING_GRACE_POLLS_def)
  qed
  then show ?thesis using ok a s p by (simp add: daemon_ok_def registry_ok_def pending_ok_def)
qed

lemma reachable_daemon_invariant_witness:
  "distinct (map fst (bd_registered bound_daemon)) \<and> distinct (bd_pending bound_daemon)"
  using reachable_daemon_invariant[OF reachable_samples(1)] by blast

text \<open>
  C2: the daemon's reaction to every message of the board is, on bindings, queue and focus,
  the one of the abstract machine: an accepted session response binds the head of the queue
  and takes the id from its previous owner, an invalidation unbinds, a focus focuses; refused
  responses and all other messages change nothing there.
\<close>
theorem board_messages_refine:
  assumes "reachable d"
  shows "board_view (fst (handle_board_message msg d)) = abs_board msg (board_view d)"
  using assms by (intro view_board_message ok_reachable)

lemma board_messages_refine_witness:
  "bv_bound (board_view (fst (handle_board_message
     \<lparr>hm_cmd = SessionInvalid, hm_sid = 7, hm_payload = []\<rparr> bound_daemon))) (Codex, ''c1'') = None"
  unfolding board_messages_refine[OF reachable_samples(1)]
  using bound_sample(1) by (auto simp: abs_board_def board_view_def unbind_def Let_def)

text \<open>
  C3: of the ten requests of the JSON interface only registration and abort touch bindings,
  launch flags, queue or focus, and they do what the abstract machine does: a registration
  never changes a binding and queues an unbound agent once, unless it is a launched terminal;
  an abort forgets the agent and its queued request.
\<close>
theorem requests_refine:
  assumes "reachable d"
  shows "board_view (fst (handle_request polled req d)) = abs_request req (board_view d)"
proof -
  note ok = ok_reachable[OF assms]
  have "board_view (fst (handle_register (en_agent req) d)) = (case en_agent req of None \<Rightarrow> board_view d
    | Some p \<Rightarrow> (case into_registered_agent p of Inl _ \<Rightarrow> board_view d | Inr a \<Rightarrow> abs_register a (board_view d)))"
    by (auto simp: view_register split: option.split sum.split) (simp add: handle_register_def)+
  moreover have "board_view (fst (handle_abort None d)) = board_view d" by (simp add: handle_abort_def)
  ultimately show ?thesis
    by (auto simp: handle_request_def abs_request_def view_unchanged view_abort[OF ok] Let_def
        split: option.split sum.split)
qed

lemma requests_refine_witness:
  "board_view (fst (handle_request (Inl []) \<lparr>en_type = ''daemon.snapshot'', en_agent = None,
     en_activity = None, en_token = None, en_turn = None, en_permission = None, en_resolve = None,
     en_poll = None, en_abort = None, en_stream = None\<rparr> bound_daemon)) = board_view bound_daemon"
  by (subst requests_refine[OF reachable_samples(1)]) (simp add: abs_request_def)



section \<open>Properties: the permission dialogue\<close>

text \<open>The three messages of one permission dialogue.\<close>

definition ask :: "string \<Rightarrow> string \<Rightarrow> 64 word \<Rightarrow> string \<Rightarrow> string \<Rightarrow> bridge_daemon \<Rightarrow> handled" where
  "ask kind agent_id req tool args d = handle_permission_request
     (Some \<lparr>pp_agent_id = agent_id, pp_kind = kind, pp_req_id = req, pp_tool = tool, pp_args_summary = args\<rparr>) d"

definition decide :: "16 word \<Rightarrow> 64 word \<Rightarrow> permission_decision_byte \<Rightarrow> bridge_daemon \<Rightarrow> bridge_daemon \<times> unit result" where
  "decide sid req dec d = handle_board_message
     \<lparr>hm_cmd = PermissionRes, hm_sid = sid, hm_payload = encode_permission_response req dec\<rparr> d"

definition poll :: "string \<Rightarrow> string \<Rightarrow> 64 word \<Rightarrow> bridge_daemon \<Rightarrow> handled" where
  "poll kind agent_id req d =
     handle_permission_poll (Some \<lparr>pf_agent_id = agent_id, pf_kind = kind, pf_req_id = req\<rparr>) d"

definition pending_answer :: "64 word \<Rightarrow> bool \<Rightarrow> json" where
  "pending_answer req b = ok_response ''permission.pending'' [(''reqId'', JNum (uint req)), (''pending'', JBool b)]"

definition decision_answer :: "64 word \<Rightarrow> permission_decision_byte \<Rightarrow> json" where
  "decision_answer req dec = ok_response ''permission.decision'' [(''reqId'', JNum (uint req)),
     (''decision'', JStr (permission_decision_as_str (permission_decision_from_byte dec)))]"

lemma permission_response_decodes: "decode_permission_response (encode_permission_response req dec) = Some (req, dec)"
  using permission_response_codec.dec_enc[of "(req, dec)"] by simp

text \<open>
  C5: a permission request of a bound agent is answered end to end: until the board decides,
  polling says it is pending; the decision the board sends for the agent's session reaches
  exactly one poll, whatever else is queued; after that the request is unknown.
\<close>
theorem permission_dialogue:
  fixes tool args :: string and req :: "64 word" and dec :: permission_decision_byte
  assumes "reachable d" and "agent_kind_from_label kind = k" and "k \<noteq> UnknownAgent"
    and "bv_bound (board_view d) (k, agent_id) = Some (BoardSid sid)"
  defines "d1 \<equiv> fst (ask kind agent_id req tool args d)"
  defines "d2 \<equiv> fst (decide sid req dec d1)"
  defines "d3 \<equiv> fst (poll kind agent_id req d2)"
  shows "snd (poll kind agent_id req d1) = Inr (pending_answer req True) \<and>
    snd (decide sid req dec d1) = Inr () \<and>
    snd (poll kind agent_id req d2) = Inr (decision_answer req dec) \<and>
    snd (poll kind agent_id req d3) = Inr (pending_answer req False)"
proof -
  let ?key = "(k, agent_id)"
  have kind: "parse_kind kind = Inr k" using assms(2,3) by (simp add: parse_kind_Inr)
  have ok: "daemon_ok d" by (rule ok_reachable[OF assms(1)])
  then have ok1: "daemon_ok d1" unfolding d1_def ask_def by (rule ok_permission_request)
  obtain a where a: "get_agent d ?key = Some a" "ra_board_sid a = Some (BoardSid sid)"
    using assms(4) by (auto simp: view_bound_iff)
  have sid: "sid \<noteq> 0" using daemon_ok_agent[OF ok a(1)] a(2) by (auto simp: agent_ok_def sid_broadcast_def)
  let ?event = "\<lparr>pr_req_id = req, pr_sid = sid_or_broadcast a, pr_tool = tool, pr_args_summary = args\<rparr>"
  let ?a1 = "a\<lparr>ra_resolved := (ra_resolved a)(req := None), ra_pending := ra_pending a @ [?event]\<rparr>"
  have replay: "get_agent (passive_replay x d') k' = get_agent d' k'" for x d' k'
    by (simp add: passive_replay_def)
  have g1: "get_agent d1 ?key = Some ?a1"
    by (simp add: d1_def ask_def handle_permission_request_def kind a replay Let_def)
  have owner: "owner_of (BoardSid sid) d1 = Some ?key"
    unfolding owner_of_iff[OF ok1] using g1 a(2) by simp
  have dec: "decide sid req dec d1 = (update_agent ?key (\<lambda>a. a\<lparr>ra_pending := drop_request req (ra_pending a),
      ra_resolved := (ra_resolved a)(req \<mapsto> permission_decision_from_byte dec)\<rparr>) d1, Inr ())"
    by (simp add: decide_def handle_board_message_def handle_permission_response_def sid owner
        permission_response_decodes)
  have g2: "get_agent d2 ?key = Some (?a1\<lparr>ra_pending := drop_request req (ra_pending ?a1),
      ra_resolved := (ra_resolved ?a1)(req \<mapsto> permission_decision_from_byte dec)\<rparr>)"
    by (simp add: d2_def dec g1)
  have g3: "\<exists>b. get_agent d3 ?key = Some b \<and> ra_resolved b req = None \<and>
      ra_pending b = drop_request req (ra_pending ?a1)"
    by (simp add: d3_def poll_def handle_permission_poll_def kind g2 Let_def)
  then obtain b where b: "get_agent d3 ?key = Some b" "ra_resolved b req = None"
    "ra_pending b = drop_request req (ra_pending ?a1)" by blast
  have "snd (poll kind agent_id req d1) = Inr (pending_answer req True)"
    by (simp add: poll_def handle_permission_poll_def kind g1 Let_def pending_answer_def)
  moreover have "snd (poll kind agent_id req d2) = Inr (decision_answer req dec)"
    by (simp add: poll_def handle_permission_poll_def kind g2 Let_def decision_answer_def)
  moreover have "snd (poll kind agent_id req d3) = Inr (pending_answer req False)"
    using b by (simp add: poll_def handle_permission_poll_def kind Let_def pending_answer_def drop_request_def)
  ultimately show ?thesis by (simp add: dec)
qed

lemma permission_dialogue_witness:
  "snd (poll ''codex'' ''c1'' 42 (fst (decide 7 42 PdDeny (fst (ask ''codex'' ''c1'' 42 ''Bash'' ''rm'' bound_daemon))))) =
     Inr (decision_answer 42 PdDeny)"
proof -
  have "agent_kind_from_label ''codex'' = Codex" by code_simp
  moreover have "bv_bound (board_view bound_daemon) (Codex, ''c1'') = Some (BoardSid 7)"
    using bound_sample(1) by (auto simp: view_bound_iff)
  ultimately show ?thesis using permission_dialogue[OF reachable_samples(1)] by blast
qed

section \<open>Properties: whose session is it?\<close>

text \<open>
  C39: a refused session request keeps its place: when the board refuses the first of two
  queued requests and grants the second, the session goes to the first agent, the one that
  was refused, and the second is left without.
\<close>
theorem refused_request_shifts_sessions:
  fixes refused_sid :: "16 word"
  assumes "reachable d" and "bd_pending d = k1 # k2 # rest" and "status \<notin> {0, 1}" and "sid \<noteq> 0"
  defines "d' \<equiv> respond sid 1 (respond refused_sid status d)"
  shows "bv_bound (board_view d') k1 = Some (BoardSid sid) \<and> bv_bound (board_view d') k2 = None \<and>
    bd_pending d' = k2 # rest"
proof -
  have ok: "daemon_ok d" by (rule ok_reachable[OF assms(1)])
  have v: "board_view d' = abs_board \<lparr>hm_cmd = SessionResponse, hm_sid = sid, hm_payload = [1]\<rparr>
      (abs_board \<lparr>hm_cmd = SessionResponse, hm_sid = refused_sid, hm_payload = [status]\<rparr> (board_view d))"
    unfolding d'_def respond_def
    by (simp add: view_board_message ok ok_board_message)
  have q: "bv_queue (board_view d) = k1 # k2 # rest" using assms(2) by (simp add: board_view_def)
  have "k1 \<noteq> k2" "bv_bound (board_view d) k2 = None"
    using ok assms(2) by (auto simp: daemon_ok_def pending_ok_def board_view_def)
  have "bv_bound (board_view d') k1 = Some (BoardSid sid) \<and> bv_bound (board_view d') k2 = None \<and>
      bv_queue (board_view d') = k2 # rest"
  proof -
    have "abs_board \<lparr>hm_cmd = SessionResponse, hm_sid = refused_sid, hm_payload = [status]\<rparr> (board_view d) =
        board_view d"
      using assms(3) by (simp add: abs_board_def first_byte_def Let_def)
    then show ?thesis
      using assms(4) q \<open>k1 \<noteq> k2\<close> \<open>bv_bound (board_view d) k2 = None\<close>
      by (simp add: v abs_board_def first_byte_def unbind_def Let_def)
  qed
  then show ?thesis by (simp add: board_view_def)
qed

lemma refused_request_shifts_sessions_witness:
  "bv_bound (board_view (respond 5 1 (respond 4 4 waiting_daemon))) (Claude, ''a1'') = Some (BoardSid 5)"
  using refused_request_shifts_sessions[OF reachable_samples(2) waiting_sample, of 4 5 4] by simp

text \<open>
  Aborting an agent whose session request is in flight hands the session the board then
  allocates for it to the next agent in the queue.
\<close>
theorem aborted_request_misbinds:
  assumes "reachable d" and "bd_pending d = (k, agent_id) # k2 # rest" and "parse_kind kind = Inr k" and "sid \<noteq> 0"
  defines "d' \<equiv> respond sid 1 (fst (handle_abort (Some \<lparr>ab_agent_id = agent_id, ab_kind = kind\<rparr>) d))"
  shows "bv_bound (board_view d') k2 = Some (BoardSid sid) \<and> get_agent d' (k, agent_id) = None"
proof -
  have ok: "daemon_ok d" by (rule ok_reachable[OF assms(1)])
  let ?d1 = "fst (handle_abort (Some \<lparr>ab_agent_id = agent_id, ab_kind = kind\<rparr>) d)"
  have v: "board_view d' = abs_board \<lparr>hm_cmd = SessionResponse, hm_sid = sid, hm_payload = [1]\<rparr> (board_view ?d1)"
    unfolding d'_def respond_def by (rule view_board_message[OF ok_abort[OF ok]])
  have q: "bv_queue (board_view d) = (k, agent_id) # k2 # rest" using assms(2) by (simp add: board_view_def)
  have ne: "k2 \<noteq> (k, agent_id)" "(k, agent_id) \<notin> set rest"
    using ok assms(2) by (auto simp: daemon_ok_def pending_ok_def)
  then have "bv_bound (board_view d') k2 = Some (BoardSid sid) \<and> bv_launched (board_view d') (k, agent_id) = None"
    using assms(3,4) q unfolding v view_abort[OF ok]
    by (auto simp: abs_board_def first_byte_def unbind_def Let_def)
  then show ?thesis by (simp add: board_view_def)
qed

lemma aborted_request_misbinds_witness:
  "bv_bound (board_view (respond 5 1 (fst (handle_abort (Some \<lparr>ab_agent_id = ''a1'', ab_kind = ''claude''\<rparr>)
     waiting_daemon)))) (Claude, ''a2'') = Some (BoardSid 5)"
proof -
  have "parse_kind ''claude'' = Inr Claude" by code_simp
  then show ?thesis using aborted_request_misbinds[OF reachable_samples(2) waiting_sample, of _ 5] by simp
qed

text \<open>
  Registering an agent again keeps what the daemon knows of it (session, usage, turns,
  permissions, terminal history, launch flag), takes over the new name, directory and
  status, sends nothing when the agent is bound, and never queues a second request.
\<close>
theorem reregistration_keeps_history:
  assumes "reachable d" and "into_registered_agent p = Inr fresh" and "get_agent d (ra_key fresh) = Some old"
  defines "d' \<equiv> fst (handle_register (Some p) d)"
  shows "\<exists>a. get_agent d' (ra_key fresh) = Some a \<and>
      ra_board_sid a = ra_board_sid old \<and> ra_usage a = ra_usage old \<and> ra_turns a = ra_turns old \<and>
      ra_pending a = ra_pending old \<and> ra_resolved a = ra_resolved old \<and>
      terminal_snapshot a = terminal_snapshot old \<and>
      ra_from_launch a = (rp_from_launch p \<or> ra_from_launch old) \<and> ra_from_hook a \<and>
      ra_name a = rp_name p \<and> ra_cwd a = rp_cwd p \<and> ra_status a = ra_status fresh \<and>
      (ra_board_sid old = None \<or> bd_outbox d' = bd_outbox d \<and> bd_pending d' = bd_pending d) \<and>
      distinct (bd_pending d')"
proof -
  have a: "stored_agent d fresh = carry_over old fresh" by (simp add: stored_agent_def assms(3))
  have n: "ra_name fresh = rp_name p" "ra_cwd fresh = rp_cwd p" "ra_from_launch fresh = rp_from_launch p"
    using assms(2) by (auto simp: into_registered_agent_def Let_def bind_res_eq_Inr split: if_splits)
  have keep: "ra_board_sid old = None \<or> bd_outbox d' = bd_outbox d \<and> bd_pending d' = bd_pending d"
    by (auto simp: d'_def handle_register_Inr[OF assms(2)] a store_def)
  have "daemon_ok d'" unfolding d'_def by (rule ok_register[OF ok_reachable[OF assms(1)]])
  then have "distinct (bd_pending d')" by (simp add: daemon_ok_def pending_ok_def)
  moreover have "get_agent d' (ra_key fresh) = Some (carry_over old fresh)"
    by (simp add: d'_def handle_register_Inr[OF assms(2)] a store_def)
  ultimately show ?thesis using keep n
    by (simp add: carry_over_def terminal_snapshot_def)
qed

lemma reregistration_keeps_history_witness:
  "map_option ra_board_sid (get_agent (fst (handle_register (Some \<lparr>rp_agent_id = ''c1'', rp_kind = ''codex'',
     rp_name = ''renamed'', rp_cwd = [], rp_focus_target = None, rp_terminal_hwnd = None, rp_status = None,
     rp_parent_agent_id = None, rp_parent_kind = None, rp_from_launch = False\<rparr>) bound_daemon)) (Codex, ''c1'')) =
     Some (Some (BoardSid 7))"
proof -
  let ?p = "\<lparr>rp_agent_id = ''c1'', rp_kind = ''codex'', rp_name = ''renamed'', rp_cwd = [],
    rp_focus_target = None, rp_terminal_hwnd = None, rp_status = None, rp_parent_agent_id = None,
    rp_parent_kind = None, rp_from_launch = False\<rparr>"
  obtain old where old: "get_agent bound_daemon (Codex, ''c1'') = Some old" "ra_board_sid old = Some (BoardSid 7)"
    using bound_sample(1) by auto
  have "agent_kind_from_label ''codex'' = Codex" "trim ''c1'' \<noteq> []" by code_simp+
  then obtain fresh where f: "into_registered_agent ?p = Inr fresh" "ra_key fresh = (Codex, ''c1'')"
    by (simp add: into_registered_agent_def attached_terminal_of_def ra_key_def)
  show ?thesis
    using reregistration_keeps_history[OF reachable_samples(1) f(1), unfolded f(2), OF old(1)] old(2) by auto
qed

end
