(* ===== verification/Board_Link.thy ===== *)
theory Board_Link
  imports Daemon_Properties
begin

text \<open>
  The threads of \<open>run_tcp_hid_daemon\<close> in \<open>crates/vb-daemon/src/lib.rs\<close> around the daemon's
  state: draining the outbox through a transport, the client connections, the reader and the
  heartbeat thread. The transport is any implementation of the \<open>hid_transport\<close> interface.
\<close>

section \<open>Draining the outbox\<close>

type_synonym 'w sender = "'w \<Rightarrow> hid_message \<Rightarrow> 'w \<times> (transport_error + unit)"

fun send_frames :: "'w sender \<Rightarrow> hid_frame list \<Rightarrow> 'w \<Rightarrow> 'w \<times> (transport_error + unit)" where
  "send_frames send [] w = (w, Inr ())"
| "send_frames send (f # fs) w =
    (case send w (frame_message f) of
       (w', Inl err) \<Rightarrow> (w', Inl err)
     | (w', Inr _) \<Rightarrow> send_frames send fs w')"

definition message_frames :: "hid_message \<Rightarrow> hid_frame list" where
  "message_frames msg = split_host_to_board (hm_cmd msg) (hm_sid msg) (hm_payload msg)"

definition send_error :: "hid_message \<Rightarrow> transport_error \<Rightarrow> string" where
  "send_error msg err = ''HID send '' @ cmd_debug (hm_cmd msg) @ ''/sid '' @
     show_nat (unat (hm_sid msg)) @ '': '' @ transport_error_display err"

fun flush_outbox :: "'w sender \<Rightarrow> hid_message list \<Rightarrow> 'w \<Rightarrow> hid_message list \<times> 'w \<times> unit result" where
  "flush_outbox send [] w = ([], w, Inr ())"
| "flush_outbox send (msg # rest) w =
    (case send_frames send (message_frames msg) w of
       (w', Inl err) \<Rightarrow> (msg # rest, w', Inl (send_error msg err))
     | (w', Inr _) \<Rightarrow> flush_outbox send rest w')"

definition flush_board_outbox ::
  "'w sender \<Rightarrow> ('w \<Rightarrow> bool) \<Rightarrow> bridge_daemon \<Rightarrow> 'w \<Rightarrow> bridge_daemon \<times> 'w \<times> unit result" where
  "flush_board_outbox send is_connected d w =
    (if \<not> is_connected w then (d, w, Inr ())
     else let (out, w', r) = flush_outbox send (bd_outbox d) w in (d\<lparr>bd_outbox := out\<rparr>, w', r))"

section \<open>Client connections\<close>

datatype error_kind = ConnectionReset | ConnectionAborted | BrokenPipe | UnexpectedEof | OtherKind

record io_error =
  ie_kind :: error_kind
  ie_text :: string

definition is_disconnect_error :: "io_error \<Rightarrow> bool" where
  "is_disconnect_error e \<longleftrightarrow> ie_kind e \<in> {ConnectionReset, ConnectionAborted, BrokenPipe, UnexpectedEof}"

text \<open>
  What a connection meets in one turn of its loop: what reading a line gives, what a poll of
  the transcripts would find, and whether the response can be written.
\<close>

datatype read_outcome = ReadEof | ReadLine string | ReadError io_error

record client_turn =
  ct_read :: read_outcome
  ct_polled :: "poll_snapshot result"
  ct_write :: "io_error option"

definition response_of :: "json result \<Rightarrow> json" where
  "response_of r = (case r of Inl e \<Rightarrow> error_response e | Inr v \<Rightarrow> v)"

text \<open>
  The loop of \<open>handle_client\<close>, with the responses it writes; \<open>None\<close> while it is still reading.
\<close>

fun handle_client ::
  "json_reader \<Rightarrow> client_turn list \<Rightarrow> bridge_daemon \<Rightarrow> bridge_daemon \<times> json list \<times> unit result option" where
  "handle_client rd [] d = (d, [], None)"
| "handle_client rd (t # ts) d =
    (case ct_read t of
       ReadEof \<Rightarrow> (d, [], Some (Inr ()))
     | ReadError e \<Rightarrow>
        (d, [], Some (if is_disconnect_error e then Inr () else Inl (''read registration line: '' @ ie_text e)))
     | ReadLine line \<Rightarrow>
        (let (d1, r) = handle_json_line rd (ct_polled t) (trim line) d;
             response = response_of r
         in case ct_write t of
              Some e \<Rightarrow> (d1, [response], Some (if is_disconnect_error e then Inr ()
                          else Inl (''write registration response: '' @ ie_text e)))
            | None \<Rightarrow>
               (let (d2, rs, res) = handle_client rd ts d1 in (d2, response # rs, res))))"

text \<open>The loop of \<open>handle_client_shared\<close>, which also drains the outbox after each response.\<close>

fun handle_client_shared ::
  "json_reader \<Rightarrow> 'w sender \<Rightarrow> ('w \<Rightarrow> bool) \<Rightarrow> client_turn list \<Rightarrow> bridge_daemon \<Rightarrow> 'w \<Rightarrow>
   bridge_daemon \<times> 'w \<times> json list \<times> unit result option" where
  "handle_client_shared rd send conn [] d w = (d, w, [], None)"
| "handle_client_shared rd send conn (t # ts) d w =
    (case ct_read t of
       ReadEof \<Rightarrow> (d, w, [], Some (Inr ()))
     | ReadError e \<Rightarrow>
        (d, w, [], Some (if is_disconnect_error e then Inr () else Inl (''read registration line: '' @ ie_text e)))
     | ReadLine line \<Rightarrow>
        (let (d1, r) = handle_json_line rd (ct_polled t) (trim line) d;
             response = response_of r
         in case ct_write t of
              Some e \<Rightarrow> (d1, w, [response], Some (if is_disconnect_error e then Inr ()
                          else Inl (''write registration response: '' @ ie_text e)))
            | None \<Rightarrow>
               (let (d2, w2, _) = flush_board_outbox send conn d1 w;
                    (d3, w3, rs, res) = handle_client_shared rd send conn ts d2 w2
                in (d3, w3, response # rs, res))))"

section \<open>The background threads\<close>

text \<open>One turn of the reader thread, with the last read error it reported.\<close>

definition reader_turn ::
  "'w sender \<Rightarrow> ('w \<Rightarrow> bool) \<Rightarrow> transport_error + hid_message \<Rightarrow> string \<Rightarrow> bridge_daemon \<Rightarrow> 'w \<Rightarrow>
   bridge_daemon \<times> 'w \<times> string" where
  "reader_turn send conn received last_error d w =
    (case received of
       Inl err \<Rightarrow> (d, w, transport_error_display err)
     | Inr msg \<Rightarrow>
        (let (d1, _) = handle_board_message msg d;
             (d2, w2, _) = flush_board_outbox send conn d1 w
         in (d2, w2, [])))"

definition heartbeat_turn ::
  "'w sender \<Rightarrow> ('w \<Rightarrow> bool) \<Rightarrow> bridge_daemon \<Rightarrow> 'w \<Rightarrow> bridge_daemon \<times> 'w" where
  "heartbeat_turn send conn d w =
    (if \<not> conn w then (d, w)
     else let (d1, w1, _) = flush_board_outbox send conn (heartbeat_tick d) w in (d1, w1))"

definition discovery_turn ::
  "'w sender \<Rightarrow> ('w \<Rightarrow> bool) \<Rightarrow> poll_snapshot result \<Rightarrow> bridge_daemon \<Rightarrow> 'w \<Rightarrow> bridge_daemon \<times> 'w" where
  "discovery_turn send conn polled d w =
    (case polled of
       Inl _ \<Rightarrow> (d, w)
     | Inr p \<Rightarrow> let (d1, w1, _) = flush_board_outbox send conn (discovery_round p d) w in (d1, w1))"

section \<open>Lemmas over the transport interface\<close>

text \<open>Everything the frames of a list of messages put on the wire.\<close>

definition wire_of :: "hid_message list \<Rightarrow> hid_message list" where
  "wire_of msgs = concat (map (\<lambda>m. map frame_message (message_frames m)) msgs)"

lemma wire_of_simps [simp]: "wire_of [] = []"
  "wire_of (m # ms) = map frame_message (message_frames m) @ wire_of ms"
  by (simp_all add: wire_of_def)

context hid_transport
begin

lemma send_frames_delivered:
  assumes "send_frames send fs w = (w', r)"
  shows "\<exists>j. delivered w' = delivered w @ map frame_message (take j fs) \<and>
    (if r = Inr () then j = length fs else j < length fs)"
  using assms
proof (induction fs arbitrary: w)
  case (Cons f fs)
  show ?case
  proof (cases "send w (frame_message f)")
    case (Pair w1 r1)
    show ?thesis
    proof (cases r1)
      case (Inl e)
      then show ?thesis using Cons.prems Pair send_err[of w "frame_message f"]
        by (intro exI[of _ 0]) auto
    next
      case (Inr u)
      then have "delivered w1 = delivered w @ [frame_message f]" using Pair send_ok by simp
      moreover have "send_frames send fs w1 = (w', r)" using Cons.prems Pair Inr by simp
      ultimately show ?thesis using Cons.IH[of w1] by (auto split: if_splits intro: exI[of _ "Suc _"])
    qed
  qed
qed auto

text \<open>A flush delivers whole messages from the front, then part of the one that failed.\<close>

lemma flush_delivered:
  assumes "flush_outbox send out w = (out', w', r)"
  shows "\<exists>n j. out' = drop n out \<and>
    delivered w' = delivered w @ wire_of (take n out) @
      map frame_message (take j (message_frames (out ! n))) \<and>
    (if r = Inr () then n = length out \<and> j = 0
     else n < length out \<and> j < length (message_frames (out ! n)))"
  using assms
proof (induction out arbitrary: w)
  case Nil
  then show ?case by auto
next
  case (Cons m out)
  obtain w1 r1 where s: "send_frames send (message_frames m) w = (w1, r1)" by fastforce
  from send_frames_delivered[OF s] obtain j where j:
    "delivered w1 = delivered w @ map frame_message (take j (message_frames m))"
    "if r1 = Inr () then j = length (message_frames m) else j < length (message_frames m)" by blast
  show ?case
  proof (cases r1)
    case (Inl e)
    then show ?thesis using Cons.prems s j by (intro exI[of _ 0] exI[of _ j]) auto
  next
    case (Inr u)
    then have d1: "delivered w1 = delivered w @ map frame_message (message_frames m)" using j by simp
    have "flush_outbox send out w1 = (out', w', r)" using Cons.prems s Inr by simp
    from Cons.IH[OF this] obtain n i where "out' = drop n out"
      "delivered w' = delivered w1 @ wire_of (take n out) @ map frame_message (take i (message_frames (out ! n)))"
      "if r = Inr () then n = length out \<and> i = 0 else n < length out \<and> i < length (message_frames (out ! n))"
      by blast
    then show ?thesis using d1 by (intro exI[of _ "Suc n"] exI[of _ i]) (auto split: if_splits)
  qed
qed

text \<open>A failed flush and a later complete one put the head of the rest on the wire again.\<close>

lemma flush_retry:
  assumes "flush_outbox send out w = (out', w', Inl e)" and "flush_outbox send out' w' = (out'', w'', Inr ())"
  shows "\<exists>n j. j < length (message_frames (out ! n)) \<and> n < length out \<and> out'' = [] \<and>
    delivered w'' = delivered w @ wire_of (take n out) @
      map frame_message (take j (message_frames (out ! n))) @ wire_of (drop n out)"
proof -
  obtain n j where 1: "out' = drop n out" "n < length out" "j < length (message_frames (out ! n))"
    "delivered w' = delivered w @ wire_of (take n out) @ map frame_message (take j (message_frames (out ! n)))"
    using flush_delivered[OF assms(1)] by auto
  have 2: "out'' = []" "delivered w'' = delivered w' @ wire_of out'"
    using flush_delivered[OF assms(2)] by auto
  show ?thesis using 1 2 by auto
qed

end

section \<open>Properties\<close>

text \<open>
  Draining the outbox over the reopening transport delivers the queued messages in
  order, each as its reports; what stays queued after an error is the message that failed
  and those after it, and no report of a later message has been sent.
\<close>
theorem flush_delivers_in_order:
  assumes "flush_board_outbox reopen_send reopen_is_connected d w = (d', w', r)"
  shows "\<exists>n j. d' = d\<lparr>bd_outbox := drop n (bd_outbox d)\<rparr> \<and>
    wire_messages w' = wire_messages w @ wire_of (take n (bd_outbox d)) @
      map frame_message (take j (message_frames (bd_outbox d ! n))) \<and>
    (if \<not> reopen_is_connected w then n = 0 \<and> j = 0
     else if r = Inr () then n = length (bd_outbox d) \<and> j = 0
     else n < length (bd_outbox d) \<and> j < length (message_frames (bd_outbox d ! n)))"
proof (cases "reopen_is_connected w")
  case True
  obtain out w1 r1 where f: "flush_outbox reopen_send (bd_outbox d) w = (out, w1, r1)"
    by (metis prod_cases3)
  then have "d' = d\<lparr>bd_outbox := out\<rparr>" "w' = w1" "r = r1"
    using assms True by (auto simp: flush_board_outbox_def)
  moreover obtain n j where "out = drop n (bd_outbox d)"
    "wire_messages w1 = wire_messages w @ wire_of (take n (bd_outbox d)) @
      map frame_message (take j (message_frames (bd_outbox d ! n)))"
    "if r1 = Inr () then n = length (bd_outbox d) \<and> j = 0
     else n < length (bd_outbox d) \<and> j < length (message_frames (bd_outbox d ! n))"
    using reopen.flush_delivered[OF f] by blast
  ultimately show ?thesis using True by (intro exI[of _ n] exI[of _ j]) simp
next
  case False
  then show ?thesis using assms by (intro exI[of _ 0]) (auto simp: flush_board_outbox_def)
qed

text \<open>
  A message whose sending failed half-way is sent again from its first report: when the
  next drain succeeds, the reports already delivered are on the wire twice.
\<close>
theorem failed_flush_repeats_reports:
  assumes "flush_outbox reopen_send out w = (out', w', Inl e)"
    and "flush_outbox reopen_send out' w' = (out'', w'', Inr ())"
  shows "\<exists>n j. n < length out \<and> j < length (message_frames (out ! n)) \<and> out'' = [] \<and>
    wire_messages w'' = wire_messages w @ wire_of (take n out) @
      map frame_message (take j (message_frames (out ! n))) @ wire_of (drop n out)"
  using reopen.flush_retry[OF assms] by blast

text \<open>The state a connection leaves after some lines, and the response to the next.\<close>

definition turn_line :: "client_turn \<Rightarrow> string" where
  "turn_line t = (case ct_read t of ReadLine l \<Rightarrow> trim l | _ \<Rightarrow> [])"

definition state_after :: "json_reader \<Rightarrow> client_turn list \<Rightarrow> bridge_daemon \<Rightarrow> bridge_daemon" where
  "state_after rd ts d = fold (\<lambda>t d. fst (handle_json_line rd (ct_polled t) (turn_line t) d)) ts d"

definition response_to :: "json_reader \<Rightarrow> client_turn \<Rightarrow> bridge_daemon \<Rightarrow> json" where
  "response_to rd t d = response_of (snd (handle_json_line rd (ct_polled t) (turn_line t) d))"

text \<open>
  C19: a client connection answers every line, in order, with the response to it in the state
  its predecessors left, errors included; when the client closes, the connection ends well.
\<close>
theorem client_answers_every_line:
  assumes "\<forall>t \<in> set ts. \<exists>l. ct_read t = ReadLine l" and "\<forall>t \<in> set ts. ct_write t = None"
    and "ct_read eof = ReadEof"
  shows "handle_client rd (ts @ [eof]) d = (state_after rd ts d,
    map (\<lambda>n. response_to rd (ts ! n) (state_after rd (take n ts) d)) [0..<length ts], Some (Inr ()))"
  using assms(1,2)
proof (induction ts arbitrary: d)
  case Nil
  then show ?case using assms(3) by (simp add: state_after_def)
next
  case (Cons t ts)
  obtain l where l: "ct_read t = ReadLine l" using Cons.prems(1) by auto
  obtain d1 r where h: "handle_json_line rd (ct_polled t) (trim l) d = (d1, r)" by fastforce
  have line: "turn_line t = trim l" by (simp add: turn_line_def l)
  have "map (\<lambda>n. response_to rd ((t # ts) ! n) (state_after rd (take n (t # ts)) d)) [0..<length (t # ts)] =
      response_of r # map (\<lambda>n. response_to rd (ts ! n) (state_after rd (take n ts) d1)) [0..<length ts]"
    by (simp add: upt_conv_Cons map_Suc_upt[symmetric] state_after_def response_to_def line h
        del: upt_Suc)
  then show ?case
    using Cons.prems Cons.IH[of d1] l h by (simp add: state_after_def line)
qed

definition line_turn :: "string \<Rightarrow> client_turn" where
  "line_turn l = \<lparr>ct_read = ReadLine l, ct_polled = Inl [], ct_write = None\<rparr>"

lemma client_answers_every_line_witness:
  "fst (snd (handle_client (sample_reader JNull) [line_turn ''x'', line_turn ''y'',
      \<lparr>ct_read = ReadEof, ct_polled = Inl [], ct_write = None\<rparr>] bridge_daemon_new)) =
    [error_response ''invalid json: shape'', error_response ''invalid json: shape'']"
  using client_answers_every_line[of "[line_turn ''x'', line_turn ''y'']"
      "\<lparr>ct_read = ReadEof, ct_polled = Inl [], ct_write = None\<rparr>" "sample_reader JNull" bridge_daemon_new]
  by (simp add: line_turn_def response_to_def response_of_def handle_json_line_def read_envelope_def
      sample_reader_def envelope_of_json_def fits_def required_def upt_rec)

text \<open>A message of two reports over a device that fails twice after the first report.\<close>

definition long_message :: hid_message where
  "long_message = \<lparr>hm_cmd = Vt100Stream, hm_sid = 3, hm_payload = replicate 60 0x41\<rparr>"

definition failing_world :: reopen_world where
  "failing_world = flaky_world\<lparr>rw_io_env := (\<lambda>n. (rw_io_env flaky_world 2)\<lparr>io_ok := n \<notin> {1, 3}\<rparr>)\<rparr>"

lemma long_message_frames:
  "message_frames long_message =
    [\<lparr>hf_report_id = REPORT_ID_DEVICE_BOUND, hf_cmd = Vt100Stream, hf_sid = 3, hf_payload = replicate 58 0x41\<rparr>,
     \<lparr>hf_report_id = REPORT_ID_DEVICE_BOUND, hf_cmd = Vt100Stream, hf_sid = 3, hf_payload = [0x41, 0x41]\<rparr>]"
proof -
  have r: "(replicate 60 0x41 :: bytes) = replicate 58 0x41 @ [0x41, 0x41]"
    by (simp add: numeral_eq_Suc)
  have "chunks 58 (replicate 60 0x41 :: bytes) = [replicate 58 0x41, [0x41, 0x41]]"
    unfolding r by (subst chunks_append) (simp_all add: chunks_short)
  then show ?thesis by (simp add: message_frames_def long_message_def split_host_to_board_def)
qed

definition failing_at :: "nat \<Rightarrow> handle option \<Rightarrow> bytes list \<Rightarrow> reopen_world" where
  "failing_at n inner wire = failing_world\<lparr>rw_now := n, rw_inner := inner, rw_wire := wire\<rparr>"

lemma failing_send_op:
  assumes "frame_encode (message_frame m) = Inr raw"
  shows "send_op m h (failing_at n inner wire) =
    (failing_at (Suc n) inner (wire @ (if n \<notin> {1, 3} then [raw] else [])),
     if n \<notin> {1, 3} then Inr () else Inl Timeout)"
  using assms frame_encode_length[OF assms]
  by (simp add: send_op_def win_send_def with_event_def write_report_def Let_def rw_tick_def
      check_written_def failing_at_def failing_world_def flaky_world_def)

lemma failing_acquire:
  "acquire (failing_at n inner wire) = (case inner of
     Some h \<Rightarrow> (failing_at n inner wire, Inr h) | None \<Rightarrow> (failing_at (Suc n) (Some 9) wire, Inr 9))"
  by (simp add: acquire_def rw_tick_def failing_at_def failing_world_def flaky_world_def open_device_def
      win_open_def INVALID_HANDLE_VALUE_def split: option.split)

lemma failing_invalidate: "invalidate (failing_at n inner wire) = failing_at n None wire"
  by (simp add: invalidate_def failing_at_def failing_world_def flaky_world_def)

lemma long_message_drains:
  "\<exists>raw raw'. flush_outbox reopen_send [long_message] (failing_at 0 (Some 7) []) =
      ([long_message], failing_at 4 None [raw], Inl (send_error long_message Timeout)) \<and>
    flush_outbox reopen_send [long_message] (failing_at 4 None [raw]) =
      ([], failing_at 7 (Some 9) [raw, raw, raw'], Inr ())"
proof -
  let ?f = "\<lambda>p. \<lparr>hm_cmd = Vt100Stream, hm_sid = 3, hm_payload = p\<rparr>"
  obtain raw where raw: "frame_encode (message_frame (?f (replicate 58 0x41))) = Inr raw"
    using frame_encode_message[of "?f (replicate 58 0x41)"] by auto
  obtain raw' where raw': "frame_encode (message_frame (?f [0x41, 0x41])) = Inr raw'"
    using frame_encode_message[of "?f [0x41, 0x41]"] by auto
  note ops = failing_send_op[OF raw] failing_send_op[OF raw'] failing_acquire failing_invalidate
  have n: "(4 :: nat) = Suc (Suc (Suc (Suc 0)))" "(7 :: nat) = Suc (Suc (Suc (Suc (Suc (Suc (Suc 0))))))"
    by simp_all
  show ?thesis unfolding n
    by (rule exI[of _ raw], rule exI[of _ raw'])
      (simp add: long_message_frames frame_message_def reopen_send_def with_transport_def upt_rec ops)
qed

lemma flush_delivers_in_order_witness:
  "\<exists>d' w' n j. flush_board_outbox reopen_send reopen_is_connected
      (bridge_daemon_new\<lparr>bd_outbox := [long_message]\<rparr>) (failing_at 0 (Some 7) []) =
      (d', w', Inl (send_error long_message Timeout)) \<and> bd_outbox d' = drop n [long_message] \<and> n < 1 \<and>
      j < length (message_frames long_message)"
proof -
  let ?d = "bridge_daemon_new\<lparr>bd_outbox := [long_message]\<rparr>" and ?w = "failing_at 0 (Some 7) []"
  obtain raw where f: "flush_outbox reopen_send [long_message] ?w =
      ([long_message], failing_at 4 None [raw], Inl (send_error long_message Timeout))"
    using long_message_drains by blast
  have c: "reopen_is_connected ?w"
    by (simp add: reopen_is_connected_def failing_at_def failing_world_def flaky_world_def
        win_is_connected_def INVALID_HANDLE_VALUE_def)
  have r: "flush_board_outbox reopen_send reopen_is_connected ?d ?w =
      (?d, failing_at 4 None [raw], Inl (send_error long_message Timeout))"
    using c f by (simp add: flush_board_outbox_def)
  obtain n j where n: "?d = ?d\<lparr>bd_outbox := drop n [long_message]\<rparr>" "n < 1" "j < length (message_frames long_message)"
    using flush_delivers_in_order[OF r] c by auto
  have "bd_outbox ?d = drop n [long_message]" using n(2) by simp
  then show ?thesis using r n(2,3) by blast
qed

lemma failed_flush_repeats_reports_witness:
  "\<exists>out' w' e w'' n j. flush_outbox reopen_send [long_message] (failing_at 0 (Some 7) []) = (out', w', Inl e) \<and>
     flush_outbox reopen_send out' w' = ([], w'', Inr ()) \<and>
     wire_messages w'' = wire_messages (failing_at 0 (Some 7) []) @ wire_of (take n [long_message]) @
       map frame_message (take j (message_frames ([long_message] ! n))) @ wire_of (drop n [long_message])"
  using long_message_drains failed_flush_repeats_reports[of "[long_message]" "failing_at 0 (Some 7) []"] by metis

end
