(* ===== verification/Passive_Sessions.thy ===== *)
theory Passive_Sessions
  imports Daemon_Properties
begin

text \<open>
  Passive discovery and the terminal streams of the daemon: which agents a pruning round
  drops and when, what becomes of a passive agent whose session the board invalidates, how
  terminal bytes reach the mirrors and the board, the snapshot and the heartbeat.
\<close>

section \<open>Lemmas: pruning\<close>

lemma prune_get:
  assumes "daemon_ok d"
  shows "get_agent (fst (prune_missing_passive_sessions latest d)) k =
    (if k \<in> set (pruned latest d) then None else get_agent d k)"
  by (simp add: prune_normal_form[OF assms] get_agent_fold_drop)

lemma pruned_iff:
  assumes "daemon_ok d"
  shows "k \<in> set (pruned latest d) \<longleftrightarrow>
    k \<notin> session_key ` set latest \<and> bd_missing d k = Some 2 \<and>
    (\<exists>a. get_agent d k = Some a \<and> prune_candidate a)"
  using prune_candidates_iff(1)[of d k] assms
  by (auto simp: pruned_def daemon_ok_def registry_ok_def)

lemma candidate_iff:
  assumes "daemon_ok d"
  shows "k \<in> set (prune_candidates d) \<longleftrightarrow> (\<exists>a. get_agent d k = Some a \<and> prune_candidate a)"
  using prune_candidates_iff(1)[of d k] assms by (simp add: daemon_ok_def registry_ok_def)

text \<open>One round that does not see a candidate: the count grows, or the agent goes.\<close>

lemma missed_round:
  assumes d: "daemon_ok d" and "get_agent d k = Some a" and "prune_candidate a"
    and "k \<notin> session_key ` set latest"
  defines "d' \<equiv> fst (prune_missing_passive_sessions latest d)"
  shows "bd_missing d k = None \<Longrightarrow> get_agent d' k = Some a \<and> bd_missing d' k = Some 1"
    and "bd_missing d k = Some 1 \<Longrightarrow> get_agent d' k = Some a \<and> bd_missing d' k = Some 2"
    and "bd_missing d k = Some 2 \<Longrightarrow> get_agent d' k = None \<and> bd_missing d' k = None"
  using assms(2-4) unfolding d'_def prune_get[OF d] prune_missing_after[OF d]
  by (auto simp: pruned_iff[OF d] candidate_iff[OF d] next_missing_def saturating_inc_def)

section \<open>Lemmas: discovery\<close>

lemma ingest_turn_get:
  "get_agent (fst (ingest_turn t st)) k =
    (if k = (dt_kind t, dt_agent_id t)
     then map_option (\<lambda>a. push_turn \<lparr>ct_sid = sid_or_broadcast a, ct_role = dt_role t, ct_text = dt_text t,
        ct_ts_ms = 0\<rparr> a) (get_agent (fst st) k)
     else get_agent (fst st) k)"
  by (auto simp: ingest_turn_def Let_def case_prod_unfold split: option.split)

definition same_session :: "registered_agent \<Rightarrow> registered_agent \<Rightarrow> bool" where
  "same_session a b \<longleftrightarrow> ra_board_sid a = ra_board_sid b \<and> ra_from_hook a = ra_from_hook b \<and>
    ra_from_launch a = ra_from_launch b"

lemma ingest_turns_get:
  "rel_option same_session (get_agent d k) (get_agent (fst (ingest_discovered_turns ts d)) k)"
proof -
  have "rel_option same_session (get_agent (fst st) k) (get_agent (fst (fold ingest_turn ts st)) k)" for st
  proof (induction ts arbitrary: st)
    case Nil
    show ?case by (simp add: option.rel_refl same_session_def)
  next
    case (Cons t ts)
    have "rel_option same_session (get_agent (fst st) k) (get_agent (fst (ingest_turn t st)) k)"
      unfolding ingest_turn_get by (cases "get_agent (fst st) k") (auto simp: same_session_def)
    moreover note Cons.IH[of "ingest_turn t st"]
    ultimately show ?case
      by (auto simp: same_session_def option_rel_Some1 elim!: option.rel_cases)
  qed
  from this[of "(d, 0)"] show ?thesis by (simp add: ingest_discovered_turns_def)
qed

lemma ingest_turns_pending: "bd_pending (fst (ingest_discovered_turns ts d)) = bd_pending d"
proof -
  have "bd_pending (fst (fold ingest_turn ts st)) = bd_pending (fst st)" for st
    by (induction ts arbitrary: st)
      (auto simp: ingest_turn_def Let_def case_prod_unfold split: option.split)
  from this[of "(d, 0)"] show ?thesis by (simp add: ingest_discovered_turns_def)
qed

lemma register_discovered_old:
  assumes "get_agent (fst st) k = Some a"
  shows "get_agent (fst (register_discovered s st)) k = Some a"
    and "k \<in> set (bd_pending (fst (register_discovered s st))) \<longleftrightarrow> k \<in> set (bd_pending (fst st))"
  using assms
  by (auto simp: register_discovered_def Let_def case_prod_unfold enqueue_board_session_request_def
      session_key_def get_agent_def alist_simps push_outbox_def push_activity_def)

lemma register_sessions_old:
  assumes "get_agent d k = Some a"
  shows "get_agent (fst (register_discovered_sessions ss d)) k = Some a \<and>
    (k \<in> set (bd_pending (fst (register_discovered_sessions ss d))) \<longleftrightarrow> k \<in> set (bd_pending d))"
proof -
  have "get_agent (fst (fold register_discovered ss st)) k = Some a \<and>
      (k \<in> set (bd_pending (fst (fold register_discovered ss st))) \<longleftrightarrow> k \<in> set (bd_pending (fst st)))"
    if "get_agent (fst st) k = Some a" for st
    using that by (induction ss arbitrary: st) (simp_all add: register_discovered_old)
  from this[of "(d, 0)"] assms show ?thesis by (simp add: register_discovered_sessions_def)
qed

lemma drop_pending: "k \<in> set (bd_pending (fold drop_agent ks d)) \<longleftrightarrow> k \<in> set (bd_pending d) \<and> k \<notin> set ks"
  by (induction ks arbitrary: d) (auto simp: drop_agent_def)

section \<open>Properties: passive discovery\<close>

text \<open>
  C33: a pruning round reports and drops exactly the agents that came from transcripts only
  (neither hook nor launch), are bound, are absent from the latest discovery, and were absent
  from two rounds before; every other agent stays as it is.
\<close>
theorem prune_drops_exactly:
  assumes "reachable d"
  shows "(k \<in> set (snd (prune_missing_passive_sessions latest d)) \<longleftrightarrow>
      k \<notin> session_key ` set latest \<and> bd_missing d k = Some 2 \<and>
      (\<exists>a. get_agent d k = Some a \<and> \<not> ra_from_hook a \<and> \<not> ra_from_launch a \<and> ra_board_sid a \<noteq> None)) \<and>
    get_agent (fst (prune_missing_passive_sessions latest d)) k =
      (if k \<in> set (snd (prune_missing_passive_sessions latest d)) then None else get_agent d k)"
proof -
  note ok = ok_reachable[OF assms]
  have "snd (prune_missing_passive_sessions latest d) = pruned latest d" by (simp add: prune_normal_form[OF ok])
  then show ?thesis by (auto simp: pruned_iff[OF ok] prune_get[OF ok] prune_candidate_def)
qed

text \<open>
  A passive agent that disappears from discovery survives two rounds and is dropped by
  the third, no sooner and no later.
\<close>
theorem passive_grace_is_three_rounds:
  assumes "reachable d" and "get_agent d k = Some a" and "prune_candidate a" and "bd_missing d k = None"
    and "\<forall>l \<in> {l1, l2, l3}. k \<notin> session_key ` set l"
  defines "r1 \<equiv> fst (prune_missing_passive_sessions l1 d)"
  defines "r2 \<equiv> fst (prune_missing_passive_sessions l2 r1)"
  defines "r3 \<equiv> fst (prune_missing_passive_sessions l3 r2)"
  shows "get_agent r1 k = Some a \<and> get_agent r2 k = Some a \<and> get_agent r3 k = None \<and> bd_missing r3 k = None"
proof -
  have ok: "daemon_ok d" "daemon_ok r1" "daemon_ok r2"
    unfolding r1_def r2_def using ok_reachable[OF assms(1)] by (simp_all add: ok_prune)
  have 1: "get_agent r1 k = Some a \<and> bd_missing r1 k = Some 1"
    unfolding r1_def using missed_round(1)[OF ok(1) assms(2,3)] assms(4,5) by simp
  then have 2: "get_agent r2 k = Some a \<and> bd_missing r2 k = Some 2"
    unfolding r2_def using missed_round(2)[OF ok(2) _ assms(3)] assms(5) by simp
  then have "get_agent r3 k = None \<and> bd_missing r3 k = None"
    unfolding r3_def using missed_round(3)[OF ok(3) _ assms(3)] assms(5) by simp
  with 1 2 show ?thesis by simp
qed

text \<open>
  C40: once the board has invalidated the session of a passive agent, discovery never gets it
  another one: a whole discovery round, whether it still sees the agent or not, leaves it
  registered, unbound and without a queued request.
\<close>
theorem invalidated_passive_agent_is_stuck:
  assumes "reachable d" and "get_agent d k = Some a" and "ra_board_sid a = None" and "k \<notin> set (bd_pending d)"
  shows "\<exists>b. get_agent (discovery_round p d) k = Some b \<and> ra_board_sid b = None \<and>
    k \<notin> set (bd_pending (discovery_round p d))"
proof -
  let ?d1 = "fst (register_discovered_sessions (ps_sessions p) d)"
  let ?d2 = "fst (ingest_discovered_turns (ps_turns p) ?d1)"
  have round: "discovery_round p d = fst (prune_missing_passive_sessions (ps_sessions p) ?d2)"
    by (simp add: discovery_round_def case_prod_unfold)
  have ok2: "daemon_ok ?d2"
    using ok_reachable[OF assms(1)] by (intro ok_ingest_turns ok_register_sessions)
  have 1: "get_agent ?d1 k = Some a" "k \<notin> set (bd_pending ?d1)"
    using register_sessions_old[OF assms(2), of "ps_sessions p"] assms(4) by auto
  then obtain b where b: "get_agent ?d2 k = Some b" "ra_board_sid b = None"
    using ingest_turns_get[of ?d1 k "ps_turns p"] assms(3) by (auto simp: option_rel_Some1 same_session_def)
  have "k \<notin> set (pruned (ps_sessions p) ?d2)"
    using b by (auto simp: pruned_iff[OF ok2] prune_candidate_def)
  moreover have "k \<notin> set (bd_pending (discovery_round p d))"
    using 1(2) by (simp add: round prune_normal_form[OF ok2] drop_pending ingest_turns_pending)
  ultimately show ?thesis using b by (simp add: round prune_get[OF ok2])
qed

text \<open>A passive agent, bound by the board and then invalidated.\<close>

definition passive_daemon :: bridge_daemon where
  "passive_daemon = respond 3 1 (discovery_round \<lparr>ps_sessions = [\<lparr>as_agent_id = ''p1'', as_kind = Codex,
     as_name = ''p'', as_cwd = [], as_transcript_path = [], as_status = Idle, as_terminal_hwnd = None\<rparr>],
     ps_activities = [], ps_turns = []\<rparr> bridge_daemon_new)"

lemma reachable_passive: "reachable passive_daemon"
  unfolding passive_daemon_def
  by (intro reachable_respond reach_step[OF _ step_discovery] reach_init)

lemma passive_sample:
  "map_option prune_candidate (get_agent passive_daemon (Codex, ''p1'')) = Some True"
  "bd_missing passive_daemon (Codex, ''p1'') = None" "bd_pending passive_daemon = []"
  by code_simp+

lemma prune_drops_exactly_witness:
  "(Codex, ''p1'') \<notin> set (snd (prune_missing_passive_sessions [] passive_daemon))"
  using prune_drops_exactly[OF reachable_passive, of "(Codex, ''p1'')" "[]"] passive_sample(2) by simp

lemma passive_grace_is_three_rounds_witness:
  "get_agent (fst (prune_missing_passive_sessions [] (fst (prune_missing_passive_sessions []
     (fst (prune_missing_passive_sessions [] passive_daemon)))))) (Codex, ''p1'') = None"
proof -
  obtain a where "get_agent passive_daemon (Codex, ''p1'') = Some a" "prune_candidate a"
    using passive_sample(1) by auto
  then show ?thesis
    using passive_grace_is_three_rounds[OF reachable_passive _ _ passive_sample(2), of a "[]" "[]" "[]"] by simp
qed

lemma invalidated_passive_agent_is_stuck_witness:
  "\<exists>b. get_agent (discovery_round \<lparr>ps_sessions = [], ps_activities = [], ps_turns = []\<rparr>
      (fst (handle_board_message \<lparr>hm_cmd = SessionInvalid, hm_sid = 3, hm_payload = []\<rparr> passive_daemon)))
      (Codex, ''p1'') = Some b \<and> ra_board_sid b = None"
proof -
  let ?d = "fst (handle_board_message \<lparr>hm_cmd = SessionInvalid, hm_sid = 3, hm_payload = []\<rparr> passive_daemon)"
  have r: "reachable ?d" by (rule reach_step[OF reachable_passive step_board])
  have "map_option ra_board_sid (get_agent ?d (Codex, ''p1'')) = Some None" "bd_pending ?d = []"
    by code_simp+
  then show ?thesis using invalidated_passive_agent_is_stuck[OF r] by fastforce
qed

end
