(* ===== verification/Terminal_Mirror.thy ===== *)
theory Terminal_Mirror
  imports Daemon_Properties
begin

text \<open>
  The daemon's outputs: terminal bytes mirrored into every attached agent and forwarded to
  the session in focus, the replay a focus triggers, heartbeats, and the snapshot of all
  sessions.
\<close>

section \<open>Lemmas: mirroring\<close>

lemma mirror_get:
  "get_agent (mirror_stream bs key d) k =
     (if k = key then map_option (append_terminal_bytes bs) (get_agent d k) else get_agent d k)"
  by (auto simp: mirror_stream_def Let_def split: option.split)

lemma mirror_focused [simp]: "bd_focused (mirror_stream bs key d) = bd_focused d"
  by (auto simp: mirror_stream_def Let_def split: option.split)

definition vt_message :: "board_sid \<Rightarrow> bytes \<Rightarrow> hid_message" where
  "vt_message s bs = \<lparr>hm_cmd = Vt100Stream, hm_sid = sid_raw s, hm_payload = bs\<rparr>"

definition forwarded :: "bytes \<Rightarrow> bridge_daemon \<Rightarrow> agent_key \<Rightarrow> hid_message list" where
  "forwarded bs d k = (case bv_bound (board_view d) k of
     None \<Rightarrow> [] | Some s \<Rightarrow> if bd_focused d = Some s then [vt_message s bs] else [])"

lemma mirror_outbox: "bd_outbox (mirror_stream bs key d) = bd_outbox d @ forwarded bs d key"
  by (auto simp: mirror_stream_def forwarded_def board_view_def vt_message_def Let_def split: option.split)

lemma forwarded_mirror [simp]: "forwarded bs (mirror_stream bs' key d) = forwarded bs d"
  by (rule ext) (simp add: forwarded_def view_mirror split: option.split)

lemma fold_mirror:
  "bd_outbox (fold (mirror_stream bs) ks d) = bd_outbox d @ concat (map (forwarded bs d) ks)"
  "distinct ks \<Longrightarrow> get_agent (fold (mirror_stream bs) ks d) k =
     (if k \<in> set ks then map_option (append_terminal_bytes bs) (get_agent d k) else get_agent d k)"
proof -
  show "bd_outbox (fold (mirror_stream bs) ks d) = bd_outbox d @ concat (map (forwarded bs d) ks)"
    by (induction ks arbitrary: d) (simp_all add: mirror_outbox)
  show "distinct ks \<Longrightarrow> get_agent (fold (mirror_stream bs) ks d) k =
     (if k \<in> set ks then map_option (append_terminal_bytes bs) (get_agent d k) else get_agent d k)"
    by (induction ks arbitrary: d) (auto simp: mirror_get)
qed

text \<open>Of distinct keys at most one owns the session in focus.\<close>

lemma forwarded_once:
  assumes "daemon_ok d" and "distinct ks"
  shows "concat (map (forwarded bs d) ks) =
    (case bd_focused d of None \<Rightarrow> []
     | Some s \<Rightarrow> if \<exists>k \<in> set ks. bv_bound (board_view d) k = Some s then [vt_message s bs] else [])"
proof (cases "bd_focused d")
  case None
  then have "forwarded bs d k = []" for k by (simp add: forwarded_def split: option.split)
  then show ?thesis by (simp add: None)
next
  case (Some s)
  have uniq: "sids_unique d" using assms(1) by (simp add: daemon_ok_def)
  have f: "forwarded bs d k = (if bv_bound (board_view d) k = Some s then [vt_message s bs] else [])" for k
    by (simp add: forwarded_def Some split: option.split)
  show ?thesis using assms(2)
  proof (induction ks)
    case (Cons k ks)
    have "bv_bound (board_view d) k' \<noteq> Some s"
      if "bv_bound (board_view d) k = Some s" "k' \<in> set ks" for k'
    proof -
      have "k \<noteq> k'" using Cons.prems that(2) by auto
      then show ?thesis using that(1) sids_uniqueD[OF uniq] by (metis view_bound_iff)
    qed
    then show ?case using Cons Some by (auto simp: f)
  qed (simp add: Some)
qed

definition is_mirror :: "bridge_daemon \<Rightarrow> agent_key \<Rightarrow> agent_key \<Rightarrow> bool" where
  "is_mirror d key k \<longleftrightarrow> k = key \<or> (\<exists>a. get_agent d k = Some a \<and> ra_attached a = Some key)"

lemma mirror_keys_set:
  assumes "daemon_ok d"
  shows "k \<in> set (mirror_keys key d) \<longleftrightarrow> is_mirror d key k"
proof -
  have dist: "distinct (map fst (bd_registered d))" using assms by (simp add: daemon_ok_def registry_ok_def)
  have "k \<in> set (mirror_keys key d) \<longleftrightarrow>
      k = key \<or> (\<exists>a. (k, a) \<in> set (bd_registered d) \<and> ra_attached a = Some key)"
    by (force simp: mirror_keys_def)
  then show ?thesis by (simp add: in_registered[OF dist] is_mirror_def)
qed

lemma mirror_keys_distinct:
  assumes "daemon_ok d" and "get_agent d key = Some t" and "ra_attached t \<noteq> Some key"
  shows "distinct (mirror_keys key d)"
proof -
  have dist: "distinct (map fst (bd_registered d))" using assms by (simp add: daemon_ok_def registry_ok_def)
  have "key \<notin> fst ` {x \<in> set (bd_registered d). case x of (k, a) \<Rightarrow> ra_attached a = Some key}"
    using assms(2,3) by (auto simp: in_registered[OF dist])
  then show ?thesis using distinct_map_filter[OF dist] by (simp add: mirror_keys_def)
qed

section \<open>Properties: terminal streams and focus\<close>



text \<open>
  C32: focusing a session replays its owner and nobody else: the screen is cleared and the
  captured bytes follow; without a capture, an agent mirrored from a terminal sends nothing,
  a launched one a clear screen, and a passive one its placeholder.
\<close>
theorem focus_replays_owner:
  assumes "reachable d" and "get_agent d k = Some a" and "ra_board_sid a = Some (BoardSid sid)"
  shows "bd_focused (focus_board_sid sid d) = Some (BoardSid sid) \<and>
    bd_outbox (focus_board_sid sid d) = bd_outbox d @
      (if terminal_snapshot a \<noteq> [] then [vt_message (BoardSid sid) (SCREEN_CLEAR @ terminal_snapshot a)]
       else if ra_attached a \<noteq> None then []
       else if ra_from_launch a then [vt_message (BoardSid sid) SCREEN_CLEAR]
       else [vt_message (BoardSid sid) (SCREEN_CLEAR @ as_bytes (render_passive_placeholder a))])"
proof -
  note ok = ok_reachable[OF assms(1)]
  have sid: "sid \<noteq> 0" using daemon_ok_agent[OF ok assms(2)] assms(3) by (auto simp: agent_ok_def sid_broadcast_def)
  let ?d = "d\<lparr>bd_focused := Some (BoardSid sid)\<rparr>"
  have "daemon_ok ?d" using ok sid by (intro daemon_ok_focused) (auto simp: sid_broadcast_def)
  then have "owner_of (BoardSid sid) ?d = Some k" using assms(2,3) by (simp add: owner_of_iff)
  then show ?thesis
    using assms(2,3) sid
    by (simp add: focus_board_sid_def terminal_replay_message_for_key_def
        terminal_replay_message_for_agent_def vt_message_def Let_def)
qed

lemma focus_replays_owner_witness:
  "length (bd_outbox (focus_board_sid 7 bound_daemon)) = Suc (length (bd_outbox bound_daemon))"
proof -
  obtain a where a: "get_agent bound_daemon (Codex, ''c1'') = Some a" "ra_board_sid a = Some (BoardSid 7)"
    using bound_sample(1) by auto
  have "map_option ra_attached (get_agent bound_daemon (Codex, ''c1'')) = Some None" by code_simp
  then have "ra_attached a = None" using a by auto
  then show ?thesis using focus_replays_owner[OF reachable_samples(1) a] by simp
qed

text \<open>
  A heartbeat tick queues one broadcast heartbeat and one heartbeat for every bound
  session, each once, and nothing else.
\<close>
theorem heartbeat_covers_bound_sessions:
  assumes "reachable d"
  shows "\<exists>sids. bd_outbox (heartbeat_tick d) = bd_outbox d @ map heartbeat_message (sid_broadcast # sids) \<and>
    distinct (sid_broadcast # sids) \<and> set sids = ran (bv_bound (board_view d))"
proof -
  note ok = ok_reachable[OF assms]
  have dist: "distinct (map fst (bd_registered d))" using ok by (simp add: daemon_ok_def registry_ok_def)
  let ?f = "\<lambda>xs. concat (map (\<lambda>(_, a). option_list (ra_board_sid a)) xs)"
  have msgs: "concat (map (\<lambda>(_, a). option_list (map_option heartbeat_message (ra_board_sid a))) xs) =
      map heartbeat_message (?f xs)" for xs :: "(agent_key \<times> registered_agent) list"
  proof (induction xs)
    case (Cons x xs)
    then show ?case by (cases x; cases "ra_board_sid (snd x)") auto
  qed simp
  have mem: "s \<in> set (?f xs) \<longleftrightarrow> (\<exists>k a. (k, a) \<in> set xs \<and> ra_board_sid a = Some s)"
    for s and xs :: "(agent_key \<times> registered_agent) list" by force
  have "distinct (?f xs)" if "set xs \<subseteq> set (bd_registered d)" "distinct (map fst xs)" for xs
    using that
  proof (induction xs)
    case (Cons x xs)
    obtain k a where x: "x = (k, a)" by fastforce
    have g: "get_agent d k' = Some a'" if "(k', a') \<in> set (x # xs)" for k' a'
      using that Cons.prems(1) in_registered[OF dist] by blast
    have "s \<notin> set (?f xs)" if s: "ra_board_sid a = Some s" for s
    proof
      assume "s \<in> set (?f xs)"
      then obtain k' a' where k': "(k', a') \<in> set xs" "ra_board_sid a' = Some s" using mem by blast
      then have "k = k'"
        using sids_uniqueD[of d k a s k' a'] ok g[of k a] g[of k' a'] s x by (auto simp: daemon_ok_def)
      then show False using Cons.prems(2) k'(1) x by force
    qed
    then show ?case using Cons x by (cases "ra_board_sid a") auto
  qed simp
  then have "distinct (?f (bd_registered d))" using dist by simp
  moreover have "set (?f (bd_registered d)) = ran (bv_bound (board_view d))"
  proof (rule set_eqI)
    fix s
    show "s \<in> set (?f (bd_registered d)) \<longleftrightarrow> s \<in> ran (bv_bound (board_view d))"
      unfolding mem ran_def by (simp add: view_bound_iff in_registered[OF dist])
  qed
  moreover have "sid_broadcast \<notin> ran (bv_bound (board_view d))"
    using daemon_ok_agent[OF ok] by (auto simp: ran_def view_bound_iff agent_ok_def)
  ultimately show ?thesis
    by (intro exI[of _ "?f (bd_registered d)"]) (simp add: heartbeat_tick_def msgs)
qed

lemma heartbeat_covers_bound_sessions_witness:
  "heartbeat_message (BoardSid 7) \<in> set (bd_outbox (heartbeat_tick bound_daemon))"
proof -
  have "BoardSid 7 \<in> ran (bv_bound (board_view bound_daemon))"
    using bound_sample(1) by (auto simp: ran_def view_bound_iff)
  then show ?thesis using heartbeat_covers_bound_sessions[OF reachable_samples(1)] by force
qed

section \<open>The snapshot\<close>

lemma merge_sessions_spec:
  "session_key ` set (merge_sessions ss as) = session_key ` set ss \<union> ra_key ` set as \<and>
   (\<exists>extra. merge_sessions ss as = ss @ map to_session extra \<and> set extra \<subseteq> set as)"
proof (induction as arbitrary: ss)
  case (Cons r as)
  let ?ss = "if \<exists>s \<in> set ss. as_kind s = ra_kind r \<and> as_agent_id s = ra_agent_id r then ss else ss @ [to_session r]"
  have step: "merge_sessions ss (r # as) = merge_sessions ?ss as" by (simp add: merge_sessions_def)
  have "session_key ` set ?ss = insert (ra_key r) (session_key ` set ss)"
    by (force simp: session_key_def ra_key_def to_session_def)
  moreover obtain extra where "merge_sessions ?ss as = ?ss @ map to_session extra" "set extra \<subseteq> set as"
    using Cons.IH[of ?ss] by blast
  moreover from this have "\<exists>extra'. merge_sessions ss (r # as) = ss @ map to_session extra' \<and> set extra' \<subseteq> set (r # as)"
    unfolding step
    by (intro exI[of _ "if \<exists>s \<in> set ss. as_kind s = ra_kind r \<and> as_agent_id s = ra_agent_id r
        then extra else r # extra"]) auto
  ultimately show ?case unfolding step using Cons.IH[of ?ss] by auto
qed (simp add: merge_sessions_def)

lemma sort_sessions_desc_spec:
  "mset (sort_sessions_desc ss) = mset ss"
  "sorted_wrt (\<lambda>a b. as_agent_id b \<le> as_agent_id a) (sort_sessions_desc ss)"
proof -
  show "mset (sort_sessions_desc ss) = mset ss" by (simp add: sort_sessions_desc_def)
  have "sorted (map as_agent_id (sort_key as_agent_id (rev ss)))" by simp
  then show "sorted_wrt (\<lambda>a b. as_agent_id b \<le> as_agent_id a) (sort_sessions_desc ss)"
    unfolding sort_sessions_desc_def sorted_wrt_rev by (simp add: sorted_wrt_map)
qed

text \<open>
  A snapshot lists, sorted by descending agent id, everything the poller found and one
  entry for each registered agent it did not find, and nothing else.
\<close>
theorem snapshot_is_complete_and_sorted:
  "\<exists>sn extra. poll_once (Inr p) d = (d\<lparr>bd_activities := bd_activities d @ ps_activities p\<rparr>, Inr sn) \<and>
     mset (sn_sessions sn) = mset (ps_sessions p) + mset (map to_session extra) \<and>
     set extra \<subseteq> set (map snd (bd_registered d)) \<and>
     session_key ` set (sn_sessions sn) = session_key ` set (ps_sessions p) \<union> ra_key ` set (map snd (bd_registered d)) \<and>
     sorted_wrt (\<lambda>a b. as_agent_id b \<le> as_agent_id a) (sn_sessions sn) \<and>
     sn_registered_agents sn = length (bd_registered d)"
proof -
  let ?m = "merge_sessions (ps_sessions p) (map snd (bd_registered d))"
  obtain extra where e: "?m = ps_sessions p @ map to_session extra" "set extra \<subseteq> set (map snd (bd_registered d))"
    using merge_sessions_spec by blast
  have "set (sort_sessions_desc ?m) = set ?m" by (metis set_mset_mset sort_sessions_desc_spec(1))
  then show ?thesis
    using merge_sessions_spec[of "ps_sessions p" "map snd (bd_registered d)"] e
      sort_sessions_desc_spec[of ?m]
    by (intro exI[of _ "\<lparr>sn_sessions = sort_sessions_desc ?m,
        sn_activities = bd_activities d @ ps_activities p,
        sn_registered_agents = length (bd_registered d)\<rparr>"] exI[of _ extra])
      (simp add: poll_once_def Let_def)
qed

end
