(* ===== verification/Transcript_Lines.thy ===== *)
theory Transcript_Lines
  imports Ipc_Requests Poll_Types
begin

text \<open>
  Reading the transcripts of Claude and Codex in \<open>crates/vb-host/src/agent_discovery.rs\<close>: one
  JSON value per line gives a status, an activity, a conversation turn, or session metadata.
  The values are \<open>serde_json::Value\<close>; reading a line of text into one is a parameter.
\<close>

section \<open>Values\<close>

text \<open>\<open>Value::get\<close> on an object (the last of repeated keys is the one kept).\<close>

definition jget :: "json \<Rightarrow> string \<Rightarrow> json option" where
  "jget v k = (case v of JObj kvs \<Rightarrow> map_of (rev kvs) k | _ \<Rightarrow> None)"

definition jget_str :: "json \<Rightarrow> string \<Rightarrow> string option" where
  "jget_str v k = Option.bind (jget v k) json_str"

definition json_array :: "json \<Rightarrow> json list option" where
  "json_array v = (case v of JArr xs \<Rightarrow> Some xs | _ \<Rightarrow> None)"

definition payload_of :: "json \<Rightarrow> json" where
  "payload_of v = (case jget v ''payload'' of None \<Rightarrow> v | Some p \<Rightarrow> p)"

type_synonym value_reader = "string \<Rightarrow> json option"

section \<open>Statuses\<close>

definition codex_event_status :: "json \<Rightarrow> agent_status option" where
  "codex_event_status payload =
    Option.bind (jget_str payload ''type'') (\<lambda>event_type.
      if str_contains event_type ''approval'' \<or> str_contains event_type ''permission'' \<or>
         str_contains event_type ''input'' then Some WaitingInput
      else if event_type \<in> {''user_message'', ''task_started''} then Some Running
      else if event_type = ''agent_message'' then Some Idle
      else if event_type = ''task_complete'' then Some Done
      else if event_type \<in> {''exec_command_end'', ''patch_apply_end''} then
        (case jget_str payload ''status'' of
           Some s \<Rightarrow> if s = ''failed'' \<or> s = ''error'' then Some StatusError else Some Running
         | None \<Rightarrow> Some Running)
      else None)"

definition codex_response_status :: "json \<Rightarrow> agent_status option" where
  "codex_response_status payload =
    Option.bind (jget_str payload ''type'') (\<lambda>t.
      if t \<in> {''reasoning'', ''function_call'', ''function_call_output'', ''custom_tool_call'',
              ''custom_tool_call_output''} then Some Running
      else if t = ''message'' then
        (case jget_str payload ''role'' of
           Some r \<Rightarrow> if r = ''assistant'' then Some Idle else if r = ''user'' then Some Running else None
         | None \<Rightarrow> None)
      else None)"

definition message_has_tool_use :: "json \<Rightarrow> bool" where
  "message_has_tool_use message =
    (case Option.bind (jget message ''content'') json_array of
       None \<Rightarrow> False
     | Some items \<Rightarrow> \<exists>item \<in> set items.
         jget_str item ''type'' = Some ''tool_use'' \<or> jget_str item ''type'' = Some ''tool_result'')"

definition claude_status :: "json \<Rightarrow> agent_status option" where
  "claude_status v =
    Option.bind (jget_str v ''type'') (\<lambda>t.
      if t = ''user'' then Some Running
      else if t = ''assistant'' then
        (if jget v ''error'' \<noteq> None \<or> Option.bind (jget v ''isApiErrorMessage'') json_bool = Some True
         then Some StatusError
         else if (case jget v ''message'' of None \<Rightarrow> False | Some m \<Rightarrow> message_has_tool_use m)
         then Some Running else Some Idle)
      else if t = ''progress'' then Some Running
      else if t = ''system'' then
        (case jget_str v ''subtype'' of
           Some s \<Rightarrow> if s = ''turn_duration'' \<or> s = ''stop_hook_summary'' then Some Done else None
         | None \<Rightarrow> None)
      else None)"

section \<open>Activities\<close>

definition codex_line_activity_status :: "json \<Rightarrow> (agent_activity_kind \<times> agent_status) option" where
  "codex_line_activity_status v =
    Option.bind (jget_str v ''type'') (\<lambda>t.
      if t = ''event_msg'' then
        (let payload = payload_of v in
         Option.bind (codex_event_status payload) (\<lambda>status.
           case status of
             WaitingInput \<Rightarrow> Some (ActWaitingInput, status)
           | Done \<Rightarrow> Some (Completed, status)
           | StatusError \<Rightarrow> Some (ActError, status)
           | Idle \<Rightarrow> Some (AssistantOutput, status)
           | Running \<Rightarrow>
              Some (if jget_str payload ''type'' = Some ''user_message'' then UserInput
                    else ToolActivity, status)
           | UnknownStatus \<Rightarrow> None))
      else if t = ''response_item'' then
        (let payload = payload_of v in
         Option.bind (codex_response_status payload) (\<lambda>status.
           Some (if jget_str payload ''type'' = Some ''message'' \<and> jget_str payload ''role'' = Some ''user''
                 then UserInput
                 else if jget_str payload ''type'' = Some ''message'' then AssistantOutput
                 else ToolActivity, status)))
      else None)"

definition claude_line_activity_status :: "json \<Rightarrow> (agent_activity_kind \<times> agent_status) option" where
  "claude_line_activity_status v =
    Option.bind (claude_status v) (\<lambda>status.
      case status of
        Done \<Rightarrow> Some (Completed, status)
      | StatusError \<Rightarrow> Some (ActError, status)
      | Idle \<Rightarrow> Some (AssistantOutput, status)
      | Running \<Rightarrow> Some (if jget_str v ''type'' = Some ''user'' then UserInput else ToolActivity, status)
      | WaitingInput \<Rightarrow> Some (ActWaitingInput, status)
      | UnknownStatus \<Rightarrow> None)"

definition line_to_activity ::
  "value_reader \<Rightarrow> agent_kind \<Rightarrow> string \<Rightarrow> string \<Rightarrow> string \<Rightarrow> agent_activity option" where
  "line_to_activity parse kind agent_id path line =
    Option.bind (parse line) (\<lambda>v.
    Option.bind (case kind of
        Codex \<Rightarrow> codex_line_activity_status v
      | Claude \<Rightarrow> claude_line_activity_status v
      | Terminal \<Rightarrow> None
      | UnknownAgent \<Rightarrow> None) (\<lambda>(activity, status).
    Some \<lparr>aa_agent_id = agent_id, aa_kind = kind, aa_activity = activity, aa_status = status,
          aa_transcript_path = path\<rparr>))"

section \<open>Conversation turns\<close>

definition is_pseudo_turn_text :: "string \<Rightarrow> bool" where
  "is_pseudo_turn_text txt =
    (let lower = to_ascii_lowercase txt in
     lower \<in> {''<turn_aborted>'', ''<user_interrupt>'', ''<system>'', ''<interrupted>'',
       ''[turn aborted]'', ''[user interrupted]''} \<or>
     (starts_with lower ''<system>'' \<and> ends_with lower ''</system>''))"

text \<open>Collecting the texts of content items, separated by single spaces.\<close>

definition push_text :: "string \<Rightarrow> string \<Rightarrow> string" where
  "push_text t buf = (if buf = [] then t else buf @ '' '' @ t)"

definition item_type :: "json \<Rightarrow> string" where
  "item_type item = (case jget_str item ''type'' of None \<Rightarrow> [] | Some t \<Rightarrow> t)"

definition collect_texts :: "(json \<Rightarrow> bool) \<Rightarrow> json list \<Rightarrow> string" where
  "collect_texts wanted items = fold (\<lambda>item buf.
     if \<not> wanted item then buf
     else case jget_str item ''text'' of None \<Rightarrow> buf | Some t \<Rightarrow> push_text t buf) items []"

definition non_empty :: "string \<Rightarrow> string option" where
  "non_empty s = (if s = [] then None else Some s)"

definition extract_message_text :: "json \<Rightarrow> bool \<Rightarrow> string option" where
  "extract_message_text message skip_tool_use =
    Option.bind (jget message ''content'') (\<lambda>content.
      case json_str content of
        Some s \<Rightarrow> Some s
      | None \<Rightarrow> Option.bind (json_array content) (\<lambda>items.
          non_empty (collect_texts (\<lambda>item.
            \<not> (skip_tool_use \<and> (item_type item = ''tool_use'' \<or> item_type item = ''tool_result'')) \<and>
            item_type item \<noteq> ''tool_result'') items)))"

definition claude_line_to_turn :: "json \<Rightarrow> (turn_role \<times> string) option" where
  "claude_line_to_turn v =
    Option.bind (jget_str v ''type'') (\<lambda>kind.
    Option.bind (jget v ''message'') (\<lambda>message.
      if kind = ''user'' then map_option (Pair RoleUser) (extract_message_text message False)
      else if kind = ''assistant'' then map_option (Pair RoleAssistant) (extract_message_text message True)
      else None))"

definition codex_line_to_turn :: "json \<Rightarrow> (turn_role \<times> string) option" where
  "codex_line_to_turn v =
    Option.bind (jget_str v ''type'') (\<lambda>outer_type.
      let payload = payload_of v in
      if outer_type = ''event_msg'' then
        Option.bind (jget_str payload ''type'') (\<lambda>payload_type.
        Option.bind (if payload_type = ''user_message'' then Some RoleUser
                     else if payload_type = ''agent_message'' then Some RoleAssistant else None) (\<lambda>role.
        map_option (Pair role) (jget_str payload ''message'')))
      else if outer_type = ''response_item'' then
        (if jget_str payload ''type'' \<noteq> Some ''message'' then None
         else
           Option.bind (jget_str payload ''role'') (\<lambda>r.
           Option.bind (if r = ''user'' then Some RoleUser
                        else if r = ''assistant'' then Some RoleAssistant else None) (\<lambda>role.
           Option.bind (jget payload ''content'') (\<lambda>content.
             case json_str content of
               Some s \<Rightarrow> Some (role, s)
             | None \<Rightarrow> Option.bind (json_array content) (\<lambda>items.
                 map_option (Pair role) (non_empty (collect_texts
                   (\<lambda>item. item_type item \<in> {''input_text'', ''output_text'', ''text''}) items)))))))
      else None)"

definition line_to_discovered_turn ::
  "value_reader \<Rightarrow> agent_kind \<Rightarrow> string \<Rightarrow> string \<Rightarrow> discovered_turn option" where
  "line_to_discovered_turn parse kind agent_id line =
    Option.bind (parse line) (\<lambda>v.
    Option.bind (case kind of
        Claude \<Rightarrow> claude_line_to_turn v
      | Codex \<Rightarrow> codex_line_to_turn v
      | Terminal \<Rightarrow> None
      | UnknownAgent \<Rightarrow> None) (\<lambda>(role, txt).
    let t = trim txt in
    if t = [] \<or> is_pseudo_turn_text t then None
    else Some \<lparr>dt_kind = kind, dt_agent_id = agent_id, dt_role = role, dt_text = t\<rparr>))"

section \<open>Session metadata\<close>

record session_metadata =
  sm_agent_id :: "string option"
  sm_cwd :: "string option"
  sm_status :: "agent_status option"

definition metadata_default :: session_metadata where
  "metadata_default = \<lparr>sm_agent_id = None, sm_cwd = None, sm_status = None\<rparr>"

definition set_if_text :: "string option \<Rightarrow> json option \<Rightarrow> string option" where
  "set_if_text slot v =
    (case map_option trim (Option.bind v json_str) of
       None \<Rightarrow> slot
     | Some t \<Rightarrow> if t \<noteq> [] then Some t else slot)"

definition or_status :: "session_metadata \<Rightarrow> agent_status option \<Rightarrow> session_metadata" where
  "or_status m st = (case st of None \<Rightarrow> m | Some s \<Rightarrow> m\<lparr>sm_status := Some s\<rparr>)"

definition update_codex_metadata :: "json \<Rightarrow> session_metadata \<Rightarrow> session_metadata" where
  "update_codex_metadata v m =
    (if jget_str v ''type'' = Some ''session_meta'' then
       let payload = payload_of v in
       m\<lparr>sm_agent_id := set_if_text (sm_agent_id m) (jget payload ''id''),
         sm_cwd := set_if_text (sm_cwd m) (jget payload ''cwd'')\<rparr>
     else if jget_str v ''type'' = Some ''event_msg'' then or_status m (codex_event_status (payload_of v))
     else if jget_str v ''type'' = Some ''response_item'' then or_status m (codex_response_status (payload_of v))
     else m)"

definition update_claude_metadata :: "json \<Rightarrow> session_metadata \<Rightarrow> session_metadata" where
  "update_claude_metadata v m =
    or_status (m\<lparr>sm_agent_id := set_if_text (sm_agent_id m) (jget v ''sessionId''),
                 sm_cwd := set_if_text (sm_cwd m) (jget v ''cwd'')\<rparr>) (claude_status v)"

text \<open>Over the lines of a file, unreadable ones skipped; no file gives no metadata.\<close>

definition read_jsonl_metadata ::
  "value_reader \<Rightarrow> (json \<Rightarrow> session_metadata \<Rightarrow> session_metadata) \<Rightarrow> string list option \<Rightarrow> session_metadata" where
  "read_jsonl_metadata parse updater file =
    (case file of
       None \<Rightarrow> metadata_default
     | Some lns \<Rightarrow> fold (\<lambda>l m. case parse l of None \<Rightarrow> m | Some v \<Rightarrow> updater v m) lns metadata_default)"

definition read_codex_session_metadata :: "value_reader \<Rightarrow> string list option \<Rightarrow> session_metadata" where
  "read_codex_session_metadata parse = read_jsonl_metadata parse update_codex_metadata"

definition read_claude_session_metadata :: "value_reader \<Rightarrow> string list option \<Rightarrow> session_metadata" where
  "read_claude_session_metadata parse = read_jsonl_metadata parse update_claude_metadata"

end
