(* ===== verification/Session_Matching.thy ===== *)
theory Session_Matching
  imports Rust_Parse Poll_Types "HOL-Library.Multiset" "HOL-Library.List_Lexorder"
    "HOL-Library.Char_ord" "HOL-Library.Product_Lexorder" "HOL-Library.Sublist"
begin

text \<open>
  Which transcripts are live sessions: the matching part of
  \<open>crates/vb-host/src/agent_discovery.rs\<close>. Candidates found on disk are kept when a running
  process or a visible terminal vouches for their directory; terminal titles are matched to
  the labels of candidates. Modification times are a parameter (the file system at the time
  of the call); hash maps whose iteration order is observable are association lists in that
  order.
\<close>

section \<open>Directories and titles as text\<close>

definition normalize_cwd :: "string \<Rightarrow> string" where
  "normalize_cwd cwd = replace_char (CHR 0x5C) ''/'' (trim_end_matches is_path_sep cwd)"

definition active_key :: "agent_kind \<Rightarrow> string \<Rightarrow> agent_kind \<times> string" where
  "active_key kind cwd = (kind, normalize_cwd cwd)"

definition with_sep :: "string \<Rightarrow> string" where
  "with_sep s = (if ends_with s ''/'' then s else s @ ''/'')"

definition cwd_prefix_matches :: "string \<Rightarrow> string \<Rightarrow> bool" where
  "cwd_prefix_matches sess_cwd proc_cwd \<longleftrightarrow>
    sess_cwd = proc_cwd \<or>
    starts_with (with_sep sess_cwd) (with_sep proc_cwd) \<or>
    starts_with (with_sep proc_cwd) (with_sep sess_cwd)"

definition cwd_basename :: "string \<Rightarrow> string" where
  "cwd_basename cwd = last_segment (trim_end_matches is_path_sep cwd)"

definition normalize_match_text :: "string \<Rightarrow> string" where
  "normalize_match_text value =
    replace_char (CHR ''_'') ''-'' (replace_char (CHR 0x5C) ''/'' (to_ascii_lowercase (trim value)))"

definition looks_like_plain_shell_title :: "string \<Rightarrow> bool" where
  "looks_like_plain_shell_title title \<longleftrightarrow>
    title \<in> {''npm'', ''node'', ''powershell'', ''windows powershell'', ''command prompt'', ''cmd''} \<or>
    (str_contains title ''windows powershell'' \<or> str_contains title ''command prompt'') \<or>
    (CHR ''@'' \<in> set title \<and>
     (str_contains title '': ~'' \<or> str_contains title '': /'' \<or> ends_with title '':~''))"

definition generic_agent_title_kind :: "string \<Rightarrow> agent_kind option" where
  "generic_agent_title_kind title =
    (if str_contains title ''claude'' then Some Claude
     else if str_contains title ''codex'' then Some Codex else None)"

definition push_label :: "string \<Rightarrow> string list \<Rightarrow> string list" where
  "push_label lbl labels =
    (let l = normalize_match_text lbl
     in if 3 \<le> length l \<and> l \<notin> set labels then labels @ [l] else labels)"

section \<open>Ordering candidates\<close>

text \<open>\<open>sort_by(|a, b| key(b).cmp(&key(a)))\<close>: stable and descending.\<close>

definition sort_desc :: "('a \<Rightarrow> 'k::linorder) \<Rightarrow> 'a list \<Rightarrow> 'a list" where
  "sort_desc key xs = rev (sort_key key (rev xs))"

lemma mset_sort_desc [simp]: "mset (sort_desc key xs) = mset xs"
  by (simp add: sort_desc_def)

lemma set_sort_desc [simp]: "set (sort_desc key xs) = set xs"
  by (simp add: sort_desc_def)

lemma sorted_sort_desc: "sorted_wrt (\<lambda>a b. key b \<le> key a) (sort_desc key xs)"
proof -
  have "sorted (map key (sort_key key (rev xs)))" by simp
  then show ?thesis unfolding sort_desc_def sorted_wrt_rev by (simp add: sorted_wrt_map)
qed

lemma sorted_desc_strict:
  "sorted_wrt (\<lambda>a b. (f b :: 'k::linorder) \<le> f a) ys \<Longrightarrow> distinct (map f ys) \<Longrightarrow>
   sorted_wrt (\<lambda>a b. f b < f a) ys"
  by (induction ys) (auto simp: order_less_le, metis image_eqI)

type_synonym mtimes = "string \<Rightarrow> int"

definition recent_first :: "mtimes \<Rightarrow> agent_session list \<Rightarrow> agent_session list" where
  "recent_first mtime =
    sort_desc (\<lambda>s. (mtime (as_transcript_path s), as_transcript_path s))"

text \<open>\<open>Vec::dedup_by\<close> with equal keys: an element equal to the one kept before it goes.\<close>

fun dedup_by :: "('a \<Rightarrow> 'k) \<Rightarrow> 'a list \<Rightarrow> 'a list" where
  "dedup_by key (x # y # xs) =
    (if key x = key y then dedup_by key (x # xs) else x # dedup_by key (y # xs))"
| "dedup_by key xs = xs"

definition sort_and_dedup_sessions :: "agent_session list \<Rightarrow> agent_session list" where
  "sort_and_dedup_sessions ss = dedup_by session_key (sort_desc as_agent_id ss)"

section \<open>Matching candidates to live processes\<close>

fun position :: "('a \<Rightarrow> bool) \<Rightarrow> 'a list \<Rightarrow> nat option" where
  "position P [] = None"
| "position P (x # xs) = (if P x then Some 0 else map_option Suc (position P xs))"

text \<open>\<open>Vec::swap_remove\<close> at a position inside the vector.\<close>

definition swap_remove :: "nat \<Rightarrow> 'a list \<Rightarrow> 'a list" where
  "swap_remove i xs = butlast (xs[i := last xs])"

definition fits_slot :: "agent_session \<Rightarrow> agent_kind \<times> string \<Rightarrow> bool" where
  "fits_slot s slot \<longleftrightarrow>
    fst slot = as_kind s \<and> cwd_prefix_matches (normalize_cwd (as_cwd s)) (snd slot)"

definition pin_running :: "agent_session \<Rightarrow> agent_session" where
  "pin_running s = (if as_status s = WaitingInput then s else s\<lparr>as_status := Running\<rparr>)"

fun match_slots ::
  "agent_session list \<Rightarrow> (agent_kind \<times> string) list \<Rightarrow> agent_session list" where
  "match_slots [] slots = []"
| "match_slots (s # ss) slots =
    (case position (fits_slot s) slots of
       None \<Rightarrow> match_slots ss slots
     | Some pos \<Rightarrow> pin_running s # match_slots ss (swap_remove pos slots))"

definition FALLBACK_WINDOW :: int where
  "FALLBACK_WINDOW = 2 * 60 * 60 * 1000000000"

definition fallback_recent_active_candidates ::
  "int \<Rightarrow> mtimes \<Rightarrow> agent_session list \<Rightarrow> agent_session list" where
  "fallback_recent_active_candidates now mtime candidates =
    (let cutoff = now - FALLBACK_WINDOW
     in sort_and_dedup_sessions (filter (\<lambda>s.
          as_status s \<notin> {Done, StatusError} \<and> cutoff \<le> mtime (as_transcript_path s)) candidates))"

type_synonym key_counts = "((agent_kind \<times> string) \<times> nat) list"

definition filter_sessions_by_active_counts ::
  "int \<Rightarrow> mtimes \<Rightarrow> agent_session list \<Rightarrow> key_counts \<Rightarrow> agent_session list" where
  "filter_sessions_by_active_counts now mtime candidates counts =
    (let candidates = recent_first mtime candidates;
         active_slots = map fst counts
     in if active_slots = [] then fallback_recent_active_candidates now mtime candidates
        else sort_and_dedup_sessions (match_slots candidates active_slots))"

section \<open>Counting the evidence\<close>

text \<open>\<open>map.entry(k).or_insert(d)\<close> changed by \<open>f\<close>.\<close>

definition entry_or :: "'k \<Rightarrow> 'v \<Rightarrow> ('v \<Rightarrow> 'v) \<Rightarrow> ('k \<times> 'v) list \<Rightarrow> ('k \<times> 'v) list" where
  "entry_or k d f m = (case map_of m k of None \<Rightarrow> m @ [(k, f d)] | Some _ \<Rightarrow> alter k f m)"

definition count_key :: "'k \<Rightarrow> ('k \<times> nat) list \<Rightarrow> ('k \<times> nat) list" where
  "count_key k = entry_or k 0 Suc"

record active_agent_process =
  ap_kind :: agent_kind
  ap_cwd :: string

definition active_agent_process_counts :: "active_agent_process list \<Rightarrow> key_counts" where
  "active_agent_process_counts processes =
    fold (\<lambda>p. count_key (active_key (ap_kind p) (ap_cwd p))) processes []"

definition best_of :: "string \<Rightarrow> string list \<Rightarrow> nat option" where
  "best_of title labels =
    (let scores = map length (filter (\<lambda>l. l \<noteq> [] \<and> str_contains title l) labels)
     in if scores = [] then None else Some (Max (set scores)))"

definition better_match ::
  "string \<Rightarrow> 'k \<times> string list \<Rightarrow> ('k \<times> nat) option \<Rightarrow> ('k \<times> nat) option" where
  "better_match title e best =
    (case best_of title (snd e) of
       None \<Rightarrow> best
     | Some score \<Rightarrow>
        if (case best of None \<Rightarrow> True | Some (_, current) \<Rightarrow> current < score)
        then Some (fst e, score) else best)"

definition best_matching_session_key :: "string \<Rightarrow> ('k \<times> string list) list \<Rightarrow> 'k option" where
  "best_matching_session_key title labels_by_key =
    map_option fst (fold (better_match title) labels_by_key None)"

type_synonym label_map = "((agent_kind \<times> string) \<times> string list) list"

definition labels_of_candidates :: "agent_session list \<Rightarrow> label_map" where
  "labels_of_candidates candidates = fold (\<lambda>s.
     entry_or (active_key (as_kind s) (as_cwd s)) []
       (push_label (cwd_basename (as_cwd s)) \<circ> push_label (as_name s))) candidates []"

definition latest_by_kind :: "mtimes \<Rightarrow> agent_session list \<Rightarrow> agent_kind \<Rightarrow> agent_session list" where
  "latest_by_kind mtime candidates kind =
    recent_first mtime (filter (\<lambda>s. as_kind s = kind) candidates)"

text \<open>One title: a label of a candidate, or the name of an agent, or nothing.\<close>

definition count_title ::
  "label_map \<Rightarrow> string \<Rightarrow> key_counts \<times> (agent_kind \<times> nat) list \<Rightarrow>
   key_counts \<times> (agent_kind \<times> nat) list" where
  "count_title labels_by_key raw_title acc =
    (let (counts, generic_counts) = acc; title = normalize_match_text raw_title
     in if title = [] \<or> looks_like_plain_shell_title title then acc
        else case best_matching_session_key title labels_by_key of
          Some key \<Rightarrow> (count_key key counts, generic_counts)
        | None \<Rightarrow>
           (case generic_agent_title_kind title of
              Some kind \<Rightarrow> (counts, count_key kind generic_counts)
            | None \<Rightarrow> acc))"

definition count_generic ::
  "mtimes \<Rightarrow> agent_session list \<Rightarrow> agent_kind \<times> nat \<Rightarrow> key_counts \<Rightarrow> key_counts" where
  "count_generic mtime candidates g counts =
    fold (\<lambda>s. count_key (active_key (as_kind s) (as_cwd s)))
      (take (snd g) (latest_by_kind mtime candidates (fst g))) counts"

text \<open>
  Two hash maps are iterated in an order the program does not control: \<open>iter\<close> is the order
  of the label map, \<open>iter_counts\<close> the order of the final counts.
\<close>

definition visible_terminal_session_counts_from_titles ::
  "(label_map \<Rightarrow> label_map) \<Rightarrow> mtimes \<Rightarrow> agent_session list \<Rightarrow> string list \<Rightarrow> key_counts" where
  "visible_terminal_session_counts_from_titles iter mtime candidates titles =
    (let labels_by_key = iter (labels_of_candidates candidates);
         (counts, generic_counts) = fold (count_title labels_by_key) titles ([], [])
     in fold (count_generic mtime candidates) generic_counts counts)"

definition visible_terminal_session_counts ::
  "(label_map \<Rightarrow> label_map) \<Rightarrow> mtimes \<Rightarrow> agent_session list \<Rightarrow> string list result \<Rightarrow> key_counts" where
  "visible_terminal_session_counts iter mtime candidates titles =
    (case titles of
       Inl _ \<Rightarrow> []
     | Inr ts \<Rightarrow> visible_terminal_session_counts_from_titles iter mtime candidates ts)"

definition active_session_evidence_counts ::
  "(label_map \<Rightarrow> label_map) \<Rightarrow> mtimes \<Rightarrow> active_agent_process list \<Rightarrow> string list result \<Rightarrow>
   agent_session list \<Rightarrow> key_counts" where
  "active_session_evidence_counts iter mtime processes titles candidates =
    fold (\<lambda>(key, n). entry_or key n (max n))
      (visible_terminal_session_counts iter mtime candidates titles)
      (active_agent_process_counts processes)"

definition filter_active_sessions ::
  "(label_map \<Rightarrow> label_map) \<Rightarrow> (key_counts \<Rightarrow> key_counts) \<Rightarrow> int \<Rightarrow> mtimes \<Rightarrow>
   active_agent_process list \<Rightarrow> string list result \<Rightarrow> agent_session list \<Rightarrow> agent_session list" where
  "filter_active_sessions iter iter_counts now mtime processes titles candidates =
    filter_sessions_by_active_counts now mtime candidates
      (iter_counts (active_session_evidence_counts iter mtime processes titles candidates))"

section \<open>Lemmas on positions, removal and duplicates\<close>

lemma position_Some: "position P xs = Some i \<Longrightarrow> i < length xs \<and> P (xs ! i)"
  by (induction xs arbitrary: i) (auto split: if_splits)

lemma position_None: "position P xs = None \<longleftrightarrow> (\<forall>x \<in> set xs. \<not> P x)"
  by (induction xs) auto

lemma mset_swap_remove:
  assumes "i < length xs"
  shows "mset (swap_remove i xs) = mset xs - {#xs ! i#}"
proof -
  let ?ys = "xs[i := last xs]"
  have ne: "?ys \<noteq> []" "xs \<noteq> []" using assms by auto
  have l: "last ?ys = last xs" using assms ne by (auto simp: last_list_update)
  have "mset ?ys = mset (butlast ?ys) + {#last xs#}"
    using ne l by (metis append_butlast_last_id mset.simps mset_append)
  moreover have "mset ?ys = add_mset (last xs) (mset xs - {#xs ! i#})"
    using assms by (rule mset_update)
  ultimately show ?thesis by (simp add: swap_remove_def)
qed

lemma dedup_by_set: "key ` set (dedup_by key xs) = key ` set xs"
  by (induction key xs rule: dedup_by.induct) auto

lemma dedup_by_subseq: "subseq (dedup_by key xs) xs"
proof (induction key xs rule: dedup_by.induct)
  case (1 key x y xs)
  have "subseq (x # xs) (x # y # xs)" by (simp add: list_emb_Cons)
  with 1 show ?case by (auto intro: subseq_order.trans)
qed auto

lemma dedup_by_subset: "set (dedup_by key xs) \<subseteq> set xs"
  by (induction key xs rule: dedup_by.induct) auto

lemma dedup_by_hd: "xs \<noteq> [] \<Longrightarrow> dedup_by key xs \<noteq> [] \<and> hd (dedup_by key xs) = hd xs"
  by (induction key xs rule: dedup_by.induct) auto

text \<open>When the order determines the key, no key is kept twice.\<close>

lemma dedup_by_distinct:
  assumes "inj_on g (key ` set xs)" "sorted_wrt (\<lambda>a b. (g (key b) :: 'o::linorder) \<le> g (key a)) xs"
  shows "distinct (map key (dedup_by key xs))"
  using assms
proof (induction key xs rule: dedup_by.induct)
  case (1 key x y xs)
  have sub: "inj_on g (key ` set (x # xs))" "inj_on g (key ` set (y # xs))"
    by (rule inj_on_subset[OF "1.prems"(1)]; auto)+
  show ?case
  proof (cases "key x = key y")
    case True
    then show ?thesis using "1.IH"(1)[OF True sub(1)] "1.prems"(2) by simp
  next
    case False
    have "key z \<noteq> key x" if z: "z \<in> set (y # xs)" for z
    proof
      assume eq: "key z = key x"
      have "g (key z) \<le> g (key y)" using z "1.prems"(2) by auto
      moreover have "g (key y) \<le> g (key x)" using "1.prems"(2) by simp
      ultimately have "g (key y) = g (key x)" using eq by simp
      then have "key y = key x" by (rule inj_onD[OF "1.prems"(1)]) auto
      with False show False by simp
    qed
    then have "key x \<notin> key ` set (dedup_by key (y # xs))" unfolding dedup_by_set by force
    then show ?thesis using False "1.IH"(2)[OF False sub(2)] "1.prems"(2) by simp
  qed
qed auto

lemma dedup_by_sorted: "sorted_wrt R xs \<Longrightarrow> sorted_wrt R (dedup_by key xs)"
proof -
  have "sorted_wrt R ys" if "subseq ys xs" "sorted_wrt R xs" for ys
    using that by (induction rule: list_emb.induct) (auto dest: list_emb_set)
  then show "sorted_wrt R xs \<Longrightarrow> sorted_wrt R (dedup_by key xs)" using dedup_by_subseq by blast
qed

section \<open>What the matching keeps\<close>

abbreviation recency :: "mtimes \<Rightarrow> agent_session \<Rightarrow> int \<times> string" where
  "recency mtime s \<equiv> (mtime (as_transcript_path s), as_transcript_path s)"

lemma match_slots_spec:
  assumes "sorted_wrt (\<lambda>a b. (rank b :: 'r::linorder) \<le> rank a) ss"
  shows "\<exists>kept used. match_slots ss slots = map pin_running kept \<and> set kept \<subseteq> set ss \<and>
    mset used \<subseteq># mset slots \<and> list_all2 fits_slot kept used \<and>
    (\<forall>s \<in> set ss - set kept.
       (\<forall>slot \<in># mset slots - mset used. \<not> fits_slot s slot) \<and>
       (\<forall>(t, slot) \<in> set (zip kept used). fits_slot s slot \<longrightarrow> rank s \<le> rank t))"
  using assms
proof (induction ss arbitrary: slots)
  case Nil
  show ?case by (intro exI[of _ "[]"]) simp
next
  case (Cons s ss)
  have sorted: "sorted_wrt (\<lambda>a b. rank b \<le> rank a) ss" and le: "\<And>t. t \<in> set ss \<Longrightarrow> rank t \<le> rank s"
    using Cons.prems by auto
  show ?case
  proof (cases "position (fits_slot s) slots")
    case None
    obtain kept used where k: "match_slots ss slots = map pin_running kept" "set kept \<subseteq> set ss"
      "mset used \<subseteq># mset slots" "list_all2 fits_slot kept used"
      "\<forall>s \<in> set ss - set kept. (\<forall>slot \<in># mset slots - mset used. \<not> fits_slot s slot) \<and>
         (\<forall>(t, slot) \<in> set (zip kept used). fits_slot s slot \<longrightarrow> rank s \<le> rank t)"
      using Cons.IH[OF sorted, of slots] by blast
    have no: "\<not> fits_slot s slot" if "slot \<in># mset slots" for slot
      using None that by (simp add: position_None)
    have "\<not> fits_slot s slot" if "slot \<in># mset slots - mset used" for slot
      using no in_diffD[OF that] by blast
    moreover have "\<not> fits_slot s slot" if "(t, slot) \<in> set (zip kept used)" for t slot
      using no set_zip_rightD[OF that] k(3) by (metis mset_subset_eqD set_mset_mset)
    ultimately show ?thesis using None k by (intro exI[of _ kept] exI[of _ used]) auto
  next
    case (Some pos)
    let ?u = "slots ! pos"
    have pos: "pos < length slots" "fits_slot s ?u" using position_Some[OF Some] by auto
    obtain kept used where k: "match_slots ss (swap_remove pos slots) = map pin_running kept"
      "set kept \<subseteq> set ss" "mset used \<subseteq># mset slots - {#?u#}" "list_all2 fits_slot kept used"
      "\<forall>s \<in> set ss - set kept. (\<forall>slot \<in># mset slots - {#?u#} - mset used. \<not> fits_slot s slot) \<and>
         (\<forall>(t, slot) \<in> set (zip kept used). fits_slot s slot \<longrightarrow> rank s \<le> rank t)"
      using Cons.IH[OF sorted, of "swap_remove pos slots"] unfolding mset_swap_remove[OF pos(1)] by blast
    have "mset (?u # used) \<subseteq># mset slots"
      using k(3) pos(1) by (simp add: insert_subset_eq_iff)
    moreover have "mset slots - mset (?u # used) = mset slots - {#?u#} - mset used" by simp
    ultimately show ?thesis using Some pos k le
      by (intro exI[of _ "s # kept"] exI[of _ "?u # used"]) auto
  qed
qed

section \<open>Directories on one branch\<close>

lemma split_char_nonempty [simp]: "split_char c s \<noteq> []"
  by (cases "(c, s)" rule: split_char.cases) (auto split: list.split)

lemma split_char_append: "split_char c (p @ c # q) = split_char c p @ split_char c q"
proof (induction p)
  case (Cons d p)
  then show ?case
    by (cases "split_char c p") (auto split: list.split)
qed simp

lemma split_char_rejoin: "concat (map (\<lambda>p. p @ [c]) (split_char c s)) = s @ [c]"
proof (induction s)
  case (Cons d s)
  then show ?case by (cases "split_char c s") auto
qed simp

lemma ends_with_char: "ends_with s [c] \<longleftrightarrow> s \<noteq> [] \<and> last s = c"
  by (cases s rule: rev_cases) (auto simp: ends_with_def)

lemma normalize_cwd_end: "\<not> ends_with (normalize_cwd cwd) ''/''"
proof (cases "trim_end_matches is_path_sep cwd" rule: rev_cases)
  case (snoc t c)
  then have "rev (dropWhile is_path_sep (rev cwd)) = t @ [c]" by (simp add: trim_end_matches_def)
  then have "dropWhile is_path_sep (rev cwd) = c # rev t" by (simp add: rev_eq_append_conv rev_swap)
  then have "\<not> is_path_sep c" by (metis hd_dropWhile list.sel(1) list.simps(3))
  then show ?thesis using snoc by (simp add: normalize_cwd_def ends_with_char is_path_sep_def)
qed (simp add: normalize_cwd_def ends_with_char)

definition dir_components :: "string \<Rightarrow> string list" where
  "dir_components cwd = split_char (CHR ''/'') (normalize_cwd cwd)"

lemma starts_with_components:
  "starts_with (a @ ''/'') (b @ ''/'') \<longleftrightarrow> prefix (split_char (CHR ''/'') b) (split_char (CHR ''/'') a)"
proof
  assume "starts_with (a @ ''/'') (b @ ''/'')"
  then obtain r where r: "a @ ''/'' = b @ CHR ''/'' # r"
    unfolding starts_with_def by (metis append.assoc append_Cons append_Nil append_take_drop_id)
  have "split_char (CHR ''/'') (a @ ''/'') = split_char (CHR ''/'') a @ [[]]"
    using split_char_append[of "CHR ''/''" a "[]"] by simp
  then have eq: "split_char (CHR ''/'') a @ [[]] =
      split_char (CHR ''/'') b @ split_char (CHR ''/'') r"
    unfolding r split_char_append by simp
  have "prefix (split_char (CHR ''/'') b) (split_char (CHR ''/'') a @ [[]])" unfolding eq by simp
  moreover have "split_char (CHR ''/'') b \<noteq> split_char (CHR ''/'') a @ [[]]" using eq by auto
  ultimately show "prefix (split_char (CHR ''/'') b) (split_char (CHR ''/'') a)" by (simp add: prefix_snoc)
next
  assume "prefix (split_char (CHR ''/'') b) (split_char (CHR ''/'') a)"
  then obtain t where "split_char (CHR ''/'') a = split_char (CHR ''/'') b @ t" by (auto simp: prefix_def)
  then have "a @ ''/'' = (b @ ''/'') @ concat (map (\<lambda>p. p @ ''/'') t)"
    using split_char_rejoin[of "CHR ''/''" a] split_char_rejoin[of "CHR ''/''" b] by simp
  then show "starts_with (a @ ''/'') (b @ ''/'')" by (simp add: starts_with_def)
qed

section \<open>Theorems\<close>

text \<open>
  Two directories match exactly when, split into components after trailing separators
  are dropped and backslashes turned, one is an ancestor of the other (or both are the
  same): a common textual prefix inside a component does not count.
\<close>
theorem cwd_match_iff_same_branch:
  "cwd_prefix_matches (normalize_cwd a) (normalize_cwd b) \<longleftrightarrow>
     prefix (dir_components a) (dir_components b) \<or> prefix (dir_components b) (dir_components a)"
proof -
  have "with_sep (normalize_cwd c) = normalize_cwd c @ ''/''" for c
    by (simp add: with_sep_def normalize_cwd_end)
  then show ?thesis
    by (auto simp: cwd_prefix_matches_def dir_components_def starts_with_components)
qed

text \<open>
  C28: with any evidence of live processes, the sessions shown are candidates matched
  one to one with distinct live slots of their kind on their branch of the directory tree,
  shown as running unless they wait for input, sorted and without adjacent repetitions; a
  candidate that is left out fits no free slot, and whatever slot it fits went to a candidate
  at least as recent.
\<close>
theorem active_sessions_match_live_slots:
  assumes "counts \<noteq> []"
  shows "\<exists>kept used.
    filter_sessions_by_active_counts now mtime candidates counts =
      sort_and_dedup_sessions (map pin_running kept) \<and>
    set kept \<subseteq> set candidates \<and> mset used \<subseteq># mset (map fst counts) \<and>
    list_all2 fits_slot kept used \<and>
    (\<forall>s \<in> set candidates - set kept.
       (\<forall>slot \<in># mset (map fst counts) - mset used. \<not> fits_slot s slot) \<and>
       (\<forall>(t, slot) \<in> set (zip kept used). fits_slot s slot \<longrightarrow> recency mtime s \<le> recency mtime t)) \<and>
    (\<forall>s \<in> set (filter_sessions_by_active_counts now mtime candidates counts).
       as_status s \<in> {Running, WaitingInput})"
proof -
  obtain kept used where k: "match_slots (recent_first mtime candidates) (map fst counts) = map pin_running kept"
    "set kept \<subseteq> set (recent_first mtime candidates)" "mset used \<subseteq># mset (map fst counts)"
    "list_all2 fits_slot kept used"
    "\<forall>s \<in> set (recent_first mtime candidates) - set kept.
       (\<forall>slot \<in># mset (map fst counts) - mset used. \<not> fits_slot s slot) \<and>
       (\<forall>(t, slot) \<in> set (zip kept used). fits_slot s slot \<longrightarrow> recency mtime s \<le> recency mtime t)"
    using match_slots_spec[where rank = "recency mtime", OF sorted_sort_desc] unfolding recent_first_def by blast
  have f: "filter_sessions_by_active_counts now mtime candidates counts =
      sort_and_dedup_sessions (map pin_running kept)"
    using assms k(1) by (simp add: filter_sessions_by_active_counts_def)
  have "set (sort_and_dedup_sessions (map pin_running kept)) \<subseteq> pin_running ` set kept"
    using dedup_by_subset[of session_key "sort_desc as_agent_id (map pin_running kept)"]
    by (auto simp: sort_and_dedup_sessions_def)
  then have "\<forall>s \<in> set (sort_and_dedup_sessions (map pin_running kept)). as_status s \<in> {Running, WaitingInput}"
    by (auto simp: pin_running_def)
  with f k show ?thesis by (intro exI[of _ kept] exI[of _ used]) (simp add: recent_first_def)
qed

definition sample_session :: "agent_kind \<Rightarrow> string \<Rightarrow> string \<Rightarrow> agent_session" where
  "sample_session kind agent_id cwd = \<lparr>as_agent_id = agent_id, as_kind = kind, as_name = agent_id,
     as_cwd = cwd, as_transcript_path = agent_id, as_status = Done, as_terminal_hwnd = None\<rparr>"

lemma active_sessions_match_live_slots_witness:
  "\<exists>kept used.
    filter_sessions_by_active_counts 0 (\<lambda>_. 0) [sample_session Claude ''s1'' ''/a/b'']
        [((Claude, ''/a''), 2)] = sort_and_dedup_sessions (map pin_running kept) \<and>
    set kept \<subseteq> {sample_session Claude ''s1'' ''/a/b''} \<and> mset used \<subseteq># {#(Claude, ''/a'')#} \<and>
    list_all2 fits_slot kept used"
proof -
  have ne: "[((Claude, ''/a''), 2 :: nat)] \<noteq> []" by simp
  show ?thesis
    using active_sessions_match_live_slots[OF ne, of 0 "\<lambda>_. 0" "[sample_session Claude ''s1'' ''/a/b'']"]
    by auto
qed

text \<open>
  Removing duplicates keeps every session key, in descending order of agent ids, and
  leaves one session per key as long as no agent id is used by two kinds of agents.
\<close>
theorem dedup_keeps_one_per_key:
  assumes "inj_on snd (session_key ` set ss)"
  shows "distinct (map session_key (sort_and_dedup_sessions ss)) \<and>
    session_key ` set (sort_and_dedup_sessions ss) = session_key ` set ss \<and>
    set (sort_and_dedup_sessions ss) \<subseteq> set ss \<and>
    sorted_wrt (\<lambda>a b. as_agent_id b < as_agent_id a) (sort_and_dedup_sessions ss)"
proof -
  let ?xs = "sort_desc as_agent_id ss" and ?ys = "sort_and_dedup_sessions ss"
  have id: "snd (session_key s) = as_agent_id s" for s by (simp add: session_key_def)
  have d: "distinct (map session_key ?ys)" unfolding sort_and_dedup_sessions_def
    by (rule dedup_by_distinct[where g = snd]) (use assms in \<open>simp_all add: id sorted_sort_desc\<close>)
  have "set ?ys \<subseteq> set ss"
    using dedup_by_subset[of session_key ?xs] by (simp add: sort_and_dedup_sessions_def)
  moreover have "session_key ` set ?ys = session_key ` set ss"
    by (simp add: sort_and_dedup_sessions_def dedup_by_set)
  moreover have "sorted_wrt (\<lambda>a b. as_agent_id b < as_agent_id a) ?ys"
  proof -
    have "sorted_wrt (\<lambda>a b. as_agent_id b \<le> as_agent_id a) ?ys"
      unfolding sort_and_dedup_sessions_def by (rule dedup_by_sorted) (rule sorted_sort_desc)
    moreover have "distinct (map as_agent_id ?ys)"
    proof -
      have "inj_on snd (session_key ` set ?ys)" using assms \<open>session_key ` set ?ys = _\<close> by simp
      then have "distinct (map snd (map session_key ?ys))" using d by (simp add: distinct_map comp_inj_on)
      then show ?thesis by (simp add: id comp_def)
    qed
    ultimately show ?thesis by (rule sorted_desc_strict)
  qed
  ultimately show ?thesis using d by blast
qed

lemma dedup_keeps_one_per_key_witness:
  "distinct (map session_key (sort_and_dedup_sessions
     [sample_session Claude ''s1'' ''/a'', sample_session Claude ''s1'' ''/b'']))"
proof -
  have "inj_on snd (session_key ` set
      [sample_session Claude ''s1'' ''/a'', sample_session Claude ''s1'' ''/b''])"
    by (simp add: session_key_def sample_session_def)
  then show ?thesis using dedup_keeps_one_per_key by blast
qed

text \<open>When two kinds share an id, a session can stay in the list twice.\<close>

lemma dedup_can_leave_repetitions:
  "map session_key (sort_and_dedup_sessions
     [sample_session Claude ''s1'' ''/a'', sample_session Codex ''s1'' ''/a'',
      sample_session Claude ''s1'' ''/b'']) = [(Claude, ''s1''), (Codex, ''s1''), (Claude, ''s1'')]"
  by (simp add: sort_and_dedup_sessions_def sort_desc_def session_key_def sample_session_def)

text \<open>
  The slot a session takes is the first that fits in the order of the hash map: of two live
  sessions, one is shown or both, depending on that order.
\<close>

definition nested_sessions :: "agent_session list" where
  "nested_sessions = [sample_session Claude ''s2'' ''/a/b'', sample_session Claude ''s1'' ''/a/x'']"

lemma shown_sessions_depend_on_hash_order:
  "length (filter_sessions_by_active_counts 0 (\<lambda>_. 0) nested_sessions
     [((Claude, ''/a/b''), 1), ((Claude, ''/a''), 1)]) = 2 \<and>
   length (filter_sessions_by_active_counts 0 (\<lambda>_. 0) nested_sessions
     [((Claude, ''/a''), 1), ((Claude, ''/a/b''), 1)]) = 1"
  by code_simp

section \<open>Terminal titles\<close>

lemma best_of_Some:
  "best_of title labels = Some n \<longleftrightarrow>
     (\<exists>l \<in> set labels. l \<noteq> [] \<and> str_contains title l \<and> length l = n) \<and>
     (\<forall>l \<in> set labels. l \<noteq> [] \<longrightarrow> str_contains title l \<longrightarrow> length l \<le> n)"
proof -
  define S where "S = length ` {l \<in> set labels. l \<noteq> [] \<and> str_contains title l}"
  have S: "set (map length (filter (\<lambda>l. l \<noteq> [] \<and> str_contains title l) labels)) = S"
    unfolding S_def set_map set_filter ..
  have E: "filter (\<lambda>l. l \<noteq> [] \<and> str_contains title l) labels = [] \<longleftrightarrow> S = {}"
    unfolding S_def image_is_empty by (simp only: filter_empty_conv Collect_empty_eq) blast
  have "best_of title labels = Some n \<longleftrightarrow> S \<noteq> {} \<and> Max S = n"
    unfolding best_of_def Let_def S map_is_Nil_conv E by simp
  also have "\<dots> \<longleftrightarrow> n \<in> S \<and> (\<forall>m \<in> S. m \<le> n)"
  proof (cases "S = {}")
    case False
    have "finite S" by (simp add: S_def)
    with False show ?thesis by (simp add: Max_eq_iff)
  qed simp
  finally show ?thesis unfolding S_def by auto
qed

lemma best_of_None:
  "best_of title labels = None \<longleftrightarrow> (\<forall>l \<in> set labels. l \<noteq> [] \<longrightarrow> \<not> str_contains title l)"
  by (auto simp: best_of_def Let_def filter_empty_conv)

text \<open>The running best of a fold over the label map.\<close>

definition is_best :: "string \<Rightarrow> ('k \<times> string list) list \<Rightarrow> ('k \<times> nat) option \<Rightarrow> bool" where
  "is_best title m best \<longleftrightarrow>
    (case best of
       None \<Rightarrow> \<forall>(k, ls) \<in> set m. best_of title ls = None
     | Some (k, n) \<Rightarrow> (\<exists>ls. (k, ls) \<in> set m \<and> best_of title ls = Some n) \<and>
         (\<forall>(k', ls) \<in> set m. \<forall>n'. best_of title ls = Some n' \<longrightarrow> n' \<le> n))"

lemma is_best_step:
  "is_best title m best \<Longrightarrow> is_best title (m @ [e]) (better_match title e best)"
  by (cases e; cases "best_of title (snd e)"; cases best)
    (fastforce simp: is_best_def better_match_def split: if_splits)+

lemma is_best_fold: "is_best title m (fold (better_match title) m None)"
proof (induction m rule: rev_induct)
  case Nil
  show ?case by (simp add: is_best_def)
next
  case (snoc e m)
  then show ?case using is_best_step by fastforce
qed

text \<open>
  A terminal title is counted for the candidate directory with the longest label
  occurring in it, and for none when no label occurs; only between labels of the same
  length does the order of the hash map decide.
\<close>
theorem title_goes_to_longest_label:
  "case best_matching_session_key title m of
     None \<Rightarrow> \<forall>(k', ls') \<in> set m. \<forall>l' \<in> set ls'. l' \<noteq> [] \<longrightarrow> \<not> str_contains title l'
   | Some k \<Rightarrow> \<exists>ls l. (k, ls) \<in> set m \<and> l \<in> set ls \<and> l \<noteq> [] \<and> str_contains title l \<and>
       (\<forall>(k', ls') \<in> set m. \<forall>l' \<in> set ls'. l' \<noteq> [] \<longrightarrow> str_contains title l' \<longrightarrow> length l' \<le> length l)"
proof (cases "fold (better_match title) m None")
  case None
  then show ?thesis
    using is_best_fold[of title m]
    by (auto simp: best_matching_session_key_def is_best_def best_of_None)
next
  case (Some kn)
  obtain k n where kn: "kn = (k, n)" by (cases kn)
  with Some is_best_fold[of title m] obtain ls l
    where l: "(k, ls) \<in> set m" "l \<in> set ls" "l \<noteq> []" "str_contains title l" "length l = n"
      and max: "\<And>k' ls' n'. (k', ls') \<in> set m \<Longrightarrow> best_of title ls' = Some n' \<Longrightarrow> n' \<le> n"
    by (auto simp: is_best_def best_of_Some) blast
  have "length l' \<le> n" if e: "(k', ls') \<in> set m" "l' \<in> set ls'" "l' \<noteq> []" "str_contains title l'" for k' ls' l'
  proof (cases "best_of title ls'")
    case (Some n')
    then have "length l' \<le> n'" using e unfolding best_of_Some by blast
    with max[OF e(1) Some] show ?thesis by simp
  qed (use e in \<open>auto simp: best_of_None\<close>)
  moreover have "best_matching_session_key title m = Some k"
    using Some kn by (simp add: best_matching_session_key_def)
  ultimately show ?thesis using l by (simp add: split_beta) (metis prod.collapse)
qed

lemma title_goes_to_longest_label_witness:
  "case best_matching_session_key ''codex vibe-bridge'' [(1 :: nat, [''vibe'']), (2, [''vibe-bridge''])] of
     None \<Rightarrow> False
   | Some k \<Rightarrow> \<exists>ls l. (k, ls) \<in> set [(1 :: nat, [''vibe'']), (2, [''vibe-bridge''])] \<and> l \<in> set ls"
proof -
  have "best_matching_session_key ''codex vibe-bridge'' [(1 :: nat, [''vibe'']), (2, [''vibe-bridge''])] = Some 2"
    by code_simp
  then show ?thesis
    using title_goes_to_longest_label[where title = "''codex vibe-bridge''" and
        m = "[(1 :: nat, [''vibe'']), (2, [''vibe-bridge''])]"]
    by auto
qed

end
