(* ===== verification/Rust_Unicode.thy ===== *)
theory Rust_Unicode
  imports Rust_Text
begin

text \<open>
  The lossy decoders of Rust's standard library, \<open>String::from_utf8_lossy\<close> and
  \<open>String::from_utf16_lossy\<close>, over the UTF-8 steps of \<open>Rust_Strings\<close>.
\<close>

text \<open>U+FFFD in UTF-8.\<close>

definition replacement :: bytes where
  "replacement = [0xEF, 0xBF, 0xBD]"

text \<open>The bytes one replacement character stands for: the longest start of a character.\<close>

definition bad_len :: "bytes \<Rightarrow> nat" where
  "bad_len bs = (case bs of [] \<Rightarrow> 0 | b # r \<Rightarrow>
     if r = [] \<or> lead_len b < 2 \<or> \<not> cont (hd r) \<or> \<not> second_ok b (hd r) then 1
     else 1 + length (takeWhile cont (take (lead_len b - 1) r)))"

lemma bad_len_pos: "bs \<noteq> [] \<Longrightarrow> 0 < bad_len bs"
  by (cases bs) (auto simp: bad_len_def)

function utf8_lossy :: "bytes \<Rightarrow> bytes" where
  "utf8_lossy bs =
    (if bs = [] then []
     else if utf8_step bs \<noteq> 0 then take (utf8_step bs) bs @ utf8_lossy (drop (utf8_step bs) bs)
     else replacement @ utf8_lossy (drop (bad_len bs) bs))"
  by pat_completeness auto
termination
  by (relation "measure length") (auto simp: bad_len_pos)

declare utf8_lossy.simps [simp del]

definition from_utf8_lossy :: "bytes \<Rightarrow> string" where
  "from_utf8_lossy bs = of_bytes (utf8_lossy bs)"

text \<open>A valid text is decoded unchanged.\<close>

lemma utf8_lossy_valid: "utf8_valid bs \<Longrightarrow> utf8_lossy bs = bs"
proof (induction bs rule: utf8_lossy.induct)
  case (1 bs)
  show ?case
  proof (cases "bs = []")
    case False
    then have "utf8_step bs \<noteq> 0" "utf8_valid (drop (utf8_step bs) bs)"
      using "1.prems" utf8_valid_step[OF False] by blast+
    then show ?thesis using "1.IH"(1) False by (subst utf8_lossy.simps) simp
  qed (simp add: utf8_lossy.simps)
qed

lemma from_utf8_lossy_as_bytes: "valid_str s \<Longrightarrow> from_utf8_lossy (as_bytes s) = s"
  by (simp add: from_utf8_lossy_def valid_str_def utf8_lossy_valid)

text \<open>\<open>char::encode_utf8\<close> of a code point.\<close>

definition encode_utf8_char :: "nat \<Rightarrow> bytes" where
  "encode_utf8_char c =
    (if c < 0x80 then [of_nat c]
     else if c < 0x800 then [of_nat (0xC0 + c div 64), of_nat (0x80 + c mod 64)]
     else if c < 0x10000 then
       [of_nat (0xE0 + c div 4096), of_nat (0x80 + c div 64 mod 64), of_nat (0x80 + c mod 64)]
     else [of_nat (0xF0 + c div 262144), of_nat (0x80 + c div 4096 mod 64),
           of_nat (0x80 + c div 64 mod 64), of_nat (0x80 + c mod 64)])"

definition is_high_surrogate :: "nat \<Rightarrow> bool" where
  "is_high_surrogate u \<longleftrightarrow> 0xD800 \<le> u \<and> u \<le> 0xDBFF"

definition is_low_surrogate :: "nat \<Rightarrow> bool" where
  "is_low_surrogate u \<longleftrightarrow> 0xDC00 \<le> u \<and> u \<le> 0xDFFF"

text \<open>The code points of a sequence of UTF-16 units, unpaired surrogates replaced.\<close>

fun utf16_chars :: "nat list \<Rightarrow> nat list" where
  "utf16_chars [] = []"
| "utf16_chars [u] = [if is_high_surrogate u \<or> is_low_surrogate u then 0xFFFD else u]"
| "utf16_chars (u # v # us) =
    (if is_high_surrogate u \<and> is_low_surrogate v
     then (0x10000 + (u - 0xD800) * 0x400 + (v - 0xDC00)) # utf16_chars us
     else (if is_high_surrogate u \<or> is_low_surrogate u then 0xFFFD else u) # utf16_chars (v # us))"

definition from_utf16_lossy :: "16 word list \<Rightarrow> string" where
  "from_utf16_lossy us = of_bytes (concat (map encode_utf8_char (utf16_chars (map unat us))))"

text \<open>\<open>chunks_exact(2)\<close> read as little-endian units; an odd last byte is ignored.\<close>

fun le_units :: "bytes \<Rightarrow> 16 word list" where
  "le_units (a # b # r) = from_le_bytes [a, b] # le_units r"
| "le_units _ = []"

definition string_of :: "string \<Rightarrow> 16 word list" where
  "string_of s = map (\<lambda>c. of_nat (of_char c)) s"

text \<open>An ASCII text survives UTF-16.\<close>

lemma utf16_chars_ascii: "\<forall>u \<in> set us. u < 0x80 \<Longrightarrow> utf16_chars us = us"
  by (induction us rule: utf16_chars.induct)
    (auto simp: is_high_surrogate_def is_low_surrogate_def)

lemma from_utf16_lossy_ascii:
  assumes "\<forall>c \<in> set s. (of_char c :: nat) < 0x80"
  shows "from_utf16_lossy (string_of s) = s"
proof -
  have u: "map unat (string_of s) = map of_char s"
  proof -
    have "unat (of_nat (of_char c) :: 16 word) = of_char c" for c
    proof -
      have lt: "(of_char c :: nat) < 256" by simp
      show ?thesis unfolding unat_of_nat by (rule mod_less) (rule less_trans[OF lt], simp)
    qed
    then show ?thesis by (simp add: string_of_def)
  qed
  have "utf16_chars (map of_char s) = map of_char s"
    using assms by (intro utf16_chars_ascii) auto
  moreover have "concat (map encode_utf8_char (map of_char s)) = as_bytes s"
    using assms by (induction s) (auto simp: encode_utf8_char_def as_bytes_Cons byte_of_char_def)
  ultimately show ?thesis by (simp add: from_utf16_lossy_def u)
qed

end
