(* ===== verification/Agent_Sources.thy ===== *)
theory Agent_Sources
  imports Transcript_Lines Session_Matching Rust_Unicode Text_Codecs
begin

text \<open>
  Where sessions are found: the roots, the directory walks and the process and distribution
  lists of \<open>crates/vb-host/src/agent_discovery.rs\<close>. The file system and the outputs of the
  programs it starts are parameters; paths are lists of components, as the directory walks
  build them by joining names. Whether the build is for Windows is a parameter too.
\<close>

section \<open>Names and directories\<close>

abbreviation backslash :: char where "backslash \<equiv> CHR 0x5C"

text \<open>\<open>None\<close> is the panic of a slice that cuts a character.\<close>

definition session_name_from_cwd :: "string \<Rightarrow> string \<Rightarrow> string option" where
  "session_name_from_cwd cwd fallback_id =
    (let name = last_segment (trim_end_matches is_path_sep cwd)
     in if name \<noteq> [] then Some name
        else map_option (\<lambda>p. ''S-'' @ p) (slice_to fallback_id (min (length fallback_id) 8)))"

definition resolve_windows_cwd_hash :: "string \<Rightarrow> string" where
  "resolve_windows_cwd_hash trimmed =
    (let parts = filter (\<lambda>p. p \<noteq> []) (split_char (CHR ''-'') trimmed)
     in if 2 \<le> length parts \<and> length (hd parts) = 1
        then to_ascii_uppercase (hd parts) @ [CHR '':'', backslash] @ join [backslash] (tl parts)
        else replace_char (CHR ''-'') [backslash] trimmed)"

definition resolve_cwd_from_project_hash :: "bool \<Rightarrow> string \<Rightarrow> string" where
  "resolve_cwd_from_project_hash windows hash =
    (let trimmed = trim_start_matches (\<lambda>c. c = CHR ''-'') hash
     in if trimmed = [] then []
        else if windows then resolve_windows_cwd_hash trimmed
        else CHR ''/'' # replace_char (CHR ''-'') ''/'' trimmed)"

section \<open>Outputs of \<open>wsl.exe\<close> and of the process scan\<close>

fun odd_bytes :: "bytes \<Rightarrow> bytes" where
  "odd_bytes (a # b # r) = b # odd_bytes r"
| "odd_bytes _ = []"

definition decode_wsl_output :: "bytes \<Rightarrow> string" where
  "decode_wsl_output bs =
    (let likely_utf16 = 2 \<le> length bs \<and> 0 \<in> set (odd_bytes bs);
         decoded = (if likely_utf16 then from_utf16_lossy (le_units bs) else from_utf8_lossy bs)
     in replace_char (CHR 0x00) [] decoded)"

text \<open>\<open>trim_matches\<close> of one character, given by its encoding.\<close>

function trim_start_str :: "string \<Rightarrow> string \<Rightarrow> string" where
  "trim_start_str pat s =
    (if pat \<noteq> [] \<and> s \<noteq> [] \<and> starts_with s pat then trim_start_str pat (drop (length pat) s) else s)"
  by auto
termination by (relation "measure (length \<circ> snd)") auto

declare trim_start_str.simps [simp del]

definition trim_matches :: "string \<Rightarrow> string \<Rightarrow> string" where
  "trim_matches pat s = rev (trim_start_str (rev pat) (rev (trim_start_str pat s)))"

definition BOM :: string where
  "BOM = [CHR 0xEF, CHR 0xBB, CHR 0xBF]"

definition wsl_distro_names_from_output :: "bytes \<Rightarrow> string list" where
  "wsl_distro_names_from_output bs =
    filter (\<lambda>l. l \<noteq> []) (map (\<lambda>l. trim_matches [CHR 0x00] (trim_matches BOM (trim l)))
      (str_lines (decode_wsl_output bs)))"

definition parse_process_line :: "string \<Rightarrow> active_agent_process option" where
  "parse_process_line line =
    Option.bind (split_once (CHR 0x09) line) (\<lambda>(kind, cwd).
      if agent_kind_from_label kind = UnknownAgent \<or> trim cwd = [] then None
      else Some \<lparr>ap_kind = agent_kind_from_label kind, ap_cwd = trim cwd\<rparr>)"

definition parse_active_agent_process_output :: "bytes \<Rightarrow> active_agent_process list" where
  "parse_active_agent_process_output bs =
    List.map_filter parse_process_line (str_lines (decode_wsl_output bs))"

text \<open>A finished program: its exit was a success, and what it printed; \<open>None\<close> when it could
  not be started.\<close>

record run_output =
  ro_success :: bool
  ro_stdout :: bytes

definition active_unix_agent_processes :: "run_output option \<Rightarrow> active_agent_process list" where
  "active_unix_agent_processes output =
    (case output of
       None \<Rightarrow> []
     | Some o1 \<Rightarrow> if ro_success o1 then parse_active_agent_process_output (ro_stdout o1) else [])"

definition wsl_distro_names :: "run_output option \<Rightarrow> string list" where
  "wsl_distro_names output =
    (case output of
       None \<Rightarrow> []
     | Some o1 \<Rightarrow> if ro_success o1 then wsl_distro_names_from_output (ro_stdout o1) else [])"

definition wsl_linux_home_for_distro :: "run_output option \<Rightarrow> string option" where
  "wsl_linux_home_for_distro output =
    (case output of
       None \<Rightarrow> None
     | Some o1 \<Rightarrow>
        if \<not> ro_success o1 then None
        else let home = trim (decode_wsl_output (ro_stdout o1))
             in if starts_with home ''/'' then Some home else None)"

definition wsl_unc_homes_for_distro :: "string \<Rightarrow> string \<Rightarrow> string list" where
  "wsl_unc_homes_for_distro distro linux_home =
    (let relative_home = replace_char (CHR ''/'') [backslash] (trim_start_matches (\<lambda>c. c = CHR ''/'') linux_home)
     in map (\<lambda>root. root @ [backslash] @ distro @ [backslash] @ relative_home)
          [[backslash, backslash] @ ''wsl.localhost'', [backslash, backslash] @ ''wsl$''])"

text \<open>\<open>wsl.exe --list\<close>, and for each distribution its home and its process scan.\<close>

definition wsl_home_dirs_from_wsl_exe :: "run_output option \<Rightarrow> (string \<Rightarrow> run_output option) \<Rightarrow> string list" where
  "wsl_home_dirs_from_wsl_exe list_run home_run =
    concat (map (\<lambda>distro. case wsl_linux_home_for_distro (home_run distro) of
        None \<Rightarrow> []
      | Some home \<Rightarrow> wsl_unc_homes_for_distro distro home) (wsl_distro_names list_run))"

definition active_wsl_agent_processes ::
  "run_output option \<Rightarrow> (string \<Rightarrow> run_output option) \<Rightarrow> active_agent_process list" where
  "active_wsl_agent_processes list_run scan_run =
    concat (map (\<lambda>distro. active_unix_agent_processes (scan_run distro)) (wsl_distro_names list_run))"

text \<open>The command line handed to each distribution's shell: the scan script, as Base64.\<close>

definition scan_wrapper :: "string \<Rightarrow> string" where
  "scan_wrapper script =
    ''echo '' @ scan_base64_encode_bytes (as_bytes script) @ '' | base64 -d | sh''"

section \<open>Paths and listings\<close>

type_synonym path = "string list"

definition path_to_string :: "string \<Rightarrow> path \<Rightarrow> string" where
  "path_to_string sep p = (if p = [[]] then sep else join sep p)"

text \<open>The standard library's split of a file name at its last dot: stem and extension.\<close>

definition split_extension :: "string \<Rightarrow> string \<times> string option" where
  "split_extension name =
    (let before = dropWhile (\<lambda>c. c \<noteq> CHR ''.'') (rev name)
     in if name = ''..'' \<or> before = [] \<or> tl before = [] then (name, None)
        else (rev (tl before), Some (rev (takeWhile (\<lambda>c. c \<noteq> CHR ''.'') (rev name)))))"

definition file_stem :: "string \<Rightarrow> string" where
  "file_stem name = fst (split_extension name)"

definition file_extension :: "string \<Rightarrow> string option" where
  "file_extension name = snd (split_extension name)"

definition is_codex_session_file :: "string \<Rightarrow> bool" where
  "is_codex_session_file name \<longleftrightarrow>
    file_extension name = Some ''jsonl'' \<and> starts_with name ''rollout-''"

definition parent_of :: "path \<Rightarrow> path option" where
  "parent_of p = (if length p \<le> 1 then None else Some (butlast p))"

definition infer_codex_cwd_from_path :: "string \<Rightarrow> path \<Rightarrow> string" where
  "infer_codex_cwd_from_path sep p =
    (case Option.bind (parent_of p) parent_of of None \<Rightarrow> [] | Some q \<Rightarrow> path_to_string sep q)"

text \<open>
  A directory entry: whether it is a directory (\<open>None\<close> when that cannot be read) and its
  modification time. A listing has \<open>None\<close> for an entry that could not be read.
\<close>

record dir_entry =
  de_name :: string
  de_is_dir :: "bool option"
  de_modified :: "int option"

datatype io_failure = NotFound | IoFailure string

text \<open>The file system at one moment: \<open>fv_lines\<close> are the lines of a file up to the first that
  cannot be read, \<open>None\<close> when it cannot be opened.\<close>

record file_view =
  fv_windows :: bool
  fv_separator :: string
  fv_now :: int
  fv_exists :: "path \<Rightarrow> bool"
  fv_read_dir :: "path \<Rightarrow> io_failure + dir_entry option list"
  fv_lines :: "path \<Rightarrow> string list option"

definition flatten_entries :: "dir_entry option list \<Rightarrow> dir_entry list" where
  "flatten_entries es = List.map_filter id es"

definition CLAUDE_RECENT_WINDOW :: int where
  "CLAUDE_RECENT_WINDOW = 24 * 60 * 60 * 1000000000"

definition CODEX_RECENT_WINDOW :: int where
  "CODEX_RECENT_WINDOW = 24 * 60 * 60 * 1000000000"

definition entry_modified :: "dir_entry \<Rightarrow> int" where
  "entry_modified e = (case de_modified e of None \<Rightarrow> 0 | Some t \<Rightarrow> t)"

section \<open>Sessions of one file\<close>

text \<open>
  The outcome of discovery: \<open>None\<close> is a panic, \<open>Inl\<close> the error reported, \<open>Inr\<close> the sessions.
\<close>

type_synonym 'a outcome = "'a result option"

definition append_outcome :: "'a list outcome \<Rightarrow> 'a list outcome \<Rightarrow> 'a list outcome" where
  "append_outcome a b = Option.bind a (\<lambda>ra. case ra of
     Inl e \<Rightarrow> Some (Inl e)
   | Inr xs \<Rightarrow> map_option (map_sum id (\<lambda>ys. xs @ ys)) b)"

definition concat_outcomes :: "'a list outcome list \<Rightarrow> 'a list outcome" where
  "concat_outcomes os = foldr append_outcome os (Some (Inr []))"

definition or_else :: "'a option \<Rightarrow> 'a \<Rightarrow> 'a" where
  "or_else x d = (case x of None \<Rightarrow> d | Some v \<Rightarrow> v)"

definition session_of_metadata ::
  "agent_kind \<Rightarrow> string \<Rightarrow> string \<Rightarrow> string \<Rightarrow> session_metadata \<Rightarrow> agent_session list outcome" where
  "session_of_metadata kind fallback_agent_id fallback_cwd transcript metadata =
    (let agent_id = or_else (sm_agent_id metadata) fallback_agent_id;
         cwd = or_else (sm_cwd metadata) fallback_cwd;
         status = or_else (sm_status metadata) UnknownStatus
     in map_option (\<lambda>name. Inr [\<lparr>as_agent_id = agent_id, as_kind = kind, as_name = name, as_cwd = cwd,
          as_transcript_path = transcript, as_status = status, as_terminal_hwnd = None\<rparr>])
        (session_name_from_cwd cwd agent_id))"

definition claude_file ::
  "value_reader \<Rightarrow> file_view \<Rightarrow> int \<Rightarrow> string \<Rightarrow> path \<Rightarrow> dir_entry \<Rightarrow> agent_session list outcome" where
  "claude_file parse v cutoff fallback_cwd project_dir file =
    (let path = project_dir @ [de_name file]; fallback_agent_id = file_stem (de_name file)
     in if file_extension (de_name file) \<noteq> Some ''jsonl'' then Some (Inr [])
        else if entry_modified file < cutoff then Some (Inr [])
        else if fallback_agent_id = [] \<or> fallback_agent_id = ''subagents'' then Some (Inr [])
        else session_of_metadata Claude fallback_agent_id fallback_cwd
          (path_to_string (fv_separator v) path) (read_claude_session_metadata parse (fv_lines v path)))"

definition claude_project ::
  "value_reader \<Rightarrow> file_view \<Rightarrow> int \<Rightarrow> path \<Rightarrow> dir_entry \<Rightarrow> agent_session list outcome" where
  "claude_project parse v cutoff projects_dir entry =
    (if de_is_dir entry \<noteq> Some True then Some (Inr [])
     else
       let project_dir = projects_dir @ [de_name entry];
           fallback_cwd = resolve_cwd_from_project_hash (fv_windows v) (de_name entry)
       in case fv_read_dir v project_dir of
            Inl _ \<Rightarrow> Some (Inr [])
          | Inr files \<Rightarrow> concat_outcomes
              (map (claude_file parse v cutoff fallback_cwd project_dir) (flatten_entries files)))"

definition discover_claude_sessions_in :: "value_reader \<Rightarrow> file_view \<Rightarrow> path \<Rightarrow> agent_session list outcome" where
  "discover_claude_sessions_in parse v projects_dir =
    (case fv_read_dir v projects_dir of
       Inl NotFound \<Rightarrow> Some (Inr [])
     | Inl (IoFailure err) \<Rightarrow>
         Some (Inl (''read '' @ path_to_string (fv_separator v) projects_dir @ '': '' @ err))
     | Inr entries \<Rightarrow> concat_outcomes
         (map (claude_project parse v (fv_now v - CLAUDE_RECENT_WINDOW) projects_dir)
           (flatten_entries entries)))"

section \<open>The walk below a directory\<close>

definition subdirs_of :: "file_view \<Rightarrow> path \<Rightarrow> path list" where
  "subdirs_of v dir = (case fv_read_dir v dir of
     Inl _ \<Rightarrow> []
   | Inr entries \<Rightarrow> map (\<lambda>e. dir @ [de_name e])
       (filter (\<lambda>e. de_is_dir e = Some True) (flatten_entries entries)))"

definition kept_files :: "file_view \<Rightarrow> int \<Rightarrow> (string \<Rightarrow> bool) \<Rightarrow> path \<Rightarrow> path list" where
  "kept_files v cutoff file_filter dir = (case fv_read_dir v dir of
     Inl _ \<Rightarrow> []
   | Inr entries \<Rightarrow> map (\<lambda>e. dir @ [de_name e])
       (filter (\<lambda>e. de_is_dir e = Some False \<and> file_filter (de_name e) \<and> cutoff \<le> entry_modified e)
         (flatten_entries entries)))"

text \<open>
  The loop over the stack of directories (its top first): the last directory found is
  visited next. It ends only where the tree of directories does.
\<close>

partial_function (option) walk ::
  "file_view \<Rightarrow> int \<Rightarrow> (string \<Rightarrow> bool) \<Rightarrow> path list \<Rightarrow> path list \<Rightarrow> path list option" where
  "walk v cutoff file_filter stack out =
    (case stack of
       [] \<Rightarrow> Some out
     | dir # rest \<Rightarrow>
         walk v cutoff file_filter (rev (subdirs_of v dir) @ rest) (out @ kept_files v cutoff file_filter dir))"

declare walk.simps [code]

definition recent_jsonl_files ::
  "file_view \<Rightarrow> path \<Rightarrow> int \<Rightarrow> (string \<Rightarrow> bool) \<Rightarrow> path list option" where
  "recent_jsonl_files v root cutoff file_filter =
    (if \<not> fv_exists v root then Some [] else walk v cutoff file_filter [root] [])"

definition codex_file :: "value_reader \<Rightarrow> file_view \<Rightarrow> path \<Rightarrow> agent_session list outcome" where
  "codex_file parse v path =
    (let fallback_agent_id = (if path = [] then [] else file_stem (last path))
     in if fallback_agent_id = [] then Some (Inr [])
        else session_of_metadata Codex fallback_agent_id (infer_codex_cwd_from_path (fv_separator v) path)
          (path_to_string (fv_separator v) path) (read_codex_session_metadata parse (fv_lines v path)))"

text \<open>The outer option is the walk that does not end.\<close>

definition discover_codex_sessions_in ::
  "value_reader \<Rightarrow> file_view \<Rightarrow> path \<Rightarrow> agent_session list outcome option" where
  "discover_codex_sessions_in parse v sessions_root =
    map_option (\<lambda>paths. concat_outcomes (map (codex_file parse v) paths))
      (recent_jsonl_files v sessions_root (fv_now v - CODEX_RECENT_WINDOW) is_codex_session_file)"

section \<open>Roots\<close>

definition configured_agent_homes :: "string option \<Rightarrow> string list" where
  "configured_agent_homes value =
    (case value of
       None \<Rightarrow> []
     | Some v \<Rightarrow> filter (\<lambda>item. item \<noteq> []) (map trim (split_char (CHR '';'') v)))"

definition home_dir :: "string option \<Rightarrow> string option \<Rightarrow> string option" where
  "home_dir userprofile home = (case userprofile of Some p \<Rightarrow> Some p | None \<Rightarrow> home)"

text \<open>The users below \<open>\\wsl$\distro\home\<close>.\<close>

definition wsl_home_dirs_from_root :: "file_view \<Rightarrow> path \<Rightarrow> path list" where
  "wsl_home_dirs_from_root v root = (case fv_read_dir v root of
     Inl _ \<Rightarrow> []
   | Inr distros \<Rightarrow> concat (map (\<lambda>distro.
       (let home_root = root @ [de_name distro] @ [''home'']
        in case fv_read_dir v home_root of
             Inl _ \<Rightarrow> []
           | Inr users \<Rightarrow> map (\<lambda>user. home_root @ [de_name user])
               (filter (\<lambda>user. de_is_dir user = Some True) (flatten_entries users))))
      (flatten_entries distros)))"

record agent_source_roots =
  sr_homes :: "path list"
  sr_claude_roots :: "path list"
  sr_codex_roots :: "path list"

definition agent_source_roots_of :: "path list \<Rightarrow> agent_source_roots" where
  "agent_source_roots_of homes =
    \<lparr>sr_homes = homes,
     sr_claude_roots = map (\<lambda>home. home @ [''.claude'', ''projects'']) homes,
     sr_codex_roots = map (\<lambda>home. home @ [''.codex'', ''sessions'']) homes\<rparr>"

definition wsl_home_dirs ::
  "file_view \<Rightarrow> (string \<Rightarrow> path) \<Rightarrow> run_output option \<Rightarrow> (string \<Rightarrow> run_output option) \<Rightarrow> path list" where
  "wsl_home_dirs v to_path list_run home_run =
    (if fv_windows v
     then concat (map (\<lambda>root. wsl_home_dirs_from_root v (to_path root))
            [[backslash, backslash] @ ''wsl.localhost'', [backslash, backslash] @ ''wsl$'']) @
          map to_path (wsl_home_dirs_from_wsl_exe list_run home_run)
     else [])"

definition default_home_dirs ::
  "(string \<Rightarrow> path) \<Rightarrow> string option \<Rightarrow> string option \<Rightarrow> path list \<Rightarrow> path list" where
  "default_home_dirs to_path configured home wsl =
    remdups_adj (sort (map to_path (configured_agent_homes configured) @
      (case home of None \<Rightarrow> [] | Some h \<Rightarrow> [to_path h]) @ wsl))"

text \<open>
  All roots, Claude first; the first error or panic ends the scan. The outer option is a
  walk that does not end.
\<close>

definition append_run :: "'a list outcome option \<Rightarrow> 'a list outcome option \<Rightarrow> 'a list outcome option" where
  "append_run a b = Option.bind a (\<lambda>o1. case o1 of
     Some (Inr xs) \<Rightarrow> map_option (append_outcome o1) b
   | _ \<Rightarrow> Some o1)"

definition discover_agent_session_candidates ::
  "value_reader \<Rightarrow> file_view \<Rightarrow> agent_source_roots \<Rightarrow> agent_session list outcome option" where
  "discover_agent_session_candidates parse v roots =
    map_option (map_option (map_sum id sort_and_dedup_sessions))
      (foldr append_run
        (map (\<lambda>root. Some (discover_claude_sessions_in parse v root)) (sr_claude_roots roots) @
         map (discover_codex_sessions_in parse v) (sr_codex_roots roots))
        (Some (Some (Inr []))))"

text \<open>The sessions shown: the candidates, unless the scan failed, matched to live evidence.\<close>

definition discover_agent_sessions ::
  "(agent_session list \<Rightarrow> agent_session list) \<Rightarrow> agent_session list outcome option \<Rightarrow>
   agent_session list outcome option" where
  "discover_agent_sessions filter_active candidates =
    map_option (map_option (map_sum id filter_active)) candidates"

section \<open>The walk ends and finds every file\<close>

text \<open>\<open>sub\<close> is a directory directly below \<open>dir\<close>.\<close>

definition subdir_rel :: "file_view \<Rightarrow> path \<Rightarrow> path \<Rightarrow> bool" where
  "subdir_rel v sub dir \<longleftrightarrow> sub \<in> set (subdirs_of v dir)"

definition files_below :: "file_view \<Rightarrow> int \<Rightarrow> (string \<Rightarrow> bool) \<Rightarrow> path \<Rightarrow> path set" where
  "files_below v cutoff file_filter root =
    (\<Union>dir \<in> {d. (subdir_rel v)\<^sup>*\<^sup>* d root}. set (kept_files v cutoff file_filter dir))"

lemma below_step:
  "{d. (subdir_rel v)\<^sup>*\<^sup>* d root} =
    insert root (\<Union>sub \<in> set (subdirs_of v root). {d. (subdir_rel v)\<^sup>*\<^sup>* d sub})"
proof (rule set_eqI)
  fix d
  have "(subdir_rel v)\<^sup>*\<^sup>* d root \<longleftrightarrow>
      d = root \<or> (\<exists>sub. (subdir_rel v)\<^sup>*\<^sup>* d sub \<and> subdir_rel v sub root)"
    by (subst rtranclp.simps) blast
  then show "d \<in> {d. (subdir_rel v)\<^sup>*\<^sup>* d root} \<longleftrightarrow>
      d \<in> insert root (\<Union>sub \<in> set (subdirs_of v root). {d. (subdir_rel v)\<^sup>*\<^sup>* d sub})"
    unfolding mem_Collect_eq insert_iff UN_iff Bex_def subdir_rel_def[symmetric] by blast
qed

lemma files_below_step:
  "files_below v cutoff f root = set (kept_files v cutoff f root) \<union>
    (\<Union>sub \<in> set (subdirs_of v root). files_below v cutoff f sub)"
  unfolding files_below_def by (subst below_step) auto

lemma walk_Nil: "walk v cutoff f [] out = Some out"
  by (subst walk.simps) simp

lemma walk_Cons: "walk v cutoff f (dir # rest) out =
     walk v cutoff f (rev (subdirs_of v dir) @ rest) (out @ kept_files v cutoff f dir)"
  by (subst walk.simps) (simp only: list.case)

lemma walk_list:
  assumes "\<forall>d \<in> set ds. \<forall>rest out. \<exists>ps. walk v cutoff f (d # rest) out = walk v cutoff f rest (out @ ps) \<and>
      set ps = F d"
  shows "\<exists>ps. walk v cutoff f (ds @ rest) out = walk v cutoff f rest (out @ ps) \<and>
      set ps = (\<Union>d \<in> set ds. F d)"
  using assms
proof (induction ds arbitrary: out)
  case Nil
  show ?case by (intro exI[of _ "[]"]) simp
next
  case (Cons d ds)
  obtain ps where ps: "walk v cutoff f (d # ds @ rest) out = walk v cutoff f (ds @ rest) (out @ ps)"
    "set ps = F d" using Cons.prems by (metis list.set_intros(1))
  obtain qs where qs: "walk v cutoff f (ds @ rest) (out @ ps) = walk v cutoff f rest ((out @ ps) @ qs)"
    "set qs = (\<Union>d \<in> set ds. F d)" using Cons by (metis list.set_intros(2))
  show ?case using ps qs by (intro exI[of _ "ps @ qs"]) simp
qed

lemma walk_dir:
  assumes "Wellfounded.accp (subdir_rel v) dir"
  shows "\<forall>rest out. \<exists>ps. walk v cutoff f (dir # rest) out = walk v cutoff f rest (out @ ps) \<and>
      set ps = files_below v cutoff f dir"
  using assms
proof (induction rule: accp.induct)
  case (accI dir)
  show ?case
  proof (intro allI)
    fix rest out
    have "\<forall>d \<in> set (rev (subdirs_of v dir)). \<forall>rest out. \<exists>ps.
        walk v cutoff f (d # rest) out = walk v cutoff f rest (out @ ps) \<and> set ps = files_below v cutoff f d"
      using accI.IH by (simp add: subdir_rel_def)
    from walk_list[OF this, of rest "out @ kept_files v cutoff f dir"]
    show "\<exists>ps. walk v cutoff f (dir # rest) out = walk v cutoff f rest (out @ ps) \<and>
        set ps = files_below v cutoff f dir"
      unfolding walk_Cons files_below_step[of v cutoff f dir]
      by (metis append.assoc set_append set_rev)
  qed
qed


text \<open>A root with one directory per day.\<close>

definition sample_view :: file_view where
  "sample_view = \<lparr>fv_windows = False, fv_separator = ''/'', fv_now = 0, fv_exists = (\<lambda>_. True),
     fv_read_dir = (\<lambda>p. if p = [''r''] then Inr [Some \<lparr>de_name = ''d'', de_is_dir = Some True, de_modified = None\<rparr>]
       else if p = [''r'', ''d''] then Inr [None, Some \<lparr>de_name = ''rollout-1.jsonl'', de_is_dir = Some False, de_modified = None\<rparr>]
       else Inl NotFound),
     fv_lines = (\<lambda>_. None)\<rparr>"

lemma sample_tree: "Wellfounded.accp (subdir_rel sample_view) [''r'']"
proof (rule accp.intros)
  fix sub assume "subdir_rel sample_view sub [''r'']"
  then have sub: "sub = [''r'', ''d'']"
    by (simp add: subdir_rel_def subdirs_of_def sample_view_def flatten_entries_def List.map_filter_def)
  show "Wellfounded.accp (subdir_rel sample_view) sub"
    by (rule accp.intros)
      (simp add: sub subdir_rel_def subdirs_of_def sample_view_def flatten_entries_def List.map_filter_def)
qed


end
