(* ===== verification/Transcript_Poller.thy ===== *)
theory Transcript_Poller
  imports Agent_Sources
begin

text \<open>
  The poller of \<open>crates/vb-host/src/agent_discovery.rs\<close>: \<open>AgentSourcePoller\<close> with a byte cursor
  per transcript and the set of sessions it has seen, \<open>read_appended_lines\<close> and one poll over
  the sessions discovered. The file system answers each call as \<open>poll_files\<close> says; the length
  it reports and the bytes read afterwards need not agree, as the file may grow between the
  two.
\<close>

section \<open>Reading what was appended\<close>

text \<open>\<open>pf_read path offset\<close>: the bytes from the offset to the end of the file.\<close>

record poll_files =
  pf_stat :: "string \<Rightarrow> nat result"
  pf_open :: "string \<Rightarrow> string option"
  pf_seek :: "string \<Rightarrow> nat \<Rightarrow> string option"
  pf_read :: "string \<Rightarrow> nat \<Rightarrow> bytes result"

type_synonym cursors = "string \<Rightarrow> nat option"

definition invalid_utf8 :: string where
  "invalid_utf8 = ''stream did not contain valid UTF-8''"

definition io_message :: "string \<Rightarrow> string \<Rightarrow> string \<Rightarrow> string" where
  "io_message op path err = op @ '' '' @ path @ '': '' @ err"

definition read_appended_lines ::
  "poll_files \<Rightarrow> string \<Rightarrow> cursors \<Rightarrow> cursors \<times> string option result" where
  "read_appended_lines fs path cursors =
    (case pf_stat fs path of
       Inl err \<Rightarrow> (cursors, Inl (io_message ''stat'' path err))
     | Inr len \<Rightarrow>
        let offset = or_else (cursors path) 0;
            cursors = cursors(path \<mapsto> offset)
        in if len < offset then (cursors(path \<mapsto> len), Inr None)
           else if len = offset then (cursors, Inr None)
           else case pf_open fs path of
             Some err \<Rightarrow> (cursors, Inl (io_message ''open'' path err))
           | None \<Rightarrow>
              (case pf_seek fs path offset of
                 Some err \<Rightarrow> (cursors, Inl (io_message ''seek'' path err))
               | None \<Rightarrow>
                  (case pf_read fs path offset of
                     Inl err \<Rightarrow> (cursors, Inl (io_message ''read'' path err))
                   | Inr bs \<Rightarrow>
                      (case from_utf8 bs of
                         None \<Rightarrow> (cursors, Inl (io_message ''read'' path invalid_utf8))
                       | Some appended \<Rightarrow> (cursors(path \<mapsto> len), Inr (Some appended))))))"

section \<open>One poll\<close>

record source_poller =
  sp_cursors :: cursors
  sp_seen :: "(agent_kind \<times> string) set"
  sp_include_inactive :: bool

definition poller_new_with_inactive :: "bool \<Rightarrow> source_poller" where
  "poller_new_with_inactive include_inactive =
    \<lparr>sp_cursors = (\<lambda>_. None), sp_seen = {}, sp_include_inactive = include_inactive\<rparr>"

definition poller_new :: source_poller where
  "poller_new = poller_new_with_inactive False"

definition seen_of :: "agent_session \<Rightarrow> agent_activity" where
  "seen_of s = \<lparr>aa_agent_id = as_agent_id s, aa_kind = as_kind s, aa_activity = Seen,
     aa_status = as_status s, aa_transcript_path = as_transcript_path s\<rparr>"

definition line_activities :: "value_reader \<Rightarrow> agent_session \<Rightarrow> string \<Rightarrow> agent_activity list" where
  "line_activities parse s txt =
    List.map_filter (line_to_activity parse (as_kind s) (as_agent_id s) (as_transcript_path s)) (str_lines txt)"

definition line_turns :: "value_reader \<Rightarrow> agent_session \<Rightarrow> string \<Rightarrow> discovered_turn list" where
  "line_turns parse s txt =
    List.map_filter (line_to_discovered_turn parse (as_kind s) (as_agent_id s)) (str_lines txt)"

text \<open>The body of the loop: the poller, and what the session adds.\<close>

definition poll_session ::
  "value_reader \<Rightarrow> poll_files \<Rightarrow> agent_session \<Rightarrow> source_poller \<Rightarrow>
   source_poller \<times> (agent_activity list \<times> discovered_turn list) result" where
  "poll_session parse fs s p =
    (let key = session_key s;
         seen = (if key \<in> sp_seen p then [] else [seen_of s]);
         p = p\<lparr>sp_seen := insert key (sp_seen p)\<rparr>;
         (cursors, appended) = read_appended_lines fs (as_transcript_path s) (sp_cursors p);
         p = p\<lparr>sp_cursors := cursors\<rparr>
     in case appended of
          Inl err \<Rightarrow> (p, Inl err)
        | Inr None \<Rightarrow> (p, Inr (seen, []))
        | Inr (Some txt) \<Rightarrow> (p, Inr (seen @ line_activities parse s txt, line_turns parse s txt)))"

fun poll_sessions ::
  "value_reader \<Rightarrow> poll_files \<Rightarrow> agent_session list \<Rightarrow> source_poller \<Rightarrow>
   source_poller \<times> (agent_activity list \<times> discovered_turn list) result" where
  "poll_sessions parse fs [] p = (p, Inr ([], []))"
| "poll_sessions parse fs (s # ss) p =
    (case poll_session parse fs s p of
       (p1, Inl err) \<Rightarrow> (p1, Inl err)
     | (p1, Inr (acts, turns)) \<Rightarrow>
        (case poll_sessions parse fs ss p1 of
           (p2, Inl err) \<Rightarrow> (p2, Inl err)
         | (p2, Inr (acts', turns')) \<Rightarrow> (p2, Inr (acts @ acts', turns @ turns'))))"

definition poll_with_sessions ::
  "value_reader \<Rightarrow> poll_files \<Rightarrow> agent_session list \<Rightarrow> source_poller \<Rightarrow> source_poller \<times> poll_snapshot result" where
  "poll_with_sessions parse fs sessions p =
    (case poll_sessions parse fs sessions p of
       (p', Inl err) \<Rightarrow> (p', Inl err)
     | (p', Inr (acts, turns)) \<Rightarrow>
         (p', Inr \<lparr>ps_sessions = sessions, ps_activities = acts, ps_turns = turns\<rparr>))"

text \<open>The candidates, or the sessions with live evidence, then the poll; \<open>None\<close> when the
  discovery panics or its walk does not end.\<close>

definition poller_poll ::
  "value_reader \<Rightarrow> poll_files \<Rightarrow> agent_session list outcome option \<Rightarrow> source_poller \<Rightarrow>
   (source_poller \<times> poll_snapshot result) option" where
  "poller_poll parse fs found p =
    Option.bind found (\<lambda>o1. map_option (\<lambda>r. case r of
        Inl err \<Rightarrow> (p, Inl err)
      | Inr sessions \<Rightarrow> poll_with_sessions parse fs sessions p) o1)"

definition poll_candidates_once ::
  "value_reader \<Rightarrow> poll_files \<Rightarrow> agent_session list outcome option \<Rightarrow> source_poller \<Rightarrow>
   (source_poller \<times> poll_snapshot result) option" where
  "poll_candidates_once parse fs candidates p = poller_poll parse fs candidates p"

definition poller_poll_once ::
  "value_reader \<Rightarrow> poll_files \<Rightarrow> (agent_session list \<Rightarrow> agent_session list) \<Rightarrow>
   agent_session list outcome option \<Rightarrow> source_poller \<Rightarrow> (source_poller \<times> poll_snapshot result) option" where
  "poller_poll_once parse fs filter_active candidates p =
    poller_poll parse fs
      (if sp_include_inactive p then candidates else discover_agent_sessions filter_active candidates) p"

section \<open>A file that only grows\<close>

text \<open>The answers about files whose contents do not change during the poll.\<close>

definition settled :: "(string \<Rightarrow> bytes) \<Rightarrow> poll_files" where
  "settled content = \<lparr>pf_stat = (\<lambda>p. Inr (length (content p))), pf_open = (\<lambda>_. None),
     pf_seek = (\<lambda>_ _. None), pf_read = (\<lambda>p off. Inr (drop off (content p)))\<rparr>"

lemma read_settled:
  assumes "prefix old (content path)" "or_else (c path) 0 = length old"
    "utf8_valid old" "utf8_valid (content path)"
  shows "read_appended_lines (settled content) path c =
    (c(path \<mapsto> length (content path)),
     Inr (if content path = old then None else Some (of_bytes (drop (length old) (content path)))))"
proof -
  obtain new where new: "content path = old @ new" using assms(1) by (auto simp: prefix_def)
  have "utf8_valid new" using assms(3,4) unfolding new by (simp add: utf8_valid_append_iff)
  then have "from_utf8 new = Some (of_bytes new)" by (simp add: from_utf8_def)
  then show ?thesis
    using assms(2) by (simp add: read_appended_lines_def settled_def new Let_def)
qed

text \<open>A text whose last line is complete.\<close>

definition line_complete :: "bytes \<Rightarrow> bool" where
  "line_complete bs \<longleftrightarrow> bs = [] \<or> last bs = 0x0A"

lemma lines_raw_append:
  "x \<noteq> [] \<Longrightarrow> last x = CHR 0x0A \<Longrightarrow> lines_raw cur (x @ y) = lines_raw cur x @ lines_raw [] y"
proof (induction x arbitrary: cur)
  case (Cons c x)
  then show ?case by (cases "x = []") auto
qed simp

lemma newline_char: "char_of_byte 0x0A = CHR 0x0A"
  by code_simp

lemma str_lines_append:
  assumes "line_complete a"
  shows "str_lines (of_bytes (a @ b)) = str_lines (of_bytes a) @ str_lines (of_bytes b)"
proof (cases "a = []")
  case False
  then have "last (of_bytes a) = CHR 0x0A"
    using assms by (simp add: line_complete_def of_bytes_def last_map newline_char)
  then show ?thesis using False by (simp add: str_lines_def of_bytes_def lines_raw_append)
qed (simp add: of_bytes_def str_lines_def)

lemma line_turns_append:
  "line_complete a \<Longrightarrow>
   line_turns parse s (of_bytes (a @ b)) = line_turns parse s (of_bytes a) @ line_turns parse s (of_bytes b)"
  by (simp add: line_turns_def str_lines_append List.map_filter_def)

lemma line_activities_append:
  "line_complete a \<Longrightarrow> line_activities parse s (of_bytes (a @ b)) =
     line_activities parse s (of_bytes a) @ line_activities parse s (of_bytes b)"
  by (simp add: line_activities_def str_lines_append List.map_filter_def)

lemma no_lines [simp]: "line_turns parse s [] = []" "line_activities parse s [] = []"
  by (simp_all add: line_turns_def line_activities_def str_lines_def List.map_filter_def)

section \<open>Sequences of polls\<close>

fun poll_run ::
  "value_reader \<Rightarrow> (poll_files \<times> agent_session list) list \<Rightarrow> source_poller \<Rightarrow>
   source_poller \<times> poll_snapshot result list" where
  "poll_run parse [] p = (p, [])"
| "poll_run parse ((fs, ss) # rs) p =
    (let (p1, x) = poll_with_sessions parse fs ss p; (p2, xs) = poll_run parse rs p1 in (p2, x # xs))"

definition poll_one :: "value_reader \<Rightarrow> agent_session \<Rightarrow> bytes \<Rightarrow> source_poller \<Rightarrow>
   source_poller \<times> poll_snapshot result" where
  "poll_one parse s c p = poll_with_sessions parse (settled (\<lambda>_. c)) [s] p"

text \<open>What one poll of one session reports when the file has grown from \<open>old\<close> to \<open>c\<close>.\<close>

lemma poll_one_grown:
  assumes "prefix old c" "or_else (sp_cursors p (as_transcript_path s)) 0 = length old"
    "utf8_valid old" "utf8_valid c"
  shows "\<exists>p'. poll_one parse s c p = (p', Inr \<lparr>ps_sessions = [s],
      ps_activities = (if session_key s \<in> sp_seen p then [] else [seen_of s]) @
        line_activities parse s (of_bytes (drop (length old) c)),
      ps_turns = line_turns parse s (of_bytes (drop (length old) c))\<rparr>) \<and>
    sp_cursors p' (as_transcript_path s) = Some (length c) \<and> session_key s \<in> sp_seen p'"
proof -
  have r: "read_appended_lines (settled (\<lambda>_. c)) (as_transcript_path s) (sp_cursors p) =
      ((sp_cursors p)(as_transcript_path s \<mapsto> length c),
       Inr (if c = old then None else Some (of_bytes (drop (length old) c))))"
    using read_settled[of old "\<lambda>_. c" "as_transcript_path s" "sp_cursors p"] assms by simp
  have "drop (length old) c = [] \<longleftrightarrow> c = old" using assms(1) by (auto simp: prefix_def)
  then show ?thesis
    by (auto simp: poll_one_def poll_with_sessions_def poll_session_def r Let_def of_bytes_def)
qed

text \<open>The pieces successive polls read of a growing file.\<close>

fun pieces :: "bytes \<Rightarrow> bytes list \<Rightarrow> bytes list" where
  "pieces old [] = []"
| "pieces old (c # cs) = drop (length old) c # pieces c cs"

fun growing :: "bytes \<Rightarrow> bytes list \<Rightarrow> bool" where
  "growing old [] \<longleftrightarrow> True"
| "growing old (c # cs) \<longleftrightarrow> prefix old c \<and> utf8_valid c \<and> growing c cs"

definition versions :: "agent_session \<Rightarrow> bytes list \<Rightarrow> (poll_files \<times> agent_session list) list" where
  "versions s cs = map (\<lambda>c. (settled (\<lambda>_. c), [s])) cs"

lemma poll_pieces:
  assumes "growing old cs" "or_else (sp_cursors p (as_transcript_path s)) 0 = length old" "utf8_valid old"
  shows "\<exists>p' snaps. poll_run parse (versions s cs) p = (p', map Inr snaps) \<and>
    concat (map ps_turns snaps) = concat (map (\<lambda>b. line_turns parse s (of_bytes b)) (pieces old cs)) \<and>
    concat (map ps_activities snaps) =
      (if cs = [] \<or> session_key s \<in> sp_seen p then [] else [seen_of s]) @
      concat (map (\<lambda>b. line_activities parse s (of_bytes b)) (pieces old cs))"
  using assms
proof (induction cs arbitrary: old p)
  case Nil
  show ?case by (intro exI[of _ p] exI[of _ "[]"]) (simp add: versions_def)
next
  case (Cons c cs)
  obtain p1 where one: "poll_one parse s c p = (p1, Inr \<lparr>ps_sessions = [s],
      ps_activities = (if session_key s \<in> sp_seen p then [] else [seen_of s]) @
        line_activities parse s (of_bytes (drop (length old) c)),
      ps_turns = line_turns parse s (of_bytes (drop (length old) c))\<rparr>)"
    "sp_cursors p1 (as_transcript_path s) = Some (length c)" "session_key s \<in> sp_seen p1"
    using poll_one_grown[of old c p s] Cons.prems by auto
  obtain p2 snaps where rest: "poll_run parse (versions s cs) p1 = (p2, map Inr snaps)"
    "concat (map ps_turns snaps) = concat (map (\<lambda>b. line_turns parse s (of_bytes b)) (pieces c cs))"
    "concat (map ps_activities snaps) = concat (map (\<lambda>b. line_activities parse s (of_bytes b)) (pieces c cs))"
  proof -
    have "growing c cs" "or_else (sp_cursors p1 (as_transcript_path s)) 0 = length c" "utf8_valid c"
      using Cons.prems one(2) by (simp_all add: or_else_def)
    from Cons.IH[OF this] one(3) show thesis using that by auto
  qed
  show ?case
    using one(1) rest unfolding poll_one_def
    by (intro exI[of _ p2] exI[of _ "\<lparr>ps_sessions = [s],
      ps_activities = (if session_key s \<in> sp_seen p then [] else [seen_of s]) @
        line_activities parse s (of_bytes (drop (length old) c)),
      ps_turns = line_turns parse s (of_bytes (drop (length old) c))\<rparr> # snaps"])
      (simp add: versions_def)
qed

lemma pieces_complete:
  assumes "growing old cs" "line_complete old" "\<forall>c \<in> set cs. line_complete c"
    and f: "f [] = []" "\<And>a b. line_complete a \<Longrightarrow> f (a @ b) = f a @ f b"
  shows "f old @ concat (map f (pieces old cs)) = f (last (old # cs))"
  using assms(1-3)
proof (induction cs arbitrary: old)
  case (Cons c cs)
  obtain new where new: "c = old @ new" using Cons.prems by (auto simp: prefix_def)
  have "f old @ f (drop (length old) c) = f c" using f(2)[of old new] Cons.prems new by simp
  moreover have "f c @ concat (map f (pieces c cs)) = f (last (c # cs))"
    using Cons by simp
  ultimately show ?case by (metis append.assoc concat.simps(2) last_ConsR list.distinct(1) list.simps(9) pieces.simps(2))
qed simp

section \<open>Theorems\<close>


definition sample_parse :: value_reader where
  "sample_parse l = Some (JObj [(''type'', JStr ''user''), (''message'', JObj [(''content'', JStr l)])])"


text \<open>A line caught half written is read in two pieces, and neither is the line.\<close>

lemma half_written_line_is_split:
  "map (map dt_text \<circ> ps_turns) (map projr (snd (poll_run sample_parse
     (versions (sample_session Claude ''s1'' ''/a'') [[0x78], [0x78, 0x79, 0x0A]]) poller_new))) =
   [[''x''], [''y'']]"
  by code_simp

definition unreadable :: "string \<Rightarrow> string \<Rightarrow> poll_files \<Rightarrow> poll_files" where
  "unreadable path err fs = fs\<lparr>pf_stat := (pf_stat fs)(path := Inl err)\<rparr>"

lemma read_unreadable:
  "read_appended_lines (unreadable path err fs) path c = (c, Inl (io_message ''stat'' path err))"
  "path' \<noteq> path \<Longrightarrow> read_appended_lines (unreadable path err fs) path' c = read_appended_lines fs path' c"
  by (simp_all add: read_appended_lines_def unreadable_def Let_def
      cong: if_cong option.case_cong sum.case_cong)

text \<open>
  One unreadable transcript makes a poll lose what it has already read from the others:
  the poll ends in the error, and no later poll reports those turns and activities, nor
  announces the session read.
\<close>
theorem failed_poll_loses_turns:
  assumes "as_transcript_path a \<noteq> as_transcript_path b"
    "prefix old (content (as_transcript_path a))" "utf8_valid old"
    "utf8_valid (content (as_transcript_path a))"
    "or_else (sp_cursors p (as_transcript_path a)) 0 = length old"
  shows "\<exists>p'. poll_with_sessions parse (unreadable (as_transcript_path b) err (settled content)) [a, b] p =
      (p', Inl (io_message ''stat'' (as_transcript_path b) err)) \<and>
    snd (poll_with_sessions parse (settled content) [a] p') =
      Inr \<lparr>ps_sessions = [a], ps_activities = [], ps_turns = []\<rparr>"
proof -
  let ?pa = "as_transcript_path a" and ?c = "content (as_transcript_path a)"
  have r: "read_appended_lines (settled content) ?pa (sp_cursors p) =
      ((sp_cursors p)(?pa \<mapsto> length ?c), Inr (if ?c = old then None else Some (of_bytes (drop (length old) ?c))))"
    by (rule read_settled) (use assms in simp_all)
  have again: "read_appended_lines (settled content) ?pa (c(?pa \<mapsto> length ?c)) = (c(?pa \<mapsto> length ?c), Inr None)" for c
    using read_settled[of ?c content ?pa "c(?pa \<mapsto> length ?c)"] assms(4) by (simp add: or_else_def)
  have ub: "read_appended_lines (unreadable (as_transcript_path b) err (settled content)) ?pa (sp_cursors p) =
      read_appended_lines (settled content) ?pa (sp_cursors p)"
    using assms(1) by (simp add: read_unreadable)
  show ?thesis
    by (auto simp: poll_with_sessions_def poll_session_def Let_def ub r read_unreadable again)
qed

lemma failed_poll_loses_turns_witness:
  "\<exists>p'. poll_with_sessions sample_parse (unreadable ''s2'' ''gone'' (settled (\<lambda>_. [0x78, 0x0A])))
      [sample_session Claude ''s1'' ''/a'', sample_session Claude ''s2'' ''/b''] poller_new =
      (p', Inl (io_message ''stat'' ''s2'' ''gone'')) \<and>
    snd (poll_with_sessions sample_parse (settled (\<lambda>_. [0x78, 0x0A])) [sample_session Claude ''s1'' ''/a''] p') =
      Inr \<lparr>ps_sessions = [sample_session Claude ''s1'' ''/a''], ps_activities = [], ps_turns = []\<rparr>"
proof -
  have p: "as_transcript_path (sample_session Claude ''s1'' ''/a'') = ''s1''"
    "as_transcript_path (sample_session Claude ''s2'' ''/b'') = ''s2''" by (simp_all add: sample_session_def)
  have v: "utf8_valid [0x78, 0x0A]" by (simp add: utf8_valid_ascii)
  show ?thesis
    using failed_poll_loses_turns[of "sample_session Claude ''s1'' ''/a''" "sample_session Claude ''s2'' ''/b''"
        "[]" "\<lambda>_. [0x78, 0x0A]" poller_new sample_parse "''gone''"] v
    unfolding p by (simp add: poller_new_def poller_new_with_inactive_def or_else_def)
qed

text \<open>When the file grew between the length and the read, what came in between is read twice.\<close>

lemma growth_during_poll_is_read_twice:
  assumes "pf_stat fs path = Inr n" "pf_open fs path = None" "pf_seek fs path 0 = None"
    "pf_read fs path 0 = Inr (as_bytes (x @ y))" "length x = n" "n \<noteq> 0" "valid_str x" "valid_str y" "y \<noteq> []"
  shows "\<exists>c. read_appended_lines fs path (\<lambda>_. None) = (c, Inr (Some (x @ y))) \<and>
    snd (read_appended_lines (settled (\<lambda>_. as_bytes (x @ y))) path c) = Inr (Some y)"
proof -
  have v: "valid_str (x @ y)" using assms by (simp add: valid_str_append)
  have y_ne: "as_bytes y \<noteq> []" using assms by (simp add: as_bytes_def)
  have r: "read_appended_lines fs path (\<lambda>_. None) = ((\<lambda>_. None)(path \<mapsto> 0, path \<mapsto> n), Inr (Some (x @ y)))"
    using assms v by (simp add: read_appended_lines_def or_else_def del: as_bytes_append)
  have "snd (read_appended_lines (settled (\<lambda>_. as_bytes (x @ y))) path ((\<lambda>_. None)(path \<mapsto> 0, path \<mapsto> n))) =
      Inr (Some y)"
    using assms read_settled[of "as_bytes x" "\<lambda>_. as_bytes (x @ y)" path "(\<lambda>_. None)(path \<mapsto> 0, path \<mapsto> n)"] v
      y_ne by (simp add: or_else_def valid_str_def)
  with r show ?thesis by blast
qed

section \<open>Announcing sessions\<close>

lemma claude_activity_not_seen:
  assumes "claude_line_activity_status v = Some (a, st)"
  shows "a \<noteq> Seen"
proof -
  obtain status where "claude_status v = Some status"
    using assms by (auto simp: claude_line_activity_status_def bind_eq_Some_conv)
  then show ?thesis
    using assms by (cases status) (auto simp: claude_line_activity_status_def split: if_splits)
qed

lemma codex_activity_not_seen:
  assumes "codex_line_activity_status v = Some (a, st)"
  shows "a \<noteq> Seen"
proof (cases "jget_str v ''type'' = Some ''event_msg''")
  case True
  then obtain status where "codex_event_status (payload_of v) = Some status"
    using assms by (auto simp: codex_line_activity_status_def bind_eq_Some_conv Let_def)
  then show ?thesis
    using assms True by (cases status) (auto simp: codex_line_activity_status_def Let_def split: if_splits)
next
  case False
  then show ?thesis
    using assms by (auto simp: codex_line_activity_status_def bind_eq_Some_conv Let_def split: if_splits)
qed

lemma line_to_activity_not_seen: "line_to_activity parse kind agent_id path l = Some a \<Longrightarrow> aa_activity a \<noteq> Seen"
  by (cases kind)
    (auto simp: line_to_activity_def bind_eq_Some_conv dest: claude_activity_not_seen codex_activity_not_seen)

lemma line_activities_not_seen: "a \<in> set (line_activities parse s txt) \<Longrightarrow> aa_activity a \<noteq> Seen"
  by (auto simp: line_activities_def List.map_filter_def dest: line_to_activity_not_seen)

definition seen_count :: "agent_kind \<times> string \<Rightarrow> agent_activity list \<Rightarrow> nat" where
  "seen_count k acts = length (filter (\<lambda>a. aa_activity a = Seen \<and> (aa_kind a, aa_agent_id a) = k) acts)"

lemma seen_count_simps [simp]:
  "seen_count k [] = 0" "seen_count k (xs @ ys) = seen_count k xs + seen_count k ys"
  "seen_count k (seen_of s # xs) = (if session_key s = k then 1 else 0) + seen_count k xs"
  "seen_count k (line_activities parse s txt) = 0"
  using line_activities_not_seen
  by (auto simp: seen_count_def seen_of_def session_key_def filter_empty_conv)

lemma poll_session_seen:
  assumes "poll_session parse fs s p = (p', r)"
  shows "sp_seen p' = insert (session_key s) (sp_seen p)"
    "r = Inr (acts, turns) \<Longrightarrow>
      seen_count k acts = (if session_key s = k \<and> k \<notin> sp_seen p then 1 else 0)"
  using assms by (auto simp: poll_session_def Let_def split: prod.splits sum.splits option.splits if_splits)

lemma poll_sessions_seen:
  assumes "poll_sessions parse fs ss p = (p', r)"
  shows "sp_seen p \<subseteq> sp_seen p' \<and> (\<forall>acts turns. r = Inr (acts, turns) \<longrightarrow>
    sp_seen p' = sp_seen p \<union> session_key ` set ss \<and>
    seen_count k acts = (if k \<in> session_key ` set ss \<and> k \<notin> sp_seen p then 1 else 0))"
  using assms
proof (induction ss arbitrary: p p' r)
  case (Cons s ss)
  obtain p1 r1 where one: "poll_session parse fs s p = (p1, r1)" by fastforce
  note seen1 = poll_session_seen(1)[OF one]
  show ?case
  proof (cases r1)
    case (Inl e)
    then show ?thesis using Cons.prems one seen1 by auto
  next
    case (Inr at)
    obtain acts1 turns1 where at: "at = (acts1, turns1)" by fastforce
    obtain p2 r2 where two: "poll_sessions parse fs ss p1 = (p2, r2)" by fastforce
    have c1: "seen_count k acts1 = (if session_key s = k \<and> k \<notin> sp_seen p then 1 else 0)"
      using poll_session_seen(2)[OF one] Inr at by simp
    note IH = Cons.IH[OF two]
    show ?thesis
      using Cons.prems one two Inr at c1 seen1 IH by (cases r2) auto
  qed
qed auto

text \<open>The announcements of a session over a run of polls; failed polls report nothing.\<close>

definition announcements :: "agent_kind \<times> string \<Rightarrow> poll_snapshot result list \<Rightarrow> nat" where
  "announcements k rs = sum_list (map (\<lambda>r. case r of Inl _ \<Rightarrow> 0 | Inr sn \<Rightarrow> seen_count k (ps_activities sn)) rs)"

lemma announcements_run:
  assumes "poll_run parse rs p = (p', xs)"
  shows "announcements k xs \<le> (if k \<in> sp_seen p then 0 else 1)"
    "\<forall>x \<in> set xs. \<not> isl x \<Longrightarrow> announcements k xs =
       (if k \<notin> sp_seen p \<and> (\<exists>(fs, ss) \<in> set rs. k \<in> session_key ` set ss) then 1 else 0)"
proof -
  have "announcements k xs \<le> (if k \<in> sp_seen p then 0 else 1) \<and>
    ((\<forall>x \<in> set xs. \<not> isl x) \<longrightarrow> announcements k xs =
       (if k \<notin> sp_seen p \<and> (\<exists>(fs, ss) \<in> set rs. k \<in> session_key ` set ss) then 1 else 0))"
    using assms
  proof (induction rs arbitrary: p p' xs)
    case Nil
    then show ?case by (simp add: announcements_def)
  next
    case (Cons r rs)
    obtain fs ss where r: "r = (fs, ss)" by fastforce
    obtain p1 o1 where one: "poll_sessions parse fs ss p = (p1, o1)" by fastforce
    obtain p2 ys where two: "poll_run parse rs p1 = (p2, ys)" by fastforce
    note seen = poll_sessions_seen[OF one, of k] and IH = Cons.IH[OF two]
    show ?case
    proof (cases o1)
      case (Inl e)
      have "announcements k xs = announcements k ys" "\<not> (\<forall>x \<in> set xs. \<not> isl x)"
        using Cons.prems r one two Inl by (auto simp: poll_with_sessions_def announcements_def)
      moreover have "k \<in> sp_seen p \<Longrightarrow> k \<in> sp_seen p1" using seen by blast
      ultimately show ?thesis using IH by (auto split: if_splits)
    next
      case (Inr at)
      obtain acts turns where at: "at = (acts, turns)" by fastforce
      have a: "announcements k xs = seen_count k acts + announcements k ys"
        "(\<forall>x \<in> set xs. \<not> isl x) \<longleftrightarrow> (\<forall>x \<in> set ys. \<not> isl x)"
        using Cons.prems r one two Inr at by (auto simp: poll_with_sessions_def announcements_def)
      have s: "sp_seen p1 = sp_seen p \<union> session_key ` set ss"
        "seen_count k acts = (if k \<in> session_key ` set ss \<and> k \<notin> sp_seen p then 1 else 0)"
        using seen Inr at by auto
      show ?thesis using IH unfolding a s by (auto simp: r split: if_splits)
    qed
  qed
  then show "announcements k xs \<le> (if k \<in> sp_seen p then 0 else 1)"
    "\<forall>x \<in> set xs. \<not> isl x \<Longrightarrow> announcements k xs =
       (if k \<notin> sp_seen p \<and> (\<exists>(fs, ss) \<in> set rs. k \<in> session_key ` set ss) then 1 else 0)"
    by blast+
qed

text \<open>
  C29: over any run of polls, whatever files and sessions they see, a session is announced
  at most once; when no poll fails, it is announced exactly when some poll saw it.
\<close>
theorem sessions_are_announced_once:
  "announcements k (snd (poll_run parse rs poller_new)) \<le> 1 \<and>
   ((\<forall>x \<in> set (snd (poll_run parse rs poller_new)). \<not> isl x) \<longrightarrow>
    announcements k (snd (poll_run parse rs poller_new)) =
      (if \<exists>(fs, ss) \<in> set rs. k \<in> session_key ` set ss then 1 else 0))"
proof -
  obtain p' xs where run: "poll_run parse rs poller_new = (p', xs)" by fastforce
  have fresh: "k \<notin> sp_seen poller_new" by (simp add: poller_new_def poller_new_with_inactive_def)
  show ?thesis using announcements_run[OF run, of k] fresh unfolding run snd_conv by presburger
qed

lemma sessions_are_announced_once_witness:
  "announcements (Claude, ''s1'') (snd (poll_run sample_parse
     (versions (sample_session Claude ''s1'' ''/a'') [[0x78, 0x0A], [0x78, 0x0A]]) poller_new)) = 1"
proof -
  let ?rs = "versions (sample_session Claude ''s1'' ''/a'') [[0x78, 0x0A], [0x78, 0x0A]]"
  have "\<forall>x \<in> set (snd (poll_run sample_parse ?rs poller_new)). \<not> isl x" by code_simp
  moreover have "\<exists>(fs, ss) \<in> set ?rs. (Claude, ''s1'') \<in> session_key ` set ss"
    by (simp add: versions_def session_key_def sample_session_def)
  ultimately show ?thesis
    using sessions_are_announced_once[of "(Claude, ''s1'')" sample_parse ?rs] by presburger
qed

end
