(* ===== verification/Command_Lines.thy ===== *)
theory Command_Lines
  imports Rust_Parse
begin

text \<open>
  Command lines: how \<open>crates/vb-daemon/src/main.rs\<close> and \<open>conpty.rs\<close> quote arguments for
  Windows, for a POSIX shell and for PowerShell. The readers on the other side are not code
  of the repository; they are written down here as their documentation describes them
  (\<open>CommandLineToArgvW\<close> and the C runtime, single quotes of a POSIX shell).
\<close>

section \<open>Quoting\<close>

definition needs_quotes :: "string \<Rightarrow> bool" where
  "needs_quotes v \<longleftrightarrow> v = [] \<or> has_whitespace (as_bytes v) \<or> CHR 0x22 \<in> set v \<or> CHR 0x5C \<in> set v"

text \<open>The loop of \<open>quote_windows_arg\<close>: \<open>n\<close> backslashes are held back.\<close>

fun quote_loop :: "nat \<Rightarrow> string \<Rightarrow> string" where
  "quote_loop n [] = replicate (2 * n) (CHR 0x5C) @ [CHR 0x22]"
| "quote_loop n (c # s) =
    (if c = CHR 0x5C then quote_loop (Suc n) s
     else if c = CHR 0x22 then replicate (2 * n + 1) (CHR 0x5C) @ CHR 0x22 # quote_loop 0 s
     else replicate n (CHR 0x5C) @ c # quote_loop 0 s)"

definition quote_windows_arg :: "string \<Rightarrow> string" where
  "quote_windows_arg v = (if \<not> needs_quotes v then v else CHR 0x22 # quote_loop 0 v)"

text \<open>One argument in \<open>build_command_line\<close> of \<open>conpty.rs\<close>.\<close>

definition conpty_arg :: "string \<Rightarrow> string" where
  "conpty_arg a =
    (if CHR '' '' \<in> set a \<or> CHR 0x09 \<in> set a
     then CHR 0x22 # concat (map (\<lambda>c. if c = CHR 0x22 then [CHR 0x5C, c] else [c]) a) @ [CHR 0x22]
     else a)"

definition build_command_line :: "string list \<Rightarrow> string" where
  "build_command_line argv = join '' '' (map conpty_arg argv)"

definition sh_quote :: "string \<Rightarrow> string" where
  "sh_quote v =
    CHR 0x27 # replace_char (CHR 0x27) [CHR 0x27, CHR 0x22, CHR 0x27, CHR 0x22, CHR 0x27] v @ [CHR 0x27]"

definition ps_quote :: "string \<Rightarrow> string" where
  "ps_quote v = CHR 0x27 # replace_char (CHR 0x27) [CHR 0x27, CHR 0x27] v @ [CHR 0x27]"

section \<open>How Windows programs read a command line\<close>

definition is_blank :: "char \<Rightarrow> bool" where
  "is_blank c \<longleftrightarrow> c = CHR '' '' \<or> c = CHR 0x09"

text \<open>
  One argument: \<open>q\<close> inside quotes, \<open>n\<close> backslashes seen just before. \<open>2k\<close> backslashes before a
  quote are \<open>k\<close> and a delimiter, \<open>2k + 1\<close> are \<open>k\<close> and a literal quote; other backslashes are
  literal; a pair of quotes inside quotes is a literal quote.
\<close>

fun parse_arg :: "bool \<Rightarrow> nat \<Rightarrow> string \<Rightarrow> string \<Rightarrow> string \<times> string" where
  "parse_arg q n acc [] = (acc @ replicate n (CHR 0x5C), [])"
| "parse_arg q n acc (c # s) =
    (if c = CHR 0x5C then parse_arg q (Suc n) acc s
     else if c = CHR 0x22 then
       (let acc' = acc @ replicate (n div 2) (CHR 0x5C)
        in if odd n then parse_arg q 0 (acc' @ [c]) s
           else case s of
             d # s' \<Rightarrow> if q \<and> d = CHR 0x22 then parse_arg q 0 (acc' @ [d]) s' else parse_arg (\<not> q) 0 acc' s
           | [] \<Rightarrow> parse_arg (\<not> q) 0 acc' s)
     else if is_blank c \<and> \<not> q then (acc @ replicate n (CHR 0x5C), s)
     else parse_arg q 0 (acc @ replicate n (CHR 0x5C) @ [c]) s)"

declare parse_arg.simps(2) [simp del]

lemma parse_backslash: "parse_arg q n acc (CHR 0x5C # s) = parse_arg q (Suc n) acc s"
  by (simp add: parse_arg.simps(2))

lemma parse_escaped_quote:
  "odd n \<Longrightarrow> parse_arg q n acc (CHR 0x22 # s) =
     parse_arg q 0 (acc @ replicate (n div 2) (CHR 0x5C) @ [CHR 0x22]) s"
  by (simp add: parse_arg.simps(2) Let_def)

lemma parse_delimiter:
  "even n \<Longrightarrow> \<not> q \<or> s = [] \<or> hd s \<noteq> CHR 0x22 \<Longrightarrow> parse_arg q n acc (CHR 0x22 # s) =
     parse_arg (\<not> q) 0 (acc @ replicate (n div 2) (CHR 0x5C)) s"
  by (subst parse_arg.simps(2)) (cases s; auto simp: Let_def)

lemma parse_doubled_quote:
  "even n \<Longrightarrow> parse_arg True n acc (CHR 0x22 # CHR 0x22 # s) =
     parse_arg True 0 (acc @ replicate (n div 2) (CHR 0x5C) @ [CHR 0x22]) s"
  by (simp add: parse_arg.simps(2) Let_def)

lemma parse_blank:
  "is_blank c \<Longrightarrow> parse_arg False n acc (c # s) = (acc @ replicate n (CHR 0x5C), s)"
  by (auto simp: parse_arg.simps(2) is_blank_def)

lemma parse_literal:
  "c \<noteq> CHR 0x5C \<Longrightarrow> c \<noteq> CHR 0x22 \<Longrightarrow> q \<or> \<not> is_blank c \<Longrightarrow>
   parse_arg q n acc (c # s) = parse_arg q 0 (acc @ replicate n (CHR 0x5C) @ [c]) s"
  by (auto simp: parse_arg.simps(2))

lemma parse_arg_step:
  "snd (parse_arg q n acc (c # s)) = s \<or>
   (\<exists>q' n' acc' s'. parse_arg q n acc (c # s) = parse_arg q' n' acc' s' \<and> length s' \<le> length s)"
proof -
  consider "c = CHR 0x5C" | "c = CHR 0x22" "odd n" | "c = CHR 0x22" "even n" "\<not> q \<or> s = [] \<or> hd s \<noteq> CHR 0x22"
    | s' where "c = CHR 0x22" "even n" "q" "s = CHR 0x22 # s'"
    | "c \<noteq> CHR 0x5C" "c \<noteq> CHR 0x22" "is_blank c" "\<not> q"
    | "c \<noteq> CHR 0x5C" "c \<noteq> CHR 0x22" "q \<or> \<not> is_blank c"
    by (cases s) auto
  then show ?thesis
  proof cases
    case 1
    show ?thesis unfolding 1 parse_backslash by blast
  next
    case 2
    show ?thesis unfolding 2(1) parse_escaped_quote[OF 2(2)] by blast
  next
    case 3
    show ?thesis unfolding 3(1) parse_delimiter[OF 3(2,3)] by blast
  next
    case (4 s')
    have "length s' \<le> length s" using 4 by simp
    moreover have "parse_arg q n acc (c # s) = parse_arg True 0 (acc @ replicate (n div 2) (CHR 0x5C) @ [CHR 0x22]) s'"
      using 4 parse_doubled_quote by simp
    ultimately show ?thesis by blast
  next
    case 5
    then show ?thesis by (simp add: parse_blank)
  next
    case 6
    show ?thesis unfolding parse_literal[OF 6] by blast
  qed
qed

lemma length_parse_arg: "length (snd (parse_arg q n acc s)) \<le> length s"
proof (induction "length s" arbitrary: q n acc s rule: less_induct)
  case less
  show ?case
  proof (cases s)
    case (Cons c r)
    consider "snd (parse_arg q n acc (c # r)) = r"
      | q' n' acc' s' where "parse_arg q n acc (c # r) = parse_arg q' n' acc' s'" "length s' \<le> length r"
      using parse_arg_step[of q n acc c r] by blast
    then show ?thesis
    proof cases
      case (2 q' n' acc' s')
      then show ?thesis using less[of s' q' n' acc'] Cons by simp
    qed (simp add: Cons)
  qed simp
qed

lemma parse_arg_shorter: "length (snd (parse_arg q n acc (c # s))) < Suc (length s)"
  using parse_arg_step[of q n acc c s] length_parse_arg by (metis le_imp_less_Suc le_refl le_trans)

function windows_argv :: "string \<Rightarrow> string list" where
  "windows_argv s =
    (case dropWhile is_blank s of
       [] \<Rightarrow> []
     | c # r \<Rightarrow> fst (parse_arg False 0 [] (c # r)) # windows_argv (snd (parse_arg False 0 [] (c # r))))"
  by pat_completeness auto
termination
proof (relation "measure length")
  fix s c r assume d: "dropWhile is_blank s = c # r"
  have "length (snd (parse_arg False 0 [] (c # r))) < length (dropWhile is_blank s)"
    unfolding d using parse_arg_shorter[of False 0 "[]" c r] by simp
  also have "\<dots> \<le> length s" by (rule length_dropWhile_le)
  finally show "(snd (parse_arg False 0 [] (c # r)), s) \<in> measure length" by simp
qed simp

declare windows_argv.simps [simp del]

text \<open>The program name comes first: quoted up to the next quote, or up to a blank.\<close>

definition windows_command_line :: "string \<Rightarrow> string list" where
  "windows_command_line s =
    (if s = [] then []
     else if hd s = CHR 0x22
     then takeWhile (\<lambda>c. c \<noteq> CHR 0x22) (tl s) # windows_argv (tl (dropWhile (\<lambda>c. c \<noteq> CHR 0x22) (tl s)))
     else takeWhile (\<lambda>c. \<not> is_blank c) s # windows_argv (dropWhile (\<lambda>c. \<not> is_blank c) s))"

section \<open>Encoders that a Windows program reads back\<close>

text \<open>
  An encoder of arguments: what it writes for an acceptable argument, followed by a blank or
  the end, is read as that argument. Joined with blanks, any list of such arguments is read
  back.
\<close>

locale arg_encoding =
  fixes enc :: "string \<Rightarrow> string" and ok :: "string \<Rightarrow> bool"
  assumes enc_parse: "ok a \<Longrightarrow> rest = [] \<or> is_blank (hd rest) \<Longrightarrow> parse_arg False 0 [] (enc a @ rest) = (a, tl rest)"
    and enc_head: "ok a \<Longrightarrow> enc a \<noteq> [] \<and> \<not> is_blank (hd (enc a))"
begin

lemma argv_Cons:
  assumes "ok a" "rest = [] \<or> is_blank (hd rest)"
  shows "windows_argv (enc a @ rest) = a # windows_argv (tl rest)"
proof -
  obtain c r where e: "enc a = c # r" "\<not> is_blank c" using enc_head[OF assms(1)] by (cases "enc a") auto
  have "dropWhile is_blank (enc a @ rest) = c # r @ rest" using e by simp
  then show ?thesis
    using enc_parse[OF assms] e by (subst windows_argv.simps) simp
qed

lemma argv_join:
  assumes "\<forall>a \<in> set as. ok a"
  shows "windows_argv (join '' '' (map enc as)) = as"
  using assms
proof (induction as)
  case Nil
  show ?case by (simp add: windows_argv.simps)
next
  case (Cons a as)
  show ?case
  proof (cases as)
    case Nil
    then show ?thesis using argv_Cons[of a "[]"] Cons.prems by (simp add: windows_argv.simps)
  next
    case (Cons b bs)
    then have "join '' '' (map enc (a # as)) = enc a @ '' '' @ join '' '' (map enc as)" by simp
    then show ?thesis
      using argv_Cons[of a "'' '' @ join '' '' (map enc as)"] Cons.IH Cons.prems by (simp add: is_blank_def)
  qed
qed

end

section \<open>The argument encoder of the profiles\<close>

lemma parse_backslashes: "parse_arg q n acc (replicate k (CHR 0x5C) @ s) = parse_arg q (n + k) acc s"
  by (induction k arbitrary: n) (simp_all add: parse_backslash)

lemma parse_rest:
  "rest = [] \<or> is_blank (hd rest) \<Longrightarrow> parse_arg False 0 acc rest = (acc, tl rest)"
  by (cases rest) (auto simp: parse_blank)

lemma blank_not_quote: "rest = [] \<or> is_blank (hd rest) \<Longrightarrow> rest = [] \<or> hd rest \<noteq> CHR 0x22"
  by (auto simp: is_blank_def)

lemma parse_plain:
  assumes "\<forall>c \<in> set v. c \<noteq> CHR 0x22 \<and> \<not> is_blank c" "rest = [] \<or> is_blank (hd rest)"
  shows "parse_arg False n acc (v @ rest) = (acc @ replicate n (CHR 0x5C) @ v, tl rest)"
  using assms(1)
proof (induction v arbitrary: n acc)
  case Nil
  then show ?case using assms(2) by (cases rest) (auto simp: parse_blank)
next
  case (Cons c v)
  then show ?case
    by (cases "c = CHR 0x5C") (simp_all add: parse_backslash parse_literal replicate_app_Cons_same)
qed

lemma parse_quote_loop:
  assumes "rest = [] \<or> is_blank (hd rest)"
  shows "parse_arg True 0 acc (quote_loop n v @ rest) = (acc @ replicate n (CHR 0x5C) @ v, tl rest)"
proof (induction n v arbitrary: acc rule: quote_loop.induct)
  case (1 n)
  show ?case
    using assms by (simp add: parse_backslashes parse_delimiter blank_not_quote parse_rest)
next
  case (2 n c s)
  consider "c = CHR 0x5C" | "c = CHR 0x22" | "c \<noteq> CHR 0x5C" "c \<noteq> CHR 0x22" by blast
  then show ?case
  proof cases
    case 1
    then show ?thesis using 2 by (simp add: replicate_app_Cons_same)
  next
    case 2
    then show ?thesis
      using "2.IH"(2) by (simp add: parse_backslashes parse_escaped_quote del: replicate_Suc)
  next
    case 3
    then show ?thesis using "2.IH"(3) by (simp add: parse_backslashes parse_literal)
  qed
qed

lemma blank_front: "is_blank c \<Longrightarrow> ws_front (byte_of_char c # bs) \<noteq> 0"
proof -
  have b: "byte_of_char (CHR '' '') = 0x20" "byte_of_char (CHR 0x09) = 0x09" by code_simp+
  assume "is_blank c"
  then have "byte_of_char c \<in> {0x20, 0x09}" by (auto simp: is_blank_def b)
  then show ?thesis by (auto simp: ws_front_def ws_encodings_def)
qed

lemma blank_whitespace: "\<not> has_whitespace (as_bytes v) \<Longrightarrow> c \<in> set v \<Longrightarrow> \<not> is_blank c"
  by (induction v) (auto simp: as_bytes_Cons dest: blank_front)

interpretation profile_arg: arg_encoding quote_windows_arg "\<lambda>_. True"
proof
  fix a rest :: string assume r: "rest = [] \<or> is_blank (hd rest)"
  show "parse_arg False 0 [] (quote_windows_arg a @ rest) = (a, tl rest)"
  proof (cases "needs_quotes a")
    case True
    then show ?thesis
      using parse_quote_loop[OF r, of "[]" 0 a] by (simp add: quote_windows_arg_def parse_delimiter)
  next
    case False
    then have "\<forall>c \<in> set a. c \<noteq> CHR 0x22 \<and> \<not> is_blank c"
      using blank_whitespace by (auto simp: needs_quotes_def)
    then show ?thesis using parse_plain[OF _ r, of a 0 "[]"] False by (simp add: quote_windows_arg_def)
  qed
next
  fix a
  show "quote_windows_arg a \<noteq> [] \<and> \<not> is_blank (hd (quote_windows_arg a))"
    using blank_whitespace[of a "hd a"]
    by (auto simp: quote_windows_arg_def needs_quotes_def is_blank_def)
qed

section \<open>The argument encoder of the pseudoconsole\<close>

text \<open>No backslash stands before a quote or at the end.\<close>

fun backslashes_harmless :: "string \<Rightarrow> bool" where
  "backslashes_harmless [] \<longleftrightarrow> True"
| "backslashes_harmless (c # s) \<longleftrightarrow>
    (c = CHR 0x5C \<longrightarrow> s \<noteq> [] \<and> hd s \<noteq> CHR 0x22) \<and> backslashes_harmless s"

definition conpty_safe :: "string \<Rightarrow> bool" where
  "conpty_safe a \<longleftrightarrow>
    (if CHR '' '' \<in> set a \<or> CHR 0x09 \<in> set a then backslashes_harmless a else a \<noteq> [] \<and> CHR 0x22 \<notin> set a)"

definition escape_quotes :: "string \<Rightarrow> string" where
  "escape_quotes a = concat (map (\<lambda>c. if c = CHR 0x22 then [CHR 0x5C, c] else [c]) a)"

lemma conpty_arg_alt:
  "conpty_arg a = (if CHR '' '' \<in> set a \<or> CHR 0x09 \<in> set a then CHR 0x22 # escape_quotes a @ [CHR 0x22] else a)"
  by (simp add: conpty_arg_def escape_quotes_def)

lemma parse_escaped:
  assumes "rest = [] \<or> is_blank (hd rest)" "backslashes_harmless a" "n = 0 \<or> a \<noteq> [] \<and> hd a \<noteq> CHR 0x22"
  shows "parse_arg True n acc (escape_quotes a @ CHR 0x22 # rest) = (acc @ replicate n (CHR 0x5C) @ a, tl rest)"
  using assms(2,3)
proof (induction a arbitrary: n acc)
  case Nil
  then show ?case using assms(1) by (simp add: escape_quotes_def parse_delimiter blank_not_quote parse_rest)
next
  case (Cons c a)
  consider "c = CHR 0x5C" | "c = CHR 0x22" "n = 0" | "c \<noteq> CHR 0x5C" "c \<noteq> CHR 0x22"
    using Cons.prems by auto
  then show ?case
  proof cases
    case 1
    then show ?thesis
      using Cons by (simp add: escape_quotes_def parse_backslash replicate_app_Cons_same)
  next
    case 2
    then show ?thesis
      using Cons by (simp add: escape_quotes_def parse_backslash parse_escaped_quote)
  next
    case 3
    then show ?thesis using Cons by (simp add: escape_quotes_def parse_literal)
  qed
qed

interpretation pseudoconsole_arg: arg_encoding conpty_arg conpty_safe
proof
  fix a rest :: string assume ok: "conpty_safe a" and r: "rest = [] \<or> is_blank (hd rest)"
  show "parse_arg False 0 [] (conpty_arg a @ rest) = (a, tl rest)"
  proof (cases "CHR '' '' \<in> set a \<or> CHR 0x09 \<in> set a")
    case True
    then show ?thesis
      using parse_escaped[OF r, of a 0 "[]"] ok by (simp add: conpty_arg_alt conpty_safe_def parse_delimiter)
  next
    case False
    then have "\<forall>c \<in> set a. c \<noteq> CHR 0x22 \<and> \<not> is_blank c" using ok by (auto simp: conpty_safe_def is_blank_def)
    then show ?thesis using parse_plain[OF _ r, of a 0 "[]"] False by (simp add: conpty_arg_alt)
  qed
next
  fix a assume "conpty_safe a"
  then show "conpty_arg a \<noteq> [] \<and> \<not> is_blank (hd (conpty_arg a))"
    by (cases a) (auto simp: conpty_arg_alt conpty_safe_def is_blank_def split: if_splits)
qed

section \<open>Whole command lines\<close>

lemma windows_argv_blank: "windows_argv (CHR '' '' # s) = windows_argv s"
  by (simp add: windows_argv.simps[of "CHR '' '' # s"] windows_argv.simps[of s] is_blank_def)

text \<open>The program name as the first word.\<close>

definition program_word :: "string \<Rightarrow> string \<Rightarrow> bool" where
  "program_word w p \<longleftrightarrow>
    w = CHR 0x22 # p @ [CHR 0x22] \<and> CHR 0x22 \<notin> set p \<or>
    w = p \<and> p \<noteq> [] \<and> hd p \<noteq> CHR 0x22 \<and> (\<forall>c \<in> set p. \<not> is_blank c)"

lemma command_line_reads:
  assumes "program_word w p" "rest = [] \<or> hd rest = CHR '' ''"
  shows "windows_command_line (w @ rest) = p # windows_argv rest"
proof -
  consider "w = CHR 0x22 # p @ [CHR 0x22]" "CHR 0x22 \<notin> set p"
    | "w = p" "p \<noteq> []" "hd p \<noteq> CHR 0x22" "\<forall>c \<in> set p. \<not> is_blank c"
    using assms(1) unfolding program_word_def by blast
  then show ?thesis
  proof cases
    case 1
    have "takeWhile (\<lambda>c. c \<noteq> CHR 0x22) (p @ CHR 0x22 # rest) = p"
      "dropWhile (\<lambda>c. c \<noteq> CHR 0x22) (p @ CHR 0x22 # rest) = CHR 0x22 # rest"
      using 1(2) by (auto simp: takeWhile_append dropWhile_append)
    then show ?thesis by (simp add: windows_command_line_def 1(1))
  next
    case 2
    have b: "rest = [] \<or> is_blank (hd rest)" using assms(2) by (auto simp: is_blank_def)
    have "takeWhile (\<lambda>c. \<not> is_blank c) (p @ rest) = p" "dropWhile (\<lambda>c. \<not> is_blank c) (p @ rest) = rest"
      using 2(4) b by (cases rest; auto simp: takeWhile_append dropWhile_append)+
    then show ?thesis using 2 by (simp add: windows_command_line_def)
  qed
qed

lemma join_Cons: "join sep (x # xs) = x @ (if xs = [] then [] else sep @ join sep xs)"
  by (cases xs) auto

lemma conpty_program:
  assumes "p \<noteq> []" "CHR 0x22 \<notin> set p"
  shows "program_word (conpty_arg p) p"
proof -
  have "escape_quotes p = p" using assms(2) by (induction p) (auto simp: escape_quotes_def)
  then show ?thesis using assms by (cases p) (auto simp: program_word_def conpty_arg_alt is_blank_def)
qed

text \<open>
  The arguments the profile writer quotes are read back by a Windows program exactly,
  whatever they contain: empty arguments, blanks, quotes, backslashes before quotes and at
  the end.
\<close>
theorem quoted_arguments_are_read_back:
  "windows_argv (join '' '' (map quote_windows_arg as)) = as"
  by (rule profile_arg.argv_join) simp



text \<open>Outside these conditions arguments are lost or merged.\<close>

lemma child_misreads_some_arguments:
  "windows_command_line (build_command_line [''x'', [], ''y'']) = [''x'', ''y''] \<and>
   windows_command_line (build_command_line [''x'', ''a b'' @ [CHR 0x5C], ''c'']) =
     [''x'', ''a b'' @ [CHR 0x22] @ '' c'']"
  by code_simp

section \<open>Shell words\<close>

text \<open>One word made of quoted pieces, as a POSIX shell reads it; what the shell would expand or
  split is refused.\<close>

datatype sh_mode = ShPlain | ShSingle | ShDouble

fun sh_read :: "sh_mode \<Rightarrow> string \<Rightarrow> string \<Rightarrow> string option" where
  "sh_read ShPlain acc [] = Some acc"
| "sh_read ShSingle acc [] = None"
| "sh_read ShDouble acc [] = None"
| "sh_read ShSingle acc (c # s) =
    (if c = CHR 0x27 then sh_read ShPlain acc s else sh_read ShSingle (acc @ [c]) s)"
| "sh_read ShDouble acc (c # s) =
    (if c = CHR 0x22 then sh_read ShPlain acc s
     else if c \<in> {CHR ''$'', CHR 0x60, CHR 0x5C} then None
     else sh_read ShDouble (acc @ [c]) s)"
| "sh_read ShPlain acc (c # s) =
    (if c = CHR 0x27 then sh_read ShSingle acc s
     else if c = CHR 0x22 then sh_read ShDouble acc s else None)"

lemma sh_read_single:
  "sh_read ShSingle acc (replace_char (CHR 0x27) [CHR 0x27, CHR 0x22, CHR 0x27, CHR 0x22, CHR 0x27] v @ CHR 0x27 # s) =
     sh_read ShPlain (acc @ v) s"
  by (induction v arbitrary: acc) (simp_all add: replace_char_def)

text \<open>
  Whatever text is embedded into the shell scripts of the WSL entry, the shell reads
  exactly that text as one word: nothing of it is expanded, split or executed.
\<close>
theorem shell_quoting_is_literal: "sh_read ShPlain [] (sh_quote v) = Some v"
  using sh_read_single[of "[]" v "[]"] by (simp add: sh_quote_def)

end
