(* ===== verification/Launch_Options.thy ===== *)
theory Launch_Options
  imports Command_Lines Agent_Sources
begin

text \<open>
  The options of the launching commands of \<open>crates/vb-daemon/src/main.rs\<close>: \<open>launch\<close>, \<open>start\<close>
  and \<open>terminal-shim\<close>, the command lines the latter two hand to the first, the product
  actions, and what the logs show of arguments.
\<close>

section \<open>launch\<close>

definition DEFAULT_LCD_COLS :: "16 word" where "DEFAULT_LCD_COLS = 78"

definition DEFAULT_LCD_ROWS :: "16 word" where "DEFAULT_LCD_ROWS = 15"

definition DEFAULT_ADDR :: string where "DEFAULT_ADDR = ''127.0.0.1:8765''"

record launch_opts =
  lo_daemon_addr :: "string option"
  lo_kind :: "string option"
  lo_name :: "string option"
  lo_cols :: "16 word"
  lo_rows :: "16 word"
  lo_follow_console_size :: bool
  lo_command :: "string list"

definition launch_defaults :: launch_opts where
  "launch_defaults = \<lparr>lo_daemon_addr = None, lo_kind = None, lo_name = None, lo_cols = DEFAULT_LCD_COLS,
     lo_rows = DEFAULT_LCD_ROWS, lo_follow_console_size = False, lo_command = []\<rparr>"

definition size_flag :: "string \<Rightarrow> string \<Rightarrow> 16 word result" where
  "size_flag flag v = (case parse_i16 v of
     Inl e \<Rightarrow> Inl (flag @ '' invalid: '' @ parse_int_error_display e)
   | Inr n \<Rightarrow> Inr n)"

text \<open>The loop over the arguments; once the command has started everything belongs to it.\<close>

fun launch_loop :: "launch_opts \<Rightarrow> string list \<Rightarrow> launch_opts result" where
  "launch_loop o1 [] = Inr o1"
| "launch_loop o1 (arg # rest) =
    (if arg = ''--'' then Inr (o1\<lparr>lo_command := lo_command o1 @ rest\<rparr>)
     else if arg = ''--daemon'' then
       (case rest of [] \<Rightarrow> Inl ''--daemon needs ADDR''
        | v # r \<Rightarrow> launch_loop (o1\<lparr>lo_daemon_addr := Some v\<rparr>) r)
     else if arg = ''--kind'' then
       (case rest of [] \<Rightarrow> Inl ''--kind needs KIND''
        | v # r \<Rightarrow> launch_loop (o1\<lparr>lo_kind := Some v\<rparr>) r)
     else if arg = ''--name'' then
       (case rest of [] \<Rightarrow> Inl ''--name needs NAME''
        | v # r \<Rightarrow> launch_loop (o1\<lparr>lo_name := Some v\<rparr>) r)
     else if arg = ''--cols'' then
       (case rest of [] \<Rightarrow> Inl ''--cols needs N''
        | v # r \<Rightarrow> bind_res (size_flag ''--cols'' v) (\<lambda>n. launch_loop (o1\<lparr>lo_cols := n\<rparr>) r))
     else if arg = ''--rows'' then
       (case rest of [] \<Rightarrow> Inl ''--rows needs N''
        | v # r \<Rightarrow> bind_res (size_flag ''--rows'' v) (\<lambda>n. launch_loop (o1\<lparr>lo_rows := n\<rparr>) r))
     else if arg = ''--follow-console-size'' then launch_loop (o1\<lparr>lo_follow_console_size := True\<rparr>) rest
     else if starts_with arg ''--'' then Inl (''unknown launch flag: '' @ arg)
     else Inr (o1\<lparr>lo_command := lo_command o1 @ arg # rest\<rparr>))"

definition missing_command :: string where
  "missing_command = ''missing COMMAND to launch (use `-- claude` or `-- codex`)''"

definition parse_launch_args :: "string list \<Rightarrow> launch_opts result" where
  "parse_launch_args raw = bind_res (launch_loop launch_defaults raw)
     (\<lambda>o1. if lo_command o1 = [] then Inl missing_command else Inr o1)"

text \<open>
  \<open>Path::file_stem\<close> of a command on Windows: the last component over either separator, empty
  and \<open>.\<close> components skipped.
\<close>

definition command_stem :: "string \<Rightarrow> string option" where
  "command_stem command =
    (let components = filter (\<lambda>c. c \<noteq> [] \<and> c \<noteq> ''.'')
           (split_char (CHR ''/'') (replace_char (CHR 0x5C) ''/'' command))
     in if components = [] \<or> last components = ''..'' then None else Some (file_stem (last components)))"

definition infer_kind :: "string \<Rightarrow> string" where
  "infer_kind argv0 =
    (let lower = (case command_stem argv0 of None \<Rightarrow> [] | Some s \<Rightarrow> to_ascii_lowercase s)
     in if str_contains lower ''codex'' then ''codex'' else ''claude'')"

text \<open>\<open>window\<close>: the size of the visible console window, when there is one large enough.\<close>

definition effective_conpty_size ::
  "(16 word \<times> 16 word) option \<Rightarrow> 16 word \<Rightarrow> 16 word \<Rightarrow> bool \<Rightarrow> 16 word \<times> 16 word" where
  "effective_conpty_size window requested_cols requested_rows follow =
    (if follow then (case window of Some s \<Rightarrow> s | None \<Rightarrow> (requested_cols, requested_rows))
     else (requested_cols, requested_rows))"

section \<open>start\<close>

record start_opts =
  so_daemon_addr :: "string option"
  so_device :: string
  so_kind :: "string option"
  so_name :: "string option"
  so_cols :: "16 word"
  so_rows :: "16 word"
  so_follow_console_size :: bool
  so_command :: "string list"

definition start_defaults :: start_opts where
  "start_defaults = \<lparr>so_daemon_addr = None, so_device = ''auto'', so_kind = None, so_name = None,
     so_cols = DEFAULT_LCD_COLS, so_rows = DEFAULT_LCD_ROWS, so_follow_console_size = False, so_command = []\<rparr>"

definition port_flag :: "string \<Rightarrow> string result" where
  "port_flag v = (case from_str_radix 10 (2 ^ 16) v of
     Inl e \<Rightarrow> Inl (''--port invalid: '' @ parse_int_error_display e)
   | Inr port \<Rightarrow> Inr (''127.0.0.1:'' @ show_nat port))"

fun start_loop :: "start_opts \<Rightarrow> string list \<Rightarrow> start_opts result" where
  "start_loop o1 [] = Inr o1"
| "start_loop o1 (arg # rest) =
    (if arg = ''--'' then Inr (o1\<lparr>so_command := so_command o1 @ rest\<rparr>)
     else if arg = ''--daemon'' then
       (case rest of [] \<Rightarrow> Inl ''--daemon needs ADDR''
        | v # r \<Rightarrow> start_loop (o1\<lparr>so_daemon_addr := Some v\<rparr>) r)
     else if arg = ''--port'' then
       (case rest of [] \<Rightarrow> Inl ''--port needs N''
        | v # r \<Rightarrow> bind_res (port_flag v) (\<lambda>a. start_loop (o1\<lparr>so_daemon_addr := Some a\<rparr>) r))
     else if arg = ''--device'' then
       (case rest of [] \<Rightarrow> Inl ''--device needs auto|PATH''
        | v # r \<Rightarrow> start_loop (o1\<lparr>so_device := v\<rparr>) r)
     else if arg = ''--kind'' then
       (case rest of [] \<Rightarrow> Inl ''--kind needs KIND''
        | v # r \<Rightarrow> start_loop (o1\<lparr>so_kind := Some v\<rparr>) r)
     else if arg = ''--name'' then
       (case rest of [] \<Rightarrow> Inl ''--name needs NAME''
        | v # r \<Rightarrow> start_loop (o1\<lparr>so_name := Some v\<rparr>) r)
     else if arg = ''--cols'' then
       (case rest of [] \<Rightarrow> Inl ''--cols needs N''
        | v # r \<Rightarrow> bind_res (size_flag ''--cols'' v) (\<lambda>n. start_loop (o1\<lparr>so_cols := n\<rparr>) r))
     else if arg = ''--rows'' then
       (case rest of [] \<Rightarrow> Inl ''--rows needs N''
        | v # r \<Rightarrow> bind_res (size_flag ''--rows'' v) (\<lambda>n. start_loop (o1\<lparr>so_rows := n\<rparr>) r))
     else if arg = ''--follow-console-size'' then start_loop (o1\<lparr>so_follow_console_size := True\<rparr>) rest
     else if starts_with arg ''--'' then Inl (''unknown start flag: '' @ arg)
     else Inr (o1\<lparr>so_command := so_command o1 @ arg # rest\<rparr>))"

definition parse_start_args :: "string list \<Rightarrow> start_opts result" where
  "parse_start_args raw = bind_res (start_loop start_defaults raw)
     (\<lambda>o1. if so_command o1 = [] then Inl missing_command else Inr o1)"

definition option_flag :: "string \<Rightarrow> string option \<Rightarrow> string list" where
  "option_flag flag v = (case v of None \<Rightarrow> [] | Some x \<Rightarrow> [flag, x])"

definition addr_or_default :: "string option \<Rightarrow> string" where
  "addr_or_default a = (case a of None \<Rightarrow> DEFAULT_ADDR | Some x \<Rightarrow> x)"

text \<open>What \<open>run_start\<close> hands to \<open>run_launch\<close>.\<close>

definition start_launch_args :: "start_opts \<Rightarrow> string list" where
  "start_launch_args o1 =
    [''--daemon'', addr_or_default (so_daemon_addr o1)] @
    option_flag ''--kind'' (so_kind o1) @ option_flag ''--name'' (so_name o1) @
    [''--cols'', show_i16 (so_cols o1), ''--rows'', show_i16 (so_rows o1)] @
    (if so_follow_console_size o1 then [''--follow-console-size''] else []) @
    [''--''] @ so_command o1"

section \<open>terminal-shim\<close>

record terminal_shim_opts =
  to_daemon_addr :: "string option"
  to_name :: "string option"
  to_cols :: "16 word"
  to_rows :: "16 word"
  to_follow_console_size :: bool
  to_cmdline :: "string option"
  to_cmdline_b64 :: "string option"
  to_command :: "string list"

definition terminal_shim_defaults :: terminal_shim_opts where
  "terminal_shim_defaults = \<lparr>to_daemon_addr = None, to_name = None, to_cols = DEFAULT_LCD_COLS,
     to_rows = DEFAULT_LCD_ROWS, to_follow_console_size = False, to_cmdline = None,
     to_cmdline_b64 = None, to_command = []\<rparr>"

fun terminal_shim_loop :: "terminal_shim_opts \<Rightarrow> string list \<Rightarrow> terminal_shim_opts result" where
  "terminal_shim_loop o1 [] = Inr o1"
| "terminal_shim_loop o1 (arg # rest) =
    (if arg = ''--'' then Inr (o1\<lparr>to_command := to_command o1 @ rest\<rparr>)
     else if arg = ''--daemon'' then
       (case rest of [] \<Rightarrow> Inl ''--daemon needs ADDR''
        | v # r \<Rightarrow> terminal_shim_loop (o1\<lparr>to_daemon_addr := Some v\<rparr>) r)
     else if arg = ''--name'' then
       (case rest of [] \<Rightarrow> Inl ''--name needs NAME''
        | v # r \<Rightarrow> terminal_shim_loop (o1\<lparr>to_name := Some v\<rparr>) r)
     else if arg = ''--cols'' then
       (case rest of [] \<Rightarrow> Inl ''--cols needs N''
        | v # r \<Rightarrow> bind_res (size_flag ''--cols'' v) (\<lambda>n. terminal_shim_loop (o1\<lparr>to_cols := n\<rparr>) r))
     else if arg = ''--rows'' then
       (case rest of [] \<Rightarrow> Inl ''--rows needs N''
        | v # r \<Rightarrow> bind_res (size_flag ''--rows'' v) (\<lambda>n. terminal_shim_loop (o1\<lparr>to_rows := n\<rparr>) r))
     else if arg = ''--follow-console-size'' then
       terminal_shim_loop (o1\<lparr>to_follow_console_size := True\<rparr>) rest
     else if arg = ''--cmdline'' then
       (case rest of [] \<Rightarrow> Inl ''--cmdline needs COMMANDLINE''
        | v # r \<Rightarrow> terminal_shim_loop (o1\<lparr>to_cmdline := Some v\<rparr>) r)
     else if arg = ''--cmdline-b64'' then
       (case rest of [] \<Rightarrow> Inl ''--cmdline-b64 needs B64''
        | v # r \<Rightarrow> terminal_shim_loop (o1\<lparr>to_cmdline_b64 := Some v\<rparr>) r)
     else if starts_with arg ''--'' then Inl (''unknown terminal-shim flag: '' @ arg)
     else Inr (o1\<lparr>to_command := to_command o1 @ arg # rest\<rparr>))"

definition parse_terminal_shim_args :: "string list \<Rightarrow> terminal_shim_opts result" where
  "parse_terminal_shim_args raw = terminal_shim_loop terminal_shim_defaults raw"

definition cmd_exe :: "string \<Rightarrow> string list" where
  "cmd_exe cmdline = [''cmd.exe'', ''/D'', ''/S'', ''/C'', cmdline]"

text \<open>\<open>utf8_error bytes\<close> is the text of the standard library's UTF-8 error.\<close>

definition terminal_shim_command :: "(bytes \<Rightarrow> string) \<Rightarrow> terminal_shim_opts \<Rightarrow> string list result" where
  "terminal_shim_command utf8_error o1 =
    (case to_cmdline_b64 o1 of
       Some encoded \<Rightarrow> bind_res (base64_decode_bytes encoded) (\<lambda>bs.
         case from_utf8 bs of
           None \<Rightarrow> Inl (''--cmdline-b64 decoded invalid utf-8: '' @ utf8_error bs)
         | Some cmdline \<Rightarrow> Inr (cmd_exe cmdline))
     | None \<Rightarrow>
        (case to_cmdline o1 of
           Some cmdline \<Rightarrow> Inr (cmd_exe cmdline)
         | None \<Rightarrow> Inr (if to_command o1 \<noteq> [] then to_command o1 else [''powershell.exe''])))"

definition shim_launch_args :: "terminal_shim_opts \<Rightarrow> string list \<Rightarrow> string list" where
  "shim_launch_args o1 command =
    [''--daemon'', addr_or_default (to_daemon_addr o1), ''--kind'', ''terminal'', ''--name'',
     (case to_name o1 of None \<Rightarrow> ''Vibe Terminal'' | Some n \<Rightarrow> n),
     ''--cols'', show_i16 (to_cols o1), ''--rows'', show_i16 (to_rows o1)] @
    (if to_follow_console_size o1 then [''--follow-console-size''] else []) @ [''--''] @ command"

section \<open>Product actions\<close>

datatype product_action = Install | Uninstall

definition product_action_from_exe_name :: "string \<Rightarrow> product_action option" where
  "product_action_from_exe_name name =
    (let lower = to_ascii_lowercase name
     in if str_contains lower ''uninstall'' then Some Uninstall
        else if str_contains lower ''setup'' \<or> str_contains lower ''installer'' then Some Install else None)"

definition product_action_name :: "product_action \<Rightarrow> string" where
  "product_action_name a = (case a of Install \<Rightarrow> ''install-product'' | Uninstall \<Rightarrow> ''uninstall-product'')"

definition add_default :: "string \<Rightarrow> string \<Rightarrow> string \<Rightarrow> string list \<Rightarrow> string list" where
  "add_default yes no def raw = (if yes \<in> set raw \<or> no \<in> set raw then raw else raw @ [def])"

definition product_install_args :: "string list \<Rightarrow> string list" where
  "product_install_args raw =
    add_default ''--wsl-shell'' ''--no-wsl-shell'' ''--wsl-shell''
      (add_default ''--management-shortcuts'' ''--no-management-shortcuts'' ''--management-shortcuts''
        (add_default ''--terminal-profiles'' ''--no-terminal-profiles'' ''--no-terminal-profiles'' raw))"

section \<open>What the log shows\<close>

text \<open>\<open>None\<close> is the panic of \<open>String::truncate\<close> inside a character.\<close>

definition terminal_shim_log_value :: "string \<Rightarrow> string option" where
  "terminal_shim_log_value v =
    (let clean = map (\<lambda>c. if c \<in> {CHR 0x0D, CHR 0x0A, CHR 0x09} then CHR '' '' else c) v
     in if 240 < length clean then map_option (\<lambda>p. p @ ''...'') (slice_to clean 240) else Some clean)"

definition sensitive :: "string \<Rightarrow> bool" where
  "sensitive lower \<longleftrightarrow> (\<exists>w \<in> {''token'', ''secret'', ''password'', ''passwd'', ''apikey'', ''api-key'',
     ''credential'', ''cookie''}. str_contains lower w)"

definition redact_flags :: "string list" where
  "redact_flags = [''--cmdline'', ''--cmdline-b64'', ''--token'', ''--secret'', ''--password'', ''--passwd'',
     ''--api-key'', ''--apikey'', ''--credential'', ''--cookie'']"

fun log_scan :: "bool \<Rightarrow> string list \<Rightarrow> string list option" where
  "log_scan redact_next [] = Some []"
| "log_scan redact_next (arg # args) =
    (let lower = to_ascii_lowercase arg
     in Option.bind (if redact_next \<or> sensitive lower then Some ''<redacted>'' else terminal_shim_log_value arg)
          (\<lambda>part. map_option (Cons part) (log_scan (lower \<in> set redact_flags) args)))"

definition terminal_shim_log_args :: "string list \<Rightarrow> string option" where
  "terminal_shim_log_args args =
    map_option (\<lambda>parts. CHR ''['' # join '', '' parts @ '']'') (log_scan False args)"

definition is_cmd_c :: "string list \<Rightarrow> bool" where
  "is_cmd_c command \<longleftrightarrow> eq_ignore_ascii_case (command ! 0) ''cmd.exe'' \<and> eq_ignore_ascii_case (command ! 1) ''/D'' \<and>
     eq_ignore_ascii_case (command ! 2) ''/S'' \<and> eq_ignore_ascii_case (command ! 3) ''/C''"

definition terminal_shim_log_command :: "string list \<Rightarrow> string option" where
  "terminal_shim_log_command command =
    (if 4 \<le> length command \<and> is_cmd_c command then terminal_shim_log_args (take 4 command @ [''<cmdline>''])
     else terminal_shim_log_args command)"

section \<open>Theorems\<close>

lemma start_loop_parts:
  "launch_loop o1 (option_flag ''--kind'' k @ rest) = launch_loop (case k of None \<Rightarrow> o1 | Some v \<Rightarrow> o1\<lparr>lo_kind := Some v\<rparr>) rest"
  "launch_loop o1 (option_flag ''--name'' n @ rest) = launch_loop (case n of None \<Rightarrow> o1 | Some v \<Rightarrow> o1\<lparr>lo_name := Some v\<rparr>) rest"
  by (simp_all add: option_flag_def split: option.split)

lemma size_flag_show: "size_flag flag (show_i16 w) = Inr w"
  by (simp add: size_flag_def parse_i16_show)

text \<open>
  The two commands that launch on behalf of the user hand over exactly the options they
  were given: reading back the argument list they build gives the address, kind, name, size,
  following and command of the original options, whatever these texts are (a command or a name
  that looks like a flag included) and for every size, negative ones included.
\<close>
theorem launch_options_are_handed_over:
  assumes "so_command s \<noteq> []" "command \<noteq> []"
  shows "parse_launch_args (start_launch_args s) = Inr \<lparr>lo_daemon_addr = Some (addr_or_default (so_daemon_addr s)),
      lo_kind = so_kind s, lo_name = so_name s, lo_cols = so_cols s, lo_rows = so_rows s,
      lo_follow_console_size = so_follow_console_size s, lo_command = so_command s\<rparr> \<and>
    parse_launch_args (shim_launch_args t command) = Inr \<lparr>lo_daemon_addr = Some (addr_or_default (to_daemon_addr t)),
      lo_kind = Some ''terminal'', lo_name = Some (case to_name t of None \<Rightarrow> ''Vibe Terminal'' | Some n \<Rightarrow> n),
      lo_cols = to_cols t, lo_rows = to_rows t,
      lo_follow_console_size = to_follow_console_size t, lo_command = command\<rparr>"
  using assms
  by (cases "so_kind s"; cases "so_name s")
    (simp_all add: parse_launch_args_def start_launch_args_def shim_launch_args_def start_loop_parts
      size_flag_show launch_defaults_def)

lemma launch_options_are_handed_over_witness:
  "parse_launch_args (start_launch_args (start_defaults\<lparr>so_command := [''--'', ''codex'']\<rparr>)) =
     Inr (launch_defaults\<lparr>lo_daemon_addr := Some DEFAULT_ADDR, lo_command := [''--'', ''codex'']\<rparr>)"
  using launch_options_are_handed_over[of "start_defaults\<lparr>so_command := [''--'', ''codex'']\<rparr>" "[''x'']"]
  by (simp add: start_defaults_def launch_defaults_def addr_or_default_def)

text \<open>\<open>r\<close>: the argument before the first one asked for redaction.\<close>

definition hidden_arg :: "bool \<Rightarrow> string list \<Rightarrow> nat \<Rightarrow> bool" where
  "hidden_arg r args i \<longleftrightarrow> sensitive (to_ascii_lowercase (args ! i)) \<or>
     (if i = 0 then r else to_ascii_lowercase (args ! (i - 1)) \<in> set redact_flags)"

definition clean_log_text :: "string \<Rightarrow> string" where
  "clean_log_text v = map (\<lambda>c. if c \<in> {CHR 0x0D, CHR 0x0A, CHR 0x09} then CHR '' '' else c) v"

definition shown_arg :: "string \<Rightarrow> string" where
  "shown_arg v = (if 240 < length v then take 240 (clean_log_text v) @ ''...'' else clean_log_text v)"

definition loggable :: "string \<Rightarrow> bool" where
  "loggable v \<longleftrightarrow> length v \<le> 240 \<or> str_boundary v 240"

lemma clean_boundary:
  assumes "240 < length v"
  shows "str_boundary (clean_log_text v) 240 \<longleftrightarrow> str_boundary v 240"
proof -
  have c: "\<not> cont (byte_of_char (CHR '' ''))" "\<not> cont (byte_of_char (CHR 0x0D))"
    "\<not> cont (byte_of_char (CHR 0x0A))" "\<not> cont (byte_of_char (CHR 0x09))" by code_simp+
  show ?thesis
    using assms by (auto simp: str_boundary_def is_char_boundary_def clean_log_text_def as_bytes_def c)
qed

lemma log_value_spec:
  "terminal_shim_log_value v = (if loggable v then Some (shown_arg v) else None)"
  using clean_boundary[of v]
  by (auto simp: terminal_shim_log_value_def Let_def clean_log_text_def[symmetric] slice_to_def loggable_def
      shown_arg_def) (simp_all add: clean_log_text_def)

lemma log_scan_spec:
  "log_scan r args = (if \<forall>i < length args. hidden_arg r args i \<or> loggable (args ! i)
     then Some (map (\<lambda>i. if hidden_arg r args i then ''<redacted>'' else shown_arg (args ! i)) [0..<length args])
     else None)"
proof (induction args arbitrary: r)
  case (Cons a args)
  let ?r' = "to_ascii_lowercase a \<in> set redact_flags"
  have h: "hidden_arg r (a # args) 0 = (r \<or> sensitive (to_ascii_lowercase a))"
    "hidden_arg r (a # args) (Suc i) = hidden_arg ?r' args i" for i
    by (auto simp: hidden_arg_def nth_Cons' split: nat.split)
  have all: "(\<forall>i < length (a # args). hidden_arg r (a # args) i \<or> loggable ((a # args) ! i)) \<longleftrightarrow>
      (r \<or> sensitive (to_ascii_lowercase a) \<or> loggable a) \<and>
      (\<forall>i < length args. hidden_arg ?r' args i \<or> loggable (args ! i))"
    by (auto simp: All_less_Suc2 h)
  have m: "map f [0..<length (a # args)] = f 0 # map (f \<circ> Suc) [0..<length args]" for f :: "nat \<Rightarrow> string"
    by (simp add: upt_conv_Cons map_Suc_upt[symmetric] del: upt_Suc)
  show ?case
    unfolding all m log_scan.simps Let_def Cons.IH[of ?r'] log_value_spec
    by (auto simp: h comp_def)
qed simp

text \<open>
  C35: the argument log never shows a sensitive argument or the value after a sensitive flag,
  and no more than 240 bytes of any other; it is written unless one of the arguments shown is
  longer than that and its 240th byte falls inside a character, in which case logging panics
  and the command is not run.
\<close>
theorem log_redacts_and_panics_inside_characters:
  "terminal_shim_log_args args =
    (if \<forall>i < length args. hidden_arg False args i \<or> loggable (args ! i)
     then Some (CHR ''['' # join '', '' (map (\<lambda>i. if hidden_arg False args i then ''<redacted>''
       else shown_arg (args ! i)) [0..<length args]) @ '']'')
     else None) \<and> length (shown_arg v) \<le> 243"
  by (simp add: terminal_shim_log_args_def log_scan_spec shown_arg_def clean_log_text_def)

lemma log_redacts_and_panics_inside_characters_witness:
  "terminal_shim_log_args [''--name'', ''x'', ''--token'', ''abc''] = Some ''[--name, x, <redacted>, <redacted>]'' \<and>
   terminal_shim_log_args [replicate 239 (CHR ''a'') @ [CHR 0xC3, CHR 0xA9]] = None"
proof -
  have "terminal_shim_log_args [''--name'', ''x'', ''--token'', ''abc''] = Some ''[--name, x, <redacted>, <redacted>]''"
    by code_simp
  moreover have "\<not> (hidden_arg False [replicate 239 (CHR ''a'') @ [CHR 0xC3, CHR 0xA9]] 0 \<or>
      loggable (replicate 239 (CHR ''a'') @ [CHR 0xC3, CHR 0xA9]))" by code_simp
  ultimately show ?thesis
    using log_redacts_and_panics_inside_characters[of "[replicate 239 (CHR ''a'') @ [CHR 0xC3, CHR 0xA9]]" "[]"]
    by simp
qed

end
