(* ===== verification/Rust_Words.thy ===== *)
theory Rust_Words
  imports Rust_Text
begin

text \<open>
  \<open>str::split_whitespace\<close>, and when white space is found: at the front, at the end, and in
  words joined with blanks.
\<close>

section \<open>Splitting at white space\<close>

text \<open>\<open>str::split_whitespace\<close>.\<close>

function split_ws :: "string \<Rightarrow> string \<Rightarrow> string list" where
  "split_ws cur s =
    (if s = [] then (if cur = [] then [] else [cur])
     else if ws_front (as_bytes s) = 0 then split_ws (cur @ [hd s]) (tl s)
     else (if cur = [] then [] else [cur]) @ split_ws [] (drop (ws_front (as_bytes s)) s))"
  by pat_completeness auto
termination by (relation "measure (length \<circ> snd)") auto

declare split_ws.simps [simp del]

definition split_whitespace :: "string \<Rightarrow> string list" where
  "split_whitespace s = split_ws [] s"

section \<open>White space before and after a blank\<close>

text \<open>No encoding of a white-space character but the blank contains a blank.\<close>

lemma ws_encodings_blank: "w \<in> set ws_encodings \<Longrightarrow> w \<noteq> [] \<and> (0x20 :: byte) \<notin> set (tl w)"
  by (auto simp: ws_encodings_def)

lemma ws_front_before_blank: "xs \<noteq> [] \<Longrightarrow> ws_front (xs @ 0x20 # ys) = ws_front xs"
proof -
  assume xs: "xs \<noteq> []"
  have "prefix w (xs @ 0x20 # ys) = prefix w xs" if enc: "w \<in> set ws_encodings" for w
  proof -
    obtain b v where w: "w = b # v" "0x20 \<notin> set v" using ws_encodings_blank[OF enc] by (cases w) auto
    obtain x xs' where x: "xs = x # xs'" using xs by (cases xs) auto
    show ?thesis using w(2) unfolding w(1) x by (auto simp: prefix_append prefix_Cons)
  qed
  then have "find (\<lambda>w. prefix w (xs @ 0x20 # ys)) ws_encodings = find (\<lambda>w. prefix w xs) ws_encodings"
    by (intro find_cong) auto
  then show ?thesis by (simp add: ws_front_def)
qed

lemma blank_byte: "byte_of_char (CHR '' '') = 0x20"
  by code_simp

lemma ws_front_blank: "ws_front (0x20 # bs) = 1"
  by (simp add: ws_front_def ws_encodings_def)

lemma split_ws_Nil [simp]: "split_ws cur [] = (if cur = [] then [] else [cur])"
  by (subst split_ws.simps) simp

lemma ws_front_le: "ws_front bs \<le> length bs"
proof -
  have "\<forall>w. find (\<lambda>w. prefix w bs) ws_encodings = Some w \<longrightarrow> length w \<le> length bs"
    by (auto simp: find_Some_iff dest!: prefix_length_le)
  then show ?thesis by (auto simp: ws_front_def split: option.split)
qed

lemma split_ws_blank: "split_ws cur (s @ CHR '' '' # t) = split_ws cur s @ split_ws [] t"
proof (induction cur s rule: split_ws.induct)
  case (1 cur s)
  show ?case
  proof (cases "s = []")
    case True
    then show ?thesis
      by (subst split_ws.simps) (simp add: as_bytes_Cons blank_byte ws_front_blank)
  next
    case False
    have w: "ws_front (as_bytes s @ as_bytes (CHR '' '' # t)) = ws_front (as_bytes s)"
      using False ws_front_before_blank[of "as_bytes s" "as_bytes t"]
      by (simp add: as_bytes_Cons blank_byte as_bytes_def)
    show ?thesis
      using 1 False ws_front_le[of "as_bytes s"]
      by (subst (1 2) split_ws.simps) (simp add: w)
  qed
qed

lemma split_ws_word: "\<not> has_whitespace (as_bytes s) \<Longrightarrow> cur @ s \<noteq> [] \<Longrightarrow> split_ws cur s = [cur @ s]"
proof (induction s arbitrary: cur)
  case (Cons c s)
  then show ?case by (subst split_ws.simps) (auto simp: as_bytes_Cons)
qed simp

lemma split_ws_single: "\<not> has_whitespace (as_bytes s) \<Longrightarrow> s \<noteq> [] \<Longrightarrow> split_ws [] s = [s]"
  using split_ws_word[of s "[]"] by simp

lemma join_words_Cons: "join sep (x # xs) = x @ (if xs = [] then [] else sep @ join sep xs)"
  by (cases xs) auto

lemma split_ws_join:
  "\<forall>w \<in> set ws. w \<noteq> [] \<and> \<not> has_whitespace (as_bytes w) \<Longrightarrow> split_whitespace (join '' '' ws) = ws"
proof (induction ws)
  case (Cons w ws)
  then show ?case
    using split_ws_blank[of "[]" w "join '' '' ws"] by (auto simp: split_whitespace_def join_words_Cons split_ws_single)
qed (simp add: split_whitespace_def)

section \<open>Solid ends\<close>

text \<open>The bytes white space begins and ends with.\<close>

definition ws_ends :: "(bytes \<Rightarrow> byte) \<Rightarrow> byte list" where
  "ws_ends f = map f ws_encodings"

lemma ws_front_head: "ws_front (b # bs) \<noteq> 0 \<Longrightarrow> b \<in> set (ws_ends hd)"
  by (auto simp: ws_front_def ws_ends_def find_Some_iff prefix_def dest: nth_mem split: option.splits)
    (metis ws_encodings_blank hd_append2 list.sel(1) nth_mem imageI)

lemma ws_back_last: "ws_back (bs @ [b]) \<noteq> 0 \<Longrightarrow> b \<in> set (ws_ends last)"
  by (auto simp: ws_back_def ws_ends_def find_Some_iff suffix_def dest: nth_mem split: option.splits)
    (metis ws_encodings_blank last_appendR last_snoc nth_mem imageI)

text \<open>A character no white space begins or ends with; text between two of them is left by \<open>trim\<close>.\<close>

definition solid :: "char \<Rightarrow> bool" where
  "solid c \<longleftrightarrow> byte_of_char c \<notin> set (ws_ends hd) \<union> set (ws_ends last)"

lemma trim_solid:
  assumes "s \<noteq> []" "solid (hd s)" "solid (last s)"
  shows "trim s = s"
proof -
  have "ws_front (as_bytes s) = 0"
    using assms(1,2) by (cases s) (auto simp: as_bytes_Cons solid_def dest: ws_front_head)
  moreover have "as_bytes s = as_bytes (butlast s) @ [byte_of_char (last s)]"
    using append_butlast_last_id[OF assms(1)] by (metis as_bytes_Cons as_bytes_Nil as_bytes_append)
  then have "ws_back (as_bytes s) = 0" using assms(3) ws_back_last by (metis UnI2 solid_def)
  ultimately show ?thesis
    by (simp add: trim_def trim_start_def trim_end_def trim_start_bytes_id trim_end_bytes_id)
qed

lemma digit_solid:
  assumes "d < 16"
  shows "solid (digit_char d)"
proof -
  have "list_all (\<lambda>d. digit_char d \<in> set ''0123456789abcdef'') [0..<16]" by code_simp
  then have "digit_char d \<in> set ''0123456789abcdef''" using assms by (auto simp: list_all_iff)
  moreover have "list_all solid ''0123456789abcdef''" by code_simp
  ultimately show ?thesis unfolding list_all_iff by blast
qed

lemma last_show_base: "2 \<le> r \<Longrightarrow> last (show_base r n) = digit_char (n mod r)"
  by (subst show_base.simps) auto

end
