(* ===== verification/Terminal_Profiles.thy ===== *)
theory Terminal_Profiles
  imports Launch_Options Rust_Words
begin

text \<open>
  The Windows Terminal settings that \<open>crates/vb-daemon/src/main.rs\<close> rewrites: stripping the
  comments of the settings text, finding what a profile runs, wrapping it into a captured
  \<open>terminal-shim\<close> command line and unwrapping it again. Parsing and printing JSON is
  \<open>serde_json\<close>'s, a parameter; the entries of a JSON object carry no order.
\<close>

section \<open>Comments\<close>

datatype jsonc_state = Code | InString bool | LineComment | BlockComment bool

text \<open>\<open>InString escaped\<close>; \<open>BlockComment star\<close>: the character before was a star.\<close>

fun strip_from :: "jsonc_state \<Rightarrow> string \<Rightarrow> string" where
  "strip_from st [] = []"
| "strip_from (InString escaped) (c # s) =
    c # strip_from (if escaped then InString False
                    else if c = CHR 0x5C then InString True
                    else if c = CHR 0x22 then Code else InString False) s"
| "strip_from Code (c # s) =
    (if c = CHR 0x22 then c # strip_from (InString False) s
     else if c = CHR ''/'' \<and> s \<noteq> [] \<and> hd s = CHR ''/'' then strip_from LineComment (tl s)
     else if c = CHR ''/'' \<and> s \<noteq> [] \<and> hd s = CHR ''*'' then strip_from (BlockComment False) (tl s)
     else c # strip_from Code s)"
| "strip_from LineComment (c # s) =
    (if c = CHR 0x0A then c # strip_from Code s else strip_from LineComment s)"
| "strip_from (BlockComment star) (c # s) =
    (if star \<and> c = CHR ''/'' then strip_from Code s else strip_from (BlockComment (c = CHR ''*'')) s)"

definition strip_jsonc_comments :: "string \<Rightarrow> string" where
  "strip_jsonc_comments input = strip_from Code input"

section \<open>Profiles\<close>

text \<open>\<open>Map::insert\<close> and the text stored at a key.\<close>

definition obj_insert :: "string \<Rightarrow> json \<Rightarrow> (string \<times> json) list \<Rightarrow> (string \<times> json) list" where
  "obj_insert k v kvs = filter (\<lambda>(k', _). k' \<noteq> k) kvs @ [(k, v)]"

definition text_at :: "(string \<times> json) list \<Rightarrow> string \<Rightarrow> string option" where
  "text_at kvs k = jget_str (JObj kvs) k"

definition text_or :: "(string \<times> json) list \<Rightarrow> string \<Rightarrow> string \<Rightarrow> string" where
  "text_or kvs k d = or_else (text_at kvs k) d"

definition default_commandline :: "string \<Rightarrow> string \<Rightarrow> string option" where
  "default_commandline name source =
    (let lower_name = to_ascii_lowercase name; lower_source = to_ascii_lowercase source
     in if str_contains lower_source ''wsl'' \<or> str_contains lower_name ''ubuntu'' \<or> str_contains lower_name ''debian''
        then Some (if trim name = [] then ''wsl.exe'' else ''wsl.exe -d '' @ quote_windows_arg name)
        else if str_contains lower_source ''powershellcore'' \<or> lower_name = ''powershell'' \<or>
                str_contains lower_name ''powershell 7''
        then Some ''pwsh.exe''
        else if str_contains lower_source ''windowspowershell'' \<or> str_contains lower_name ''windows powershell''
        then Some ''powershell.exe''
        else if str_contains lower_source ''visualstudio'' \<and> str_contains lower_name ''powershell''
        then Some ''powershell.exe''
        else if str_contains lower_source ''cmd'' \<or> str_contains lower_name ''command prompt''
        then Some ''cmd.exe''
        else if str_contains lower_name ''powershell'' then Some ''powershell.exe''
        else None)"

definition terminal_profile_original_commandline :: "(string \<times> json) list \<Rightarrow> string option" where
  "terminal_profile_original_commandline profile =
    (case map_option trim (text_at profile ''commandline'') of
       Some c \<Rightarrow> if c \<noteq> [] then Some c
                 else default_commandline (text_or profile ''name'' []) (text_or profile ''source'' [])
     | None \<Rightarrow> default_commandline (text_or profile ''name'' []) (text_or profile ''source'' []))"

section \<open>Wrapped command lines\<close>

definition shim_words :: "string \<Rightarrow> string \<Rightarrow> string \<Rightarrow> string list" where
  "shim_words exe addr name =
    [quote_windows_arg exe, ''terminal-shim'', ''--daemon'', quote_windows_arg addr, ''--name'',
     quote_windows_arg name, ''--follow-console-size'']"

definition build_terminal_profile_commandline :: "string \<Rightarrow> string \<Rightarrow> string \<Rightarrow> string \<Rightarrow> string" where
  "build_terminal_profile_commandline exe addr name original_cmdline =
    join '' '' (shim_words exe addr name) @ '' --cmdline-b64 '' @ base64_encode_bytes (as_bytes original_cmdline)"

fun word_after_flag :: "string list \<Rightarrow> string option" where
  "word_after_flag [] = None"
| "word_after_flag (part # parts) =
    (if part = ''--cmdline-b64'' then (case parts of [] \<Rightarrow> None | w # _ \<Rightarrow> Some w) else word_after_flag parts)"

definition extract_wrapped_terminal_cmdline :: "string \<Rightarrow> string option" where
  "extract_wrapped_terminal_cmdline commandline =
    (if \<not> str_contains commandline ''terminal-shim'' \<and> \<not> str_contains commandline ''capture-shell'' \<and>
        \<not> str_contains commandline ''vibe-terminal'' then None
     else Option.bind (word_after_flag (split_whitespace commandline)) (\<lambda>w.
       case base64_decode_bytes (trim_matches [CHR 0x22] w) of
         Inl _ \<Rightarrow> None
       | Inr bs \<Rightarrow> from_utf8 bs))"

section \<open>Rewriting the settings\<close>

definition DEFAULT_PROFILE_NAME :: string where
  "DEFAULT_PROFILE_NAME = ''Windows Terminal''"

text \<open>One profile: the profile after, and the names it adds to the supported and changed lists.\<close>

definition wrap_profile :: "string \<Rightarrow> string \<Rightarrow> json \<Rightarrow> json \<times> string list \<times> string list" where
  "wrap_profile exe addr profile =
    (case profile of
       JObj kvs \<Rightarrow>
        if Option.bind (jget profile ''hidden'') json_bool = Some True then (profile, [], [])
        else
          let name = text_or kvs ''name'' DEFAULT_PROFILE_NAME
          in case terminal_profile_original_commandline kvs of
               None \<Rightarrow> (profile, [], [])
             | Some profile_cmdline \<Rightarrow>
                let original = or_else (extract_wrapped_terminal_cmdline profile_cmdline) profile_cmdline;
                    wrapped = build_terminal_profile_commandline exe addr (''Terminal: '' @ name) original
                in if text_at kvs ''commandline'' = Some wrapped then (profile, [name], [])
                   else (JObj (obj_insert ''commandline'' (JStr wrapped) kvs), [name], [name])
     | _ \<Rightarrow> (profile, [], []))"

definition unwrap_profile :: "json \<Rightarrow> json \<times> string list" where
  "unwrap_profile profile =
    (case profile of
       JObj kvs \<Rightarrow>
        (case Option.bind (text_at kvs ''commandline'') extract_wrapped_terminal_cmdline of
           None \<Rightarrow> (profile, [])
         | Some original \<Rightarrow> (JObj (obj_insert ''commandline'' (JStr original) kvs),
             [text_or kvs ''name'' DEFAULT_PROFILE_NAME]))
     | _ \<Rightarrow> (profile, []))"

definition profiles_of :: "json \<Rightarrow> json list option" where
  "profiles_of root = Option.bind (Option.bind (jget root ''profiles'') (\<lambda>p. jget p ''list'')) json_array"

definition set_key :: "string \<Rightarrow> json \<Rightarrow> json \<Rightarrow> json" where
  "set_key k v j = (case j of JObj kvs \<Rightarrow> JObj (obj_insert k v kvs) | _ \<Rightarrow> j)"

definition set_profiles :: "json \<Rightarrow> json list \<Rightarrow> json" where
  "set_profiles root ps = (case jget root ''profiles'' of
     None \<Rightarrow> root
   | Some p \<Rightarrow> set_key ''profiles'' (set_key ''list'' (JArr ps) p) root)"

record settings_result =
  sr_output :: "string option"
  sr_changed_profiles :: "string list"
  sr_supported_profiles :: "string list"

definition missing_profiles :: string where
  "missing_profiles = ''Windows Terminal settings missing profiles.list''"

text \<open>\<open>parse\<close> and \<open>pretty\<close> are \<open>serde_json\<close>'s, with the text of the error.\<close>

definition rewrite_settings ::
  "(string \<Rightarrow> json result) \<Rightarrow> (json \<Rightarrow> string result) \<Rightarrow> (json \<Rightarrow> json \<times> string list \<times> string list) \<Rightarrow>
   string \<Rightarrow> settings_result result" where
  "rewrite_settings parse pretty rewrite input =
    (case parse (strip_jsonc_comments input) of
       Inl err \<Rightarrow> Inl (''parse settings json: '' @ err)
     | Inr root \<Rightarrow>
        (case profiles_of root of
           None \<Rightarrow> Inl missing_profiles
         | Some profiles \<Rightarrow>
            let rs = map rewrite profiles;
                supported = concat (map (\<lambda>(_, s, _). s) rs);
                changed = concat (map (\<lambda>(_, _, c). c) rs)
            in if changed = [] then
                 Inr \<lparr>sr_output = None, sr_changed_profiles = changed, sr_supported_profiles = supported\<rparr>
               else case pretty (set_profiles root (map fst rs)) of
                 Inl err \<Rightarrow> Inl (''serialize settings json: '' @ err)
               | Inr txt \<Rightarrow> Inr \<lparr>sr_output = Some (txt @ [CHR 0x0A]), sr_changed_profiles = changed,
                   sr_supported_profiles = supported\<rparr>))"

definition wrap_windows_terminal_settings_json ::
  "(string \<Rightarrow> json result) \<Rightarrow> (json \<Rightarrow> string result) \<Rightarrow> string \<Rightarrow> string \<Rightarrow> string \<Rightarrow> settings_result result" where
  "wrap_windows_terminal_settings_json parse pretty input exe addr =
    rewrite_settings parse pretty (wrap_profile exe addr) input"

text \<open>The result of unwrapping has no list of supported profiles.\<close>

definition unwrap_windows_terminal_settings_json ::
  "(string \<Rightarrow> json result) \<Rightarrow> (json \<Rightarrow> string result) \<Rightarrow> string \<Rightarrow> settings_result result" where
  "unwrap_windows_terminal_settings_json parse pretty input =
    rewrite_settings parse pretty (\<lambda>p. let (p', changed) = unwrap_profile p in (p', [], changed)) input"

definition limited_profile_name_list :: "string list \<Rightarrow> string \<times> nat" where
  "limited_profile_name_list names =
    (let count = length names; shown = take 8 names;
         shown = (if length shown < count
                  then shown @ [''... '' @ show_nat (count - length shown) @ '' more''] else shown)
     in (join '', '' shown, count))"

section \<open>Lemmas: Base64 text is one word\<close>

lemma base64_chars: "set (base64_encode_bytes bs) \<subseteq> set b64_alphabet \<union> {CHR ''=''}"
proof -
  have "b64_alphabet ! unat (take_bit 6 w) \<in> set b64_alphabet" for w :: "32 word"
    using unat_take_bit_6[of w] by (intro nth_mem) (simp add: b64_alphabet_def)
  then have "set (b64_chunk c) \<subseteq> set b64_alphabet \<union> {CHR ''=''}" for c
    by (auto simp: b64_chunk_def Let_def and_masks)
  then show ?thesis by (auto simp: base64_encode_bytes_def)
qed

definition word_char :: "char \<Rightarrow> bool" where
  "word_char c \<longleftrightarrow> c \<in> set b64_alphabet \<union> {CHR ''=''}"

lemma word_char_facts:
  assumes "word_char c"
  shows "byte_of_char c \<notin> set (ws_ends hd) \<union> set (ws_ends last)" "c \<noteq> CHR 0x22" "c \<noteq> CHR 0x5C" "\<not> is_blank c"
proof -
  have "list_all (\<lambda>c. byte_of_char c \<notin> set (ws_ends hd) \<union> set (ws_ends last) \<and> c \<noteq> CHR 0x22 \<and> c \<noteq> CHR 0x5C \<and>
      \<not> is_blank c) (CHR ''='' # b64_alphabet)" by code_simp
  then show "byte_of_char c \<notin> set (ws_ends hd) \<union> set (ws_ends last)" "c \<noteq> CHR 0x22" "c \<noteq> CHR 0x5C" "\<not> is_blank c"
    using assms by (auto simp: list_all_iff word_char_def)
qed

lemma word_no_whitespace: "\<forall>c \<in> set s. word_char c \<Longrightarrow> \<not> has_whitespace (as_bytes s)"
  by (induction s) (auto simp: as_bytes_Cons dest: ws_front_head word_char_facts)

lemma base64_word: "\<forall>c \<in> set (base64_encode_bytes bs). word_char c"
  using base64_chars by (auto simp: word_char_def)

lemma base64_Nil_iff [simp]: "base64_encode_bytes bs = [] \<longleftrightarrow> bs = []"
proof -
  have "b64_chunk c \<noteq> []" for c by (metis length_b64_chunk list.size(3) zero_neq_numeral)
  then show ?thesis by (cases "bs = []") (simp_all add: base64_encode_bytes_def chunks_Cons)
qed

lemma base64_quote: "bs \<noteq> [] \<Longrightarrow> quote_windows_arg (base64_encode_bytes bs) = base64_encode_bytes bs"
  using base64_word[of bs] word_no_whitespace[OF base64_word[of bs]] word_char_facts(2,3)
  by (auto simp: quote_windows_arg_def needs_quotes_def)

lemma trim_start_str_id: "s = [] \<or> hd s \<noteq> c \<Longrightarrow> trim_start_str [c] s = s"
  by (subst trim_start_str.simps) (cases s; auto simp: starts_with_def)

lemma base64_unquoted: "trim_matches [CHR 0x22] (base64_encode_bytes bs) = base64_encode_bytes bs"
proof -
  let ?s = "base64_encode_bytes bs"
  have c: "c \<noteq> CHR 0x22" if "c \<in> set ?s" for c using base64_word[of bs] that word_char_facts(2) by blast
  have "?s = [] \<or> hd ?s \<noteq> CHR 0x22" using c[OF hd_in_set] by blast
  moreover have "rev ?s = [] \<or> hd (rev ?s) \<noteq> CHR 0x22" using c[of "hd (rev ?s)"] hd_in_set[of "rev ?s"] by auto
  ultimately show ?thesis by (simp add: trim_matches_def trim_start_str_id del: base64_Nil_iff)
qed

section \<open>Lemmas: wrapped command lines\<close>

lemma wrapped_join:
  "build_terminal_profile_commandline exe addr name orig =
    join '' '' (shim_words exe addr name) @ '' '' @ ''--cmdline-b64'' @ '' '' @ base64_encode_bytes (as_bytes orig)"
  by (simp add: build_terminal_profile_commandline_def)

lemma split_wrapped:
  assumes "orig \<noteq> []"
  shows "split_whitespace (build_terminal_profile_commandline exe addr name orig) =
    split_whitespace (join '' '' (shim_words exe addr name)) @
    [''--cmdline-b64'', base64_encode_bytes (as_bytes orig)]"
proof -
  have flag: "split_ws [] ''--cmdline-b64'' = [''--cmdline-b64'']" by (rule split_ws_single) code_simp+
  have "as_bytes orig \<noteq> []" using assms by (cases orig) (auto simp: as_bytes_Cons)
  then have b: "split_ws [] (base64_encode_bytes (as_bytes orig)) = [base64_encode_bytes (as_bytes orig)]"
    using split_ws_single word_no_whitespace[OF base64_word] by auto
  have "split_ws [] (''--cmdline-b64'' @ CHR '' '' # base64_encode_bytes (as_bytes orig)) =
      [''--cmdline-b64''] @ [base64_encode_bytes (as_bytes orig)]"
    by (simp only: split_ws_blank flag b)
  then show ?thesis
    using split_ws_blank[of "[]" "join '' '' (shim_words exe addr name)"
        "''--cmdline-b64'' @ CHR '' '' # base64_encode_bytes (as_bytes orig)"]
    by (simp add: wrapped_join split_whitespace_def)
qed

lemma word_after_flag_append:
  "''--cmdline-b64'' \<notin> set ws \<Longrightarrow> word_after_flag (ws @ [''--cmdline-b64'', w]) = Some w"
  by (induction ws) auto

lemma wrapped_is_marked:
  "str_contains (build_terminal_profile_commandline exe addr name orig) ''terminal-shim''"
proof -
  have "\<exists>q. build_terminal_profile_commandline exe addr name orig =
      (quote_windows_arg exe @ '' '') @ ''terminal-shim'' @ q"
    by (simp add: build_terminal_profile_commandline_def shim_words_def)
  then show ?thesis unfolding str_contains_iff by blast
qed

text \<open>The texts a profile is wrapped with do not hold the flag as a word of their own.\<close>

definition wrap_safe :: "string \<Rightarrow> string \<Rightarrow> string \<Rightarrow> bool" where
  "wrap_safe exe addr name \<longleftrightarrow>
    ''--cmdline-b64'' \<notin> set (split_whitespace (join '' '' (shim_words exe addr name)))"

lemma extract_wrapped:
  assumes "valid_str orig" "orig \<noteq> []" "wrap_safe exe addr name"
  shows "extract_wrapped_terminal_cmdline (build_terminal_profile_commandline exe addr name orig) = Some orig"
  using assms
  by (simp add: extract_wrapped_terminal_cmdline_def wrapped_is_marked split_wrapped wrap_safe_def
      word_after_flag_append base64_unquoted base64_decode_encode)

text \<open>A wrapped command line begins and ends with a character that is not white space.\<close>

lemma trim_wrapped:
  assumes "orig \<noteq> []"
  shows "trim (build_terminal_profile_commandline exe addr name orig) =
    build_terminal_profile_commandline exe addr name orig" (is "trim ?w = ?w")
proof -
  let ?q = "quote_windows_arg exe" and ?b = "base64_encode_bytes (as_bytes orig)"
  obtain r where r: "?w = ?q @ CHR '' '' # r"
    by (simp add: build_terminal_profile_commandline_def shim_words_def)
  have q: "?q \<noteq> []" using profile_arg.enc_head by blast
  have "ws_front (as_bytes ?q) = 0"
  proof (cases "needs_quotes exe")
    case True
    have "byte_of_char (CHR 0x22) \<notin> set (ws_ends hd)" by code_simp
    then show ?thesis using True by (auto simp: quote_windows_arg_def as_bytes_Cons dest: ws_front_head)
  next
    case False
    then show ?thesis by (cases exe) (auto simp: quote_windows_arg_def needs_quotes_def as_bytes_Cons)
  qed
  then have front: "ws_front (as_bytes ?w) = 0"
    using ws_front_before_blank[of "as_bytes ?q" "as_bytes r"] q
    by (simp add: r as_bytes_Cons blank_byte as_bytes_def)
  have "as_bytes orig \<noteq> []" using assms by (cases orig) (auto simp: as_bytes_Cons)
  then have b: "?b \<noteq> []" by simp
  then have "word_char (last ?b)" using base64_word last_in_set by blast
  then have "byte_of_char (last ?b) \<notin> set (ws_ends last)" using word_char_facts(1) by blast
  moreover have "as_bytes ?w = as_bytes (join '' '' (shim_words exe addr name) @ '' --cmdline-b64 '' @ butlast ?b) @
      [byte_of_char (last ?b)]"
  proof -
    have "?w = (join '' '' (shim_words exe addr name) @ '' --cmdline-b64 '' @ butlast ?b) @ [last ?b]"
      unfolding build_terminal_profile_commandline_def using append_butlast_last_id[OF b] by simp
    then show ?thesis by (simp only: as_bytes_append as_bytes_Cons as_bytes_Nil)
  qed
  ultimately have rear: "ws_back (as_bytes ?w) = 0" using ws_back_last by (metis UnI2)
  show ?thesis
    by (simp add: trim_def trim_start_def trim_end_def trim_start_bytes_id[OF front] trim_end_bytes_id[OF rear])
qed

lemma jget_insert [simp]:
  "jget (JObj (obj_insert k v kvs)) k' = (if k' = k then Some v else jget (JObj kvs) k')"
proof -
  have "map_of (filter (\<lambda>(k', _). k' \<noteq> k) xs) k' = map_of xs k'" if "k' \<noteq> k" for xs :: "(string \<times> json) list"
    using that by (induction xs) auto
  then show ?thesis by (simp add: jget_def obj_insert_def rev_filter)
qed

lemma text_at_insert [simp]:
  "text_at (obj_insert k (JStr v) kvs) k' = (if k' = k then Some v else text_at kvs k')"
  by (simp add: text_at_def jget_str_def json_str_def)

section \<open>Lemmas: comments\<close>

text \<open>Where text without comments leaves the scanner: \<open>Some escaped\<close> inside a string.\<close>

definition after_string_char :: "bool \<Rightarrow> char \<Rightarrow> bool option" where
  "after_string_char escaped c =
    (if escaped then Some False else if c = CHR 0x5C then Some True else if c = CHR 0x22 then None else Some False)"

fun comment_free :: "bool option \<Rightarrow> string \<Rightarrow> bool" where
  "comment_free st [] \<longleftrightarrow> True"
| "comment_free (Some escaped) (c # s) \<longleftrightarrow> comment_free (after_string_char escaped c) s"
| "comment_free None (c # s) \<longleftrightarrow>
    (if c = CHR 0x22 then comment_free (Some False) s
     else \<not> (c = CHR ''/'' \<and> s \<noteq> [] \<and> hd s \<in> {CHR ''/'', CHR ''*''}) \<and> comment_free None s)"

text \<open>The same, ending outside strings and not in the middle of a comment's opening.\<close>

fun code_only :: "bool option \<Rightarrow> string \<Rightarrow> bool" where
  "code_only st [] \<longleftrightarrow> st = None"
| "code_only (Some escaped) (c # s) \<longleftrightarrow> code_only (after_string_char escaped c) s"
| "code_only None (c # s) \<longleftrightarrow>
    (if c = CHR 0x22 then code_only (Some False) s
     else \<not> (c = CHR ''/'' \<and> (s = [] \<or> hd s \<in> {CHR ''/'', CHR ''*''})) \<and> code_only None s)"

definition scan_state :: "bool option \<Rightarrow> jsonc_state" where
  "scan_state st = (case st of None \<Rightarrow> Code | Some e \<Rightarrow> InString e)"

lemma strip_string_char:
  "strip_from (scan_state (Some e)) (c # s) = c # strip_from (scan_state (after_string_char e c)) s"
  by (simp add: scan_state_def after_string_char_def)

lemma strip_code: "code_only st a \<Longrightarrow> strip_from (scan_state st) (a @ x) = a @ strip_from Code x"
proof (induction st a rule: code_only.induct)
  case (2 e c s)
  then show ?case by (simp add: strip_string_char)
next
  case (3 c s)
  then show ?case by (cases s) (auto simp: scan_state_def split: if_splits)
qed (simp add: scan_state_def)

lemma strip_comment_free: "comment_free st s \<Longrightarrow> strip_from (scan_state st) s = s"
proof (induction st s rule: comment_free.induct)
  case (2 e c s)
  then show ?case by (simp add: strip_string_char)
next
  case (3 c s)
  then show ?case by (auto simp: scan_state_def split: if_splits)
qed simp

definition string_part :: "jsonc_state \<Rightarrow> bool option" where
  "string_part st = (case st of InString e \<Rightarrow> Some e | _ \<Rightarrow> None)"

lemma strip_result_free: "comment_free (string_part st) (strip_from st s)"
proof (induction st s rule: strip_from.induct)
  case (2 e c s)
  then show ?case by (auto simp: string_part_def after_string_char_def split: if_splits)
next
  case (3 c s)
  show ?case
  proof (cases "c = CHR ''/'' \<and> s \<noteq> [] \<and> hd s \<notin> {CHR ''/'', CHR ''*''}")
    case True
    then have "hd (strip_from Code s) = hd s" by (cases s) auto
    then show ?thesis using 3 True by (auto simp: string_part_def)
  qed (use 3 in \<open>auto simp: string_part_def\<close>)
qed (auto simp: string_part_def)

lemma strip_line: "CHR 0x0A \<notin> set b \<Longrightarrow> strip_from LineComment (b @ CHR 0x0A # c) = CHR 0x0A # strip_from Code c"
  by (induction b) auto

lemma strip_block:
  "\<not> str_contains b ''*/'' \<Longrightarrow> star \<longrightarrow> b = [] \<or> hd b \<noteq> CHR ''/'' \<Longrightarrow>
   strip_from (BlockComment star) (b @ ''*/'' @ c) = strip_from Code c"
proof (induction b arbitrary: star)
  case (Cons x b)
  then have "x = CHR ''*'' \<longrightarrow> b = [] \<or> hd b \<noteq> CHR ''/''" by (cases b) auto
  with Cons show ?case by auto
qed simp

section \<open>Theorems\<close>

text \<open>
  C31: from the settings text exactly the comments are removed. What is left of any text has no
  comment, and a text is left as it is exactly when it has none; after code that is complete
  (\<open>a\<close>: no comment, no open string, whatever its strings contain), a line comment is removed up
  to its line feed, a block comment up to its first end, and scanning goes on in code.
\<close>
theorem comments_are_removed_exactly:
  assumes "code_only None a" "CHR 0x0A \<notin> set b" "\<not> str_contains d ''*/''"
  shows "strip_jsonc_comments (a @ ''//'' @ b @ CHR 0x0A # c) = a @ CHR 0x0A # strip_jsonc_comments c \<and>
    strip_jsonc_comments (a @ ''/*'' @ d @ ''*/'' @ c) = a @ strip_jsonc_comments c \<and>
    comment_free None (strip_jsonc_comments s) \<and> (strip_jsonc_comments s = s \<longleftrightarrow> comment_free None s)"
proof (intro conjI)
  show "strip_jsonc_comments (a @ ''//'' @ b @ CHR 0x0A # c) = a @ CHR 0x0A # strip_jsonc_comments c"
    using strip_code[OF assms(1)] strip_line[OF assms(2)]
    by (simp add: strip_jsonc_comments_def scan_state_def)
  show "strip_jsonc_comments (a @ ''/*'' @ d @ ''*/'' @ c) = a @ strip_jsonc_comments c"
    using strip_code[OF assms(1)] strip_block[OF assms(3), of False]
    by (simp add: strip_jsonc_comments_def scan_state_def)
  show free: "comment_free None (strip_jsonc_comments s)"
    using strip_result_free[of Code s] by (simp add: strip_jsonc_comments_def string_part_def)
  show "strip_jsonc_comments s = s \<longleftrightarrow> comment_free None s"
    using free strip_comment_free[of None s] by (auto simp: strip_jsonc_comments_def scan_state_def)
qed

lemma comments_are_removed_exactly_witness:
  "strip_jsonc_comments (''{'' @ [CHR 0x22] @ ''a//b'' @ [CHR 0x22] @ '':1}'' @ ''//'' @ '' x'' @ CHR 0x0A # ''2'') =
    ''{'' @ [CHR 0x22] @ ''a//b'' @ [CHR 0x22] @ '':1}'' @ CHR 0x0A # strip_jsonc_comments ''2''"
proof -
  have "code_only None (''{'' @ [CHR 0x22] @ ''a//b'' @ [CHR 0x22] @ '':1}'')" "CHR 0x0A \<notin> set '' x''"
    "\<not> str_contains ''*'' ''*/''" by code_simp+
  from comments_are_removed_exactly[OF this, of "''2''" "[]"] show ?thesis by simp
qed



section \<open>What the wrapped profile runs\<close>

lemma quote_loop_plain:
  "CHR 0x22 \<notin> set s \<Longrightarrow> s \<noteq> [] \<Longrightarrow> last s \<noteq> CHR 0x5C \<Longrightarrow>
   quote_loop n s = replicate n (CHR 0x5C) @ s @ [CHR 0x22]"
proof (induction n s rule: quote_loop.induct)
  case (2 n c s)
  then show ?case by (cases s) (auto simp: replicate_app_Cons_same)
qed simp

lemma profile_program:
  assumes "p \<noteq> []" "CHR 0x22 \<notin> set p" "last p \<noteq> CHR 0x5C"
  shows "program_word (quote_windows_arg p) p"
proof (cases "needs_quotes p")
  case True
  then show ?thesis using assms by (simp add: quote_windows_arg_def quote_loop_plain program_word_def)
next
  case False
  then have "\<forall>c \<in> set p. \<not> is_blank c" using blank_whitespace by (auto simp: needs_quotes_def)
  then show ?thesis using False assms by (cases p) (auto simp: quote_windows_arg_def program_word_def)
qed

definition shim_arguments :: "string \<Rightarrow> string \<Rightarrow> string \<Rightarrow> string list" where
  "shim_arguments addr name orig = [''terminal-shim'', ''--daemon'', addr, ''--name'', name,
     ''--follow-console-size'', ''--cmdline-b64'', base64_encode_bytes (as_bytes orig)]"

lemma wrapped_arguments:
  assumes "orig \<noteq> []"
  shows "build_terminal_profile_commandline exe addr name orig =
    quote_windows_arg exe @ CHR '' '' # join '' '' (map quote_windows_arg (shim_arguments addr name orig))"
proof -
  have "as_bytes orig \<noteq> []" using assms by (cases orig) (auto simp: as_bytes_Cons)
  moreover have "\<forall>w \<in> {''terminal-shim'', ''--daemon'', ''--name'', ''--follow-console-size'', ''--cmdline-b64''}.
    quote_windows_arg w = w" by code_simp
  ultimately show ?thesis
    by (simp add: build_terminal_profile_commandline_def shim_words_def shim_arguments_def base64_quote)
qed

lemma windows_argv_skip_blank: "windows_argv (CHR '' '' # s) = windows_argv s"
  by (subst (1 2) windows_argv.simps) (simp add: is_blank_def)



end
