(* ===== verification/Terminal_Windows.thy ===== *)
theory Terminal_Windows
  imports Rust_Words Rust_Unicode Text_Codecs Core_Model Transcript_Lines
begin

text \<open>
  Terminal windows as the host sees them: \<open>crates/vb-host/src/windows_terminal.rs\<close> (which
  windows are terminals, the titles of Windows Terminal tabs, focusing one) and the command
  line of \<open>crates/vb-host/src/main.rs\<close>. What the Win32 calls and PowerShell answer is given.
\<close>

section \<open>Windows\<close>

text \<open>What the system tells about a window, and about a process.\<close>

record window_facts =
  wf_hwnd :: "64 word"
  wf_visible :: bool
  wf_text_len :: int
  wf_text :: "16 word list"
  wf_pid :: "32 word"

record process_facts =
  pf_can_open :: "32 word \<Rightarrow> bool"
  pf_image_name :: "32 word \<Rightarrow> 16 word list option"

text \<open>\<open>wf_text\<close>: the units copied, none when the call fails.\<close>

definition window_title :: "window_facts \<Rightarrow> string" where
  "window_title w =
    (if wf_text_len w \<le> 0 then [] else if wf_text w = [] then [] else from_utf16_lossy (wf_text w))"

definition query_process_path_handle :: "process_facts \<Rightarrow> 32 word \<Rightarrow> string option" where
  "query_process_path_handle p pid =
    (case pf_image_name p pid of
       None \<Rightarrow> None
     | Some us \<Rightarrow> if us = [] then None else Some (from_utf16_lossy us))"

definition query_process_path :: "process_facts \<Rightarrow> 32 word \<Rightarrow> string option" where
  "query_process_path p pid =
    (if \<not> pf_can_open p pid then None else query_process_path_handle p pid)"

definition enum_windows_callback ::
  "process_facts \<Rightarrow> window_facts \<Rightarrow> terminal_window list \<Rightarrow> terminal_window list" where
  "enum_windows_callback p w windows =
    (if \<not> wf_visible w then windows
     else let title = window_title w
       in if trim title = [] then windows
          else if wf_pid w = 0 then windows
          else let process_path = (case query_process_path p (wf_pid w) of None \<Rightarrow> [] | Some s \<Rightarrow> s);
                   kind = classify_terminal_process process_path title;
                   window = \<lparr>tw_hwnd = wf_hwnd w, tw_pid = wf_pid w, tw_title = title,
                     tw_process_path = process_path, tw_kind = kind\<rparr>
               in if is_terminal_candidate window then windows @ [window] else windows)"

definition discover_terminal_windows ::
  "process_facts \<Rightarrow> window_facts list option \<Rightarrow> terminal_window list result" where
  "discover_terminal_windows p answer =
    (case answer of
       None \<Rightarrow> Inl ''EnumWindows failed''
     | Some ws \<Rightarrow> Inr (fold (enum_windows_callback p) ws []))"

definition focus_window :: "bool \<Rightarrow> unit result" where
  "focus_window foreground_ok = (if \<not> foreground_ok then Inl ''SetForegroundWindow failed'' else Inr ())"

section \<open>Tab titles\<close>

definition parse_json_string_list :: "(string \<Rightarrow> json result) \<Rightarrow> bytes \<Rightarrow> string list result" where
  "parse_json_string_list parse bs =
    (let txt = trim (from_utf8_lossy bs)
     in if txt = [] then Inr []
        else case parse txt of
          Inl err \<Rightarrow> Inl (''parse UIAutomation JSON: '' @ err)
        | Inr (JArr items) \<Rightarrow>
            Inr (filter (\<lambda>t. t \<noteq> []) (map trim (List.map_filter json_str items)))
        | Inr (JStr item) \<Rightarrow> Inr (if trim item = [] then [] else [trim item])
        | Inr _ \<Rightarrow> Inr [])"

text \<open>The output of a command that ran: whether it succeeded, its outputs.\<close>

record command_output =
  co_success :: bool
  co_stdout :: bytes
  co_stderr :: bytes

definition discover_windows_terminal_tab_titles ::
  "(string \<Rightarrow> json result) \<Rightarrow> string + command_output \<Rightarrow> string list result" where
  "discover_windows_terminal_tab_titles parse run =
    (case run of
       Inl err \<Rightarrow> Inl (''run PowerShell UIAutomation: '' @ err)
     | Inr out \<Rightarrow>
        if \<not> co_success out then Inl (''PowerShell UIAutomation failed: '' @ from_utf8_lossy (co_stderr out))
        else parse_json_string_list parse (co_stdout out))"

definition discover_terminal_titles ::
  "string list result \<Rightarrow> terminal_window list result \<Rightarrow> string list result" where
  "discover_terminal_titles tabs windows =
    (let tabs = (case tabs of Inl _ \<Rightarrow> [] | Inr ts \<Rightarrow> ts)
     in if tabs \<noteq> [] then Inr tabs
        else case windows of
          Inl err \<Rightarrow> Inl err
        | Inr ws \<Rightarrow> Inr (filter (\<lambda>t. trim t \<noteq> []) (map tw_title ws)))"

section \<open>The command line of the host\<close>

definition compact :: "string \<Rightarrow> string" where
  "compact v = replace_char (CHR 0x0A) '' '' (replace_char (CHR 0x0D) '' '' v)"

definition show_hwnd :: "64 word \<Rightarrow> string" where
  "show_hwnd h = ''0x'' @ show_base 16 (unat h)"

definition window_line :: "terminal_window \<Rightarrow> string" where
  "window_line w =
    ''hwnd='' @ show_hwnd (tw_hwnd w) @ '' pid='' @ show_nat (unat (tw_pid w)) @
    '' kind='' @ terminal_kind_as_str (tw_kind w) @ '' title='' @ compact (tw_title w) @
    '' exe='' @ compact (process_basename w)"

definition print_windows :: "terminal_window list \<Rightarrow> string list" where
  "print_windows ws = (''terminal windows: '' @ show_nat (length ws)) # map window_line ws"

definition agent_line :: "agent_session \<Rightarrow> string" where
  "agent_line s =
    ''kind='' @ agent_kind_as_str (as_kind s) @ '' status='' @ agent_status_as_str (as_status s) @
    '' id='' @ compact (as_agent_id s) @ '' name='' @ compact (as_name s) @
    '' hwnd='' @ (case as_terminal_hwnd s of None \<Rightarrow> ''unbound'' | Some h \<Rightarrow> show_hwnd h) @
    '' cwd='' @ compact (as_cwd s) @ '' transcript='' @ compact (as_transcript_path s)"

definition print_agents :: "agent_session list \<Rightarrow> string list" where
  "print_agents ss = (''agent sessions: '' @ show_nat (length ss)) # map agent_line ss"

definition activity_line :: "agent_activity \<Rightarrow> string" where
  "activity_line a =
    ''kind='' @ agent_kind_as_str (aa_kind a) @ '' activity='' @ agent_activity_kind_as_str (aa_activity a) @
    '' status='' @ agent_status_as_str (aa_status a) @ '' id='' @ compact (aa_agent_id a) @
    '' transcript='' @ compact (aa_transcript_path a)"

definition print_activities :: "agent_activity list \<Rightarrow> string list" where
  "print_activities as = (''agent activities: '' @ show_nat (length as)) # map activity_line as"

text \<open>\<open>print_path_check\<close>, with whether the path exists.\<close>

definition path_check_line :: "string \<Rightarrow> bool \<times> string \<Rightarrow> string" where
  "path_check_line label c =
    label @ '' ['' @ (if fst c then ''exists'' else ''missing'') @ ''] '' @ compact (snd c)"

definition print_sources :: "(bool \<times> string) list \<Rightarrow> (bool \<times> string) list \<Rightarrow> (bool \<times> string) list \<Rightarrow> string list" where
  "print_sources homes claude codex =
    (''agent homes: '' @ show_nat (length homes)) # map (path_check_line ''home'') homes @
    (''claude roots: '' @ show_nat (length claude)) # map (path_check_line ''claude'') claude @
    (''codex roots: '' @ show_nat (length codex)) # map (path_check_line ''codex'') codex"

definition print_processes :: "(agent_kind \<times> string) list \<Rightarrow> string list" where
  "print_processes ps = (''agent processes: '' @ show_nat (length ps)) #
    map (\<lambda>(k, cwd). ''kind='' @ agent_kind_as_str k @ '' cwd='' @ compact cwd) ps"

definition usize_of :: "parse_int_error + nat \<Rightarrow> 64 word option" where
  "usize_of r = (case r of Inl _ \<Rightarrow> None | Inr n \<Rightarrow> Some (of_nat n))"

definition parse_hwnd :: "string \<Rightarrow> 64 word option" where
  "parse_hwnd raw =
    (let trimmed = trim raw
     in case (case strip_prefix ''0x'' trimmed of Some h \<Rightarrow> Some h | None \<Rightarrow> strip_prefix ''0X'' trimmed) of
          Some hex \<Rightarrow> usize_of (from_str_radix 16 (2 ^ 64) hex)
        | None \<Rightarrow> usize_of (from_str_radix 10 (2 ^ 64) trimmed))"

text \<open>What a run prints, on either stream, and its exit code.\<close>

record run_result =
  rr_out :: "string list"
  rr_err :: "string list"
  rr_code :: nat

definition ran :: "string list \<Rightarrow> run_result" where
  "ran out = \<lparr>rr_out = out, rr_err = [], rr_code = 0\<rparr>"

definition ran_badly :: "nat \<Rightarrow> string \<Rightarrow> run_result" where
  "ran_badly code err = \<lparr>rr_out = [], rr_err = [err], rr_code = code\<rparr>"

definition run_focus :: "(64 word \<Rightarrow> unit result) \<Rightarrow> string list \<Rightarrow> run_result" where
  "run_focus focus args =
    (case args of
       [] \<Rightarrow> ran_badly 2 ''focus requires an HWND, e.g. 0x123456''
     | raw # _ \<Rightarrow>
        (case parse_hwnd raw of
           None \<Rightarrow> ran_badly 2 (''invalid HWND: '' @ raw)
         | Some hwnd \<Rightarrow>
            (case focus hwnd of
               Inl err \<Rightarrow> ran_badly 1 (''focus failed: '' @ err)
             | Inr _ \<Rightarrow> ran [])))"

text \<open>
  The monitor over the results of its polls (sessions and activities, or an error); \<open>None\<close>
  while it goes on polling.
\<close>

fun run_monitor ::
  "bool \<Rightarrow> string list \<Rightarrow> (agent_session list \<times> agent_activity list) result list \<Rightarrow> run_result option" where
  "run_monitor once out [] = None"
| "run_monitor once out (r # rs) =
    (case r of
       Inl err \<Rightarrow> Some \<lparr>rr_out = out, rr_err = [''monitor failed: '' @ err], rr_code = 1\<rparr>
     | Inr (sessions, activities) \<Rightarrow>
        (let out = out @ print_agents sessions @ print_activities activities
         in if once then Some (ran out) else run_monitor once out rs))"

definition run_listing :: "string \<Rightarrow> ('a \<Rightarrow> string list) \<Rightarrow> 'a result \<Rightarrow> run_result" where
  "run_listing what print r =
    (case r of Inl err \<Rightarrow> ran_badly 1 (what @ '' failed: '' @ err) | Inr x \<Rightarrow> ran (print x))"

definition run_tabs :: "string list result \<Rightarrow> run_result" where
  "run_tabs r = run_listing ''tabs''
    (\<lambda>titles. (''terminal titles: '' @ show_nat (length titles)) # map (\<lambda>t. ''title='' @ compact t) titles) r"

section \<open>Theorems\<close>

lemma fold_callback:
  "fold (enum_windows_callback p) ws acc = acc @ fold (enum_windows_callback p) ws []"
proof (induction ws arbitrary: acc)
  case (Cons w ws)
  have "enum_windows_callback p w acc = acc @ enum_windows_callback p w []"
    by (simp add: enum_windows_callback_def Let_def)
  then have "fold (enum_windows_callback p) (w # ws) acc =
      acc @ enum_windows_callback p w [] @ fold (enum_windows_callback p) ws []"
    using Cons[of "enum_windows_callback p w acc"] by simp
  also have "\<dots> = acc @ fold (enum_windows_callback p) (w # ws) []"
    using Cons[of "enum_windows_callback p w []"] by simp
  finally show ?case .
qed simp

definition window_of :: "process_facts \<Rightarrow> window_facts \<Rightarrow> terminal_window" where
  "window_of p w =
    (let path = (case query_process_path p (wf_pid w) of None \<Rightarrow> [] | Some s \<Rightarrow> s)
     in \<lparr>tw_hwnd = wf_hwnd w, tw_pid = wf_pid w, tw_title = window_title w, tw_process_path = path,
          tw_kind = classify_terminal_process path (window_title w)\<rparr>)"

definition shown_terminal :: "process_facts \<Rightarrow> window_facts \<Rightarrow> bool" where
  "shown_terminal p w \<longleftrightarrow> wf_visible w \<and> trim (window_title w) \<noteq> [] \<and> wf_pid w \<noteq> 0 \<and>
     is_terminal_candidate (window_of p w)"

lemma discovered_windows:
  "fold (enum_windows_callback p) ws [] = map (window_of p) (filter (shown_terminal p) ws)"
proof (induction ws)
  case (Cons w ws)
  have "enum_windows_callback p w [] = (if shown_terminal p w then [window_of p w] else [])"
    by (auto simp: enum_windows_callback_def shown_terminal_def window_of_def Let_def)
  then show ?case using fold_callback[of p ws "enum_windows_callback p w []"] Cons by simp
qed simp

lemma hwnd_text:
  assumes "x \<in> {CHR ''x'', CHR ''X''}"
  shows "trim (CHR ''0'' # x # show_base 16 n) = CHR ''0'' # x # show_base 16 n"
proof (rule trim_solid)
  have "solid (CHR ''0'')" by code_simp
  then show "solid (hd (CHR ''0'' # x # show_base 16 n))" by simp
  show "solid (last (CHR ''0'' # x # show_base 16 n))"
    using show_base_nonempty digit_solid[of "n mod 16"] by (simp add: last_show_base)
qed simp

text \<open>
  Discovery lists exactly the visible, titled windows of live processes that are terminals,
  in the order the system enumerates them; and what it prints of a window can be given back:
  the number printed for any window handle is read as that handle, in lower or upper case.
\<close>
theorem discovered_windows_can_be_focused:
  "discover_terminal_windows p (Some ws) = Inr (map (window_of p) (filter (shown_terminal p) ws)) \<and>
   parse_hwnd (show_hwnd h) = Some h \<and> parse_hwnd (''0X'' @ show_base 16 (unat h)) = Some h"
proof -
  have "unat h < 2 ^ 64" using unsigned_less[of h, where 'a = nat] by simp
  then have r: "from_str_radix 16 (2 ^ 64) (show_base 16 (unat h)) = Inr (unat h)"
    by (intro from_str_radix_show_base) auto
  have "strip_prefix ''0x'' (show_hwnd h) = Some (show_base 16 (unat h))"
    "strip_prefix ''0x'' (''0X'' @ show_base 16 (unat h)) = None"
    "strip_prefix ''0X'' (''0X'' @ show_base 16 (unat h)) = Some (show_base 16 (unat h))"
    by (simp_all add: strip_prefix_def show_hwnd_def)
  moreover have "trim (show_hwnd h) = show_hwnd h"
    "trim (''0X'' @ show_base 16 (unat h)) = ''0X'' @ show_base 16 (unat h)"
    by (simp_all add: show_hwnd_def hwnd_text)
  ultimately show ?thesis
    using r by (simp add: discover_terminal_windows_def discovered_windows parse_hwnd_def usize_of_def)
qed

end
