(* ===== verification/Platform_Layer.thy ===== *)
theory Platform_Layer
  imports Terminal_Windows
begin

text \<open>
  The operating-system layer of \<open>crates/vb-platform\<close>: the errors, the Windows implementation
  (processes, terminal windows, typing text, signals), the Linux one and the in-memory one.
  System calls answer with the values given. The macOS file is a stub like the Linux window
  functions and is not modelled.
\<close>

section \<open>Shared types\<close>

record process_info =
  pi_pid :: "32 word"
  pi_name :: string
  pi_path :: string

record window_handle =
  wh_raw :: "64 word"
  wh_pid :: "32 word"

datatype signal = Interrupt | Terminate

datatype platform_error = Unsupported string | PlatformIo string | NotFound

definition platform_error_display :: "platform_error \<Rightarrow> string" where
  "platform_error_display e = (case e of
      Unsupported what \<Rightarrow> ''platform unsupported: '' @ what
    | PlatformIo msg \<Rightarrow> ''platform io: '' @ msg
    | NotFound \<Rightarrow> ''platform target not found'')"

section \<open>UTF-16\<close>

text \<open>The code point of one encoded character, and \<open>str::encode_utf16\<close>.\<close>

definition code_point :: "bytes \<Rightarrow> nat" where
  "code_point bs = (case map unat bs of
      [a] \<Rightarrow> a
    | [a, b] \<Rightarrow> (a - 0xC0) * 64 + (b - 0x80)
    | [a, b, c] \<Rightarrow> (a - 0xE0) * 4096 + (b - 0x80) * 64 + (c - 0x80)
    | [a, b, c, d] \<Rightarrow> (a - 0xF0) * 262144 + (b - 0x80) * 4096 + (c - 0x80) * 64 + (d - 0x80)
    | _ \<Rightarrow> 0)"

definition utf16_units :: "nat \<Rightarrow> nat list" where
  "utf16_units c =
    (if c < 0x10000 then [c]
     else [0xD800 + (c - 0x10000) div 0x400, 0xDC00 + (c - 0x10000) mod 0x400])"

function code_points :: "bytes \<Rightarrow> nat list" where
  "code_points bs =
    (if utf8_step bs = 0 then []
     else code_point (take (utf8_step bs) bs) # code_points (drop (utf8_step bs) bs))"
  by pat_completeness auto
termination
proof (relation "measure length")
  fix bs :: bytes assume "utf8_step bs \<noteq> 0"
  then show "(drop (utf8_step bs) bs, bs) \<in> measure length" by (cases bs) auto
qed simp

declare code_points.simps [simp del]

definition encode_utf16 :: "string \<Rightarrow> 16 word list" where
  "encode_utf16 s = map of_nat (concat (map utf16_units (code_points (as_bytes s))))"

section \<open>Windows\<close>

definition wide_z_to_string :: "16 word list \<Rightarrow> string" where
  "wide_z_to_string buf = from_utf16_lossy (takeWhile (\<lambda>c. c \<noteq> 0) buf)"

definition platform_process_path :: "process_facts \<Rightarrow> 32 word \<Rightarrow> platform_error + string" where
  "platform_process_path p pid =
    (if \<not> pf_can_open p pid then Inl NotFound
     else case pf_image_name p pid of None \<Rightarrow> Inl NotFound | Some us \<Rightarrow> Inr (from_utf16_lossy us))"

definition path_or_empty :: "platform_error + string \<Rightarrow> string" where
  "path_or_empty r = (case r of Inl _ \<Rightarrow> [] | Inr s \<Rightarrow> s)"

text \<open>\<open>entries\<close>: what \<open>Process32FirstW\<close> and \<open>Process32NextW\<close> deliver until they fail.\<close>

definition enumerate_processes ::
  "process_facts \<Rightarrow> (32 word \<times> 16 word list) list option \<Rightarrow> platform_error + process_info list" where
  "enumerate_processes p snapshot =
    (case snapshot of
       None \<Rightarrow> Inl (PlatformIo ''CreateToolhelp32Snapshot failed'')
     | Some entries \<Rightarrow> Inr (map (\<lambda>(pid, exe). \<lparr>pi_pid = pid, pi_name = wide_z_to_string exe,
         pi_path = path_or_empty (platform_process_path p pid)\<rparr>) entries))"

definition classify_terminal :: "string \<Rightarrow> string \<Rightarrow> terminal_kind" where
  "classify_terminal title path =
    (if str_contains path ''windowsterminal'' \<or> str_contains title ''windows terminal'' then WindowsTerminal
     else if str_contains path ''conhost'' then ConsoleHost
     else if str_contains path ''powershell'' \<or> str_contains path ''pwsh'' then PowerShell
     else if str_contains path (CHR 0x5C # ''cmd.exe'') \<or> ends_with path ''/cmd.exe'' then Cmd
     else if str_contains path (CHR 0x5C # ''wsl.exe'') \<or> str_contains title ''@'' then Wsl
     else if str_contains title ''claude'' \<or> str_contains title ''codex'' then TerminalLike
     else UnknownTerminal)"

definition enum_window_proc ::
  "process_facts \<Rightarrow> window_facts \<Rightarrow> terminal_window list \<Rightarrow> terminal_window list" where
  "enum_window_proc p w windows =
    (if \<not> wf_visible w then windows
     else if wf_text_len w \<le> 0 then windows
     else if wf_text w = [] then windows
     else let title = from_utf16_lossy (wf_text w)
       in if wf_pid w = 0 then windows
          else let process_path = path_or_empty (platform_process_path p (wf_pid w));
                   kind = classify_terminal (to_ascii_lowercase title) (to_ascii_lowercase process_path)
               in if kind = UnknownTerminal then windows
                  else windows @ [\<lparr>tw_hwnd = wf_hwnd w, tw_pid = wf_pid w, tw_title = title,
                    tw_process_path = process_path, tw_kind = kind\<rparr>])"

definition enumerate_terminal_windows :: "process_facts \<Rightarrow> window_facts list \<Rightarrow> terminal_window list" where
  "enumerate_terminal_windows p ws = fold (enum_window_proc p) ws []"

definition platform_focus_window :: "bool \<Rightarrow> platform_error + unit" where
  "platform_focus_window foreground_ok = (if foreground_ok then Inr () else Inl NotFound)"

section \<open>Typing\<close>

definition KEYEVENTF_KEYUP :: "32 word" where "KEYEVENTF_KEYUP = 2"

definition KEYEVENTF_UNICODE :: "32 word" where "KEYEVENTF_UNICODE = 4"

record key_event =
  ke_unit :: "16 word"
  ke_flags :: "32 word"

definition key_input :: "16 word \<Rightarrow> bool \<Rightarrow> key_event" where
  "key_input u key_up =
    \<lparr>ke_unit = u, ke_flags = (if key_up then KEYEVENTF_UNICODE OR KEYEVENTF_KEYUP else KEYEVENTF_UNICODE)\<rparr>"

definition key_inputs :: "string \<Rightarrow> key_event list" where
  "key_inputs txt = concat (map (\<lambda>u. [key_input u False, key_input u True]) (encode_utf16 txt))"

text \<open>
  \<open>sent\<close>: how many events \<open>SendInput\<close> accepts. The result, and the events handed to it when it
  is called.
\<close>

definition send_keystroke ::
  "bool \<Rightarrow> 32 word \<Rightarrow> string \<Rightarrow> (platform_error + unit) \<times> key_event list option" where
  "send_keystroke focus_ok sent txt =
    (case platform_focus_window focus_ok of
       Inl e \<Rightarrow> (Inl e, None)
     | Inr _ \<Rightarrow>
        (let inputs = key_inputs txt
         in if inputs = [] then (Inr (), None)
            else (if sent = of_nat (length inputs) then Inr ()
                  else Inl (PlatformIo (''SendInput sent '' @ show_nat (unat sent) @ ''/'' @
                         show_nat (length inputs) @ '' events'')), Some inputs)))"

section \<open>Signals\<close>

text \<open>\<open>attached\<close> and \<open>opened\<close>: whether the first call succeeded; \<open>done_ok\<close>: the second.\<close>

definition send_ctrl_c :: "bool \<Rightarrow> bool \<Rightarrow> platform_error + unit" where
  "send_ctrl_c attached done_ok =
    (if \<not> attached then Inl NotFound
     else if \<not> done_ok then Inl (PlatformIo ''GenerateConsoleCtrlEvent failed'') else Inr ())"

definition terminate_process :: "bool \<Rightarrow> bool \<Rightarrow> platform_error + unit" where
  "terminate_process opened done_ok =
    (if \<not> opened then Inl NotFound
     else if \<not> done_ok then Inl (PlatformIo ''TerminateProcess failed'') else Inr ())"

definition send_signal :: "signal \<Rightarrow> bool \<Rightarrow> bool \<Rightarrow> platform_error + unit" where
  "send_signal sig opened done_ok =
    (case sig of Interrupt \<Rightarrow> send_ctrl_c opened done_ok | Terminate \<Rightarrow> terminate_process opened done_ok)"

section \<open>Linux\<close>

text \<open>
  An entry of \<open>/proc\<close>: an unreadable one, or its name; \<open>comm\<close> and \<open>exe\<close> read the files of a
  process, when they can be read.
\<close>

definition linux_process ::
  "(32 word \<Rightarrow> string option) \<Rightarrow> (32 word \<Rightarrow> string option) \<Rightarrow> string option \<Rightarrow> process_info list" where
  "linux_process comm exe entry =
    (case entry of
       None \<Rightarrow> []
     | Some name \<Rightarrow>
        (case parse_u32 name of
           Inl _ \<Rightarrow> []
         | Inr pid \<Rightarrow>
            (let c = trim (case comm pid of None \<Rightarrow> [] | Some t \<Rightarrow> t);
                 e = (case exe pid of None \<Rightarrow> [] | Some t \<Rightarrow> t)
             in if c = [] \<and> e = [] then []
                else [\<lparr>pi_pid = pid, pi_name = c, pi_path = e\<rparr>])))"

definition linux_enumerate_processes ::
  "(32 word \<Rightarrow> string option) \<Rightarrow> (32 word \<Rightarrow> string option) \<Rightarrow> string + string option list \<Rightarrow>
   platform_error + process_info list" where
  "linux_enumerate_processes comm exe dir =
    (case dir of
       Inl err \<Rightarrow> Inl (PlatformIo err)
     | Inr entries \<Rightarrow> Inr (concat (map (linux_process comm exe) entries)))"

definition linux_enumerate_terminal_windows :: "platform_error + terminal_window list" where
  "linux_enumerate_terminal_windows =
    Inl (Unsupported ''Linux terminal enumeration pending xdotool/wlroots integration'')"

definition linux_focus_window :: "window_handle \<Rightarrow> platform_error + unit" where
  "linux_focus_window h = Inl (Unsupported ''Linux focus_window pending xdotool/wlroots integration'')"

definition linux_send_keystroke :: "window_handle \<Rightarrow> string \<Rightarrow> platform_error + unit" where
  "linux_send_keystroke h txt =
    Inl (Unsupported ''Linux send_keystroke pending xdotool/ydotool integration'')"

text \<open>The arguments of \<open>kill\<close>, and the result from how the command ended.\<close>

definition linux_kill_args :: "32 word \<Rightarrow> signal \<Rightarrow> string list" where
  "linux_kill_args pid sig =
    [(case sig of Interrupt \<Rightarrow> ''-INT'' | Terminate \<Rightarrow> ''-TERM''), show_nat (unat pid)]"

definition linux_send_signal :: "string + bool \<Rightarrow> platform_error + unit" where
  "linux_send_signal status =
    (case status of Inl err \<Rightarrow> Inl (PlatformIo err) | Inr success \<Rightarrow> if success then Inr () else Inl NotFound)"

section \<open>In memory\<close>

record mock_platform =
  mp_processes :: "process_info list"
  mp_windows :: "terminal_window list"
  mp_focus_calls :: "window_handle list"
  mp_keystrokes :: "(window_handle \<times> string) list"
  mp_signals :: "(32 word \<times> signal) list"

definition mock_focus_window :: "window_handle \<Rightarrow> mock_platform \<Rightarrow> (platform_error + unit) \<times> mock_platform" where
  "mock_focus_window h m = (Inr (), m\<lparr>mp_focus_calls := mp_focus_calls m @ [h]\<rparr>)"

definition mock_send_keystroke ::
  "window_handle \<Rightarrow> string \<Rightarrow> mock_platform \<Rightarrow> (platform_error + unit) \<times> mock_platform" where
  "mock_send_keystroke h txt m = (Inr (), m\<lparr>mp_keystrokes := mp_keystrokes m @ [(h, txt)]\<rparr>)"

definition mock_send_signal ::
  "32 word \<Rightarrow> signal \<Rightarrow> mock_platform \<Rightarrow> (platform_error + unit) \<times> mock_platform" where
  "mock_send_signal pid sig m = (Inr (), m\<lparr>mp_signals := mp_signals m @ [(pid, sig)]\<rparr>)"

section \<open>Lemmas: UTF-16\<close>

text \<open>The numeric content of one well-formed character.\<close>

lemma byte_of_unat: "of_nat (unat (b :: byte)) = b"
  by simp

lemma cont_unat: "cont b \<longleftrightarrow> 0x80 \<le> unat b \<and> unat b \<le> 0xBF"
  by (simp add: cont_def word_le_nat_alt)

definition scalar :: "nat \<Rightarrow> bool" where
  "scalar c \<longleftrightarrow> c < 0x110000 \<and> \<not> (0xD800 \<le> c \<and> c \<le> 0xDFFF)"

lemma digit_64: "z < 64 \<Longrightarrow> (k * 64 + z) div 64 = k" "z < 64 \<Longrightarrow> (k * 64 + z) mod 64 = (z :: nat)"
  by simp_all

lemma char_2:
  assumes "lead_len a = 2" "cont b"
  shows "encode_utf8_char (code_point [a, b]) = [a, b] \<and> scalar (code_point [a, b])"
proof -
  define x y where xy: "x = unat a - 0xC0" "y = unat b - 0x80"
  have a: "0xC2 \<le> unat a" "unat a \<le> 0xDF"
    using assms(1) by (auto simp: lead_len_def between_def word_le_nat_alt split: if_splits)
  have b: "0x80 \<le> unat b" "unat b \<le> 0xBF" using assms(2) by (auto simp: cont_unat)
  have u: "unat a = 0xC0 + x" "unat b = 0x80 + y" and r: "2 \<le> x" "x \<le> 31" "y < 64" using a b by (auto simp: xy)
  have w: "of_nat (0xC0 + x) = a" "of_nat (0x80 + y) = b" unfolding u[symmetric] by simp_all
  have c: "code_point [a, b] = x * 64 + y" by (simp add: code_point_def xy)
  have "(x * 64 + y) div 64 = x" "(x * 64 + y) mod 64 = y" using r by simp_all
  then show ?thesis unfolding c using r w by (simp add: encode_utf8_char_def scalar_def)
qed

lemma char_1:
  assumes "lead_len a = 1"
  shows "encode_utf8_char (code_point [a]) = [a] \<and> scalar (code_point [a])"
proof -
  have "unat a \<le> 0x7F" using assms by (auto simp: lead_len_def between_def word_le_nat_alt split: if_splits)
  then show ?thesis by (simp add: code_point_def encode_utf8_char_def scalar_def)
qed

lemma char_3:
  assumes "lead_len a = 3" "cont b" "cont c" "second_ok a b"
  shows "encode_utf8_char (code_point [a, b, c]) = [a, b, c] \<and> scalar (code_point [a, b, c])"
proof -
  define x y z where xyz: "x = unat a - 0xE0" "y = unat b - 0x80" "z = unat c - 0x80"
  have a: "0xE0 \<le> unat a" "unat a \<le> 0xEF"
    using assms(1) by (auto simp: lead_len_def between_def word_le_nat_alt split: if_splits)
  have b: "0x80 \<le> unat b" "unat b \<le> 0xBF" "0x80 \<le> unat c" "unat c \<le> 0xBF"
    using assms(2,3) by (auto simp: cont_unat)
  have u: "unat a = 0xE0 + x" "unat b = 0x80 + y" "unat c = 0x80 + z" and r: "x \<le> 15" "y < 64" "z < 64"
    using a b by (auto simp: xyz)
  have s: "x = 0 \<longrightarrow> 32 \<le> y" "x = 13 \<longrightarrow> y < 32"
    using assms(4) u by (auto simp: second_ok_def word_le_nat_alt word_unat_eq_iff)
  have w: "of_nat (0xE0 + x) = a" "of_nat (0x80 + y) = b" "of_nat (0x80 + z) = c" unfolding u[symmetric] by simp_all
  let ?n = "x * 4096 + y * 64 + z"
  have c: "code_point [a, b, c] = ?n" by (simp add: code_point_def xyz)
  have e: "?n = (x * 64 + y) * 64 + z" by simp
  have q: "?n div 64 = x * 64 + y" "?n mod 64 = z" unfolding e using r digit_64 by blast+
  have "?n div 4096 = ?n div 64 div 64" by (simp add: div_mult2_eq[symmetric])
  then have d: "?n div 4096 = x" "?n div 64 mod 64 = y" "?n mod 64 = z" using q r digit_64 by simp_all
  have "x \<le> 12 \<or> x = 13 \<and> y < 32 \<or> 14 \<le> x" using s by linarith
  then have "\<not> (0xD800 \<le> ?n \<and> ?n \<le> 0xDFFF)" using r by linarith
  moreover have "0x800 \<le> ?n" "?n < 0x10000" using s r by (cases "x = 0"; linarith)+
  ultimately have "scalar ?n" "0x800 \<le> ?n" "?n < 0x10000" by (auto simp: scalar_def)
  then show ?thesis unfolding c using d w by (simp add: encode_utf8_char_def)
qed

lemma char_4:
  assumes "lead_len a = 4" "cont b" "cont c" "cont e" "second_ok a b"
  shows "encode_utf8_char (code_point [a, b, c, e]) = [a, b, c, e] \<and> scalar (code_point [a, b, c, e])"
proof -
  define x y z v where xyz: "x = unat a - 0xF0" "y = unat b - 0x80" "z = unat c - 0x80" "v = unat e - 0x80"
  have a: "0xF0 \<le> unat a" "unat a \<le> 0xF4"
    using assms(1) by (auto simp: lead_len_def between_def word_le_nat_alt split: if_splits)
  have b: "0x80 \<le> unat b" "unat b \<le> 0xBF" "0x80 \<le> unat c" "unat c \<le> 0xBF" "0x80 \<le> unat e" "unat e \<le> 0xBF"
    using assms(2-4) by (auto simp: cont_unat)
  have u: "unat a = 0xF0 + x" "unat b = 0x80 + y" "unat c = 0x80 + z" "unat e = 0x80 + v"
    and r: "x \<le> 4" "y < 64" "z < 64" "v < 64" using a b by (auto simp: xyz)
  have s: "x = 0 \<longrightarrow> 16 \<le> y" "x = 4 \<longrightarrow> y < 16"
    using assms(5) u by (auto simp: second_ok_def word_le_nat_alt word_unat_eq_iff)
  have w: "of_nat (0xF0 + x) = a" "of_nat (0x80 + y) = b" "of_nat (0x80 + z) = c" "of_nat (0x80 + v) = e"
    unfolding u[symmetric] by simp_all
  let ?n = "x * 262144 + y * 4096 + z * 64 + v"
  have c: "code_point [a, b, c, e] = ?n" by (simp add: code_point_def xyz)
  have e: "?n = ((x * 64 + y) * 64 + z) * 64 + v" by simp
  have q: "?n div 64 = (x * 64 + y) * 64 + z" and m: "?n mod 64 = v" unfolding e using r digit_64 by blast+
  have q2: "?n div 4096 = x * 64 + y"
    using q r div_mult2_eq[of ?n 64 64] by simp
  have q3: "?n div 262144 = x"
    using q2 r div_mult2_eq[of ?n 4096 64] by simp
  have d: "?n div 64 mod 64 = z" "?n div 4096 mod 64 = y" unfolding q q2 using r digit_64 by blast+
  have "scalar ?n" "0x10000 \<le> ?n" using s r by (auto simp: scalar_def)
  then show ?thesis unfolding c using d w m q3 by (simp add: encode_utf8_char_def)
qed

lemma encode_code_point:
  assumes "utf8_step bs \<noteq> 0"
  shows "encode_utf8_char (code_point (take (utf8_step bs) bs)) = take (utf8_step bs) bs \<and>
    scalar (code_point (take (utf8_step bs) bs))"
proof (cases bs)
  case (Cons b r)
  define n where "n = lead_len b"
  have nz: "utf8_step (b # r) \<noteq> 0" using assms Cons by simp
  then have n: "utf8_step bs = n" "0 < n" and l: "n - 1 \<le> length r" and ct: "list_all cont (take (n - 1) r)"
    and ok: "2 \<le> n \<longrightarrow> second_ok b (r ! 0)"
    using utf8_step_value[OF nz] nz utf8_step_nonzero[of b r] Cons by (simp_all add: n_def)
  have "n \<in> {1, 2, 3, 4}" using n(2) by (auto simp: n_def lead_len_def split: if_splits)
  then consider "n = 1" | "n = 2" | "n = 3" | "n = 4" by blast
  then show ?thesis
  proof cases
    case 1
    then show ?thesis using char_1[of b] n(1) Cons by (simp add: n_def)
  next
    case 2
    then obtain c r' where "r = c # r'" using l by (cases r) auto
    then show ?thesis using char_2[of b c] 2 n(1) ct Cons by (simp add: n_def numeral_eq_Suc)
  next
    case 3
    then obtain c d r' where "r = c # d # r'" using l by (cases r; cases "tl r") auto
    then show ?thesis using char_3[of b c d] 3 n(1) ct ok Cons by (simp add: n_def numeral_eq_Suc)
  next
    case 4
    then have "3 \<le> length r" using l by simp
    then obtain c d e r' where "r = c # d # e # r'" by (auto simp: numeral_eq_Suc Suc_le_length_iff)
    then show ?thesis using char_4[of b c d e] 4 n(1) ct ok Cons by (simp add: n_def numeral_eq_Suc)
  qed
qed (use assms in simp)

lemma code_points_encode:
  "utf8_valid bs \<Longrightarrow> concat (map encode_utf8_char (code_points bs)) = bs \<and> list_all scalar (code_points bs)"
proof (induction bs rule: code_points.induct)
  case (1 bs)
  show ?case
  proof (cases "bs = []")
    case False
    with "1.prems" have nz: "utf8_step bs \<noteq> 0" and v: "utf8_valid (drop (utf8_step bs) bs)"
      by (auto simp: utf8_valid_step)
    show ?thesis
      using "1.IH"[OF nz v] encode_code_point[OF nz] nz by (subst (1 2) code_points.simps) simp
  qed (simp add: code_points.simps)
qed

lemma utf16_chars_units: "scalar c \<Longrightarrow> utf16_chars (utf16_units c @ us) = c # utf16_chars us"
proof (cases "c < 0x10000")
  case True
  moreover assume "scalar c"
  ultimately have "\<not> is_high_surrogate c" "\<not> is_low_surrogate c"
    by (auto simp: scalar_def is_high_surrogate_def is_low_surrogate_def)
  with True show ?thesis by (cases us) (auto simp: utf16_units_def)
next
  case False
  assume "scalar c"
  then have b: "(c - 0x10000) div 0x400 < 0x400" using False by (auto simp: scalar_def)
  have "is_high_surrogate (0xD800 + (c - 0x10000) div 0x400)" "is_low_surrogate (0xDC00 + (c - 0x10000) mod 0x400)"
    using b by (auto simp: is_high_surrogate_def is_low_surrogate_def)
  moreover have "(c - 0x10000) div 0x400 * 0x400 + (c - 0x10000) mod 0x400 = c - 0x10000" by simp
  ultimately show ?thesis using False by (simp add: utf16_units_def)
qed

lemma utf16_chars_concat: "list_all scalar cs \<Longrightarrow> utf16_chars (concat (map utf16_units cs)) = cs"
  by (induction cs) (simp_all add: utf16_chars_units)

lemma units_small: "scalar c \<Longrightarrow> u \<in> set (utf16_units c) \<Longrightarrow> u < 2 ^ 16"
  by (auto simp: utf16_units_def scalar_def split: if_splits)

lemma from_utf16_encode:
  assumes "valid_str s"
  shows "from_utf16_lossy (encode_utf16 s) = s"
proof -
  let ?cs = "code_points (as_bytes s)"
  have c: "concat (map encode_utf8_char ?cs) = as_bytes s" "list_all scalar ?cs"
    using code_points_encode assms by (auto simp: valid_str_def)
  have "unat (of_nat u :: 16 word) = u" if "u \<in> set (concat (map utf16_units ?cs))" for u
    using that c(2) units_small by (auto simp: list_all_iff unat_of_nat)
  then have "map unat (encode_utf16 s) = concat (map utf16_units ?cs)"
    unfolding encode_utf16_def map_map comp_def by (intro map_idI) auto
  then show ?thesis using c utf16_chars_concat by (simp add: from_utf16_lossy_def)
qed

section \<open>Theorems\<close>

definition key_down :: "key_event \<Rightarrow> bool" where
  "key_down e \<longleftrightarrow> ke_flags e AND KEYEVENTF_KEYUP = 0"

lemma key_down_input [simp]: "key_down (key_input u up) \<longleftrightarrow> \<not> up"
  by (cases up) (simp_all add: key_down_def key_input_def KEYEVENTF_KEYUP_def KEYEVENTF_UNICODE_def)

lemma down_units: "map ke_unit (filter key_down (concat (map (\<lambda>u. [key_input u False, key_input u True]) us))) = us"
  by (induction us) (simp_all add: key_input_def key_down_def KEYEVENTF_KEYUP_def KEYEVENTF_UNICODE_def)

text \<open>
  C34: typing a text into a window. The keys pressed spell the text for any text at all, beyond
  the basic plane included; every key pressed is released before the next; events are handed to
  the system only when the window could be focused and there is something to type, and success
  means that all of them were accepted.
\<close>
theorem keystrokes_spell_the_text:
  assumes "valid_str txt"
  shows "from_utf16_lossy (map ke_unit (filter key_down (key_inputs txt))) = txt \<and>
    key_inputs txt = concat (map (\<lambda>u. [key_input u False, key_input u True]) (encode_utf16 txt)) \<and>
    (case send_keystroke focus_ok sent txt of (r, handed) \<Rightarrow>
      handed = (if focus_ok \<and> txt \<noteq> [] then Some (key_inputs txt) else None) \<and>
      (r = Inr () \<longleftrightarrow> focus_ok \<and> (txt = [] \<or> sent = of_nat (length (key_inputs txt)))))"
proof -
  have t: "from_utf16_lossy (map ke_unit (filter key_down (key_inputs txt))) = txt"
    using from_utf16_encode[OF assms] by (simp add: key_inputs_def down_units)
  have e: "key_inputs txt = [] \<longleftrightarrow> txt = []"
  proof
    assume "key_inputs txt = []"
    then have "txt = from_utf16_lossy []" using t by simp
    then show "txt = []" by (simp add: from_utf16_lossy_def of_bytes_def)
  next
    assume "txt = []"
    then show "key_inputs txt = []" by (simp add: key_inputs_def encode_utf16_def code_points.simps)
  qed
  show ?thesis
    using t e by (auto simp: send_keystroke_def platform_focus_window_def Let_def key_inputs_def)
qed

lemma keystrokes_spell_the_text_witness: "snd (send_keystroke True 4 ''ls'') = Some (key_inputs ''ls'')"
proof -
  have "valid_str ''ls''" by code_simp
  from keystrokes_spell_the_text[OF this, of True 4] show ?thesis by (auto split: prod.splits)
qed

end
