(* ===== verification/Shell_Scripts.thy ===== *)
theory Shell_Scripts
  imports Launch_Options
begin

text \<open>
  The scripts and command files that \<open>crates/vb-daemon/src/main.rs\<close> writes for other programs to
  run: the entry script of a captured WSL shell, the installation and removal of the shell
  integration and of the agent wrappers in a distribution, the script that starts an agent
  there, and the \<open>.cmd\<close> files on the Windows side. They are texts with a few values spliced in;
  what runs them is not modelled, except how a shell reads the quoted values.
\<close>

section \<open>Literal text\<close>

text \<open>In a literal line a tilde stands for a double quote, Y for a single one, Z for a backslash.\<close>

definition stand_in :: "char \<Rightarrow> char" where
  "stand_in c = (if c = CHR ''~'' then CHR 0x22 else if c = CHR ''Y'' then CHR 0x27
     else if c = CHR ''Z'' then CHR 0x5C else c)"

definition lit :: "string \<Rightarrow> string" where
  "lit s = map stand_in s"

definition text_lines :: "string list \<Rightarrow> string" where
  "text_lines ls = concat (map (\<lambda>l. l @ [CHR 0x0A]) ls)"

definition crlf_lines :: "string list \<Rightarrow> string" where
  "crlf_lines ls = concat (map (\<lambda>l. l @ [CHR 0x0D, CHR 0x0A]) ls)"

section \<open>Paths\<close>

definition is_ascii_alphabetic :: "char \<Rightarrow> bool" where
  "is_ascii_alphabetic c \<longleftrightarrow> (let n = of_char c :: nat in (65 \<le> n \<and> n \<le> 90) \<or> (97 \<le> n \<and> n \<le> 122))"

definition windows_path_to_wsl_path :: "string \<Rightarrow> string option" where
  "windows_path_to_wsl_path path =
    (let raw = or_else (strip_prefix [CHR 0x5C, CHR 0x5C, CHR ''?'', CHR 0x5C] path) path
     in case raw of
          drive # colon # rest \<Rightarrow>
            if \<not> is_ascii_alphabetic (ascii_lower_char drive) \<or> colon \<noteq> CHR '':'' then None
            else Some (''/mnt/'' @ ascii_lower_char drive # replace_char (CHR 0x5C) ''/'' rest)
        | _ \<Rightarrow> None)"

definition strip_windows_verbatim_prefix :: "string \<Rightarrow> string" where
  "strip_windows_verbatim_prefix path =
    (case strip_prefix [CHR 0x5C, CHR 0x5C, CHR ''?'', CHR 0x5C] path of
       Some r \<Rightarrow> r
     | None \<Rightarrow> or_else (strip_prefix [CHR 0x5C, CHR ''?'', CHR ''?'', CHR 0x5C] path) path)"

definition shell_display_path :: "string \<Rightarrow> string" where
  "shell_display_path path = strip_windows_verbatim_prefix path"

section \<open>Scripts for WSL\<close>

definition wsl_terminal_entry_script :: "string \<Rightarrow> string \<Rightarrow> string" where
  "wsl_terminal_entry_script addr parent_agent_id = text_lines
    (map lit
      [''set -eu''] @
     [lit ''VB_ADDR='' @ sh_quote addr] @
     [lit ''VB_PARENT='' @ sh_quote parent_agent_id] @
     map lit
      [''SHIM_DIR=~${TMPDIR:-/tmp}/vibe-bridge-shims-${VB_PARENT}-$$~'',
       ''mkdir -p ~$SHIM_DIR~'',
       [],
       ''make_shim() {'',
       ''  name=~$1~'',
       ''  cat > ~$SHIM_DIR/$name~ <<YWRAPY'',
       ''#!/usr/bin/env bash'',
       ''# vibe-bridge WSL transient agent shim'',
       ''set -u'',
       ''cmd=~$(basename ~$0~)~'',
       ''shim_dir=~${VIBE_BRIDGE_WSL_SHIM_DIR:-}~'',
       ''agent_id=~launch-wsl-${cmd}-$$~'',
       ''parent=~${VIBE_BRIDGE_TERMINAL_AGENT_ID:-}~'',
       ''daemon=~${VIBE_BRIDGE_DAEMON:-127.0.0.1:8765}~'',
       ''host=~${daemon%:*}~'',
       ''port=~${daemon##*:}~'',
       ''shell_integration=~$HOME/.local/share/vibe-bridge/shell-integration/bin/$cmd~'',
       [],
       ''if [ -x ~$shell_integration~ ] && [ ~$shell_integration~ != ~$0~ ]; then'',
       ''  exec ~$shell_integration~ ~$@~'',
       ''fi'',
       [],
       ''is_vibe_wrapper() {'',
       ''  [ -f ~$1~ ] && grep -q Yvibe-bridge WSL .*agent shimZ|vibe-bridge WSL agent wrapperY ~$1~ 2>/dev/null'',
       ''}'',
       [],
       ''find_real() {'',
       ''  local old_ifs=~$IFS~'',
       ''  local dir candidate'',
       ''  IFS=:'',
       ''  for dir in $PATH; do'',
       ''    [ -n ~$dir~ ] || dir=.'',
       ''    [ -n ~$shim_dir~ ] && [ ~$dir~ = ~$shim_dir~ ] && continue'',
       ''    candidate=~$dir/$cmd~'',
       ''    if [ -x ~$candidate~ ] && ! is_vibe_wrapper ~$candidate~; then'',
       ''      printf Y%sZnY ~$candidate~'',
       ''      IFS=~$old_ifs~'',
       ''      return 0'',
       ''    fi'',
       ''  done'',
       ''  IFS=~$old_ifs~'',
       ''  return 1'',
       ''}'',
       [],
       ''send_daemon() {'',
       ''  local json=~$1~'',
       ''  if { exec 9<>~/dev/tcp/$host/$port~; } 2>/dev/null; then'',
       ''    printf Y%sZnY ~$json~ >&9 || true'',
       ''    IFS= read -r _ <&9 || true'',
       ''    exec 9>&- 9<&- || true'',
       ''  fi'',
       ''}'',
       [],
       ''register_agent() {'',
       ''  [ -n ~$parent~ ] || return 0'',
       ''  send_daemon ~$(printf Y{~type~:~agent.register~,~agent~:{~agentId~:~%s~,~kind~:~%s~,~name~:~%s~,~cwd~:~~,~fromLaunch~:true,~parentKind~:~terminal~,~parentAgentId~:~%s~}}Y ~$agent_id~ ~$cmd~ ~$cmd~ ~$parent~)~'',
       ''}'',
       [],
       ''abort_agent() {'',
       ''  send_daemon ~$(printf Y{~type~:~session.abort~,~abort~:{~agentId~:~%s~,~kind~:~%s~}}Y ~$agent_id~ ~$cmd~)~'',
       ''}'',
       [],
       ''real=~$(find_real || true)~'',
       ''if [ -z ~$real~ ]; then'',
       ''  echo ~vibe-bridge: real $cmd not found in WSL transient PATH~ >&2'',
       ''  exit 127'',
       ''fi'',
       ''register_agent'',
       ''~$real~ ~$@~'',
       ''rc=$?'',
       ''abort_agent'',
       ''exit ~$rc~'',
       ''WRAP'',
       ''  chmod +x ~$SHIM_DIR/$name~'',
       ''}'',
       [],
       ''make_shim codex'',
       ''make_shim claude'',
       [],
       ''cat > ~$SHIM_DIR/bashrc~ <<YBASHRCY'',
       ''# vibe-bridge WSL transient bashrc'',
       ''if [ -f ~$HOME/.bashrc~ ]; then'',
       ''  . ~$HOME/.bashrc~'',
       ''fi'',
       ''if [ -n ~${VIBE_BRIDGE_WSL_SHIM_DIR:-}~ ]; then'',
       ''  old_ifs=~$IFS~'',
       ''  new_path=~~'',
       ''  IFS=:'',
       ''  for dir in $PATH; do'',
       ''    [ ~$dir~ = ~$VIBE_BRIDGE_WSL_SHIM_DIR~ ] && continue'',
       ''    if [ -z ~$new_path~ ]; then'',
       ''      new_path=~$dir~'',
       ''    else'',
       ''      new_path=~$new_path:$dir~'',
       ''    fi'',
       ''  done'',
       ''  IFS=~$old_ifs~'',
       ''  export PATH=~$VIBE_BRIDGE_WSL_SHIM_DIR:$new_path~'',
       ''fi'',
       ''BASHRC'',
       [],
       ''export VIBE_BRIDGE_DAEMON=~$VB_ADDR~'',
       ''export VIBE_BRIDGE_TERMINAL_AGENT_ID=~$VB_PARENT~'',
       ''export VIBE_BRIDGE_CAPTURED_TERMINAL=1'',
       ''export VIBE_BRIDGE_WSL_SHIM_DIR=~$SHIM_DIR~'',
       ''export PATH=~$SHIM_DIR:$PATH~'',
       ''shell=~${SHELL:-/bin/bash}~'',
       ''case ~$(basename ~$shell~)~ in'',
       ''  bash) exec ~$shell~ --rcfile ~$SHIM_DIR/bashrc~ -i ;;'',
       ''  *'' @ '') exec ~$shell~ -i ;;'',
       ''esac''])"

definition build_wsl_shell_integration_script :: "string \<Rightarrow> string" where
  "build_wsl_shell_integration_script addr = text_lines
    (map lit
      [''set -eu''] @
     [lit ''VB_ADDR='' @ sh_quote addr] @
     map lit
      [''VB_DIR=~$HOME/.local/share/vibe-bridge/shell-integration~'',
       ''SHIM_DIR=~$VB_DIR/bin~'',
       ''mkdir -p ~$SHIM_DIR~'',
       [],
       ''cat > ~$SHIM_DIR/codex~ <<YWRAPY'',
       ''#!/usr/bin/env bash'',
       ''# vibe-bridge WSL shell integration agent shim'',
       ''set -u'',
       ''cmd=~$(basename ~$0~)~'',
       ''shim_dir=~${VIBE_BRIDGE_WSL_SHELL_SHIM_DIR:-$HOME/.local/share/vibe-bridge/shell-integration/bin}~'',
       ''daemon=~${VIBE_BRIDGE_DAEMON:-127.0.0.1:8765}~'',
       ''host=~${daemon%:*}~'',
       ''port=~${daemon##*:}~'',
       ''agent_id=~wsl-${cmd}-$$~'',
       ''cwd=~$(pwd 2>/dev/null || true)~'',
       [],
       ''is_vibe_wrapper() {'',
       ''  [ -f ~$1~ ] && grep -q Yvibe-bridge WSL .*agent shimZ|vibe-bridge WSL agent wrapperZ|vibe-bridge WSL shell integration agent shimY ~$1~ 2>/dev/null'',
       ''}'',
       [],
       ''find_real() {'',
       ''  local old_ifs=~$IFS~'',
       ''  local dir candidate'',
       ''  IFS=:'',
       ''  for dir in $PATH; do'',
       ''    [ -n ~$dir~ ] || dir=.'',
       ''    [ ~$dir~ = ~$shim_dir~ ] && continue'',
       ''    candidate=~$dir/$cmd~'',
       ''    if [ -x ~$candidate~ ] && ! is_vibe_wrapper ~$candidate~; then'',
       ''      printf Y%sZnY ~$candidate~'',
       ''      IFS=~$old_ifs~'',
       ''      return 0'',
       ''    fi'',
       ''  done'',
       ''  IFS=~$old_ifs~'',
       ''  for candidate in ~$HOME/.local/bin/$cmd~ ~/usr/local/bin/$cmd~ ~/usr/bin/$cmd~; do'',
       ''    if [ -x ~$candidate~ ] && ! is_vibe_wrapper ~$candidate~; then'',
       ''      printf Y%sZnY ~$candidate~'',
       ''      return 0'',
       ''    fi'',
       ''  done'',
       ''  return 1'',
       ''}'',
       [],
       ''json_escape() {'',
       ''  local s=~$1~'',
       ''  s=~${s//ZZ/ZZZZ}~'',
       ''  s=~${s//Z~/ZZZ~}~'',
       ''  s=~${s//$YZrY/ }~'',
       ''  s=~${s//$YZnY/ }~'',
       ''  printf Y%sY ~$s~'',
       ''}'',
       [],
       ''send_daemon() {'',
       ''  local json=~$1~'',
       ''  if { exec 9<>~/dev/tcp/$host/$port~; } 2>/dev/null; then'',
       ''    printf Y%sZnY ~$json~ >&9 || true'',
       ''    IFS= read -r _ <&9 || true'',
       ''    exec 9>&- 9<&- || true'',
       ''  fi'',
       ''}'',
       [],
       ''register_agent() {'',
       ''  local cwd_json'',
       ''  cwd_json=~$(json_escape ~$cwd~)~'',
       ''  send_daemon ~$(printf Y{~type~:~agent.register~,~agent~:{~agentId~:~%s~,~kind~:~%s~,~name~:~%s~,~cwd~:~%s~,~fromLaunch~:true}}Y ~$agent_id~ ~$cmd~ ~$cmd~ ~$cwd_json~)~'',
       ''}'',
       [],
       ''abort_agent() {'',
       ''  send_daemon ~$(printf Y{~type~:~session.abort~,~abort~:{~agentId~:~%s~,~kind~:~%s~}}Y ~$agent_id~ ~$cmd~)~'',
       ''}'',
       [],
       ''stream_chunk() {'',
       ''  local chunk=~$1~'',
       ''  local hex'',
       ''  hex=~$(printf Y%sY ~$chunk~ | od -An -tx1 -v | tr -d Y ZnY)~'',
       ''  [ -n ~$hex~ ] || return 0'',
       ''  send_daemon ~$(printf Y{~type~:~terminal.stream~,~stream~:{~agentId~:~%s~,~kind~:~%s~,~dataHex~:~%s~}}Y ~$agent_id~ ~$cmd~ ~$hex~)~'',
       ''}'',
       [],
       ''real=~$(find_real || true)~'',
       ''if [ -z ~$real~ ]; then'',
       ''  echo ~vibe-bridge: real $cmd not found in WSL PATH~ >&2'',
       ''  exit 127'',
       ''fi'',
       [],
       ''if ! command -v script >/dev/null 2>&1; then'',
       ''  echo ~vibe-bridge: util-linux script(1) not found; running $cmd without terminal capture~ >&2'',
       ''  exec ~$real~ ~$@~'',
       ''fi'',
       [],
       ''register_agent'',
       ''tmp=~${TMPDIR:-/tmp}/vibe-bridge-wsl-pty-${cmd}-$$~'',
       ''fifo=~$tmp/out~'',
       ''mkdir -p ~$tmp~'',
       ''mkfifo ~$fifo~'',
       [],
       ''stream_loop() {'',
       ''  local chunk status'',
       ''  while true; do'',
       ''    chunk=~~'',
       ''    IFS= read -r -t 0.03 -N 4096 chunk'',
       ''    status=$?'',
       ''    if [ -n ~$chunk~ ]; then'',
       ''      printf Y%sY ~$chunk~'',
       ''      stream_chunk ~$chunk~'',
       ''    fi'',
       ''    [ ~$status~ -eq 142 ] && continue'',
       ''    [ ~$status~ -eq 0 ] && continue'',
       ''    break'',
       ''  done < ~$fifo~'',
       ''}'',
       [],
       ''stream_loop &'',
       ''stream_pid=$!'',
       ''cmdline=~~'',
       ''printf -v cmdline Y%q Y ~$real~ ~$@~'',
       ''script -qfec ~$cmdline~ /dev/null > ~$fifo~'',
       ''rc=$?'',
       ''wait ~$stream_pid~ 2>/dev/null || true'',
       ''rm -rf ~$tmp~'',
       ''abort_agent'',
       ''exit ~$rc~'',
       ''WRAP'',
       [],
       ''cp ~$SHIM_DIR/codex~ ~$SHIM_DIR/claude~'',
       ''chmod +x ~$SHIM_DIR/codex~ ~$SHIM_DIR/claude~'',
       [],
       ''install_rc_block() {'',
       ''  rc=~$1~'',
       ''  touch ~$rc~'',
       ''  remove_rc_block ~$rc~'',
       ''  cat >> ~$rc~ <<RC'',
       [],
       ''# >>> vibe-bridge WSL shell integration >>>'',
       ''export VIBE_BRIDGE_DAEMON=~Z${VIBE_BRIDGE_DAEMON:-$VB_ADDR}~'',
       ''export VIBE_BRIDGE_WSL_SHELL_SHIM_DIR=~Z$HOME/.local/share/vibe-bridge/shell-integration/bin~'',
       ''if [ -d ~Z$VIBE_BRIDGE_WSL_SHELL_SHIM_DIR~ ]; then'',
       ''  _vb_old_ifs=~Z$IFS~'',
       ''  _vb_new_path=~~'',
       ''  IFS=:'',
       ''  for _vb_dir in Z$PATH; do'',
       ''    [ ~Z$_vb_dir~ = ~Z$VIBE_BRIDGE_WSL_SHELL_SHIM_DIR~ ] && continue'',
       ''    if [ -z ~Z$_vb_new_path~ ]; then'',
       ''      _vb_new_path=~Z$_vb_dir~'',
       ''    else'',
       ''      _vb_new_path=~Z$_vb_new_path:Z$_vb_dir~'',
       ''    fi'',
       ''  done'',
       ''  IFS=~Z$_vb_old_ifs~'',
       ''  if [ -n ~Z$_vb_new_path~ ]; then'',
       ''    export PATH=~Z$VIBE_BRIDGE_WSL_SHELL_SHIM_DIR:Z$_vb_new_path~'',
       ''  else'',
       ''    export PATH=~Z$VIBE_BRIDGE_WSL_SHELL_SHIM_DIR~'',
       ''  fi'',
       ''  unset _vb_old_ifs _vb_new_path _vb_dir'',
       ''fi'',
       ''# <<< vibe-bridge WSL shell integration <<<'',
       ''RC'',
       ''}'',
       [],
       ''remove_rc_block() {'',
       ''  rc=~$1~'',
       ''  [ -f ~$rc~ ] || return 0'',
       ''  tmp=~$rc.vibe-bridge-tmp.$$~'',
       ''  awk Y'',
       ''    /# >>> vibe-bridge WSL shell integration >>>/ { skip=1; next }'',
       ''    /# <<< vibe-bridge WSL shell integration <<</ { skip=0; next }'',
       ''    skip != 1 { print }'',
       ''  Y ~$rc~ > ~$tmp~'',
       ''  mv ~$tmp~ ~$rc~'',
       ''}'',
       [],
       ''install_rc_block ~$HOME/.bashrc~'',
       ''[ -e ~$HOME/.profile~ ] && install_rc_block ~$HOME/.profile~ || true'',
       ''[ -e ~$HOME/.bash_profile~ ] && install_rc_block ~$HOME/.bash_profile~ || true'',
       ''[ -e ~$HOME/.bash_login~ ] && install_rc_block ~$HOME/.bash_login~ || true'',
       ''[ -e ~$HOME/.zshrc~ ] && install_rc_block ~$HOME/.zshrc~ || true''])"

definition build_wsl_shell_uninstall_script :: string where
  "build_wsl_shell_uninstall_script = text_lines
    (map lit
      [''set -eu'',
       ''remove_rc_block() {'',
       ''  rc=~$1~'',
       ''  [ -f ~$rc~ ] || return 0'',
       ''  tmp=~$rc.vibe-bridge-tmp.$$~'',
       ''  awk Y'',
       ''    /# >>> vibe-bridge WSL shell integration >>>/ { skip=1; next }'',
       ''    /# <<< vibe-bridge WSL shell integration <<</ { skip=0; next }'',
       ''    skip != 1 { print }'',
       ''  Y ~$rc~ > ~$tmp~'',
       ''  mv ~$tmp~ ~$rc~'',
       ''}'',
       [],
       ''remove_rc_block ~$HOME/.bashrc~'',
       ''[ -e ~$HOME/.profile~ ] && remove_rc_block ~$HOME/.profile~ || true'',
       ''[ -e ~$HOME/.bash_profile~ ] && remove_rc_block ~$HOME/.bash_profile~ || true'',
       ''[ -e ~$HOME/.bash_login~ ] && remove_rc_block ~$HOME/.bash_login~ || true'',
       ''[ -e ~$HOME/.zshrc~ ] && remove_rc_block ~$HOME/.zshrc~ || true'',
       ''rm -rf ~$HOME/.local/share/vibe-bridge/shell-integration~''])"

definition wsl_agent_exec_script :: string where
  "wsl_agent_exec_script = text_lines
    (map lit
      [''cmd=~$0~'',
       ''is_vibe_wrapper() {'',
       ''  [ -f ~$1~ ] && grep -q Yvibe-bridge WSL agent wrapperY ~$1~ 2>/dev/null'',
       ''}'',
       ''try_exec() {'',
       ''  candidate=~$1~'',
       ''  shift'',
       ''  if [ -x ~$candidate~ ]; then'',
       ''    if is_vibe_wrapper ~$candidate~; then'',
       ''      return 1'',
       ''    fi'',
       ''    exec ~$candidate~ ~$@~'',
       ''  fi'',
       ''  return 1'',
       ''}'',
       ''try_exec ~$HOME/.local/share/vibe-bridge/real-bin/$cmd~ ~$@~'',
       ''try_exec ~$HOME/.local/bin/$cmd~ ~$@~'',
       ''try_exec ~/usr/local/bin/$cmd~ ~$@~'',
       ''try_exec ~/usr/bin/$cmd~ ~$@~'',
       ''found=~$(command -v ~$cmd~ 2>/dev/null || true)~'',
       ''if [ -n ~$found~ ]; then'',
       ''  try_exec ~$found~ ~$@~'',
       ''fi'',
       ''echo ~vibe-bridge: real $cmd not found in WSL. Install native Windows $cmd, or install $cmd inside WSL without the old vibe-bridge wrapper.~ >&2'',
       ''exit 127''])"

text \<open>\<open>addr.rsplit_once(':')\<close>.\<close>

definition host_and_port :: "string \<Rightarrow> string \<times> string" where
  "host_and_port addr =
    (case split_once (CHR '':'') (rev addr) of
       Some (rport, rhost) \<Rightarrow> (rev rhost, rev rport)
     | None \<Rightarrow> (''127.0.0.1'', ''8765''))"

definition build_wsl_install_script :: "string \<Rightarrow> string \<Rightarrow> string \<Rightarrow> string \<Rightarrow> string" where
  "build_wsl_install_script distro daemon_exe addr hook_js =
    (let daemon_unix = or_else (windows_path_to_wsl_path daemon_exe)
           (replace_char (CHR 0x5C) ''/'' daemon_exe);
         (host, port) = host_and_port addr
     in text_lines
    (map lit
      [''set -eu''] @
     [lit ''DAEMON_UNIX='' @ sh_quote daemon_unix] @
     [lit ''DISTRO='' @ sh_quote distro] @
     [lit ''HOOK_HOST='' @ sh_quote host] @
     [lit ''HOOK_PORT='' @ sh_quote port] @
     map lit
      [''VB_DIR=~$HOME/.local/share/vibe-bridge~'',
       ''BIN=~$HOME/.local/bin~'',
       ''REAL=~$VB_DIR/real-bin~'',
       ''HOOK_DIR=~$VB_DIR/claude-code-hook~'',
       ''mkdir -p ~$BIN~ ~$REAL~ ~$HOOK_DIR~ ~$HOME/.claude~'',
       [],
       ''install_agent_wrapper() {'',
       ''  name=~$1~'',
       ''  wrapper=~$BIN/$name~'',
       ''  real=~$REAL/$name~'',
       ''  current=~$(command -v ~$name~ 2>/dev/null || true)~'',
       ''  if [ -n ~$current~ ] && [ ~$current~ != ~$wrapper~ ] && [ ! -e ~$real~ ]; then'',
       ''    ln -s ~$current~ ~$real~ 2>/dev/null || true'',
       ''  fi'',
       ''  if [ -e ~$wrapper~ ] || [ -L ~$wrapper~ ]; then'',
       ''    if grep -q Yvibe-bridge WSL agent wrapperY ~$wrapper~ 2>/dev/null; then'',
       ''      :'',
       ''    elif [ ! -e ~$real~ ]; then'',
       ''      if [ -L ~$wrapper~ ]; then'',
       ''        target=~$(readlink -f ~$wrapper~ 2>/dev/null || true)~'',
       ''        if [ -n ~$target~ ]; then'',
       ''          ln -s ~$target~ ~$real~ 2>/dev/null || mv ~$wrapper~ ~$real~'',
       ''        else'',
       ''          mv ~$wrapper~ ~$real~'',
       ''        fi'',
       ''      else'',
       ''        mv ~$wrapper~ ~$real~'',
       ''      fi'',
       ''    else'',
       ''      mv ~$wrapper~ ~$wrapper.vibe-bridge-backup.$(date +%s)~'',
       ''    fi'',
       ''  fi'',
       ''  cat > ~$wrapper~ <<WRAP'',
       ''#!/bin/sh'',
       ''# vibe-bridge WSL agent wrapper'',
       ''export VIBE_BRIDGE_WSL_DISTRO=~$DISTRO~'',
       ''real=~$real~'',
       ''if ~$DAEMON_UNIX~ --help >/dev/null 2>&1; then'',
       ''  exec ~$DAEMON_UNIX~ agent-shim $name ~Z$@~'',
       ''fi'',
       ''echo ~vibe-bridge: daemon executable not available at $DAEMON_UNIX; running real $name without capture~ >&2'',
       ''if [ -x ~$real~ ]; then'',
       ''  exec ~$real~ ~Z$@~'',
       ''fi'',
       ''echo ~vibe-bridge: real $name not found at $real~ >&2'',
       ''exit 127'',
       ''WRAP'',
       ''  chmod +x ~$wrapper~'',
       ''}'',
       [],
       ''install_agent_wrapper codex'',
       ''install_agent_wrapper claude'',
       []] @
     [lit ''HOOK_B64='' @ sh_quote (base64_encode_bytes (as_bytes hook_js))] @
     map lit
      [''printf Y%sY ~$HOOK_B64~ | base64 -d > ~$HOOK_DIR/index.js~'',
       ''chmod +x ~$HOOK_DIR/index.js~'',
       [],
       ''install_path_block() {'',
       ''  rc=~$1~'',
       ''  touch ~$rc~'',
       ''  if ! grep -q Yvibe-bridge WSL wrappersY ~$rc~ 2>/dev/null; then'',
       ''    cat >> ~$rc~ <<YRCY'',
       [],
       ''# >>> vibe-bridge WSL wrappers >>>'',
       ''export PATH=~$HOME/.local/bin:$PATH~'',
       ''# <<< vibe-bridge WSL wrappers <<<'',
       ''RC'',
       ''  fi'',
       ''}'',
       ''install_path_block ~$HOME/.bashrc~'',
       ''[ -e ~$HOME/.zshrc~ ] && install_path_block ~$HOME/.zshrc~ || true'',
       [],
       ''if command -v node >/dev/null 2>&1; then'',
       ''  VIBE_BRIDGE_HOOK_PATH=~$HOOK_DIR/index.js~ VIBE_BRIDGE_HOOK_HOST=~$HOOK_HOST~ VIBE_BRIDGE_HOOK_PORT=~$HOOK_PORT~ node <<YNODEY'',
       ''const fs = require(Ynode:fsY);'',
       ''const os = require(Ynode:osY);'',
       ''const path = require(Ynode:pathY);'',
       ''const hookPath = process.env.VIBE_BRIDGE_HOOK_PATH;'',
       ''const host = process.env.VIBE_BRIDGE_HOOK_HOST || Y127.0.0.1Y;'',
       ''const port = process.env.VIBE_BRIDGE_HOOK_PORT || Y8765Y;'',
       ''const settingsDir = path.join(os.homedir(), Y.claudeY);'',
       ''const settingsPath = path.join(settingsDir, Ysettings.jsonY);'',
       ''fs.mkdirSync(settingsDir, { recursive: true });'',
       ''let settings = {};'',
       ''try { settings = JSON.parse(fs.readFileSync(settingsPath, Yutf8Y)); } catch { settings = {}; }'',
       ''if (!settings.hooks || typeof settings.hooks !== YobjectY || Array.isArray(settings.hooks)) settings.hooks = {};'',
       ''for (const event of [YSessionStartY, YUserPromptSubmitY, YPreToolUseY, YPostToolUseY, YStopY, YSessionEndY]) {'',
       ''  const command = `VIBE_BRIDGE_HOST=${host} VIBE_BRIDGE_PORT=${port} node ${hookPath} ${event}`;'',
       ''  const entry = { matcher: Y*Y, hooks: [{ type: YcommandY, command }] };'',
       ''  const current = Array.isArray(settings.hooks[event]) ? settings.hooks[event] : [];'',
       ''  if (!JSON.stringify(current).includes(hookPath)) current.push(entry);'',
       ''  settings.hooks[event] = current;'',
       ''}'',
       ''fs.writeFileSync(settingsPath, JSON.stringify(settings, null, 2) + YZnY);'',
       ''NODE'',
       ''else'',
       ''  echo Ywarning: node not found; Claude Code hook not installedY >&2'',
       ''fi'']))"

text \<open>The command \<open>run_wsl_script\<close> passes to the shell of the distribution.\<close>

definition wsl_script_decoder :: "string \<Rightarrow> string" where
  "wsl_script_decoder script =
    lit ''printf Y%sY '' @ sh_quote (base64_encode_bytes (as_bytes script)) @ '' | base64 -d | sh''"

definition run_wsl_args :: "string \<Rightarrow> string \<Rightarrow> string list" where
  "run_wsl_args distro script = [''-d'', distro, ''--'', ''sh'', ''-lc'', wsl_script_decoder script]"

section \<open>Command files\<close>

definition agent_cmd_content :: "string \<Rightarrow> string \<Rightarrow> string option \<Rightarrow> string" where
  "agent_cmd_content kind exe wsl_distro = crlf_lines
    ([''@echo off'', ''setlocal'', lit ''set ~VIBE_BRIDGE_SHIM_DIR='' @ ''%'' @ CHR 0x7E # lit ''dp0~''] @
     (case wsl_distro of None \<Rightarrow> [] | Some d \<Rightarrow> [lit ''set ~VIBE_BRIDGE_WSL_DISTRO='' @ d @ lit ''~'']) @
     [lit ''~'' @ shell_display_path exe @ lit ''~ agent-shim '' @ kind @ '' %*'', ''exit /b %ERRORLEVEL%''])"

definition wsl_cmd_content :: "string \<Rightarrow> string" where
  "wsl_cmd_content exe = crlf_lines
    [''@echo off'', ''setlocal'', lit ''~'' @ shell_display_path exe @ lit ''~ wsl-shim %*'',
     ''exit /b %ERRORLEVEL%'']"

definition startup_cmd_content :: "string \<Rightarrow> string \<Rightarrow> string \<Rightarrow> string \<Rightarrow> string \<Rightarrow> string" where
  "startup_cmd_content exe addr device log_dir log = crlf_lines
    [''@echo off'', ''setlocal'',
     lit ''if not exist ~'' @ log_dir @ lit ''~ mkdir ~'' @ log_dir @ lit ''~'',
     lit ''start ~~ /min cmd.exe /D /C ~~'' @ exe @ lit ''~ serve-hid '' @ addr @ '' '' @ device @
       lit '' >> ~'' @ log @ lit ''~ 2>&1~'']"

end
