(* ===== verification/Wsl_Commands.thy ===== *)
theory Wsl_Commands
  imports Shell_Scripts
begin

text \<open>
  WSL command lines in \<open>crates/vb-daemon/src/main.rs\<close>: recognising a terminal profile that
  opens an interactive WSL shell and replacing it by one with the agent shims on its path, the
  names of distributions and shortcuts.
\<close>

section \<open>Splitting command lines\<close>

text \<open>Characters that are white space take \<open>ws_front\<close> bytes.\<close>

function split_loosely :: "bool \<Rightarrow> string \<Rightarrow> string \<Rightarrow> string list" where
  "split_loosely q cur s =
    (case s of
       [] \<Rightarrow> (if cur = [] then [] else [cur])
     | c # r \<Rightarrow>
        if c = CHR 0x22 then split_loosely (\<not> q) cur r
        else if c = CHR 0x5C \<and> q \<and> r \<noteq> [] \<and> hd r = CHR 0x22 then split_loosely q (cur @ [CHR 0x22]) (tl r)
        else if ws_front (as_bytes s) \<noteq> 0 \<and> \<not> q then
          (if cur = [] then [] else [cur]) @ split_loosely q [] (drop (ws_front (as_bytes s) - 1) r)
        else split_loosely q (cur @ [c]) r)"
  by pat_completeness auto
termination by (relation "measure (\<lambda>(q, cur, s). length s)") auto

declare split_loosely.simps [simp del]

definition split_windows_commandline_loosely :: "string \<Rightarrow> string list" where
  "split_windows_commandline_loosely input = split_loosely False [] input"

section \<open>Recognising an interactive WSL shell\<close>

definition wsl_command_tokens :: "string list \<Rightarrow> string list option" where
  "wsl_command_tokens command =
    (let tokens = (if length command = 5 \<and> is_cmd_c command
           then split_windows_commandline_loosely (command ! 4) else command)
     in case tokens of
          [] \<Rightarrow> None
        | first # _ \<Rightarrow>
            (let exe = to_ascii_lowercase (last_segment first)
             in if exe \<noteq> ''wsl.exe'' \<and> exe \<noteq> ''wsl'' then None else Some tokens))"

definition valued_options :: "string list" where
  "valued_options = [''-d'', ''--distribution'', ''-u'', ''--user'', ''--cd'', ''--shell-type'']"

definition joined_option :: "string \<Rightarrow> bool" where
  "joined_option a \<longleftrightarrow> starts_with a ''--distribution='' \<or> starts_with a ''--user='' \<or>
     starts_with a ''--cd='' \<or> starts_with a ''--shell-type=''"

fun interactive_wsl_args :: "string list \<Rightarrow> string list option" where
  "interactive_wsl_args [] = Some []"
| "interactive_wsl_args (a # as) =
    (if a \<in> set valued_options then
       (case as of [] \<Rightarrow> None | v # as' \<Rightarrow> map_option (\<lambda>out. a # v # out) (interactive_wsl_args as'))
     else if joined_option a then map_option (Cons a) (interactive_wsl_args as)
     else None)"

definition wsl_args_include_cd :: "string list \<Rightarrow> bool" where
  "wsl_args_include_cd args \<longleftrightarrow> (\<exists>a \<in> set args. a = ''--cd'' \<or> starts_with a ''--cd='')"

definition parse_simple_wsl_command :: "string list \<Rightarrow> string list option" where
  "parse_simple_wsl_command command =
    Option.bind (wsl_command_tokens command) (\<lambda>tokens. interactive_wsl_args (tl tokens))"

definition maybe_wrap_wsl_terminal_command :: "string list \<Rightarrow> string \<Rightarrow> string \<Rightarrow> string list" where
  "maybe_wrap_wsl_terminal_command command addr parent_agent_id =
    (case parse_simple_wsl_command command of
       None \<Rightarrow> command
     | Some interactive_args \<Rightarrow>
         [''wsl.exe''] @ interactive_args @
         (if \<not> wsl_args_include_cd interactive_args then [''--cd'', ''~''] else []) @
         [''--exec'', ''bash'', ''-lc'', wsl_terminal_entry_script addr parent_agent_id, ''vibe-bridge-terminal''])"

record wsl_shim_plan =
  wp_command :: "string list"
  wp_wrapped :: bool

definition build_wsl_passthrough_command :: "string list \<Rightarrow> wsl_shim_plan" where
  "build_wsl_passthrough_command raw = \<lparr>wp_command = ''wsl.exe'' # raw, wp_wrapped = False\<rparr>"

section \<open>Names\<close>

text \<open>The characters of a text: each starts at a byte that is no continuation byte.\<close>

definition is_ascii_alphanumeric :: "char \<Rightarrow> bool" where
  "is_ascii_alphanumeric c \<longleftrightarrow> is_ascii_alphabetic c \<or> (let n = of_char c :: nat in 48 \<le> n \<and> n \<le> 57)"

definition sanitize_runtime_shim_id :: "string \<Rightarrow> string" where
  "sanitize_runtime_shim_id v =
    (let out = concat (map (\<lambda>c. if is_ascii_alphanumeric c \<or> c = CHR ''-'' \<or> c = CHR ''_'' then [c]
                              else if cont (byte_of_char c) then [] else ''_'') v)
     in if out = [] then ''terminal'' else out)"

definition decode_windows_command_output :: "bytes \<Rightarrow> string" where
  "decode_windows_command_output bs =
    (if 2 \<le> length bs \<and> (bs ! 0 = 0xFF \<and> bs ! 1 = 0xFE \<or> bs ! 1 = 0)
     then from_utf16_lossy (le_units (if take 2 bs = [0xFF, 0xFE] then drop 2 bs else bs))
     else from_utf8_lossy bs)"

definition shortcut_summary_is_vibe_bridge :: "string \<Rightarrow> bool" where
  "shortcut_summary_is_vibe_bridge summary =
    (let lower = to_ascii_lowercase summary
     in str_contains lower ''vibe-bridge'' \<or> str_contains lower ''terminal-shim'')"

section \<open>Which shells are wrapped\<close>

text \<open>The options of an interactive shell: a flag with its value, or both joined.\<close>

inductive wsl_options :: "string list \<Rightarrow> bool" where
  no_options: "wsl_options []"
| valued: "wsl_options as \<Longrightarrow> a \<in> set valued_options \<Longrightarrow> wsl_options (a # v # as)"
| joined: "wsl_options as \<Longrightarrow> joined_option a \<Longrightarrow> wsl_options (a # as)"

inductive_cases wsl_options_Cons: "wsl_options (a # as)"

lemma valued_not_joined: "a \<in> set valued_options \<Longrightarrow> \<not> joined_option a"
  by (auto simp: valued_options_def joined_option_def starts_with_def)

lemma interactive_iff: "interactive_wsl_args args = (if wsl_options args then Some args else None)"
proof (induction args rule: interactive_wsl_args.induct)
  case 1
  show ?case by (simp add: wsl_options.no_options)
next
  case (2 a as)
  consider "a \<in> set valued_options" "as = []" | v as' where "a \<in> set valued_options" "as = v # as'"
    | "joined_option a" | "a \<notin> set valued_options" "\<not> joined_option a"
    by (cases as) auto
  then show ?case
  proof cases
    case 1
    then have "\<not> wsl_options (a # as)" using valued_not_joined by (auto elim: wsl_options_Cons)
    then show ?thesis using 1 by simp
  next
    case (2 v as')
    then have "wsl_options (a # as) \<longleftrightarrow> wsl_options as'"
      using valued_not_joined by (auto elim: wsl_options_Cons intro: wsl_options.valued)
    then show ?thesis using 2 "2.IH"(1) by simp
  next
    case 3
    then have a: "a \<notin> set valued_options" using valued_not_joined by blast
    then have "wsl_options (a # as) \<longleftrightarrow> wsl_options as"
      using 3 by (auto elim: wsl_options_Cons intro: wsl_options.joined)
    then show ?thesis using 3 a "2.IH"(2) by simp
  next
    case 4
    then have "\<not> wsl_options (a # as)" by (auto elim: wsl_options_Cons)
    then show ?thesis using 4 by simp
  qed
qed

lemma options_before_exec: "wsl_options (as @ ''--exec'' # bs) \<Longrightarrow> wsl_options as \<Longrightarrow> False"
proof (induction as rule: interactive_wsl_args.induct)
  case 1
  then show ?case
    by (auto elim!: wsl_options_Cons simp: valued_options_def joined_option_def starts_with_def)
next
  case (2 a as)
  show ?case
  proof (cases "a \<in> set valued_options")
    case True
    then obtain v as' where as: "as = v # as'" "wsl_options as'"
      using "2.prems"(2) valued_not_joined by (auto elim: wsl_options_Cons)
    then have "wsl_options (as' @ ''--exec'' # bs)"
      using "2.prems"(1) True valued_not_joined by (auto elim: wsl_options_Cons)
    then show ?thesis using "2.IH"(1)[OF True] as by blast
  next
    case False
    then have "wsl_options as" "joined_option a" using "2.prems"(2) by (auto elim: wsl_options_Cons)
    moreover have "wsl_options (as @ ''--exec'' # bs)"
      using "2.prems"(1) False by (auto elim: wsl_options_Cons)
    ultimately show ?thesis using "2.IH"(2)[OF False] by blast
  qed
qed

definition wrapped_shell :: "string list \<Rightarrow> string \<Rightarrow> string \<Rightarrow> string list" where
  "wrapped_shell opts addr parent =
    ''wsl.exe'' # opts @ (if wsl_args_include_cd opts then [] else [''--cd'', ''~'']) @
    [''--exec'', ''bash'', ''-lc'', wsl_terminal_entry_script addr parent, ''vibe-bridge-terminal'']"

lemma wrap_cases:
  "maybe_wrap_wsl_terminal_command command addr parent =
    (case wsl_command_tokens command of
       Some tokens \<Rightarrow> if wsl_options (tl tokens) then wrapped_shell (tl tokens) addr parent else command
     | None \<Rightarrow> command)"
  by (auto simp: maybe_wrap_wsl_terminal_command_def parse_simple_wsl_command_def interactive_iff
      wrapped_shell_def split: option.split)

lemma options_cd: "wsl_options opts \<Longrightarrow> wsl_options (opts @ [''--cd'', ''~''])"
  by (induction rule: wsl_options.induct)
    (auto intro: wsl_options.intros simp: valued_options_def)

lemma wrapped_not_wrapped_again:
  assumes "wsl_options opts"
  shows "maybe_wrap_wsl_terminal_command (wrapped_shell opts addr parent) addr' parent' =
    wrapped_shell opts addr parent"
proof -
  let ?w = "wrapped_shell opts addr parent"
  have "length ?w \<noteq> 5" by (simp add: wrapped_shell_def)
  moreover have "to_ascii_lowercase (last_segment ''wsl.exe'') = ''wsl.exe''" by code_simp
  ultimately have t: "wsl_command_tokens ?w = Some ?w"
    by (simp add: wsl_command_tokens_def wrapped_shell_def)
  have "\<not> wsl_options (tl ?w)"
    using options_before_exec[of opts] options_before_exec[of "opts @ [''--cd'', ''~'']"] assms options_cd[OF assms]
    by (auto simp: wrapped_shell_def)
  then show ?thesis by (simp add: wrap_cases t)
qed

text \<open>
  A terminal command is replaced exactly when it runs wsl with nothing but options of an
  interactive shell; the replacement keeps these options word for word, adds the home
  directory unless one is given, and runs the entry script. Every other command is left as
  it is, and wrapping what is wrapped changes nothing.
\<close>
theorem only_interactive_wsl_shells_are_wrapped:
  "maybe_wrap_wsl_terminal_command command addr parent =
     (case wsl_command_tokens command of
        Some tokens \<Rightarrow> if wsl_options (tl tokens) then wrapped_shell (tl tokens) addr parent else command
      | None \<Rightarrow> command) \<and>
   maybe_wrap_wsl_terminal_command (maybe_wrap_wsl_terminal_command command addr parent) addr parent =
     maybe_wrap_wsl_terminal_command command addr parent"
  using wrapped_not_wrapped_again[of _ addr parent addr parent]
  by (auto simp: wrap_cases split: option.split)

end
