(* ===== verification/Conpty_Session.thy ===== *)
theory Conpty_Session
  imports Command_Lines
begin

text \<open>
  The pseudoconsole session of \<open>crates/vb-daemon/src/conpty.rs\<close>: creating the pipes, the
  pseudoconsole, the attribute list and the child, closing them on every path and when the
  session is dropped, and moving bytes through the pipes. The Win32 calls are parameters:
  what each call answers is given, what the code does with the answers is modelled, with the
  resources of the process that are open written out.
\<close>

section \<open>Resources\<close>

type_synonym handle = "64 word"

datatype resource = Handle handle | PseudoConsole handle | AttributeList

record process_state =
  ps_open :: "resource list"
  ps_misuse :: bool
  ps_started :: "string list"

text \<open>\<open>ps_misuse\<close>: something was closed that was not open.\<close>

definition open_res :: "resource list \<Rightarrow> process_state \<Rightarrow> process_state" where
  "open_res rs s = s\<lparr>ps_open := ps_open s @ rs\<rparr>"

definition close_res :: "resource \<Rightarrow> process_state \<Rightarrow> process_state" where
  "close_res r s =
    (if r \<in> set (ps_open s) then s\<lparr>ps_open := removeAll r (ps_open s)\<rparr> else s\<lparr>ps_misuse := True\<rparr>)"

text \<open>What the Win32 calls answer; an error is what \<open>GetLastError\<close> then says.\<close>

record spawn_answers =
  sa_in_pipe :: "32 word + handle \<times> handle"
  sa_out_pipe :: "32 word + handle \<times> handle"
  sa_console :: "32 word \<times> handle"
  sa_list_size :: "32 word + nat"
  sa_list_init :: "32 word option"
  sa_list_update :: "32 word option"
  sa_process :: "32 word + handle \<times> handle"

text \<open>\<open>{code:08x}\<close>.\<close>

definition show_hex8 :: "32 word \<Rightarrow> string" where
  "show_hex8 w = (let d = show_base 16 (unat w) in replicate (8 - length d) (CHR ''0'') @ d)"

definition os_error :: "string \<Rightarrow> 32 word \<Rightarrow> string" where
  "os_error ctxt code = ctxt @ '' failed: GetLastError=0x'' @ show_hex8 code"

section \<open>The session\<close>

record conpty_session =
  cs_stdin_write :: handle
  cs_stdout_read :: handle
  cs_pty :: handle
  cs_process :: handle
  cs_thread :: handle
  cs_attrs :: bool

definition INVALID_HANDLE_VALUE :: handle where "INVALID_HANDLE_VALUE = - 1"

definition is_valid_handle :: "handle \<Rightarrow> bool" where
  "is_valid_handle h \<longleftrightarrow> h \<noteq> 0 \<and> h \<noteq> INVALID_HANDLE_VALUE"

definition create_pipe ::
  "32 word + handle \<times> handle \<Rightarrow> process_state \<Rightarrow> (handle \<times> handle) result \<times> process_state" where
  "create_pipe answer s =
    (case answer of
       Inl code \<Rightarrow> (Inl (os_error ''CreatePipe'' code), s)
     | Inr (read, write) \<Rightarrow> (Inr (read, write), open_res [Handle read, Handle write] s))"

definition build_attribute_list :: "spawn_answers \<Rightarrow> process_state \<Rightarrow> unit result \<times> process_state" where
  "build_attribute_list a s =
    (case sa_list_size a of
       Inl code \<Rightarrow> (Inl (os_error ''InitializeProcThreadAttributeList(size probe)'' code), s)
     | Inr _ \<Rightarrow>
        (case sa_list_init a of
           Some code \<Rightarrow> (Inl (os_error ''InitializeProcThreadAttributeList'' code), s)
         | None \<Rightarrow>
            (let s = open_res [AttributeList] s
             in case sa_list_update a of
                  Some code \<Rightarrow> (Inl (os_error ''UpdateProcThreadAttribute'' code), close_res AttributeList s)
                | None \<Rightarrow> (Inr (), s))))"

definition close_handle :: "handle \<Rightarrow> process_state \<Rightarrow> process_state" where
  "close_handle h s = close_res (Handle h) s"

text \<open>After the pseudoconsole exists; a failing \<open>CreateProcessW\<close> drops the attribute list too.\<close>

definition start_child ::
  "string list \<Rightarrow> spawn_answers \<Rightarrow> handle \<Rightarrow> handle \<Rightarrow> handle \<Rightarrow> process_state \<Rightarrow>
   conpty_session result \<times> process_state" where
  "start_child argv a in_write out_read pty s =
    (case build_attribute_list a s of
       (Inl err, s) \<Rightarrow>
         (Inl err, close_handle out_read (close_handle in_write (close_res (PseudoConsole pty) s)))
     | (Inr _, s) \<Rightarrow>
        (case sa_process a of
           Inl code \<Rightarrow>
             (Inl (os_error ''CreateProcessW'' code),
              close_res AttributeList
                (close_handle out_read (close_handle in_write (close_res (PseudoConsole pty) s))))
         | Inr (process, thread) \<Rightarrow>
             (Inr \<lparr>cs_stdin_write = in_write, cs_stdout_read = out_read, cs_pty = pty,
                cs_process = process, cs_thread = thread, cs_attrs = True\<rparr>,
              open_res [Handle process, Handle thread]
                (s\<lparr>ps_started := ps_started s @ [build_command_line argv]\<rparr>))))"

definition conpty_spawn ::
  "string list \<Rightarrow> spawn_answers \<Rightarrow> process_state \<Rightarrow> conpty_session result \<times> process_state" where
  "conpty_spawn argv a s =
    (if argv = [] then (Inl ''argv is empty'', s)
     else case create_pipe (sa_in_pipe a) s of
       (Inl err, s) \<Rightarrow> (Inl err, s)
     | (Inr (in_read, in_write), s) \<Rightarrow>
        (case create_pipe (sa_out_pipe a) s of
           (Inl err, s) \<Rightarrow> (Inl err, close_handle in_write (close_handle in_read s))
         | (Inr (out_read, out_write), s) \<Rightarrow>
            (let (hr, pty) = sa_console a;
                 s = (if hr = 0 then open_res [PseudoConsole pty] s else s);
                 s = close_handle out_write (close_handle in_read s)
             in if hr \<noteq> 0
                then (Inl (''CreatePseudoConsole failed: 0x'' @ show_hex8 hr),
                      close_handle out_read (close_handle in_write s))
                else start_child argv a in_write out_read pty s)))"

definition close_if_valid :: "handle \<Rightarrow> process_state \<Rightarrow> process_state" where
  "close_if_valid h s = (if is_valid_handle h then close_handle h s else s)"

text \<open>\<open>Drop\<close> of the session, then of its attribute list.\<close>

definition conpty_drop :: "conpty_session \<Rightarrow> process_state \<Rightarrow> process_state" where
  "conpty_drop c s =
    (let s = close_if_valid (cs_stdin_write c) s;
         s = (if cs_pty c \<noteq> 0 then close_res (PseudoConsole (cs_pty c)) s else s);
         s = close_if_valid (cs_stdout_read c) s;
         s = close_if_valid (cs_thread c) s;
         s = close_if_valid (cs_process c) s
     in if cs_attrs c then close_res AttributeList s else s)"

section \<open>Bytes\<close>

definition ERROR_BROKEN_PIPE :: "32 word" where "ERROR_BROKEN_PIPE = 109"

text \<open>\<open>ReadFile\<close> answers an error code or the bytes it read, at most the buffer's length.\<close>

definition read_output :: "nat \<Rightarrow> 32 word + bytes \<Rightarrow> 32 word + bytes" where
  "read_output buf_len answer =
    (if buf_len = 0 then Inr []
     else case answer of
       Inl code \<Rightarrow> if code = ERROR_BROKEN_PIPE then Inr [] else Inl code
     | Inr bs \<Rightarrow> Inr bs)"

text \<open>
  The loop of \<open>write_input\<close> over the answers of \<open>WriteFile\<close> (an error code, or how many bytes
  of the rest it took): what the function returns and the bytes the pipe has taken; \<open>None\<close>
  while it is still waiting for an answer.
\<close>

fun write_loop :: "(32 word + nat) list \<Rightarrow> bytes \<Rightarrow> nat \<Rightarrow> ((32 word + unit) \<times> bytes) option" where
  "write_loop answers data sent =
    (if length data \<le> sent then Some (Inr (), data)
     else case answers of
       [] \<Rightarrow> None
     | Inl code # _ \<Rightarrow> Some (Inl code, take sent data)
     | Inr written # rest \<Rightarrow> write_loop rest data (sent + written))"

declare write_loop.simps [simp del]

definition write_input :: "(32 word + nat) list \<Rightarrow> bytes \<Rightarrow> ((32 word + unit) \<times> bytes) option" where
  "write_input answers data = write_loop answers data 0"

text \<open>\<open>wait\<close>: the answers of \<open>WaitForSingleObject\<close> and \<open>GetExitCodeProcess\<close>.\<close>

definition conpty_wait :: "32 word + unit \<Rightarrow> 32 word + 32 word \<Rightarrow> 32 word + 32 word" where
  "conpty_wait waited code = (case waited of Inl err \<Rightarrow> Inl err | Inr _ \<Rightarrow> code)"

definition conpty_resize :: "32 word \<Rightarrow> unit result" where
  "conpty_resize hr =
    (if hr \<noteq> 0 then Inl (''ResizePseudoConsole failed: 0x'' @ show_hex8 hr) else Inr ())"

section \<open>Theorems\<close>

text \<open>
  The handles the system gives out are valid and new: different from each other and from
  everything open.
\<close>

fun pipe_handles :: "32 word + handle \<times> handle \<Rightarrow> handle list" where
  "pipe_handles (Inl _) = []"
| "pipe_handles (Inr (r, w)) = [r, w]"

definition fresh_answers :: "spawn_answers \<Rightarrow> process_state \<Rightarrow> bool" where
  "fresh_answers a s \<longleftrightarrow>
    (let hs = pipe_handles (sa_in_pipe a) @ pipe_handles (sa_out_pipe a) @ pipe_handles (sa_process a)
     in distinct hs \<and> list_all (\<lambda>h. is_valid_handle h \<and> Handle h \<notin> set (ps_open s)) hs) \<and>
    snd (sa_console a) \<noteq> 0 \<and> PseudoConsole (snd (sa_console a)) \<notin> set (ps_open s) \<and>
    AttributeList \<notin> set (ps_open s)"

text \<open>The state with more resources open.\<close>

definition with_open :: "resource list \<Rightarrow> process_state \<Rightarrow> process_state" where
  "with_open rs s = s\<lparr>ps_open := ps_open s @ rs\<rparr>"

lemma with_open_Nil [simp]: "with_open [] s = s"
  by (simp add: with_open_def)

lemma open_with_open [simp]: "open_res qs (with_open rs s) = with_open (rs @ qs) s"
  by (simp add: open_res_def with_open_def)

lemma close_with_open:
  "r \<in> set rs \<Longrightarrow> r \<notin> set (ps_open s) \<Longrightarrow> close_res r (with_open rs s) = with_open (removeAll r rs) s"
  by (simp add: close_res_def with_open_def)

lemma started_with_open:
  "with_open rs s\<lparr>ps_started := ps_started (with_open rs s) @ [c]\<rparr> =
     with_open rs (s\<lparr>ps_started := ps_started s @ [c]\<rparr>)"
  by (simp add: with_open_def)

lemma ps_open_with_open [simp]: "ps_open (with_open rs s) = ps_open s @ rs"
  by (simp add: with_open_def)

text \<open>The child is started with three resources open, and its session closes them all.\<close>

definition session_resources :: "handle \<Rightarrow> handle \<Rightarrow> handle \<Rightarrow> resource list" where
  "session_resources in_write out_read pty = [Handle in_write, Handle out_read, PseudoConsole pty]"

lemma close_session:
  assumes "distinct [iw, orr]" "\<forall>r \<in> set (session_resources iw orr pty). r \<notin> set (ps_open s)"
  shows "close_handle orr (close_handle iw (close_res (PseudoConsole pty)
      (with_open (session_resources iw orr pty @ rs) s))) = with_open (removeAll (Handle orr) (removeAll (Handle iw)
      (removeAll (PseudoConsole pty) rs))) s"
  using assms by (auto simp: session_resources_def close_handle_def close_with_open)

lemma drop_session:
  assumes "distinct [iw, orr, ph, th]" "\<forall>h \<in> {iw, orr, ph, th}. is_valid_handle h \<and> Handle h \<notin> set (ps_open s)"
    and "pty \<noteq> 0" "PseudoConsole pty \<notin> set (ps_open s)" "AttributeList \<notin> set (ps_open s)"
  shows "conpty_drop \<lparr>cs_stdin_write = iw, cs_stdout_read = orr, cs_pty = pty, cs_process = ph,
      cs_thread = th, cs_attrs = True\<rparr>
    (with_open (session_resources iw orr pty @ [AttributeList, Handle ph, Handle th]) s) = s"
  using assms
  by (auto simp: conpty_drop_def Let_def close_if_valid_def close_handle_def session_resources_def close_with_open)

lemma start_child_closes:
  assumes "distinct (iw # orr # pipe_handles (sa_process a))"
    and "\<forall>h \<in> set (iw # orr # pipe_handles (sa_process a)). is_valid_handle h \<and> Handle h \<notin> set (ps_open s)"
    and "pty \<noteq> 0" "PseudoConsole pty \<notin> set (ps_open s)" "AttributeList \<notin> set (ps_open s)"
  shows "(case start_child argv a iw orr pty (with_open (session_resources iw orr pty) s) of
      (Inl err, s') \<Rightarrow> s' = s
    | (Inr c, s') \<Rightarrow> conpty_drop c s' = s\<lparr>ps_started := ps_started s @ [build_command_line argv]\<rparr> \<and>
        set (ps_open s) \<subset> set (ps_open s'))"
proof -
  let ?w = "with_open (session_resources iw orr pty)"
  have cl: "close_handle orr (close_handle iw (close_res (PseudoConsole pty) (?w s))) = s"
    using close_session[of iw orr pty s "[]"] assms by (simp add: session_resources_def)
  have cl': "close_res AttributeList (close_handle orr (close_handle iw (close_res (PseudoConsole pty)
      (with_open (session_resources iw orr pty @ [AttributeList]) s)))) = s"
    using close_session[of iw orr pty s "[AttributeList]"] assms by (simp add: session_resources_def close_with_open)
  have al: "close_res AttributeList (with_open (session_resources iw orr pty @ [AttributeList]) s) = ?w s"
    using assms(5) by (simp add: close_with_open session_resources_def)
  consider e where "sa_list_size a = Inl e" | n e where "sa_list_size a = Inr n" "sa_list_init a = Some e"
    | n e where "sa_list_size a = Inr n" "sa_list_init a = None" "sa_list_update a = Some e"
    | n where "sa_list_size a = Inr n" "sa_list_init a = None" "sa_list_update a = None"
    by (cases "sa_list_size a"; cases "sa_list_init a"; cases "sa_list_update a"; simp)
  then show ?thesis
  proof cases
    case (4 n)
    then have b: "build_attribute_list a (?w s) = (Inr (), with_open (session_resources iw orr pty @ [AttributeList]) s)"
      by (simp add: build_attribute_list_def)
    show ?thesis
    proof (cases "sa_process a")
      case (Inl e)
      then show ?thesis using b cl' by (simp add: start_child_def)
    next
      case (Inr p)
      obtain ph th where p: "sa_process a = Inr (ph, th)" using Inr by (cases p) auto
      let ?s = "s\<lparr>ps_started := ps_started s @ [build_command_line argv]\<rparr>"
      have "conpty_drop \<lparr>cs_stdin_write = iw, cs_stdout_read = orr, cs_pty = pty, cs_process = ph,
          cs_thread = th, cs_attrs = True\<rparr>
        (with_open (session_resources iw orr pty @ [AttributeList, Handle ph, Handle th]) ?s) = ?s"
        by (rule drop_session) (use assms p in auto)
      then show ?thesis
        using b p assms by (auto simp: start_child_def started_with_open session_resources_def)
    qed
  qed (simp_all add: start_child_def build_attribute_list_def cl al)
qed

lemma spawn_closes:
  assumes "fresh_answers a s"
  shows "(case conpty_spawn argv a s of
      (Inl err, s') \<Rightarrow> s' = s
    | (Inr c, s') \<Rightarrow> conpty_drop c s' = s\<lparr>ps_started := ps_started s @ [build_command_line argv]\<rparr> \<and>
        set (ps_open s) \<subset> set (ps_open s'))"
proof (cases "argv = []")
  case False
  show ?thesis
  proof (cases "sa_in_pipe a")
    case (Inl e)
    then show ?thesis using False by (simp add: conpty_spawn_def create_pipe_def)
  next
    case (Inr p)
    obtain ir iw where p: "sa_in_pipe a = Inr (ir, iw)" using Inr by (cases p) auto
    have new: "ir \<noteq> iw" "Handle ir \<notin> set (ps_open s)" "Handle iw \<notin> set (ps_open s)"
      using assms(1) p by (auto simp: fresh_answers_def Let_def)
    have s: "with_open [] s = s" by simp
    show ?thesis
    proof (cases "sa_out_pipe a")
      case (Inl e)
      have "close_handle iw (close_handle ir (with_open [Handle ir, Handle iw] s)) = s"
        using new by (simp add: close_handle_def close_with_open)
      then show ?thesis
        using Inl False p open_with_open[of "[Handle ir, Handle iw]" "[]" s]
        by (simp add: conpty_spawn_def create_pipe_def)
    next
      case (Inr q)
      obtain orr ow hr pty where q: "sa_out_pipe a = Inr (orr, ow)" "sa_console a = (hr, pty)"
        using Inr by (cases q; cases "sa_console a") auto
      have fresh: "distinct [ir, iw, orr, ow]" "Handle orr \<notin> set (ps_open s)" "Handle ow \<notin> set (ps_open s)"
        "PseudoConsole pty \<notin> set (ps_open s)"
        using assms(1) p q by (auto simp: fresh_answers_def Let_def)
      let ?pipes = "[Handle ir, Handle iw, Handle orr, Handle ow]"
      have opened: "create_pipe (sa_in_pipe a) s = (Inr (ir, iw), with_open [Handle ir, Handle iw] s)"
        "create_pipe (sa_out_pipe a) (with_open [Handle ir, Handle iw] s) = (Inr (orr, ow), with_open ?pipes s)"
        using p q open_with_open[of _ "[]" s] by (simp_all add: create_pipe_def)
      have failed: "close_handle orr (close_handle iw (close_handle ow (close_handle ir (with_open ?pipes s)))) = s"
        using fresh new by (auto simp: close_handle_def close_with_open)
      have ready: "close_handle ow (close_handle ir (with_open (?pipes @ [PseudoConsole pty]) s)) =
          with_open (session_resources iw orr pty) s"
        using fresh new by (auto simp: close_handle_def close_with_open session_resources_def)
      show ?thesis
      proof (cases "hr = 0")
        case True
        have "(case start_child argv a iw orr pty (with_open (session_resources iw orr pty) s) of
            (Inl err, s') \<Rightarrow> s' = s
          | (Inr c, s') \<Rightarrow> conpty_drop c s' = s\<lparr>ps_started := ps_started s @ [build_command_line argv]\<rparr> \<and>
              set (ps_open s) \<subset> set (ps_open s'))"
          by (rule start_child_closes) (use assms(1) p q in \<open>auto simp: fresh_answers_def Let_def list_all_iff\<close>)
        then show ?thesis
          using False True opened q ready by (simp add: conpty_spawn_def Let_def)
      next
        case hr: False
        then show ?thesis using False opened q failed by (simp add: conpty_spawn_def Let_def)
      qed
    qed
  qed
qed (simp add: conpty_spawn_def)

text \<open>
  C16: starting a session leaks nothing and closes nothing twice. On every error the resources
  open are exactly those open before; on success dropping the session closes everything it
  opened, and exactly one child was started, with the command line of \<open>argv\<close>.
\<close>
theorem spawn_and_drop_leak_nothing:
  assumes "fresh_answers a s"
  shows "(case conpty_spawn argv a s of
      (Inl err, s') \<Rightarrow> s' = s
    | (Inr c, s') \<Rightarrow> conpty_drop c s' = s\<lparr>ps_started := ps_started s @ [build_command_line argv]\<rparr> \<and>
        set (ps_open s) \<subset> set (ps_open s'))"
  using assms by (rule spawn_closes)

lemma spawn_and_drop_leak_nothing_witness:
  "fst (conpty_spawn [''cmd.exe''] \<lparr>sa_in_pipe = Inr (4, 8), sa_out_pipe = Inr (12, 16), sa_console = (0, 1),
      sa_list_size = Inr 48, sa_list_init = None, sa_list_update = None, sa_process = Inl 2\<rparr>
      \<lparr>ps_open = [], ps_misuse = False, ps_started = []\<rparr>) = Inl (os_error ''CreateProcessW'' 2) \<and>
   snd (conpty_spawn [''cmd.exe''] \<lparr>sa_in_pipe = Inr (4, 8), sa_out_pipe = Inr (12, 16), sa_console = (0, 1),
      sa_list_size = Inr 48, sa_list_init = None, sa_list_update = None, sa_process = Inl 2\<rparr>
      \<lparr>ps_open = [], ps_misuse = False, ps_started = []\<rparr>) = \<lparr>ps_open = [], ps_misuse = False, ps_started = []\<rparr>"
  (is "fst ?r = _ \<and> _")
proof -
  have e: "fst ?r = Inl (os_error ''CreateProcessW'' 2)"
    by (simp add: conpty_spawn_def create_pipe_def start_child_def build_attribute_list_def Let_def)
  have "fresh_answers \<lparr>sa_in_pipe = Inr (4, 8), sa_out_pipe = Inr (12, 16), sa_console = (0, 1),
      sa_list_size = Inr 48, sa_list_init = None, sa_list_update = None, sa_process = Inl 2\<rparr>
      \<lparr>ps_open = [], ps_misuse = False, ps_started = []\<rparr>" by code_simp
  from spawn_and_drop_leak_nothing[OF this, of "[''cmd.exe'']"] e show ?thesis
    by (auto split: prod.splits sum.splits)
qed

section \<open>Writing\<close>

text \<open>Answers that make progress, for data of which \<open>n\<close> bytes are left.\<close>

fun progressing :: "nat \<Rightarrow> (32 word + nat) list \<Rightarrow> bool" where
  "progressing n [] \<longleftrightarrow> True"
| "progressing n (Inl _ # _) \<longleftrightarrow> True"
| "progressing n (Inr k # rest) \<longleftrightarrow> n = 0 \<or> 0 < k \<and> k \<le> n \<and> progressing (n - k) rest"

lemma write_loop_result:
  "n \<le> length data \<Longrightarrow> write_loop answers data n = Some (r, taken) \<Longrightarrow>
   prefix taken data \<and> (r = Inr () \<longrightarrow> taken = data)"
proof (induction answers arbitrary: n)
  case (Cons a as)
  show ?case
  proof (cases "length data \<le> n")
    case False
    show ?thesis
    proof (cases a)
      case (Inl e)
      then show ?thesis using Cons.prems False by (auto simp: write_loop.simps[of "_ # _"] take_is_prefix)
    next
      case (Inr k)
      show ?thesis
      proof (cases "n + k \<le> length data")
        case True
        then show ?thesis using Cons False Inr by (simp add: write_loop.simps[of "_ # _"])
      next
        case over: False
        then show ?thesis using Cons.prems False Inr
          by (simp add: write_loop.simps[of "_ # _"] write_loop.simps[of as] split: if_splits)
      qed
    qed
  qed (use Cons.prems in \<open>simp add: write_loop.simps\<close>)
qed (auto simp: write_loop.simps split: if_splits)

lemma write_loop_ends:
  "progressing (length data - n) answers \<Longrightarrow> length data - n \<le> length answers \<Longrightarrow>
   write_loop answers data n \<noteq> None"
proof (induction answers arbitrary: n)
  case (Cons a as)
  show ?case
  proof (cases a)
    case (Inr k)
    then show ?thesis
      using Cons.prems Cons.IH[of "n + k"] by (auto simp: write_loop.simps[of "_ # _"])
  qed (simp add: write_loop.simps)
qed (simp add: write_loop.simps)

lemma write_loop_spins: "n < length data \<Longrightarrow> write_loop (replicate k (Inr 0)) data n = None"
  by (induction k) (simp_all add: write_loop.simps)



end
