(* ===== verification/Launch_Session.thy ===== *)
theory Launch_Session
  imports Wsl_Commands Conpty_Session Terminal_Mirror Rust_Words
begin

text \<open>
  \<open>run_launch\<close> and \<open>run_attached_agent_shim\<close> of \<open>crates/vb-daemon/src/main.rs\<close>: the plan of a
  launch, the messages it sends to the daemon, the two pumps between the child, the user's
  terminal and the daemon, and the watcher that resizes the pseudoconsole. Printing JSON is
  \<open>serde_json\<close>'s, a parameter.
\<close>

section \<open>The plan of a launch\<close>

record launch_plan =
  lp_addr :: string
  lp_kind :: string
  lp_agent_id :: string
  lp_name :: string
  lp_size :: "16 word \<times> 16 word"
  lp_command :: "string list"

definition launch_agent_id :: "32 word \<Rightarrow> string" where
  "launch_agent_id pid = ''launch-'' @ show_nat (unat pid)"

definition launch_name :: "32 word \<Rightarrow> string \<Rightarrow> launch_opts \<Rightarrow> string" where
  "launch_name pid kind o1 =
    (let base_name = (case lo_name o1 of Some n \<Rightarrow> n
                      | None \<Rightarrow> or_else (command_stem (lo_command o1 ! 0)) ''launch'')
     in if kind = ''terminal'' then base_name @ '' #'' @ show_nat (unat pid) else base_name)"

definition plan_launch :: "(16 word \<times> 16 word) option \<Rightarrow> 32 word \<Rightarrow> string list \<Rightarrow> launch_plan result" where
  "plan_launch window pid raw = bind_res (parse_launch_args raw) (\<lambda>o1.
    let addr = addr_or_default (lo_daemon_addr o1);
        kind = or_else (lo_kind o1) (infer_kind (lo_command o1 ! 0));
        agent_id = launch_agent_id pid
    in Inr \<lparr>lp_addr = addr, lp_kind = kind, lp_agent_id = agent_id, lp_name = launch_name pid kind o1,
         lp_size = effective_conpty_size window (lo_cols o1) (lo_rows o1) (lo_follow_console_size o1),
         lp_command = (if kind = ''terminal'' then maybe_wrap_wsl_terminal_command (lo_command o1) addr agent_id
                       else lo_command o1)\<rparr>)"

definition format_launch_spawn_error :: "string \<Rightarrow> string \<Rightarrow> string" where
  "format_launch_spawn_error command raw =
    (if str_contains raw ''GetLastError=0x00000002''
     then ''spawn ConPTY: command not found: '' @ command @ [CHR 0x0A] @
       lit ''Windows could not find `'' @ command @ lit ''` in PATH. If Codex is installed inside WSL, launch it through wsl.exe, for example:'' @ [CHR 0x0A] @
       ''cargo run -p vb-daemon -- launch --daemon 127.0.0.1:8765 --kind codex -- wsl.exe -d Ubuntu-22.04 -- bash -lc '' @
       [CHR 0x22] @ ''cd '' @ [CHR 0x7E] @ '' && codex --sandbox workspace-write --ask-for-approval on-request --add-dir '' @
       [CHR 0x7E] @ ''/Sipeed'' @ [CHR 0x22]
     else ''spawn ConPTY: '' @ raw)"

section \<open>Messages\<close>

definition register_message :: "string \<Rightarrow> string \<Rightarrow> string \<Rightarrow> string \<Rightarrow> json" where
  "register_message agent_id kind name cwd = JObj
    [(''type'', JStr ''agent.register''),
     (''agent'', JObj [(''agentId'', JStr agent_id), (''kind'', JStr kind), (''name'', JStr name),
        (''cwd'', JStr cwd), (''fromLaunch'', JBool True)])]"

definition attached_register_message :: "string \<Rightarrow> string \<Rightarrow> string \<Rightarrow> string \<Rightarrow> json" where
  "attached_register_message agent_id kind cwd parent_agent_id = JObj
    [(''type'', JStr ''agent.register''),
     (''agent'', JObj [(''agentId'', JStr agent_id), (''kind'', JStr kind), (''name'', JStr kind),
        (''cwd'', JStr cwd), (''fromLaunch'', JBool True), (''parentKind'', JStr ''terminal''),
        (''parentAgentId'', JStr parent_agent_id)])]"

definition stream_message :: "string \<Rightarrow> string \<Rightarrow> bytes \<Rightarrow> json" where
  "stream_message agent_id kind chunk = JObj
    [(''type'', JStr ''terminal.stream''),
     (''stream'', JObj [(''agentId'', JStr agent_id), (''kind'', JStr kind),
        (''dataHex'', JStr (hex_encode chunk))])]"

definition abort_message :: "string \<Rightarrow> string \<Rightarrow> json" where
  "abort_message agent_id kind = JObj
    [(''type'', JStr ''session.abort''),
     (''abort'', JObj [(''agentId'', JStr agent_id), (''kind'', JStr kind)])]"

section \<open>The pumps\<close>

text \<open>
  The output pump. Each step gives what reading the pseudoconsole answers and whether sending
  to the daemon would succeed then; the result is what the thread returns (\<open>None\<close> while it
  reads on), what the user's terminal got and the pieces the daemon got.
\<close>

fun pump_output ::
  "((32 word + bytes) \<times> bool) list \<Rightarrow> bool \<Rightarrow> bytes \<Rightarrow> bytes list \<Rightarrow>
   (32 word + unit) option \<times> bytes \<times> bytes list" where
  "pump_output [] stream_enabled out sent = (None, out, sent)"
| "pump_output ((r, send_ok) # steps) stream_enabled out sent =
    (case read_output 4096 r of
       Inl code \<Rightarrow> (Some (Inl code), out, sent)
     | Inr [] \<Rightarrow> (Some (Inr ()), out, sent)
     | Inr chunk \<Rightarrow>
        (if stream_enabled
         then if send_ok then pump_output steps True (out @ chunk) (sent @ [chunk])
              else pump_output steps False (out @ chunk) sent
         else pump_output steps False (out @ chunk) sent))"

text \<open>
  The input pump over what reading the console answers (\<open>None\<close> an error, nothing the end) and
  what the child's pipe answers to each chunk: the bytes the child got. A chunk whose writing
  has not ended keeps the pump there.
\<close>

fun pump_input :: "(bytes option \<times> (32 word + nat) list) list \<Rightarrow> bytes \<Rightarrow> bytes" where
  "pump_input [] got = got"
| "pump_input ((r, answers) # steps) got =
    (case r of
       None \<Rightarrow> got
     | Some [] \<Rightarrow> got
     | Some chunk \<Rightarrow>
        (case write_input answers chunk of
           None \<Rightarrow> got
         | Some (Inl _, taken) \<Rightarrow> got @ taken
         | Some (Inr _, taken) \<Rightarrow> pump_input steps (got @ taken)))"

section \<open>Resizing\<close>

type_synonym console_size = "16 word \<times> 16 word"

record resize_state =
  rz_last :: console_size
  rz_error :: "console_size option"
  rz_logged :: "(console_size \<times> bool) list"

text \<open>One round: the window's size, when it has one, and whether resizing to it succeeds.\<close>

definition resize_round :: "console_size option \<Rightarrow> bool \<Rightarrow> resize_state \<Rightarrow> resize_state" where
  "resize_round window resized s =
    (case window of
       None \<Rightarrow> s
     | Some sz \<Rightarrow>
        (if sz = rz_last s then s
         else if resized then \<lparr>rz_last = sz, rz_error = None, rz_logged = rz_logged s @ [(sz, True)]\<rparr>
         else if rz_error s \<noteq> Some sz
         then s\<lparr>rz_error := Some sz, rz_logged := rz_logged s @ [(sz, False)]\<rparr>
         else s))"

definition watch_resizes :: "console_size \<Rightarrow> (console_size option \<times> bool) list \<Rightarrow> resize_state" where
  "watch_resizes initial rounds =
    fold (\<lambda>(w, r) s. resize_round w r s) rounds \<lparr>rz_last = initial, rz_error = None, rz_logged = []\<rparr>"

section \<open>The daemon's side\<close>

fun run_lines :: "json_reader \<Rightarrow> poll_snapshot result \<Rightarrow> string list \<Rightarrow> bridge_daemon \<Rightarrow> bridge_daemon \<times> json result list" where
  "run_lines rd polled [] d = (d, [])"
| "run_lines rd polled (l # ls) d =
    (let (d1, r) = handle_json_line rd polled l d; (d2, rs) = run_lines rd polled ls d1 in (d2, r # rs))"

section \<open>Lemmas: the messages as the daemon reads them\<close>

lemmas reading_defs = required_def optional_def defaulted_def nullable_def fits_def
  json_str_def json_bool_def

lemma read_register:
  "envelope_of_json (register_message agent_id kind name cwd) =
    Some \<lparr>en_type = ''agent.register'', en_agent = Some \<lparr>rp_agent_id = agent_id, rp_kind = kind,
       rp_name = name, rp_cwd = cwd, rp_focus_target = None, rp_terminal_hwnd = None, rp_status = None,
       rp_parent_agent_id = None, rp_parent_kind = None, rp_from_launch = True\<rparr>,
      en_activity = None, en_token = None, en_turn = None, en_permission = None, en_resolve = None,
      en_poll = None, en_abort = None, en_stream = None\<rparr>"
  by (simp add: register_message_def envelope_of_json_def registration_agent_of_json_def reading_defs)

lemma read_attached_register:
  "envelope_of_json (attached_register_message agent_id kind cwd parent) =
    Some \<lparr>en_type = ''agent.register'', en_agent = Some \<lparr>rp_agent_id = agent_id, rp_kind = kind,
       rp_name = kind, rp_cwd = cwd, rp_focus_target = None, rp_terminal_hwnd = None, rp_status = None,
       rp_parent_agent_id = Some parent, rp_parent_kind = Some ''terminal'', rp_from_launch = True\<rparr>,
      en_activity = None, en_token = None, en_turn = None, en_permission = None, en_resolve = None,
      en_poll = None, en_abort = None, en_stream = None\<rparr>"
  by (simp add: attached_register_message_def envelope_of_json_def registration_agent_of_json_def reading_defs)

lemma read_stream:
  "envelope_of_json (stream_message agent_id kind chunk) =
    Some \<lparr>en_type = ''terminal.stream'', en_agent = None,
      en_activity = None, en_token = None, en_turn = None, en_permission = None, en_resolve = None,
      en_poll = None, en_abort = None,
      en_stream = Some \<lparr>ts_agent_id = agent_id, ts_kind = kind, ts_data_hex = hex_encode chunk\<rparr>\<rparr>"
  by (simp add: stream_message_def envelope_of_json_def terminal_stream_of_json_def reading_defs)

lemma read_abort:
  "envelope_of_json (abort_message agent_id kind) =
    Some \<lparr>en_type = ''session.abort'', en_agent = None,
      en_activity = None, en_token = None, en_turn = None, en_permission = None, en_resolve = None,
      en_poll = None, en_abort = Some \<lparr>ab_agent_id = agent_id, ab_kind = kind\<rparr>, en_stream = None\<rparr>"
  by (simp add: abort_message_def envelope_of_json_def abort_of_json_def reading_defs)

section \<open>Lemmas: what the daemon does with them\<close>

lemma run_lines_append:
  "run_lines rd polled (xs @ ys) d =
    (let (d1, rs) = run_lines rd polled xs d; (d2, ss) = run_lines rd polled ys d1 in (d2, rs @ ss))"
  by (induction xs arbitrary: d) (auto simp: Let_def split: prod.splits)

lemma distinct_singleton: "distinct xs \<Longrightarrow> set xs = {x} \<Longrightarrow> xs = [x]"
  by (cases xs; cases "tl xs") auto

definition no_mirrors :: "agent_key \<Rightarrow> bridge_daemon \<Rightarrow> bool" where
  "no_mirrors key d \<longleftrightarrow> (\<forall>k a. get_agent d k = Some a \<longrightarrow> ra_attached a \<noteq> Some key)"

lemma launch_id_solid: "trim (launch_agent_id pid) \<noteq> []"
proof -
  have "solid (CHR ''l'')" by code_simp
  then have "trim (launch_agent_id pid) = launch_agent_id pid"
    using digit_solid[of "unat pid mod 10"] show_base_nonempty
    by (intro trim_solid) (simp_all add: launch_agent_id_def show_nat_def last_show_base)
  then show ?thesis by (simp add: launch_agent_id_def)
qed

lemma register_launch:
  assumes "jr_parse rd l = Inr (register_message agent_id kind name cwd)" "parse_kind kind = Inr k"
    and "trim agent_id \<noteq> []" "get_agent d (k, agent_id) = None" "no_mirrors (k, agent_id) d"
  shows "\<exists>d' a. handle_json_line rd polled l d = (d', Inr (ok_response ''agent.registered'' [])) \<and>
    get_agent d' (k, agent_id) = Some a \<and> ra_name a = name \<and> ra_from_launch a \<and> buffer_ok a \<and>
    terminal_snapshot a = [] \<and> ra_board_sid a = None \<and> no_mirrors (k, agent_id) d' \<and>
    (\<forall>i. i \<noteq> (k, agent_id) \<longrightarrow> get_agent d' i = get_agent d i)"
proof -
  have k: "agent_kind_from_label kind = k" "k \<noteq> UnknownAgent"
    using assms(2) by (auto simp: parse_kind_def Let_def split: if_splits)
  define a where "a = \<lparr>ra_agent_id = agent_id, ra_kind = k, ra_name = name, ra_cwd = cwd,
        ra_focus_target = None, ra_terminal_hwnd = None, ra_status = status_from_label ''running'',
        ra_board_sid = None, ra_usage = token_usage_default, ra_turns = [], ra_pending = [],
        ra_resolved = Map.empty, ra_from_hook = True, ra_from_launch = True,
        ra_buffer = [], ra_buffer_len = 0, ra_attached = None\<rparr>"
  have fresh: "into_registered_agent \<lparr>rp_agent_id = agent_id, rp_kind = kind,
       rp_name = name, rp_cwd = cwd, rp_focus_target = None, rp_terminal_hwnd = None, rp_status = None,
       rp_parent_agent_id = None, rp_parent_kind = None, rp_from_launch = True\<rparr> = Inr a"
    using k assms(3) by (simp add: into_registered_agent_def attached_terminal_of_def a_def)
  have key: "ra_key a = (k, agent_id)" by (simp add: a_def ra_key_def)
  obtain d' where d': "handle_json_line rd polled l d = (d', Inr (ok_response ''agent.registered'' []))"
      "get_agent d' i = (if i = (k, agent_id) then Some a else get_agent d i)" for i
    using assms(1,4) fresh key
    by (auto simp: handle_json_line_def read_envelope_def read_register ok_or_def handle_request_def
        handle_register_def Let_def a_def enqueue_board_session_request_def)
  have "no_mirrors (k, agent_id) d'"
    using assms(5) d'(2) by (auto simp: no_mirrors_def a_def split: if_splits)
  then show ?thesis
    using d' by (auto simp: a_def buffer_ok_def terminal_snapshot_def)
qed

lemma stream_launch:
  assumes "jr_parse rd l = Inr (stream_message agent_id kind chunk)" "parse_kind kind = Inr k"
    and "daemon_ok d" "get_agent d (k, agent_id) = Some a" "no_mirrors (k, agent_id) d" "chunk \<noteq> []"
  shows "\<exists>d'. handle_json_line rd polled l d = (d', Inr (ok_response ''terminal.stream.accepted'' [])) \<and>
    get_agent d' (k, agent_id) = Some (append_terminal_bytes chunk a) \<and> daemon_ok d' \<and> no_mirrors (k, agent_id) d' \<and>
    (\<forall>i. i \<noteq> (k, agent_id) \<longrightarrow> get_agent d' i = get_agent d i)"
proof -
  let ?key = "(k, agent_id)" let ?d = "mirror_stream chunk ?key d"
  have "set (mirror_keys ?key d) = {?key}"
    using mirror_keys_set[OF assms(3)] assms(5) by (auto simp: is_mirror_def no_mirrors_def)
  moreover have "distinct (mirror_keys ?key d)"
    using mirror_keys_distinct[OF assms(3,4)] assms(4,5) by (auto simp: no_mirrors_def)
  ultimately have keys: "mirror_keys ?key d = [?key]"
    by (rule distinct_singleton[rotated])
  have "handle_json_line rd polled l d = (?d, Inr (ok_response ''terminal.stream.accepted'' []))"
    using assms(1,2,4,6) hex_roundtrip[of chunk]
    by (simp add: handle_json_line_def read_envelope_def read_stream ok_or_def handle_request_def
        handle_stream_def Let_def keys)
  moreover have "get_agent ?d i = (if i = ?key then Some (append_terminal_bytes chunk a) else get_agent d i)" for i
    using assms(4) by (simp add: mirror_get)
  moreover have "daemon_ok ?d" by (rule ok_mirror[OF assms(3)])
  moreover have "no_mirrors ?key ?d"
    using assms(4,5) by (auto simp: no_mirrors_def mirror_get split: if_splits)
  ultimately show ?thesis by auto
qed

lemma stream_all:
  assumes "\<forall>c \<in> set pieces. jr_parse rd (ser (stream_message agent_id kind c)) = Inr (stream_message agent_id kind c)"
    and "parse_kind kind = Inr k" "daemon_ok d" "get_agent d (k, agent_id) = Some a"
    and "no_mirrors (k, agent_id) d" "\<forall>c \<in> set pieces. c \<noteq> []"
  shows "\<exists>d'. run_lines rd polled (map (\<lambda>c. ser (stream_message agent_id kind c)) pieces) d =
      (d', replicate (length pieces) (Inr (ok_response ''terminal.stream.accepted'' []))) \<and>
    get_agent d' (k, agent_id) = Some (fold append_terminal_bytes pieces a) \<and>
    (\<forall>i. i \<noteq> (k, agent_id) \<longrightarrow> get_agent d' i = get_agent d i)"
  using assms
proof (induction pieces arbitrary: d a)
  case (Cons c cs)
  obtain d1 where d1: "handle_json_line rd polled (ser (stream_message agent_id kind c)) d =
        (d1, Inr (ok_response ''terminal.stream.accepted'' []))"
      "get_agent d1 (k, agent_id) = Some (append_terminal_bytes c a)" "daemon_ok d1" "no_mirrors (k, agent_id) d1"
      "\<forall>i. i \<noteq> (k, agent_id) \<longrightarrow> get_agent d1 i = get_agent d i"
    using stream_launch[of rd "ser (stream_message agent_id kind c)" agent_id kind c k d a polled] Cons.prems by auto
  obtain d2 where "run_lines rd polled (map (\<lambda>c. ser (stream_message agent_id kind c)) cs) d1 =
        (d2, replicate (length cs) (Inr (ok_response ''terminal.stream.accepted'' [])))"
      "get_agent d2 (k, agent_id) = Some (fold append_terminal_bytes cs (append_terminal_bytes c a))"
      "\<forall>i. i \<noteq> (k, agent_id) \<longrightarrow> get_agent d2 i = get_agent d1 i"
    using Cons.IH[of d1 "append_terminal_bytes c a"] Cons.prems d1 by auto
  then show ?case using d1 by simp
qed simp

section \<open>Theorems\<close>

lemma launch_lines:
  assumes "daemon_ok d" "parse_kind kind = Inr k" "agent_id = launch_agent_id pid"
    and "get_agent d (k, agent_id) = None" "no_mirrors (k, agent_id) d" "\<forall>c \<in> set pieces. c \<noteq> []"
    and "\<forall>j \<in> {register_message agent_id kind name cwd, abort_message agent_id kind} \<union>
      stream_message agent_id kind ` set pieces. jr_parse rd (ser j) = Inr j"
  shows "(case run_lines rd polled (ser (register_message agent_id kind name cwd) #
        map (\<lambda>c. ser (stream_message agent_id kind c)) pieces) d of (d1, answers) \<Rightarrow>
      answers = Inr (ok_response ''agent.registered'' []) #
        replicate (length pieces) (Inr (ok_response ''terminal.stream.accepted'' [])) \<and>
      (\<forall>i. i \<noteq> (k, agent_id) \<longrightarrow> get_agent d1 i = get_agent d i) \<and>
      (case get_agent d1 (k, agent_id) of None \<Rightarrow> False
       | Some a \<Rightarrow> terminal_snapshot a = last_n VT100_BUFFER_BYTES (concat pieces) \<and> ra_name a = name \<and> ra_from_launch a) \<and>
      (case handle_json_line rd polled (ser (abort_message agent_id kind)) d1 of (d2, answer) \<Rightarrow>
        answer = Inr (ok_response ''session.abort.accepted'' []) \<and> (k, agent_id) \<notin> set (bd_pending d2) \<and>
        (\<forall>i. get_agent d2 i = (if i = (k, agent_id) then None else get_agent d i))))"
proof -
  let ?reg = "register_message agent_id kind name cwd"
  obtain d0 a where d0: "handle_json_line rd polled (ser ?reg) d = (d0, Inr (ok_response ''agent.registered'' []))"
      "get_agent d0 (k, agent_id) = Some a" "ra_name a = name" "ra_from_launch a" "buffer_ok a"
      "terminal_snapshot a = []" "no_mirrors (k, agent_id) d0"
      "\<forall>i. i \<noteq> (k, agent_id) \<longrightarrow> get_agent d0 i = get_agent d i"
    using register_launch[of rd "ser ?reg" agent_id kind name cwd k d polled] assms(2-5,7) launch_id_solid by auto
  have ok0: "daemon_ok d0" using ok_line[OF assms(1), of rd polled "ser ?reg"] d0(1) by simp
  obtain d1 where d1: "run_lines rd polled (map (\<lambda>c. ser (stream_message agent_id kind c)) pieces) d0 =
        (d1, replicate (length pieces) (Inr (ok_response ''terminal.stream.accepted'' [])))"
      "get_agent d1 (k, agent_id) = Some (fold append_terminal_bytes pieces a)"
      "\<forall>i. i \<noteq> (k, agent_id) \<longrightarrow> get_agent d1 i = get_agent d0 i"
    using stream_all[OF _ assms(2) ok0 d0(2) d0(7) assms(6), of rd ser polled] assms(7) by auto
  have snap: "terminal_snapshot (fold append_terminal_bytes pieces a) = last_n VT100_BUFFER_BYTES (concat pieces)"
    using vt.view_fold[OF d0(5), of pieces] d0(6) by simp
  have fields: "ra_name (fold append_terminal_bytes pieces b) = ra_name b"
    "ra_from_launch (fold append_terminal_bytes pieces b) = ra_from_launch b" for b
    by (induction pieces arbitrary: b) (simp_all add: append_terminal_bytes_def Let_def split: prod.split)
  have abort: "handle_json_line rd polled (ser (abort_message agent_id kind)) d1 =
      (d1\<lparr>bd_registered := AList.delete (k, agent_id) (bd_registered d1),
          bd_pending := filter (\<lambda>i. i \<noteq> (k, agent_id)) (bd_pending d1)\<rparr>,
       Inr (ok_response ''session.abort.accepted'' []))"
    using assms(2,7) d1(2)
    by (simp add: handle_json_line_def read_envelope_def read_abort ok_or_def handle_request_def handle_abort_def Let_def)
  have gone: "get_agent (d1\<lparr>bd_registered := AList.delete (k, agent_id) (bd_registered d1), bd_pending := ps\<rparr>) i =
      (if i = (k, agent_id) then None else get_agent d i)" for i ps
    using d0(8) d1(3) by (cases i) auto
  show ?thesis
    using d0(1,3,4,8) d1 snap fields gone by (simp add: abort)
qed

text \<open>
  A launched session, from its own messages to the daemon's state and away again. For a
  process whose identifier the daemon does not know yet, the registration and every chunk are
  accepted; then the daemon holds exactly the last 64 KiB of the concatenated output under the
  launch's name, and every other agent is as before; the abort at the end removes the agent and
  withdraws its pending session request.
\<close>
theorem launched_session_reaches_the_daemon:
  assumes "daemon_ok d" "parse_kind kind = Inr k" "agent_id = launch_agent_id pid"
    and "get_agent d (k, agent_id) = None" "no_mirrors (k, agent_id) d" "\<forall>c \<in> set pieces. c \<noteq> []"
    and "\<forall>j \<in> {register_message agent_id kind name cwd, abort_message agent_id kind} \<union>
      stream_message agent_id kind ` set pieces. jr_parse rd (ser j) = Inr j"
  shows "(case run_lines rd polled (ser (register_message agent_id kind name cwd) #
        map (\<lambda>c. ser (stream_message agent_id kind c)) pieces) d of (d1, answers) \<Rightarrow>
      answers = Inr (ok_response ''agent.registered'' []) #
        replicate (length pieces) (Inr (ok_response ''terminal.stream.accepted'' [])) \<and>
      (\<forall>i. i \<noteq> (k, agent_id) \<longrightarrow> get_agent d1 i = get_agent d i) \<and>
      (case get_agent d1 (k, agent_id) of None \<Rightarrow> False
       | Some a \<Rightarrow> terminal_snapshot a = last_n VT100_BUFFER_BYTES (concat pieces) \<and> ra_name a = name \<and> ra_from_launch a) \<and>
      (case handle_json_line rd polled (ser (abort_message agent_id kind)) d1 of (d2, answer) \<Rightarrow>
        answer = Inr (ok_response ''session.abort.accepted'' []) \<and> (k, agent_id) \<notin> set (bd_pending d2) \<and>
        (\<forall>i. get_agent d2 i = (if i = (k, agent_id) then None else get_agent d i))))"
  using assms by (rule launch_lines)

lemma launched_session_reaches_the_daemon_witness:
  "\<exists>d a. get_agent d (Codex, launch_agent_id 7) = Some a \<and> terminal_snapshot a = last_n VT100_BUFFER_BYTES [1, 2, 3] \<and>
    ra_name a = ''c''"
proof -
  let ?id = "launch_agent_id 7"
  let ?reg = "register_message ?id ''codex'' ''c'' []" and ?ab = "abort_message ?id ''codex''"
  let ?s1 = "stream_message ?id ''codex'' [1, 2]" and ?s2 = "stream_message ?id ''codex'' [3]"
  define ser where "ser j = (if j = ?reg then ''r'' else if j = ?ab then ''a'' else if j = ?s1 then ''1'' else ''2'')" for j
  define rd where "rd = \<lparr>jr_parse = (\<lambda>l. Inr (if l = ''r'' then ?reg else if l = ''a'' then ?ab
    else if l = ''1'' then ?s1 else ?s2)), jr_shape_error = (\<lambda>_. [])\<rparr>"
  have ne: "?ab \<noteq> ?reg" "?s1 \<noteq> ?reg" "?s2 \<noteq> ?reg" "?s1 \<noteq> ?ab" "?s2 \<noteq> ?ab"
    by (simp_all add: register_message_def abort_message_def stream_message_def)
  have "hex_encode [1, 2] \<noteq> hex_encode [3]" by code_simp
  then have "?s2 \<noteq> ?s1" by (simp add: stream_message_def)
  then have h: "\<forall>j \<in> {?reg, ?ab} \<union> stream_message ?id ''codex'' ` set [[1, 2], [3]]. jr_parse rd (ser j) = Inr j"
    using ne by (simp add: ser_def rd_def)
  have "daemon_ok bridge_daemon_new" by (rule ok_reachable[OF reach_init])
  moreover have "parse_kind ''codex'' = Inr Codex" by code_simp
  moreover have "get_agent bridge_daemon_new (Codex, ?id) = None" "no_mirrors (Codex, ?id) bridge_daemon_new"
    by (simp_all add: bridge_daemon_new_def get_agent_def no_mirrors_def)
  ultimately show ?thesis
    using launched_session_reaches_the_daemon[of bridge_daemon_new "''codex''" Codex ?id 7 "[[1, 2], [3]]" "''c''" "[]" rd ser undefined] h
    by (auto split: prod.splits option.splits)
qed

lemma pump_output_steps:
  "\<forall>c \<in> set cs. fst c \<noteq> [] \<Longrightarrow>
   pump_output (map (\<lambda>(c, s). (Inr c, s)) cs @ steps) enabled out sent =
   pump_output steps (enabled \<and> list_all snd cs) (out @ concat (map fst cs))
     (sent @ (if enabled then map fst (takeWhile snd cs) else []))"
proof (induction cs arbitrary: enabled out sent)
  case (Cons c cs)
  obtain x xs b where c: "c = (x # xs, b)" using Cons.prems by (cases c; cases "fst c") auto
  show ?case using Cons by (auto simp: c read_output_def)
qed simp

lemma pump_input_prefix:
  "\<exists>x. pump_input steps got = got @ x \<and> prefix x (concat (map (\<lambda>(r, _). case r of None \<Rightarrow> [] | Some c \<Rightarrow> c) steps))"
proof (induction steps arbitrary: got)
  case (Cons s steps)
  obtain r answers where s: "s = (r, answers)" by (cases s)
  show ?case
  proof (cases "r = None \<or> r = Some [] \<or> write_input answers (case r of None \<Rightarrow> [] | Some c \<Rightarrow> c) = None")
    case True
    then show ?thesis by (intro exI[of _ "[]"]) (auto simp: s split: option.splits list.splits)
  next
    case False
    then obtain c res taken where c: "r = Some c" "c \<noteq> []" "write_input answers c = Some (res, taken)"
      by (cases r) auto
    have t: "prefix taken c" "res = Inr () \<longrightarrow> taken = c"
      using write_loop_result[of 0 c answers res taken] c(3) by (auto simp: write_input_def)
    show ?thesis
    proof (cases res)
      case (Inl e)
      moreover have "prefix taken (c @ rest)" for rest using t(1) by (rule prefix_prefix)
      ultimately show ?thesis using c by (intro exI[of _ taken]) (auto simp: s neq_Nil_conv)
    next
      case (Inr u)
      then have "taken = c" using t by simp
      obtain x where "pump_input steps (got @ c) = (got @ c) @ x"
          "prefix x (concat (map (\<lambda>(r, _). case r of None \<Rightarrow> [] | Some c \<Rightarrow> c) steps))"
        using Cons.IH by blast
      then show ?thesis using c Inr \<open>taken = c\<close> by (intro exI[of _ "c @ x"]) (auto simp: s neq_Nil_conv)
    qed
  qed
qed simp



definition resized_to :: "resize_state \<Rightarrow> console_size list" where
  "resized_to s = map fst (filter snd (rz_logged s))"

definition resize_ok :: "console_size \<Rightarrow> resize_state \<Rightarrow> bool" where
  "resize_ok initial s \<longleftrightarrow> rz_last s = last (initial # resized_to s) \<and> distinct_adj (initial # resized_to s) \<and>
     distinct_adj (rz_logged s) \<and>
     (rz_logged s \<noteq> [] \<longrightarrow> (if snd (last (rz_logged s)) then rz_last s = fst (last (rz_logged s))
        else rz_error s = Some (fst (last (rz_logged s)))))"

lemma distinct_adj_snoc: "distinct_adj (xs @ [x]) \<longleftrightarrow> distinct_adj xs \<and> (xs = [] \<or> last xs \<noteq> x)"
  by (induction xs rule: induct_list012) auto

lemma resize_round_ok:
  assumes "resize_ok initial s"
  shows "resize_ok initial (resize_round w r s)"
proof (cases "w = None \<or> w = Some (rz_last s) \<or> (\<not> r \<and> w = rz_error s)")
  case True
  then have "resize_round w r s = s" by (cases w) (auto simp: resize_round_def)
  then show ?thesis using assms by simp
next
  case False
  then obtain sz where w: "w = Some sz" "sz \<noteq> rz_last s" "r \<or> rz_error s \<noteq> Some sz" by (cases w) auto
  have new: "distinct_adj (rz_logged s @ [(sz, r)])"
    using assms w(2,3) by (auto simp: resize_ok_def distinct_adj_snoc split: if_splits)
  have "distinct_adj ((initial # resized_to s) @ [sz])"
    using assms w(2) unfolding distinct_adj_snoc by (simp add: resize_ok_def)
  then show ?thesis
    using assms w new by (cases r) (simp_all add: resize_ok_def resize_round_def resized_to_def)
qed

lemma watch_ok: "resize_ok initial s \<Longrightarrow> resize_ok initial (fold (\<lambda>(w, r) s. resize_round w r s) rounds s)"
  by (induction rounds arbitrary: s) (auto simp: resize_round_ok split: prod.split)

text \<open>
  Following the size of the window. At any time the pseudoconsole has the size of the last
  successful resize, every successful resize changed the size, and nothing is logged twice in a
  row, however often a failing resize is tried again; and when the window's size is read and
  resizing works, the pseudoconsole has that size.
\<close>
theorem pseudoconsole_follows_the_window:
  "(let s = watch_resizes initial rounds in
      rz_last s = last (initial # resized_to s) \<and> distinct_adj (initial # resized_to s) \<and> distinct_adj (rz_logged s)) \<and>
   rz_last (watch_resizes initial (rounds @ [(Some sz, True)])) = sz"
proof -
  have "resize_ok initial \<lparr>rz_last = initial, rz_error = None, rz_logged = []\<rparr>"
    by (simp add: resize_ok_def resized_to_def)
  from watch_ok[OF this, of rounds] show ?thesis
    by (simp add: watch_resizes_def resize_ok_def resize_round_def Let_def)
qed

end
