(* ===== verification/Console_Guards.thy ===== *)
theory Console_Guards
  imports Shell_Scripts
begin

text \<open>
  What a launch changes around the child and puts back afterwards, in
  \<open>crates/vb-daemon/src/main.rs\<close>: environment variables (\<open>EnvVarGuard\<close>,
  \<open>TerminalChildEnvGuard\<close>) and console modes (\<open>ConsoleModeGuard\<close>). The environment is a map,
  consoles answer as given.
\<close>

unbundle bit_operations_syntax

section \<open>Environment variables\<close>

type_synonym environment = "string \<rightharpoonup> string"

record env_var_guard =
  ev_key :: string
  ev_previous :: "string option"

definition env_guard_empty :: env_var_guard where
  "env_guard_empty = \<lparr>ev_key = [], ev_previous = None\<rparr>"

definition env_guard_set :: "string \<Rightarrow> string \<Rightarrow> environment \<Rightarrow> env_var_guard \<times> environment" where
  "env_guard_set key v env = (\<lparr>ev_key = key, ev_previous = env key\<rparr>, env(key \<mapsto> v))"

definition env_guard_drop :: "env_var_guard \<Rightarrow> environment \<Rightarrow> environment" where
  "env_guard_drop g env = (if ev_key g = [] then env else env(ev_key g := ev_previous g))"

text \<open>\<open>std::env::split_paths\<close> and \<open>join_paths\<close> on Windows.\<close>

fun split_paths_from :: "bool \<Rightarrow> string \<Rightarrow> string \<Rightarrow> string list" where
  "split_paths_from q cur [] = [cur]"
| "split_paths_from q cur (c # s) =
    (if c = CHR 0x22 then split_paths_from (\<not> q) cur s
     else if c = CHR '';'' \<and> \<not> q then cur # split_paths_from False [] s
     else split_paths_from q (cur @ [c]) s)"

definition split_paths :: "string \<Rightarrow> string list" where
  "split_paths path = split_paths_from False [] path"

definition join_path :: "string \<Rightarrow> string option" where
  "join_path p =
    (if CHR 0x22 \<in> set p then None
     else if CHR '';'' \<in> set p then Some (CHR 0x22 # p @ [CHR 0x22]) else Some p)"

definition join_paths :: "string list \<Rightarrow> string option" where
  "join_paths ps = (if list_all (\<lambda>p. join_path p \<noteq> None) ps
     then Some (join '';'' (map (\<lambda>p. or_else (join_path p) []) ps)) else None)"

definition path_with :: "string \<Rightarrow> environment \<Rightarrow> string option" where
  "path_with dir env = join_paths (dir # split_paths (or_else (env ''PATH'') []))"

text \<open>
  \<open>enter\<close>: the runtime shim directory (or why it could not be made), the directory of the agent
  shims beside the executable, and whether a directory on the path is the same as that one. The
  guards in the order they are pushed, the directory to remove, and the environment.
\<close>

record child_env_guard =
  ce_guards :: "env_var_guard list"
  ce_runtime_shim_dir :: "string option"

definition prepend_path :: "string \<Rightarrow> environment \<Rightarrow> env_var_guard list \<times> environment" where
  "prepend_path dir env =
    (case path_with dir env of
       None \<Rightarrow> ([], env)
     | Some joined \<Rightarrow> (let (g, env) = env_guard_set ''PATH'' joined env in ([g], env)))"

definition child_env_enter ::
  "string option result \<Rightarrow> string option \<Rightarrow> (string \<Rightarrow> string \<Rightarrow> bool) \<Rightarrow> string \<Rightarrow> string \<Rightarrow> environment \<Rightarrow>
   (child_env_guard \<times> environment) result" where
  "child_env_enter runtime_dir exe_dir same_path addr terminal_agent_id env =
    bind_res runtime_dir (\<lambda>rd.
      let (g1, env1) = (case rd of None \<Rightarrow> ([], env) | Some dir \<Rightarrow> prepend_path dir env);
          kept = (if g1 = [] then None else rd);
          (g2, env2) = (case exe_dir of
             None \<Rightarrow> ([], env1)
           | Some dir \<Rightarrow>
               if list_ex (\<lambda>p. same_path p dir) (split_paths (or_else (env1 ''PATH'') []))
               then ([], env1) else prepend_path dir env1);
          (g3, env3) = env_guard_set ''VIBE_BRIDGE_DAEMON'' addr env2;
          (g4, env4) = env_guard_set ''VIBE_BRIDGE_TERMINAL_AGENT_ID'' terminal_agent_id env3;
          (g5, env5) = env_guard_set ''VIBE_BRIDGE_TERMINAL_KIND'' ''terminal'' env4
      in Inr (\<lparr>ce_guards = g1 @ g2 @ [g3, g4, g5], ce_runtime_shim_dir = kept\<rparr>, env5))"

text \<open>Dropping a \<open>Vec\<close> drops its elements from the first to the last.\<close>

definition child_env_drop :: "child_env_guard \<Rightarrow> environment \<Rightarrow> environment" where
  "child_env_drop g env = fold env_guard_drop (ce_guards g) env"

text \<open>
  The environment changes of a launch of a terminal or of an agent: what the child sees, and
  what is left when the guards have gone out of scope, the last made first.
\<close>

definition launch_environment ::
  "bool \<Rightarrow> (child_env_guard \<times> environment) result \<Rightarrow> string \<Rightarrow> environment \<Rightarrow>
   (environment \<times> environment) result" where
  "launch_environment is_terminal entered agent_id env =
    (if is_terminal then bind_res entered (\<lambda>(g, env1).
       let (cg, env2) = env_guard_set ''VIBE_BRIDGE_CAPTURED_TERMINAL'' ''1'' env1
       in Inr (env2, child_env_drop g (env_guard_drop env_guard_empty (env_guard_drop cg env2))))
     else
       let (ag, env1) = env_guard_set ''VIBE_BRIDGE_LAUNCH_AGENT_ID'' agent_id env;
           (cg, env2) = env_guard_set ''VIBE_BRIDGE_CAPTURED_TERMINAL'' ''1'' env1
       in Inr (env2, env_guard_drop ag (env_guard_drop cg env2)))"

section \<open>Console modes\<close>

definition ENABLE_PROCESSED_INPUT :: "32 word" where "ENABLE_PROCESSED_INPUT = 0x0001"
definition ENABLE_LINE_INPUT :: "32 word" where "ENABLE_LINE_INPUT = 0x0002"
definition ENABLE_ECHO_INPUT :: "32 word" where "ENABLE_ECHO_INPUT = 0x0004"
definition ENABLE_VIRTUAL_TERMINAL_INPUT :: "32 word" where "ENABLE_VIRTUAL_TERMINAL_INPUT = 0x0200"
definition ENABLE_VIRTUAL_TERMINAL_PROCESSING :: "32 word" where "ENABLE_VIRTUAL_TERMINAL_PROCESSING = 0x0004"

definition input_applied_mode :: "32 word \<Rightarrow> 32 word" where
  "input_applied_mode mode =
    (mode AND NOT (ENABLE_ECHO_INPUT OR ENABLE_LINE_INPUT OR ENABLE_PROCESSED_INPUT)) OR
    ENABLE_VIRTUAL_TERMINAL_INPUT"

definition output_applied_mode :: "32 word \<Rightarrow> 32 word" where
  "output_applied_mode mode = mode OR ENABLE_VIRTUAL_TERMINAL_PROCESSING"

record console_restore =
  cr_handle :: "64 word"
  cr_mode :: "32 word"
  cr_close_on_drop :: bool

text \<open>
  The consoles: the mode of a handle when it is one, the handles whose mode may be set, and the
  handles opened and not yet closed.
\<close>

record consoles =
  cn_mode :: "64 word \<rightharpoonup> 32 word"
  cn_settable :: "64 word \<Rightarrow> bool"
  cn_opened :: "64 word list"

definition close_console :: "64 word \<Rightarrow> consoles \<Rightarrow> consoles" where
  "close_console h c = c\<lparr>cn_opened := remove1 h (cn_opened c)\<rparr>"

definition set_console_mode :: "64 word \<Rightarrow> 32 word \<Rightarrow> consoles \<Rightarrow> consoles" where
  "set_console_mode h mode c = c\<lparr>cn_mode := (cn_mode c)(h \<mapsto> mode)\<rparr>"

definition usable_handle :: "64 word \<Rightarrow> bool" where
  "usable_handle h \<longleftrightarrow> h \<noteq> 0 \<and> h \<noteq> - 1"

definition try_set ::
  "64 word \<Rightarrow> bool \<Rightarrow> (32 word \<Rightarrow> 32 word) \<Rightarrow> consoles \<Rightarrow> console_restore option \<times> consoles" where
  "try_set h close_on_drop transform c =
    (if \<not> usable_handle h then (None, c)
     else case cn_mode c h of
       None \<Rightarrow> (None, if close_on_drop then close_console h c else c)
     | Some mode \<Rightarrow>
        (if \<not> cn_settable c h then (None, if close_on_drop then close_console h c else c)
         else (Some \<lparr>cr_handle = h, cr_mode = mode, cr_close_on_drop = close_on_drop\<rparr>,
               set_console_mode h (transform mode) c)))"

text \<open>\<open>std\<close>: the standard handle; \<open>device\<close>: what opening \<open>CONIN$\<close> or \<open>CONOUT$\<close> gives.\<close>

definition set_console_mode_for_std_or_device ::
  "64 word \<Rightarrow> 64 word \<Rightarrow> (32 word \<Rightarrow> 32 word) \<Rightarrow> consoles \<Rightarrow> console_restore option \<times> consoles" where
  "set_console_mode_for_std_or_device std device transform c =
    (case try_set std False transform c of
       (Some r, c) \<Rightarrow> (Some r, c)
     | (None, c) \<Rightarrow>
        (if \<not> usable_handle device then (None, c)
         else try_set device True transform (c\<lparr>cn_opened := device # cn_opened c\<rparr>)))"

record console_mode_guard =
  cm_input :: "console_restore option"
  cm_output :: "console_restore option"

definition enter_passthrough ::
  "64 word \<times> 64 word \<Rightarrow> 64 word \<times> 64 word \<Rightarrow> consoles \<Rightarrow> console_mode_guard \<times> consoles" where
  "enter_passthrough inp outp c =
    (let (i, c) = set_console_mode_for_std_or_device (fst inp) (snd inp) input_applied_mode c;
         (o1, c) = set_console_mode_for_std_or_device (fst outp) (snd outp) output_applied_mode c
     in (\<lparr>cm_input = i, cm_output = o1\<rparr>, c))"

definition input_read_handle :: "console_mode_guard \<Rightarrow> 64 word option" where
  "input_read_handle g = map_option cr_handle (cm_input g)"

definition restore_console :: "console_restore option \<Rightarrow> consoles \<Rightarrow> consoles" where
  "restore_console r c =
    (case r of
       None \<Rightarrow> c
     | Some r \<Rightarrow>
        (let c = set_console_mode (cr_handle r) (cr_mode r) c
         in if cr_close_on_drop r then close_console (cr_handle r) c else c))"

definition console_guard_drop :: "console_mode_guard \<Rightarrow> consoles \<Rightarrow> consoles" where
  "console_guard_drop g c = restore_console (cm_output g) (restore_console (cm_input g) c)"

section \<open>What is left behind\<close>

text \<open>The two changes of the path that \<open>enter\<close> makes, in order.\<close>

definition path_changes ::
  "string option \<Rightarrow> string option \<Rightarrow> (string \<Rightarrow> string \<Rightarrow> bool) \<Rightarrow> environment \<Rightarrow> string list" where
  "path_changes rd exe_dir same_path env =
    (let first = (case rd of None \<Rightarrow> [] | Some dir \<Rightarrow> option_list (path_with dir env));
         env1 = (if first = [] then env else env(''PATH'' \<mapsto> hd first))
     in first @ (case exe_dir of
          None \<Rightarrow> []
        | Some dir \<Rightarrow>
            if list_ex (\<lambda>p. same_path p dir) (split_paths (or_else (env1 ''PATH'') [])) then []
            else option_list (path_with dir env1)))"

text \<open>A sequence of assignments, with the guard each of them makes.\<close>

fun set_vars :: "(string \<times> string) list \<Rightarrow> environment \<Rightarrow> env_var_guard list \<times> environment" where
  "set_vars [] env = ([], env)"
| "set_vars ((k, v) # cs) env =
    (let (g, env1) = env_guard_set k v env; (gs, env2) = set_vars cs env1 in (g # gs, env2))"

definition assigned :: "string \<Rightarrow> (string \<times> string) list \<Rightarrow> string list" where
  "assigned k cs = map snd (filter (\<lambda>c. fst c = k) cs)"

lemma set_vars_Cons:
  "fst (set_vars ((k, v) # cs) env) = \<lparr>ev_key = k, ev_previous = env k\<rparr> # fst (set_vars cs (env(k \<mapsto> v)))"
  "snd (set_vars ((k, v) # cs) env) = snd (set_vars cs (env(k \<mapsto> v)))"
  by (simp_all add: env_guard_set_def Let_def case_prod_beta del: fun_upd_apply)

lemma set_vars_append:
  "fst (set_vars (cs @ ds) env) = fst (set_vars cs env) @ fst (set_vars ds (snd (set_vars cs env)))"
  "snd (set_vars (cs @ ds) env) = snd (set_vars ds (snd (set_vars cs env)))"
proof (induction cs arbitrary: env)
  case (Cons c cs)
  { case 1 show ?case by (cases c) (simp add: set_vars_Cons Cons.IH del: set_vars.simps(2) fun_upd_apply) }
  { case 2 show ?case by (cases c) (simp add: set_vars_Cons Cons.IH del: set_vars.simps(2) fun_upd_apply) }
qed simp_all

lemma set_vars_value:
  "snd (set_vars cs env) k = (case rev (assigned k cs) of [] \<Rightarrow> env k | v # _ \<Rightarrow> Some v)"
proof (induction cs arbitrary: env)
  case (Cons c cs)
  obtain k1 v1 where c: "c = (k1, v1)" by (cases c)
  have step: "snd (set_vars (c # cs) env) k = (case rev (assigned k cs) of [] \<Rightarrow> (env(k1 \<mapsto> v1)) k | v # _ \<Rightarrow> Some v)"
    by (simp only: c set_vars_Cons Cons.IH)
  show ?case
    unfolding step by (auto simp: c assigned_def split: list.splits)
qed (simp add: assigned_def)

lemma drop_guard: "k \<noteq> [] \<Longrightarrow> env_guard_drop \<lparr>ev_key = k, ev_previous = x\<rparr> env = env(k := x)"
  by (simp add: env_guard_drop_def)

text \<open>
  Guards dropped in the order they were made leave a variable that was assigned twice with its
  last but one value.
\<close>

lemma drop_in_order:
  assumes "\<forall>c \<in> set cs. fst c \<noteq> []"
  shows "fold env_guard_drop (fst (set_vars cs env)) now k =
    (case rev (assigned k cs) of [] \<Rightarrow> now k | [_] \<Rightarrow> env k | _ # v # _ \<Rightarrow> Some v)"
  using assms
proof (induction cs arbitrary: env now)
  case (Cons c cs)
  obtain k1 v1 where c: "c = (k1, v1)" by (cases c)
  have k1: "k1 \<noteq> []" using Cons.prems c by simp
  have step: "fold env_guard_drop (fst (set_vars (c # cs) env)) now k =
    (case rev (assigned k cs) of [] \<Rightarrow> (now(k1 := env k1)) k | [_] \<Rightarrow> (env(k1 \<mapsto> v1)) k | _ # v # _ \<Rightarrow> Some v)"
    using Cons.IH [of "env(k1 \<mapsto> v1)" "now(k1 := env k1)"] Cons.prems k1
    by (simp add: c set_vars_Cons drop_guard del: set_vars.simps(2) fun_upd_apply)
  show ?case
    unfolding step by (auto simp: c assigned_def split: list.splits)
qed (simp add: assigned_def)

definition child_env_changes ::
  "string option \<Rightarrow> string option \<Rightarrow> (string \<Rightarrow> string \<Rightarrow> bool) \<Rightarrow> string \<Rightarrow> string \<Rightarrow> environment \<Rightarrow>
   (string \<times> string) list" where
  "child_env_changes rd exe_dir same_path addr aid env =
    map (Pair ''PATH'') (path_changes rd exe_dir same_path env) @
    [(''VIBE_BRIDGE_DAEMON'', addr), (''VIBE_BRIDGE_TERMINAL_AGENT_ID'', aid),
     (''VIBE_BRIDGE_TERMINAL_KIND'', ''terminal'')]"

lemma prepend_path_sets:
  "prepend_path dir env = set_vars (map (Pair ''PATH'') (option_list (path_with dir env))) env"
  by (cases "path_with dir env") (simp_all add: prepend_path_def Let_def split: prod.splits)

lemma child_env_enter_sets:
  "child_env_enter (Inr rd) exe_dir same_path addr aid env =
    (let cs = child_env_changes rd exe_dir same_path addr aid env
     in Inr (\<lparr>ce_guards = fst (set_vars cs env),
          ce_runtime_shim_dir = (case rd of None \<Rightarrow> None | Some dir \<Rightarrow> if path_with dir env = None then None else rd)\<rparr>,
        snd (set_vars cs env)))"
proof -
  let ?first = "case rd of None \<Rightarrow> [] | Some dir \<Rightarrow> option_list (path_with dir env)"
  define env1 where "env1 = (if ?first = [] then env else env(''PATH'' \<mapsto> hd ?first))"
  let ?second = "case exe_dir of None \<Rightarrow> [] | Some dir \<Rightarrow>
    if list_ex (\<lambda>p. same_path p dir) (split_paths (or_else (env1 ''PATH'') [])) then []
    else option_list (path_with dir env1)"
  have pc: "path_changes rd exe_dir same_path env = ?first @ ?second"
    by (simp only: path_changes_def Let_def env1_def)
  have p1: "(case rd of None \<Rightarrow> ([], env) | Some dir \<Rightarrow> prepend_path dir env) = set_vars (map (Pair ''PATH'') ?first) env"
    by (simp add: prepend_path_sets split: option.splits)
  have e1: "snd (set_vars (map (Pair ''PATH'') ?first) env) = env1"
    by (auto simp: env1_def set_vars_Cons option_list_def simp del: set_vars.simps(2) split: option.splits)
  have p2: "(case exe_dir of None \<Rightarrow> ([], env1) | Some dir \<Rightarrow>
      if list_ex (\<lambda>p. same_path p dir) (split_paths (or_else (env1 ''PATH'') [])) then ([], env1)
      else prepend_path dir env1) = set_vars (map (Pair ''PATH'') ?second) env1"
    by (simp add: prepend_path_sets split: option.splits)
  have kept: "(if fst (set_vars (map (Pair ''PATH'') ?first) env) = [] then None else rd) =
      (case rd of None \<Rightarrow> None | Some dir \<Rightarrow> if path_with dir env = None then None else rd)"
    by (auto simp: option_list_def set_vars_Cons simp del: set_vars.simps(2) split: option.splits)
  show ?thesis
    unfolding child_env_enter_def bind_res_simps p1 Let_def case_prod_beta e1 p2 kept child_env_changes_def pc
      map_append set_vars_append
    by (simp add: env_guard_set_def del: fun_upd_apply)
qed

lemma length_path_changes: "length (path_changes rd exe_dir same_path env) \<le> 2"
  by (auto simp: path_changes_def Let_def option_list_def split: option.splits)

lemma assigned_child_env_changes:
  "assigned k (child_env_changes rd exe_dir same_path addr aid env) =
    (if k = ''PATH'' then path_changes rd exe_dir same_path env
     else if k = ''VIBE_BRIDGE_DAEMON'' then [addr] else if k = ''VIBE_BRIDGE_TERMINAL_AGENT_ID'' then [aid]
     else if k = ''VIBE_BRIDGE_TERMINAL_KIND'' then [''terminal''] else [])"
  by (auto simp: assigned_def child_env_changes_def filter_map o_def)

lemma set_then_drop: "k \<noteq> [] \<Longrightarrow> env_guard_set k v env = (g, env') \<Longrightarrow> env_guard_drop g env' = env"
  by (auto simp: env_guard_set_def env_guard_drop_def)

lemma drop_empty_guard [simp]: "env_guard_drop env_guard_empty env = env"
  by (simp add: env_guard_empty_def env_guard_drop_def)

lemma child_env_drop_after:
  "fold env_guard_drop (fst (set_vars cs env)) (snd (set_vars cs env)) =
    (case path_changes rd exe_dir same_path env of [p, _] \<Rightarrow> env(''PATH'' \<mapsto> p) | _ \<Rightarrow> env)"
  if cs: "cs = child_env_changes rd exe_dir same_path addr aid env"
proof
  fix k
  have nonempty: "\<forall>c \<in> set cs. fst c \<noteq> []"
    unfolding cs child_env_changes_def by auto
  have len: "length (path_changes rd exe_dir same_path env) \<le> 2" by (rule length_path_changes)
  show "fold env_guard_drop (fst (set_vars cs env)) (snd (set_vars cs env)) k =
    (case path_changes rd exe_dir same_path env of [p, _] \<Rightarrow> env(''PATH'' \<mapsto> p) | _ \<Rightarrow> env) k"
    unfolding drop_in_order [OF nonempty] set_vars_value
  proof (cases "k = ''PATH''")
    case True
    consider "path_changes rd exe_dir same_path env = []" | p where "path_changes rd exe_dir same_path env = [p]"
      | p q where "path_changes rd exe_dir same_path env = [p, q]"
      using len by (cases "path_changes rd exe_dir same_path env" rule: remdups_adj.cases) auto
    then show "(case rev (assigned k cs) of [] \<Rightarrow> case rev (assigned k cs) of [] \<Rightarrow> env k | v # _ \<Rightarrow> Some v
        | [_] \<Rightarrow> env k | _ # v # _ \<Rightarrow> Some v) =
      (case path_changes rd exe_dir same_path env of [p, _] \<Rightarrow> env(''PATH'' \<mapsto> p) | _ \<Rightarrow> env) k"
      using True by cases (simp_all add: cs assigned_child_env_changes)
  next
    case False
    then have "length (assigned k cs) \<le> 1" by (simp add: cs assigned_child_env_changes)
    then consider "assigned k cs = []" | v where "assigned k cs = [v]"
      by (cases "assigned k cs") auto
    then show "(case rev (assigned k cs) of [] \<Rightarrow> case rev (assigned k cs) of [] \<Rightarrow> env k | v # _ \<Rightarrow> Some v
        | [_] \<Rightarrow> env k | _ # v # _ \<Rightarrow> Some v) =
      (case path_changes rd exe_dir same_path env of [p, _] \<Rightarrow> env(''PATH'' \<mapsto> p) | _ \<Rightarrow> env) k"
      using False by cases (simp_all split: list.splits)
  qed
qed

text \<open>
  What a launch leaves of the environment. While the child runs it sees that its terminal is
  captured, and the daemon and terminal it belongs to, or the identifier of its agent. Afterwards
  every variable is as it was before, with one exception: when both the runtime directory and the
  directory of the installed shims were put on the path, the path keeps the runtime directory,
  because the guards of the path are dropped in the order they were made.
\<close>
theorem environment_is_restored_except_path:
  assumes "launch_environment is_terminal (child_env_enter (Inr rd) exe_dir same_path addr aid env) agent_id env =
    Inr (during, after)"
  shows "during ''VIBE_BRIDGE_CAPTURED_TERMINAL'' = Some ''1'' \<and>
    (if is_terminal then during ''VIBE_BRIDGE_DAEMON'' = Some addr \<and> during ''VIBE_BRIDGE_TERMINAL_AGENT_ID'' = Some aid
     else during ''VIBE_BRIDGE_LAUNCH_AGENT_ID'' = Some agent_id) \<and>
    after = (case path_changes rd exe_dir same_path env of
       [p, _] \<Rightarrow> if is_terminal then env(''PATH'' \<mapsto> p) else env | _ \<Rightarrow> env)"
proof (cases is_terminal)
  case True
  define cs where "cs = child_env_changes rd exe_dir same_path addr aid env"
  define env1 where "env1 = snd (set_vars cs env)"
  have vars: "env1 ''VIBE_BRIDGE_DAEMON'' = Some addr" "env1 ''VIBE_BRIDGE_TERMINAL_AGENT_ID'' = Some aid"
    by (simp_all add: env1_def cs_def set_vars_value assigned_child_env_changes)
  have "during = env1(''VIBE_BRIDGE_CAPTURED_TERMINAL'' \<mapsto> ''1'')"
    "after = fold env_guard_drop (fst (set_vars cs env)) env1"
    using assms True
    by (auto simp: launch_environment_def child_env_enter_sets Let_def
        child_env_drop_def env_guard_set_def drop_guard env1_def cs_def)
  then show ?thesis
    using vars True child_env_drop_after [OF cs_def] by (simp add: env1_def split: list.splits)
next
  case False
  then show ?thesis
    using assms by (auto simp: launch_environment_def env_guard_set_def drop_guard split: list.splits)
qed

definition sample_environment :: environment where
  "sample_environment = [''PATH'' \<mapsto> ''C:/win'', ''HOME'' \<mapsto> ''C:/me'']"

theorem environment_is_restored_except_path_witness:
  "\<exists>during after. launch_environment True
      (child_env_enter (Inr (Some ''C:/tmp'')) (Some ''C:/vb'') (=) ''h:1'' ''launch-7'' sample_environment)
      ''launch-7'' sample_environment = Inr (during, after) \<and>
    during ''VIBE_BRIDGE_DAEMON'' = Some ''h:1'' \<and> after = sample_environment(''PATH'' \<mapsto> ''C:/tmp;C:/win'')"
proof -
  have changes: "path_changes (Some ''C:/tmp'') (Some ''C:/vb'') (=) sample_environment =
      [''C:/tmp;C:/win'', ''C:/vb;C:/tmp;C:/win'']"
    by code_simp
  obtain r where r: "launch_environment True
      (child_env_enter (Inr (Some ''C:/tmp'')) (Some ''C:/vb'') (=) ''h:1'' ''launch-7'' sample_environment)
      ''launch-7'' sample_environment = Inr r"
    by (simp add: launch_environment_def child_env_enter_sets Let_def env_guard_set_def)
  obtain during after where da: "r = (during, after)" by (cases r)
  show ?thesis
    using environment_is_restored_except_path [OF r [unfolded da]] r da by (simp add: changes)
qed

section \<open>Console modes and handles\<close>

text \<open>A console as the guards use it: handles that have a mode are usable.\<close>

definition raw_input :: "32 word \<Rightarrow> bool" where
  "raw_input mode \<longleftrightarrow> mode AND (ENABLE_ECHO_INPUT OR ENABLE_LINE_INPUT OR ENABLE_PROCESSED_INPUT) = 0 \<and>
    mode AND ENABLE_VIRTUAL_TERMINAL_INPUT = ENABLE_VIRTUAL_TERMINAL_INPUT"

lemma mask_cleared: "M AND V = 0 \<Longrightarrow> ((m AND NOT M) OR V) AND M = 0" for m M V :: "'a::len word"
  by (simp add: bit.conj_disj_distrib2 and.assoc and.commute [of V])

lemma mask_set: "(m OR V) AND V = V" for m V :: "'a::len word"
  by (rule bit_word_eqI) (auto simp: bit_simps)

lemma input_applied_mode_raw: "raw_input (input_applied_mode mode)"
  unfolding raw_input_def input_applied_mode_def
  by (intro conjI mask_set mask_cleared)
    (simp add: ENABLE_ECHO_INPUT_def ENABLE_LINE_INPUT_def ENABLE_PROCESSED_INPUT_def ENABLE_VIRTUAL_TERMINAL_INPUT_def)

lemma output_applied_mode_vt:
  "output_applied_mode mode AND ENABLE_VIRTUAL_TERMINAL_PROCESSING = ENABLE_VIRTUAL_TERMINAL_PROCESSING"
  by (simp add: output_applied_mode_def mask_set)

text \<open>Entering keeps what dropping needs: per console, the handle, the mode it had, and whether to close it.\<close>

lemma try_set_cases:
  "try_set h close f c = (None, if close \<and> usable_handle h then close_console h c else c) \<or>
   (\<exists>mode. usable_handle h \<and> cn_mode c h = Some mode \<and>
      try_set h close f c = (Some \<lparr>cr_handle = h, cr_mode = mode, cr_close_on_drop = close\<rparr>, set_console_mode h (f mode) c))"
  by (auto simp: try_set_def split: option.splits)

lemma restore_just_set:
  "cn_mode c h = Some m0 \<Longrightarrow>
   restore_console (Some \<lparr>cr_handle = h, cr_mode = m0, cr_close_on_drop = cl\<rparr>) (set_console_mode h m1 c) =
     (if cl then close_console h c else c)"
  by (simp add: restore_console_def set_console_mode_def Let_def fun_upd_idem close_console_def)

lemma cn_mode_set [simp]: "cn_mode (set_console_mode h m c) = (cn_mode c)(h \<mapsto> m)"
  by (simp add: set_console_mode_def)

lemma restore_none [simp]: "restore_console None c = c"
  by (simp add: restore_console_def)

lemma close_opened [simp]: "close_console h (c\<lparr>cn_opened := h # cn_opened c\<rparr>) = c"
  by (simp add: close_console_def)

lemma cn_mode_close [simp]: "cn_mode (close_console h c) = cn_mode c"
  by (simp add: close_console_def)

lemma console_restored:
  assumes "set_console_mode_for_std_or_device std dev f c = (r, c')"
  shows "restore_console r c' = c \<and>
    (\<forall>x. r = Some x \<longrightarrow> cn_mode c' (cr_handle x) = Some (f (cr_mode x)) \<and> cr_handle x \<in> {std, dev}) \<and>
    (\<forall>h. h \<notin> {std, dev} \<longrightarrow> cn_mode c' h = cn_mode c h)"
  using assms try_set_cases [of std False f c] try_set_cases [of dev True f "c\<lparr>cn_opened := dev # cn_opened c\<rparr>"]
  by (auto simp: set_console_mode_for_std_or_device_def restore_just_set split: if_splits)

text \<open>The order in which two consoles without a common handle are restored does not matter.\<close>

lemma restore_commute:
  assumes "\<And>x y. r = Some x \<Longrightarrow> q = Some y \<Longrightarrow> cr_handle x \<noteq> cr_handle y"
  shows "restore_console r (restore_console q c) = restore_console q (restore_console r c)"
  using assms
  by (cases c; cases r; cases q)
    (auto simp: restore_console_def Let_def set_console_mode_def close_console_def fun_eq_iff remove1_commute)

lemma guard_undone:
  assumes i: "set_console_mode_for_std_or_device (fst inp) (snd inp) input_applied_mode c = (i, c1)"
    and u: "set_console_mode_for_std_or_device (fst outp) (snd outp) output_applied_mode c1 = (u, c2)"
    and apart: "{fst inp, snd inp} \<inter> {fst outp, snd outp} = {}"
  shows "console_guard_drop \<lparr>cm_input = i, cm_output = u\<rparr> c2 = c"
    "i = Some x \<Longrightarrow> cr_handle x \<notin> {fst outp, snd outp}"
proof -
  note I = console_restored [OF i] and U = console_restored [OF u]
  have out: "cr_handle x \<notin> {fst outp, snd outp}" if "i = Some x" for x
  proof -
    have "cr_handle x \<in> {fst inp, snd inp}" using I that by simp
    then show ?thesis using apart by auto
  qed
  have "cr_handle x \<noteq> cr_handle y" if "i = Some x" "u = Some y" for x y
  proof -
    have "cr_handle y \<in> {fst outp, snd outp}" using U that(2) by simp
    then show ?thesis using out [OF that(1)] by auto
  qed
  then have "console_guard_drop \<lparr>cm_input = i, cm_output = u\<rparr> c2 = restore_console i (restore_console u c2)"
    using restore_commute [of i u c2] by (simp add: console_guard_drop_def)
  then show "console_guard_drop \<lparr>cm_input = i, cm_output = u\<rparr> c2 = c" using I U by simp
  show "i = Some x \<Longrightarrow> cr_handle x \<notin> {fst outp, snd outp}" by (rule out)
qed

text \<open>
  Console modes around a launch. While it runs the input neither echoes, nor edits lines, nor
  handles interrupts, and the output understands terminal sequences; dropping the guard puts
  every handle's mode back and closes exactly the handles that were opened, whichever of the
  standard handles and devices could be used.
\<close>
theorem console_modes_are_restored:
  assumes "enter_passthrough inp outp c = (g, c')"
    and "{fst inp, snd inp} \<inter> {fst outp, snd outp} = {}"
  shows "console_guard_drop g c' = c \<and>
    (\<forall>h mode. input_read_handle g = Some h \<longrightarrow> cn_mode c' h = Some mode \<longrightarrow> raw_input mode) \<and>
    (\<forall>x mode. cm_output g = Some x \<longrightarrow> cn_mode c' (cr_handle x) = Some mode \<longrightarrow>
      mode AND ENABLE_VIRTUAL_TERMINAL_PROCESSING = ENABLE_VIRTUAL_TERMINAL_PROCESSING)"
proof -
  obtain i c1 where i: "set_console_mode_for_std_or_device (fst inp) (snd inp) input_applied_mode c = (i, c1)"
    by fastforce
  obtain u c2 where u: "set_console_mode_for_std_or_device (fst outp) (snd outp) output_applied_mode c1 = (u, c2)"
    by fastforce
  note I = console_restored [OF i] and U = console_restored [OF u]
  have g: "g = \<lparr>cm_input = i, cm_output = u\<rparr>" "c' = c2"
    using assms(1) by (simp_all add: enter_passthrough_def i u)
  note undone = guard_undone [OF i u assms(2)]
  have "console_guard_drop g c' = c" using undone(1) by (simp add: g)
  moreover have "raw_input mode" if h: "input_read_handle g = Some h" "cn_mode c' h = Some mode" for h mode
  proof -
    obtain x where x: "i = Some x" "h = cr_handle x"
      using h(1) by (auto simp: g input_read_handle_def)
    have "cn_mode c2 h = cn_mode c1 h" using U undone(2) [OF x(1)] x(2) by auto
    moreover have "cn_mode c1 h = Some (input_applied_mode (cr_mode x))" using I x by blast
    ultimately show ?thesis using h(2) input_applied_mode_raw [of "cr_mode x"] by (simp add: g)
  qed
  moreover have "mode AND ENABLE_VIRTUAL_TERMINAL_PROCESSING = ENABLE_VIRTUAL_TERMINAL_PROCESSING"
    if "cm_output g = Some x" "cn_mode c' (cr_handle x) = Some mode" for x mode
  proof -
    have "cn_mode c2 (cr_handle x) = Some (output_applied_mode (cr_mode x))"
      using U that(1) by (simp add: g)
    then show ?thesis using that(2) output_applied_mode_vt [of "cr_mode x"] by (simp add: g)
  qed
  ultimately show ?thesis by blast
qed

definition sample_consoles :: consoles where
  "sample_consoles = \<lparr>cn_mode = [5 \<mapsto> 0x1F7, 7 \<mapsto> 3], cn_settable = (\<lambda>_. True), cn_opened = [9]\<rparr>"

theorem console_modes_are_restored_witness:
  "\<exists>g c'. enter_passthrough (0, 5) (7, 8) sample_consoles = (g, c') \<and> cn_opened c' = [5, 9] \<and>
    console_guard_drop g c' = sample_consoles"
proof -
  obtain g c' where e: "enter_passthrough (0, 5) (7, 8) sample_consoles = (g, c')"
    by fastforce
  have "cn_opened (snd (enter_passthrough (0, 5) (7, 8) sample_consoles)) = [5, 9]"
    by code_simp
  with e have "cn_opened c' = [5, 9]" by simp
  then show ?thesis
    using e console_modes_are_restored [OF e] by simp
qed

end
