(* ===== verification/Windows_System.thy ===== *)
theory Windows_System
  imports Wsl_Commands Terminal_Profiles
begin

text \<open>
  What the installer of \<open>crates/vb-daemon/src/main.rs\<close> finds around it: the files of the machine,
  and everything it asks other programs for. The file operations are those of \<open>std::fs\<close>; a path
  can refuse an operation with the system's text for the error. What PowerShell, WSL, the
  network and the clock answer is given by a record of functions.
\<close>

section \<open>State and surroundings\<close>

record machine =
  mc_files :: "string \<rightharpoonup> bytes"
  mc_dirs :: "string set"
  mc_wsl_runs :: "string list list"

record command_output =
  co_success :: bool
  co_status :: string
  co_stdout :: bytes
  co_stderr :: bytes

datatype fs_call = CreateDirAll | ReadFile | WriteFile | RemoveFile | RemoveDir | RemoveDirAll | ReadDir
  | CopyFile | RenameFile | OpenLog

text \<open>
  An entry of a directory listing is an error, a name, or a name that is no text. Connection
  attempts are answered in turn; after the last one the time to wait has passed.
\<close>

record outside =
  ou_env :: "string \<rightharpoonup> string"
  ou_pid :: "32 word"
  ou_current_exe :: "string result"
  ou_canonical :: "string \<Rightarrow> string result"
  ou_refuses :: "fs_call \<Rightarrow> string \<Rightarrow> string option"
  ou_listing :: "string \<Rightarrow> machine \<Rightarrow> string option result list"
  ou_powershell :: "string list \<Rightarrow> machine \<Rightarrow> command_output result \<times> machine"
  ou_wsl :: "string list \<Rightarrow> command_output result"
  ou_connects :: "bool list"
  ou_spawn :: "string list \<Rightarrow> 32 word result"
  ou_parse :: "string \<Rightarrow> json result"
  ou_pretty :: "json \<Rightarrow> string result"
  ou_seconds :: nat
  ou_millis :: nat

type_synonym 'a io = "machine \<Rightarrow> 'a result \<times> machine"

definition io_return :: "'a \<Rightarrow> 'a io" where
  "io_return x m = (Inr x, m)"

definition io_err :: "string \<Rightarrow> 'a io" where
  "io_err e m = (Inl e, m)"

definition io_of :: "'a result \<Rightarrow> 'a io" where
  "io_of r m = (r, m)"

definition io_bind :: "'a io \<Rightarrow> ('a \<Rightarrow> 'b io) \<Rightarrow> 'b io" where
  "io_bind act f m = (case act m of (Inl e, m') \<Rightarrow> (Inl e, m') | (Inr x, m') \<Rightarrow> f x m')"

definition io_then :: "unit io \<Rightarrow> 'b io \<Rightarrow> 'b io" where
  "io_then act next = io_bind act (\<lambda>_. next)"

text \<open>An operation whose error is handled, and one whose error is given a text.\<close>

definition io_try :: "'a io \<Rightarrow> 'a result io" where
  "io_try act m = (case act m of (r, m') \<Rightarrow> (Inr r, m'))"

definition map_err :: "(string \<Rightarrow> string) \<Rightarrow> 'a io \<Rightarrow> 'a io" where
  "map_err f act m = (case act m of (Inl e, m') \<Rightarrow> (Inl (f e), m') | (Inr x, m') \<Rightarrow> (Inr x, m'))"

definition io_state :: "(machine \<Rightarrow> 'a) \<Rightarrow> 'a io" where
  "io_state f m = (Inr (f m), m)"

fun io_each :: "('a \<Rightarrow> 'b list io) \<Rightarrow> 'a list \<Rightarrow> 'b list io" where
  "io_each f [] = io_return []"
| "io_each f (x # xs) = io_bind (f x) (\<lambda>ys. io_bind (io_each f xs) (\<lambda>zs. io_return (ys @ zs)))"

section \<open>Paths\<close>

definition is_drive :: "string \<Rightarrow> bool" where
  "is_drive p \<longleftrightarrow> (case p of [d, c] \<Rightarrow> c = CHR '':'' \<and> is_ascii_alphabetic d | _ \<Rightarrow> False)"

text \<open>\<open>Path::join\<close> with a relative path that has no drive.\<close>

definition path_join :: "string \<Rightarrow> string \<Rightarrow> string" where
  "path_join dir name =
    (if dir = [] \<or> is_path_sep (last dir) \<or> is_drive dir then dir @ name else dir @ CHR 0x5C # name)"

definition joined :: "string \<Rightarrow> string list \<Rightarrow> string" where
  "joined dir names = foldl path_join dir names"

definition ancestors :: "string \<Rightarrow> string list" where
  "ancestors p = map (\<lambda>n. take n p) (filter (\<lambda>n. is_path_sep (p ! n)) [1..<length p])"

definition parent_missing :: "string \<Rightarrow> machine \<Rightarrow> bool" where
  "parent_missing p m \<longleftrightarrow> (case rev (ancestors p) of [] \<Rightarrow> False | q # _ \<Rightarrow> q \<notin> mc_dirs m)"

definition below :: "string \<Rightarrow> string \<Rightarrow> bool" where
  "below dir p \<longleftrightarrow> dir \<in> set (ancestors p)"

section \<open>File operations\<close>

definition not_found :: string where
  "not_found = ''The system cannot find the path specified. (os error 3)''"

definition unless_refused :: "outside \<Rightarrow> fs_call \<Rightarrow> string \<Rightarrow> 'a io \<Rightarrow> 'a io" where
  "unless_refused w call p act = (case ou_refuses w call p of Some e \<Rightarrow> io_err e | None \<Rightarrow> act)"

definition path_exists :: "string \<Rightarrow> machine \<Rightarrow> bool" where
  "path_exists p m \<longleftrightarrow> mc_files m p \<noteq> None \<or> p \<in> mc_dirs m"

definition set_file :: "string \<Rightarrow> bytes option \<Rightarrow> unit io" where
  "set_file p c m = (Inr (), m\<lparr>mc_files := (mc_files m)(p := c)\<rparr>)"

definition create_dir_all :: "outside \<Rightarrow> string \<Rightarrow> unit io" where
  "create_dir_all w p = unless_refused w CreateDirAll p
    (\<lambda>m. (Inr (), m\<lparr>mc_dirs := mc_dirs m \<union> set (p # ancestors p)\<rparr>))"

definition write_file :: "outside \<Rightarrow> string \<Rightarrow> bytes \<Rightarrow> unit io" where
  "write_file w p c = unless_refused w WriteFile p
    (\<lambda>m. if parent_missing p m then (Inl not_found, m) else set_file p (Some c) m)"

definition remove_file :: "outside \<Rightarrow> string \<Rightarrow> unit io" where
  "remove_file w p = unless_refused w RemoveFile p
    (\<lambda>m. if mc_files m p = None then (Inl not_found, m) else set_file p None m)"

definition read_file :: "outside \<Rightarrow> string \<Rightarrow> bytes io" where
  "read_file w p = unless_refused w ReadFile p (\<lambda>m. (ok_or (mc_files m p) not_found, m))"

definition read_to_string :: "outside \<Rightarrow> string \<Rightarrow> string io" where
  "read_to_string w p = io_bind (read_file w p)
    (\<lambda>bs. io_of (ok_or (from_utf8 bs) ''stream did not contain valid UTF-8''))"

definition copy_file :: "outside \<Rightarrow> string \<Rightarrow> string \<Rightarrow> unit io" where
  "copy_file w src dst = io_bind (read_file w src)
    (\<lambda>c. unless_refused w CopyFile dst (\<lambda>m. if parent_missing dst m then (Inl not_found, m) else set_file dst (Some c) m))"

definition rename_file :: "outside \<Rightarrow> string \<Rightarrow> string \<Rightarrow> unit io" where
  "rename_file w src dst = unless_refused w RenameFile src
    (\<lambda>m. case mc_files m src of
       None \<Rightarrow> (Inl not_found, m)
     | Some c \<Rightarrow> (Inr (), m\<lparr>mc_files := (mc_files m)(src := None, dst := Some c)\<rparr>))"

definition remove_dir :: "outside \<Rightarrow> string \<Rightarrow> unit io" where
  "remove_dir w p = unless_refused w RemoveDir p
    (\<lambda>m. if p \<notin> mc_dirs m then (Inl not_found, m)
         else if ou_listing w p m \<noteq> []
         then (Inl ''The directory is not empty. (os error 145)'', m)
         else (Inr (), m\<lparr>mc_dirs := mc_dirs m - {p}\<rparr>))"

definition remove_dir_all :: "outside \<Rightarrow> string \<Rightarrow> unit io" where
  "remove_dir_all w p = unless_refused w RemoveDirAll p
    (\<lambda>m. (Inr (), m\<lparr>mc_files := (\<lambda>q. if below p q then None else mc_files m q),
       mc_dirs := {q \<in> mc_dirs m. q \<noteq> p \<and> \<not> below p q}\<rparr>))"

definition read_dir :: "outside \<Rightarrow> string \<Rightarrow> string option result list io" where
  "read_dir w p = unless_refused w ReadDir p
    (\<lambda>m. if p \<notin> mc_dirs m then (Inl not_found, m) else (Inr (ou_listing w p m), m))"

definition append_log :: "outside \<Rightarrow> string \<Rightarrow> unit io" where
  "append_log w p = unless_refused w OpenLog p
    (\<lambda>m. if parent_missing p m then (Inl not_found, m)
         else set_file p (Some (or_else (mc_files m p) [])) m)"

section \<open>Other programs\<close>

definition powershell_args :: "string \<Rightarrow> string list" where
  "powershell_args script = [''-NoProfile'', ''-ExecutionPolicy'', ''Bypass'', ''-Command'', script]"

definition run_powershell :: "outside \<Rightarrow> string \<Rightarrow> command_output io" where
  "run_powershell w script = ou_powershell w (powershell_args script)"

definition run_wsl :: "outside \<Rightarrow> string list \<Rightarrow> command_output io" where
  "run_wsl w args m = (ou_wsl w args, m\<lparr>mc_wsl_runs := mc_wsl_runs m @ [args]\<rparr>)"

text \<open>A run that must succeed: the text of the failure has the status and the errors printed.\<close>

definition checked_run :: "string \<Rightarrow> string \<Rightarrow> command_output io \<Rightarrow> command_output io" where
  "checked_run starting what act = io_bind (map_err (\<lambda>e. starting @ '': '' @ e) act)
    (\<lambda>out. if co_success out then io_return out
      else io_err (what @ '' exited with '' @ co_status out @ ''; stderr='' @
        trim (decode_windows_command_output (co_stderr out))))"

definition env_path :: "outside \<Rightarrow> string \<Rightarrow> string result" where
  "env_path w key = ok_or (ou_env w key) (key @ '' is not set'')"

section \<open>What operations do to the files\<close>

text \<open>
  \<open>obeys R act\<close>: whatever happens, what \<open>act\<close> makes of each file is in relation \<open>R\<close> to what it was.
  A relation that is reflexive and transitive is kept by everything put together from operations
  that keep it.
\<close>

type_synonym file_rel = "string \<Rightarrow> bytes option \<Rightarrow> bytes option \<Rightarrow> bool"

definition obeys :: "file_rel \<Rightarrow> 'a io \<Rightarrow> bool" where
  "obeys R act \<longleftrightarrow> (\<forall>m p. R p (mc_files m p) (mc_files (snd (act m)) p))"

definition leaves :: "(string \<Rightarrow> bool) \<Rightarrow> file_rel" where
  "leaves P = (\<lambda>p x y. P p \<longrightarrow> y = x)"

definition adds_none :: "(string \<Rightarrow> bool) \<Rightarrow> file_rel" where
  "adds_none P = (\<lambda>p x y. P p \<longrightarrow> x = None \<longrightarrow> y = None)"

lemma obeysI: "(\<And>m p. R p (mc_files m p) (mc_files (snd (act m)) p)) \<Longrightarrow> obeys R act"
  by (simp add: obeys_def)

lemma obeysD: "obeys R act \<Longrightarrow> act m = (r, m') \<Longrightarrow> R p (mc_files m p) (mc_files m' p)"
  unfolding obeys_def by (metis snd_conv)

named_theorems obeys_intros

locale file_relation =
  fixes R :: file_rel
  assumes refl: "R p x x"
    and trans: "R p x y \<Longrightarrow> R p y z \<Longrightarrow> R p x z"
begin

lemma obeys_same: "(\<And>m. mc_files (snd (act m)) = mc_files m) \<Longrightarrow> obeys R act"
  by (simp add: obeys_def refl)

lemma obeys_basic [obeys_intros]:
  "obeys R (io_return x)" "obeys R (io_err e)" "obeys R (io_of r)" "obeys R (io_state f)"
  by (auto intro!: obeys_same simp: io_return_def io_err_def io_of_def io_state_def)

lemma obeys_bind [obeys_intros]:
  assumes "obeys R act" "\<And>x. obeys R (f x)"
  shows "obeys R (io_bind act f)"
proof (rule obeysI)
  fix m p
  obtain r m1 where act: "act m = (r, m1)" by fastforce
  have first: "R p (mc_files m p) (mc_files m1 p)" using assms(1) act by (rule obeysD)
  show "R p (mc_files m p) (mc_files (snd (io_bind act f m)) p)"
  proof (cases r)
    case (Inr x)
    then show ?thesis
      using trans [OF first] assms(2) [of x] by (simp add: io_bind_def act obeys_def)
  qed (use first in \<open>simp add: io_bind_def act\<close>)
qed

lemma obeys_bind_of:
  "(\<And>x. r = Inr x \<Longrightarrow> obeys R (f x)) \<Longrightarrow> obeys R (io_bind (io_of r) f)"
  by (cases r) (simp_all add: obeys_def io_bind_def io_of_def refl)

lemma obeys_then [obeys_intros]: "obeys R act \<Longrightarrow> obeys R next \<Longrightarrow> obeys R (io_then act next)"
  unfolding io_then_def by (intro obeys_intros)

lemma obeys_handled [obeys_intros]:
  "obeys R act \<Longrightarrow> obeys R (io_try act)" "obeys R act \<Longrightarrow> obeys R (map_err g act)"
  by (auto intro!: obeysI simp: io_try_def map_err_def split: prod.splits sum.splits dest: obeysD)

lemma obeys_if [obeys_intros]:
  "obeys R a \<Longrightarrow> obeys R b \<Longrightarrow> obeys R (if c then a else b)"
  "(\<And>x. obeys R (f x)) \<Longrightarrow> obeys R a \<Longrightarrow> obeys R (case v of None \<Rightarrow> a | Some x \<Rightarrow> f x)"
  "(\<And>x. obeys R (g x)) \<Longrightarrow> (\<And>x. obeys R (h x)) \<Longrightarrow> obeys R (case r of Inl x \<Rightarrow> g x | Inr x \<Rightarrow> h x)"
  "(\<And>x y. obeys R (k x y)) \<Longrightarrow> obeys R (case z of (x, y) \<Rightarrow> k x y)"
  by (simp_all split: option.splits sum.splits prod.splits)

lemma obeys_each [obeys_intros]: "(\<And>x. obeys R (f x)) \<Longrightarrow> obeys R (io_each f xs)"
  by (induction xs) (auto intro!: obeys_intros)

lemma obeys_unless_refused [obeys_intros]: "obeys R act \<Longrightarrow> obeys R (unless_refused w call p act)"
  unfolding unless_refused_def by (intro obeys_intros)

lemma obeys_reading [obeys_intros]:
  "obeys R (create_dir_all w p)" "obeys R (read_file w p)" "obeys R (read_dir w p)"
  "obeys R (remove_dir w p)" "obeys R (run_wsl w args)"
  unfolding create_dir_all_def read_file_def read_dir_def remove_dir_def
  by (auto intro!: obeys_same simp: run_wsl_def unless_refused_def io_err_def split: option.splits)

lemma obeys_read_to_string [obeys_intros]: "obeys R (read_to_string w p)"
  unfolding read_to_string_def by (intro obeys_intros)

lemma obeys_set_file: "R p (mc_files m p) c \<Longrightarrow> R q (mc_files m q) (mc_files (snd (set_file p c m)) q)"
  by (simp add: set_file_def refl)

lemma obeys_writing [obeys_intros]:
  "(\<And>x. R p x (Some c)) \<Longrightarrow> obeys R (write_file w p c)"
  "(\<And>x. R p x None) \<Longrightarrow> obeys R (remove_file w p)"
  "(\<And>x. R p x (Some (or_else x []))) \<Longrightarrow> obeys R (append_log w p)"
  "(\<And>q x. below p q \<Longrightarrow> R q x None) \<Longrightarrow> obeys R (remove_dir_all w p)"
  "(\<And>x. R src x None) \<Longrightarrow> (\<And>x c. R p x (Some c)) \<Longrightarrow> obeys R (rename_file w src p)"
  unfolding write_file_def remove_file_def append_log_def remove_dir_all_def rename_file_def
  by (intro obeys_unless_refused obeysI; simp add: refl obeys_set_file split: option.splits)+

lemma obeys_copy [obeys_intros]: "(\<And>x c. R p x (Some c)) \<Longrightarrow> obeys R (copy_file w src p)"
  unfolding copy_file_def
  by (intro obeys_bind obeys_reading obeys_unless_refused obeysI) (simp add: refl obeys_set_file)

lemma obeys_checked_run [obeys_intros]: "obeys R act \<Longrightarrow> obeys R (checked_run a b act)"
  unfolding checked_run_def by (intro obeys_intros)

end

interpretation leaves: file_relation "leaves P" for P
  by unfold_locales (auto simp: leaves_def)

interpretation adds_none: file_relation "adds_none P" for P
  by unfold_locales (auto simp: adds_none_def)

text \<open>Paths made by joining names to a directory are told apart by the names.\<close>

lemma path_join_inj [simp]: "path_join dir a = path_join dir b \<longleftrightarrow> a = b"
  by (simp add: path_join_def)

section \<open>Runs that succeed\<close>

lemma io_bind_Inr: "io_bind act f m = (Inr y, m') \<longleftrightarrow> (\<exists>x m1. act m = (Inr x, m1) \<and> f x m1 = (Inr y, m'))"
  by (auto simp: io_bind_def split: prod.splits sum.splits)

lemma io_then_Inr: "io_then act g m = (Inr y, m') \<longleftrightarrow> (\<exists>m1. act m = (Inr (), m1) \<and> g m1 = (Inr y, m'))"
  by (auto simp: io_then_def io_bind_Inr)

lemma io_simps:
  "io_return x m = (Inr x, m)" "io_err e m = (Inl e, m)" "io_of r m = (r, m)" "io_state f m = (Inr (f m), m)"
  "io_try act m = (Inr (fst (act m)), snd (act m))"
  by (simp_all add: io_return_def io_err_def io_of_def io_state_def io_try_def split: prod.splits)

lemma io_bind_step: "act m = (Inr x, m1) \<Longrightarrow> io_bind act f m = f x m1"
  by (simp add: io_bind_def)

lemma io_then_step: "act m = (Inr (), m1) \<Longrightarrow> io_then act g m = g m1"
  by (simp add: io_then_def io_bind_step)

lemma map_err_Inr: "map_err g act m = (Inr x, m') \<longleftrightarrow> act m = (Inr x, m')"
  by (auto simp: map_err_def split: prod.splits sum.splits)

end
