(* ===== verification/Product_Setup.thy ===== *)
theory Product_Setup
  imports Windows_System
begin

text \<open>
  The steps of installing and removing the product on Windows
  (\<open>crates/vb-daemon/src/main.rs\<close>): the options, the scripts given to PowerShell, and every
  function that \<open>run_install_windows\<close>, \<open>run_uninstall_windows\<close> and \<open>run_status_windows\<close> call.
  Progress lines and warnings on the console are not part of the model; the report is.
\<close>

section \<open>Options\<close>

record install_opts =
  io_addr :: string
  io_device :: string
  io_shim_dir :: string
  io_wsl_distros :: "string list"
  io_install_wsl :: bool
  io_install_wsl_shell :: bool
  io_install_startup :: bool
  io_install_terminal_profiles :: bool
  io_install_wsl_shortcuts :: bool
  io_install_management_shortcuts :: bool
  io_update_path :: bool

definition install_defaults :: "string \<Rightarrow> install_opts" where
  "install_defaults local_appdata = \<lparr>io_addr = DEFAULT_ADDR, io_device = ''auto'',
     io_shim_dir = joined local_appdata [''vibe-bridge'', ''bin''], io_wsl_distros = [],
     io_install_wsl = False, io_install_wsl_shell = False, io_install_startup = True,
     io_install_terminal_profiles = False, io_install_wsl_shortcuts = True,
     io_install_management_shortcuts = False, io_update_path = True\<rparr>"

definition install_usage :: string where
  "install_usage = ''usage: install-windows [--addr ADDR] [--device auto|PATH] [--shim-dir DIR] [--wsl] [--wsl-distro NAME] [--wsl-shell] [--terminal-profiles] [--management-shortcuts] [--no-wsl-shortcuts] [--no-startup] [--no-path]''"

text \<open>The flags without a value.\<close>

definition install_switch :: "string \<Rightarrow> (install_opts \<Rightarrow> install_opts) option" where
  "install_switch arg =
    (if arg = ''--wsl'' then Some (io_install_wsl_update (\<lambda>_. True))
     else if arg = ''--no-wsl'' then Some (io_install_wsl_update (\<lambda>_. False))
     else if arg = ''--wsl-shell'' then Some (io_install_wsl_shell_update (\<lambda>_. True))
     else if arg = ''--no-wsl-shell'' then Some (io_install_wsl_shell_update (\<lambda>_. False))
     else if arg = ''--no-startup'' then Some (io_install_startup_update (\<lambda>_. False))
     else if arg = ''--terminal-profiles'' then Some (io_install_terminal_profiles_update (\<lambda>_. True))
     else if arg = ''--no-terminal-profiles'' then Some (io_install_terminal_profiles_update (\<lambda>_. False))
     else if arg = ''--wsl-shortcuts'' then Some (io_install_wsl_shortcuts_update (\<lambda>_. True))
     else if arg = ''--no-wsl-shortcuts'' then Some (io_install_wsl_shortcuts_update (\<lambda>_. False))
     else if arg = ''--management-shortcuts'' then Some (io_install_management_shortcuts_update (\<lambda>_. True))
     else if arg = ''--no-management-shortcuts'' then Some (io_install_management_shortcuts_update (\<lambda>_. False))
     else if arg = ''--no-path'' then Some (io_update_path_update (\<lambda>_. False))
     else None)"

text \<open>The flags with a value: the error without one, and what the value does.\<close>

definition install_value :: "string \<Rightarrow> (string \<times> (string \<Rightarrow> install_opts \<Rightarrow> install_opts)) option" where
  "install_value arg =
    (if arg = ''--addr'' then Some (''--addr needs ADDR'', \<lambda>v. io_addr_update (\<lambda>_. v))
     else if arg = ''--device'' then Some (''--device needs auto|PATH'', \<lambda>v. io_device_update (\<lambda>_. v))
     else if arg = ''--shim-dir'' then Some (''--shim-dir needs DIR'', \<lambda>v. io_shim_dir_update (\<lambda>_. v))
     else if arg = ''--wsl-distro'' then Some (''--wsl-distro needs NAME'',
       \<lambda>v o1. o1\<lparr>io_install_wsl := True, io_wsl_distros := io_wsl_distros o1 @ [v]\<rparr>)
     else None)"

fun install_loop :: "install_opts \<Rightarrow> string list \<Rightarrow> install_opts result" where
  "install_loop o1 [] = Inr o1"
| "install_loop o1 (arg # rest) =
    (case install_value arg of
       Some (missing, set_value) \<Rightarrow>
        (case rest of [] \<Rightarrow> Inl missing | v # r \<Rightarrow> install_loop (set_value v o1) r)
     | None \<Rightarrow>
        (if arg = ''-h'' \<or> arg = ''--help'' then Inl install_usage
         else case install_switch arg of
           Some f \<Rightarrow> install_loop (f o1) rest
         | None \<Rightarrow> Inl (''unknown install-windows flag: '' @ arg)))"

definition local_appdata_dir :: "outside \<Rightarrow> string result" where
  "local_appdata_dir w = env_path w ''LOCALAPPDATA''"

definition parse_install_windows_args :: "outside \<Rightarrow> string list \<Rightarrow> install_opts result" where
  "parse_install_windows_args w raw =
    bind_res (local_appdata_dir w) (\<lambda>dir. install_loop (install_defaults dir) raw)"

record uninstall_opts =
  uo_addr :: string
  uo_shim_dir :: string
  uo_remove_terminal_profiles :: bool
  uo_purge :: bool

definition uninstall_usage :: string where
  "uninstall_usage = ''usage: uninstall-windows [--addr ADDR] [--shim-dir DIR] [--terminal-profiles|--no-terminal-profiles] [--purge]''"

fun uninstall_loop :: "uninstall_opts \<Rightarrow> string list \<Rightarrow> uninstall_opts result" where
  "uninstall_loop o1 [] = Inr o1"
| "uninstall_loop o1 (arg # rest) =
    (if arg = ''--addr'' then
       (case rest of [] \<Rightarrow> Inl ''--addr needs ADDR'' | v # r \<Rightarrow> uninstall_loop (o1\<lparr>uo_addr := v\<rparr>) r)
     else if arg = ''--shim-dir'' then
       (case rest of [] \<Rightarrow> Inl ''--shim-dir needs DIR'' | v # r \<Rightarrow> uninstall_loop (o1\<lparr>uo_shim_dir := v\<rparr>) r)
     else if arg = ''--terminal-profiles'' then uninstall_loop (o1\<lparr>uo_remove_terminal_profiles := True\<rparr>) rest
     else if arg = ''--no-terminal-profiles'' then uninstall_loop (o1\<lparr>uo_remove_terminal_profiles := False\<rparr>) rest
     else if arg = ''--purge'' then uninstall_loop (o1\<lparr>uo_purge := True\<rparr>) rest
     else if arg = ''-h'' \<or> arg = ''--help'' then Inl uninstall_usage
     else Inl (''unknown uninstall-windows flag: '' @ arg))"

definition parse_uninstall_windows_args :: "outside \<Rightarrow> string list \<Rightarrow> uninstall_opts result" where
  "parse_uninstall_windows_args w raw =
    bind_res (local_appdata_dir w) (\<lambda>dir. uninstall_loop
      \<lparr>uo_addr = DEFAULT_ADDR, uo_shim_dir = joined dir [''vibe-bridge'', ''bin''],
       uo_remove_terminal_profiles = True, uo_purge = False\<rparr> raw)"

fun status_loop :: "string \<Rightarrow> string list \<Rightarrow> string result" where
  "status_loop addr [] = Inr addr"
| "status_loop addr (arg # rest) =
    (if arg = ''--addr'' then (case rest of [] \<Rightarrow> Inl ''--addr needs ADDR'' | v # r \<Rightarrow> status_loop v r)
     else if arg = ''-h'' \<or> arg = ''--help'' then Inl ''usage: status-windows [--addr ADDR]''
     else Inl (''unknown status-windows flag: '' @ arg))"

definition parse_status_windows_args :: "string list \<Rightarrow> string result" where
  "parse_status_windows_args raw = status_loop DEFAULT_ADDR raw"

section \<open>Scripts for PowerShell\<close>

definition ps_escape :: "string \<Rightarrow> string" where
  "ps_escape v = replace_char (CHR 0x27) [CHR 0x27, CHR 0x27] v"

definition captured_terminal_script :: "32 word \<Rightarrow> string" where
  "captured_terminal_script current_pid = text_lines
    (map lit
      [[]] @
     [lit ''$pidToCheck = '' @ show_nat (unat current_pid)] @
     map lit
      [''$seen = @'' @ ''{}'',
       ''while ($pidToCheck -and -not $seen.ContainsKey([string]$pidToCheck)) {'',
       ''  $seen['' @ ''[string]$pidToCheck] = $true'',
       ''  $proc = Get-CimInstance Win32_Process -Filter (~ProcessId = ~ + $pidToCheck) -ErrorAction SilentlyContinue'',
       ''  if ($null -eq $proc) { break }'',
       ''  $name = [string]$proc.Name'',
       ''  $cmdline = [string]$proc.CommandLine'',
       ''  if ($name -like Yvb-daemon*.exeY -and ($cmdline -match Y(^|[Zs~]+)(terminal-shim|capture-shell|vibe-terminal|launch)([Zs~]+|$)Y)) {'',
       ''    Write-Output YcapturedY'',
       ''    exit 0'',
       ''  }'',
       ''  $pidToCheck = $proc.ParentProcessId'',
       ''}'',
       ''Write-Output YplainY''])"

definition stop_daemon_script :: "string \<Rightarrow> 32 word \<Rightarrow> string \<Rightarrow> string" where
  "stop_daemon_script addr current_pid status_path = text_lines
    (map lit
      [[]] @
     [lit ''$addr = Y'' @ ps_escape addr @ lit ''Y''] @
     [lit ''$current = '' @ show_nat (unat current_pid)] @
     [lit ''$statusPath = Y'' @ ps_escape status_path @ lit ''Y''] @
     map lit
      [''$candidateIds = @()'',
       ''if (Test-Path -LiteralPath $statusPath) {'',
       ''  try {'',
       ''    $status = Get-Content -LiteralPath $statusPath -Raw | ConvertFrom-Json'',
       ''    if ($null -ne $status -and [string]$status.addr -ieq $addr -and $null -ne $status.pid) {'',
       ''      $candidateIds += [int]$status.pid'',
       ''    }'',
       ''  } catch {}'',
       ''}'',
       ''Get-CimInstance Win32_Process -ErrorAction SilentlyContinue | Where-Object { $_.Name -like Yvb-daemon*.exeY } | ForEach-Object {'',
       ''  $cmdline = [string]$_.CommandLine'',
       ''  $hasAddr = ($cmdline.IndexOf($addr, [StringComparison]::OrdinalIgnoreCase) -ge 0)'',
       ''  $isBackgroundDaemon = ($cmdline -match Y(^|[Zs~]+)serve-hid([Zs~]+|$)Y)'',
       ''  if ($_.ProcessId -ne $current -and $hasAddr -and $isBackgroundDaemon) {'',
       ''    $candidateIds += [int]$_.ProcessId'',
       ''  }'',
       ''}'',
       ''$candidateIds = @($candidateIds | Select-Object -Unique)'',
       ''foreach ($candidateId in $candidateIds) {'',
       ''  $proc = Get-CimInstance Win32_Process -Filter (~ProcessId = ~ + $candidateId) -ErrorAction SilentlyContinue'',
       ''  if ($null -eq $proc) { continue }'',
       ''  $cmdline = [string]$proc.CommandLine'',
       ''  $name = [string]$proc.Name'',
       ''  $hasAddr = ($cmdline.IndexOf($addr, [StringComparison]::OrdinalIgnoreCase) -ge 0)'',
       ''  $isBackgroundDaemon = ($cmdline -match Y(^|[Zs~]+)serve-hid([Zs~]+|$)Y)'',
       ''  if ($candidateId -ne $current -and $name -like Yvb-daemon*.exeY -and $hasAddr -and $isBackgroundDaemon) {'',
       ''    Stop-Process -Id $candidateId -Force -ErrorAction SilentlyContinue'',
       ''  }'',
       ''}'',
       ''$deadline = [DateTime]::UtcNow.AddSeconds(8)'',
       ''do {'',
       ''  Start-Sleep -Milliseconds 150'',
       ''  $still = @()'',
       ''  Get-CimInstance Win32_Process -ErrorAction SilentlyContinue | Where-Object { $_.Name -like Yvb-daemon*.exeY } | ForEach-Object {'',
       ''    $cmdline = [string]$_.CommandLine'',
       ''    $hasAddr = ($cmdline.IndexOf($addr, [StringComparison]::OrdinalIgnoreCase) -ge 0)'',
       ''    $isBackgroundDaemon = ($cmdline -match Y(^|[Zs~]+)serve-hid([Zs~]+|$)Y)'',
       ''    if ($_.ProcessId -ne $current -and $hasAddr -and $isBackgroundDaemon) {'',
       ''      $still += $_'',
       ''    }'',
       ''  }'',
       ''} while ($still.Count -gt 0 -and [DateTime]::UtcNow -lt $deadline)'',
       ''if ($still.Count -gt 0) {'',
       ''  Write-Error (~background daemon still running for ~ + $addr + ~: ~ + (($still | ForEach-Object { $_.ProcessId }) -join Y,Y))'',
       ''  exit 1'',
       ''}'',
       ''if (Test-Path -LiteralPath $statusPath) {'',
       ''  try {'',
       ''    $status = Get-Content -LiteralPath $statusPath -Raw | ConvertFrom-Json'',
       ''    if ($null -ne $status -and [string]$status.addr -ieq $addr) {'',
       ''      Remove-Item -LiteralPath $statusPath -Force -ErrorAction SilentlyContinue'',
       ''    }'',
       ''  } catch {}'',
       ''}''])"

definition shortcut_script :: "string \<Rightarrow> string \<Rightarrow> string \<Rightarrow> string \<Rightarrow> string" where
  "shortcut_script path target arguments description =
    ''$shell = New-Object -ComObject WScript.Shell; $shortcut = $shell.CreateShortcut('' @ ps_quote (shell_display_path path) @
    ''); $shortcut.TargetPath = '' @ ps_quote (shell_display_path target) @
    ''; $shortcut.Arguments = '' @ ps_quote arguments @
    ''; $shortcut.WorkingDirectory = $env:USERPROFILE; $shortcut.Description = '' @ ps_quote description @
    ''; $shortcut.Save()''"

definition read_shortcut_script :: "string \<Rightarrow> string" where
  "read_shortcut_script path =
    ''$shell = New-Object -ComObject WScript.Shell; $shortcut = $shell.CreateShortcut('' @ ps_quote (shell_display_path path) @
    ''); Write-Output $shortcut.TargetPath; Write-Output $shortcut.Arguments''"

definition user_path_script :: "string \<Rightarrow> string" where
  "user_path_script dir =
    lit ''$dir = Y'' @ ps_escape (shell_display_path dir) @
    lit (''Y; $path = [Environment]::GetEnvironmentVariable(YPathY, YUserY); '' @
      ''if ([string]::IsNullOrEmpty($path)) { $parts = @'' @ ''() } else { $parts = $path -split Y;Y }; '' @
      ''if (-not ($parts | Where-Object { $_ -ieq $dir })) { '' @
      ''$newPath = if ([string]::IsNullOrEmpty($path)) { $dir } else { $dir + Y;Y + $path }; '' @
      ''[Environment]::SetEnvironmentVariable(YPathY, $newPath, YUserY) }'')"

section \<open>Asking the system\<close>

definition running_inside_captured_terminal :: "outside \<Rightarrow> bool io" where
  "running_inside_captured_terminal w =
    (if ou_env w ''VIBE_BRIDGE_CAPTURED_TERMINAL'' \<noteq> None then io_return True
     else io_bind (checked_run ''run powershell to inspect parent process'' ''inspect parent process''
         (run_powershell w (captured_terminal_script (ou_pid w))))
       (\<lambda>out. io_return (str_contains (decode_windows_command_output (co_stdout out)) ''captured'')))"

definition same_path :: "outside \<Rightarrow> string \<Rightarrow> string \<Rightarrow> bool" where
  "same_path w a b \<longleftrightarrow>
    (let canonical = (\<lambda>p. case ou_canonical w p of Inl _ \<Rightarrow> p | Inr q \<Rightarrow> q)
     in eq_ignore_ascii_case (canonical a) (canonical b))"

definition fnv_step :: "64 word \<Rightarrow> byte \<Rightarrow> 64 word" where
  "fnv_step hash b = (hash XOR ucast b) * 0x100000001B3"

definition file_hash :: "bytes \<Rightarrow> 64 word" where
  "file_hash bs = foldl fnv_step 0xCBF29CE484222325 bs"

text \<open>\<open>{:016x}\<close>: the sixteen hexadecimal digits, the high ones first.\<close>

definition show_hex16 :: "64 word \<Rightarrow> string" where
  "show_hex16 w = map (\<lambda>k. digit_char (unat (drop_bit (4 * k) w AND 0xF))) (rev [0..<16])"

definition file_hash_hex :: "outside \<Rightarrow> string \<Rightarrow> string io" where
  "file_hash_hex w path = io_bind (map_err (\<lambda>e. ''open '' @ path @ '': '' @ e) (read_file w path))
    (\<lambda>bs. io_return (show_hex16 (file_hash bs)))"

definition daemon_status_path :: "outside \<Rightarrow> string result" where
  "daemon_status_path w = bind_res (local_appdata_dir w)
    (\<lambda>dir. Inr (joined dir [''vibe-bridge'', ''daemon-status.json'']))"

text \<open>Trimming white space and NUL characters at both ends.\<close>

function trim_nul_ws :: "string \<Rightarrow> string" where
  "trim_nul_ws s =
    (let t = trim s
     in if t \<noteq> [] \<and> hd t = CHR 0x00 then trim_nul_ws (tl t)
        else if t \<noteq> [] \<and> last t = CHR 0x00 then trim_nul_ws (butlast t)
        else t)"
  by auto
termination
proof (relation "measure length")
  fix s t :: string
  assume t: "t = trim s"
  have len: "length t \<le> length s" unfolding t by (rule length_trim)
  { assume "t \<noteq> [] \<and> hd t = CHR 0x00"
    then have "length (tl t) < length t" by simp
    with len show "(tl t, s) \<in> measure length" by simp }
  { assume "t \<noteq> [] \<and> last t = CHR 0x00"
    then have "length (butlast t) < length t" by simp
    with len show "(butlast t, s) \<in> measure length" by simp }
qed simp

declare trim_nul_ws.simps [simp del]

definition list_wsl_distros :: "outside \<Rightarrow> string list io" where
  "list_wsl_distros w = io_bind (map_err (\<lambda>e. ''run wsl.exe -l -q: '' @ e) (run_wsl w [''-l'', ''-q'']))
    (\<lambda>out. if \<not> co_success out
      then io_err (''wsl.exe -l -q exited with '' @ co_status out @ ''; stderr='' @ trim (from_utf8_lossy (co_stderr out)))
      else io_return (filter (\<lambda>l. l \<noteq> [] \<and> \<not> eq_ignore_ascii_case l ''docker-desktop'' \<and>
          \<not> eq_ignore_ascii_case l ''docker-desktop-data'')
        (map trim_nul_ws (str_lines (decode_windows_command_output (co_stdout out))))))"

definition resolve_wsl_distros :: "outside \<Rightarrow> install_opts \<Rightarrow> string list io" where
  "resolve_wsl_distros w o1 =
    (if \<not> io_install_wsl o1 then io_return []
     else if io_wsl_distros o1 \<noteq> [] then io_return (io_wsl_distros o1)
     else io_bind (io_try (list_wsl_distros w))
       (\<lambda>r. case r of Inr distros \<Rightarrow> io_return distros | Inl _ \<Rightarrow> io_return []))"

definition resolve_wsl_shell_distros :: "outside \<Rightarrow> install_opts \<Rightarrow> string list io" where
  "resolve_wsl_shell_distros w o1 =
    (if io_wsl_distros o1 \<noteq> [] then io_return (io_wsl_distros o1) else list_wsl_distros w)"

definition run_wsl_script :: "outside \<Rightarrow> string \<Rightarrow> string \<Rightarrow> unit io" where
  "run_wsl_script w distro script =
    io_bind (map_err (\<lambda>e. ''run wsl.exe for '' @ distro @ '': '' @ e) (run_wsl w (run_wsl_args distro script)))
      (\<lambda>out. if co_success out then io_return ()
        else io_err (''wsl install exited with '' @ co_status out @
          ''; stdout='' @ trim (decode_windows_command_output (co_stdout out)) @
          ''; stderr='' @ trim (decode_windows_command_output (co_stderr out))))"

section \<open>Steps of the installation\<close>

definition install_daemon_exe :: "outside \<Rightarrow> string \<Rightarrow> string \<Rightarrow> string io" where
  "install_daemon_exe w source shim_dir = io_bind (file_hash_hex w source) (\<lambda>hash.
    let dest = path_join shim_dir (''vb-daemon-'' @ hash @ ''.exe'')
    in io_bind (io_state (path_exists dest)) (\<lambda>present.
      if present then io_return dest
      else io_then (map_err (\<lambda>e. ''copy daemon exe '' @ source @ '' -> '' @ dest @ '': '' @ e) (copy_file w source dest))
        (io_return dest)))"

definition write_daemon_status :: "outside \<Rightarrow> string \<Rightarrow> string \<Rightarrow> string \<Rightarrow> 32 word \<Rightarrow> unit io" where
  "write_daemon_status w addr device exe pid = io_bind (io_of (daemon_status_path w)) (\<lambda>path.
    let dir = or_else (case rev (ancestors path) of [] \<Rightarrow> None | q # _ \<Rightarrow> Some q) []
    in io_then (map_err (\<lambda>e. ''create status dir '' @ dir @ '': '' @ e) (create_dir_all w dir))
      (io_bind (map_err (\<lambda>e. ''serialize daemon status: '' @ e) (io_of (ou_pretty w (JObj
          [(''pid'', JNum (uint pid)), (''addr'', JStr addr), (''device'', JStr device), (''exe'', JStr exe),
           (''startedMs'', JNum (int (ou_millis w)))]))))
        (\<lambda>txt. map_err (\<lambda>e. ''write '' @ path @ '': '' @ e) (write_file w path (as_bytes (txt @ [CHR 0x0A]))))))"

text \<open>A result that is not looked at.\<close>

definition ignore :: "unit io \<Rightarrow> unit io" where
  "ignore act = io_bind (io_try act) (\<lambda>_. io_return ())"

definition remove_daemon_status_file :: "outside \<Rightarrow> unit io" where
  "remove_daemon_status_file w =
    (case daemon_status_path w of Inl _ \<Rightarrow> io_return () | Inr path \<Rightarrow> ignore (remove_file w path))"

definition stop_background_daemon_processes_for_addr :: "outside \<Rightarrow> string \<Rightarrow> unit io" where
  "stop_background_daemon_processes_for_addr w addr = io_bind (io_of (daemon_status_path w)) (\<lambda>path.
    io_bind (checked_run ''run powershell to stop background daemon'' ''stop background daemon''
        (run_powershell w (stop_daemon_script addr (ou_pid w) path)))
      (\<lambda>_. io_return ()))"

definition write_text :: "outside \<Rightarrow> string \<Rightarrow> string \<Rightarrow> unit io" where
  "write_text w path content = map_err (\<lambda>e. ''write '' @ path @ '': '' @ e) (write_file w path (as_bytes content))"

definition write_agent_cmd :: "outside \<Rightarrow> string \<Rightarrow> string \<Rightarrow> string \<Rightarrow> string option \<Rightarrow> unit io" where
  "write_agent_cmd w shim_dir kind exe wsl_distro =
    write_text w (path_join shim_dir (kind @ ''.cmd'')) (agent_cmd_content kind exe wsl_distro)"

definition write_wsl_cmd :: "outside \<Rightarrow> string \<Rightarrow> string \<Rightarrow> unit io" where
  "write_wsl_cmd w shim_dir exe = write_text w (path_join shim_dir ''wsl.cmd'') (wsl_cmd_content exe)"

definition startup_cmd_name :: string where "startup_cmd_name = ''vibe-bridge-daemon.cmd''"

definition write_startup_cmd :: "outside \<Rightarrow> string \<Rightarrow> string \<Rightarrow> string \<Rightarrow> string \<Rightarrow> string \<Rightarrow> unit io" where
  "write_startup_cmd w startup_dir exe addr device log_dir =
    write_text w (path_join startup_dir startup_cmd_name)
      (startup_cmd_content exe addr device log_dir (path_join log_dir ''vb-daemon.log''))"

definition start_menu_programs_dir :: "outside \<Rightarrow> string result" where
  "start_menu_programs_dir w = bind_res (env_path w ''APPDATA'')
    (\<lambda>appdata. Inr (joined appdata [''Microsoft'', ''Windows'', ''Start Menu'', ''Programs'']))"

definition startup_dir :: "outside \<Rightarrow> string result" where
  "startup_dir w = bind_res (env_path w ''APPDATA'')
    (\<lambda>appdata. Inr (joined appdata [''Microsoft'', ''Windows'', ''Start Menu'', ''Programs'', ''Startup'']))"

definition start_menu_shortcuts_dir :: "outside \<Rightarrow> string result" where
  "start_menu_shortcuts_dir w = bind_res (start_menu_programs_dir w) (\<lambda>dir. Inr (path_join dir ''vibe-bridge''))"

definition write_windows_shortcut :: "outside \<Rightarrow> string \<Rightarrow> string \<Rightarrow> string \<Rightarrow> string \<Rightarrow> unit io" where
  "write_windows_shortcut w path target arguments description =
    io_bind (checked_run ''run powershell to create shortcut'' ''powershell shortcut creation''
        (run_powershell w (shortcut_script path target arguments description)))
      (\<lambda>_. io_return ())"

definition shortcut_is_vibe_bridge :: "outside \<Rightarrow> string \<Rightarrow> bool io" where
  "shortcut_is_vibe_bridge w path =
    io_bind (io_try (checked_run ''run powershell to read shortcut'' ''powershell shortcut read''
        (run_powershell w (read_shortcut_script path))))
      (\<lambda>r. io_return (case r of Inl _ \<Rightarrow> False
        | Inr out \<Rightarrow> shortcut_summary_is_vibe_bridge (decode_windows_command_output (co_stdout out))))"

definition install_management_start_menu_shortcuts :: "outside \<Rightarrow> string \<Rightarrow> string \<Rightarrow> string \<Rightarrow> string io" where
  "install_management_start_menu_shortcuts w exe addr device =
    io_bind (io_of (start_menu_shortcuts_dir w)) (\<lambda>dir.
      io_then (map_err (\<lambda>e. ''create Start Menu shortcut dir '' @ dir @ '': '' @ e) (create_dir_all w dir))
      (io_then (write_windows_shortcut w (path_join dir ''Install or Repair Vibe Bridge.lnk'') exe
          (''install-product --addr '' @ quote_windows_arg addr @ '' --device '' @ quote_windows_arg device)
          ''Install or repair Vibe Bridge background capture'')
      (io_then (write_windows_shortcut w (path_join dir ''Vibe Bridge Status.lnk'') exe
          (''status-windows --addr '' @ quote_windows_arg addr) ''Show Vibe Bridge background daemon status'')
      (io_then (write_windows_shortcut w (path_join dir ''Uninstall Vibe Bridge.lnk'') exe
          (''uninstall-product --addr '' @ quote_windows_arg addr)
          ''Uninstall Vibe Bridge and restore Terminal profiles'')
      (io_return ''installed 3 management shortcut(s)'')))))"

text \<open>\<open>ch.is_control()\<close>: the ASCII controls and U+0080 to U+009F, which take two bytes.\<close>

fun sanitize_chars :: "string \<Rightarrow> string" where
  "sanitize_chars [] = []"
| "sanitize_chars (c # s) =
    (if c = CHR 0xC2 \<and> s \<noteq> [] \<and> between 0x80 0x9F (byte_of_char (hd s)) then CHR ''_'' # sanitize_chars (tl s)
     else if c \<in> set (lit ''<>:~/Z|?*'') \<or> (of_char c :: nat) < 0x20 \<or> c = CHR 0x7F then CHR ''_'' # sanitize_chars s
     else c # sanitize_chars s)"

definition sanitize_windows_shortcut_name :: "string \<Rightarrow> string" where
  "sanitize_windows_shortcut_name v =
    (let out = trim_end_matches (\<lambda>c. c = CHR ''.'') (trim (sanitize_chars v))
     in if out = [] then ''WSL'' else out)"

definition backup_suffix :: string where "backup_suffix = ''.vibe-bridge-backup''"

text \<open>\<open>trim_end_matches\<close> of a whole text drops it as often as it stands there.\<close>

definition trim_end_str :: "string \<Rightarrow> string \<Rightarrow> string" where
  "trim_end_str pat s = rev (trim_start_str (rev pat) (rev s))"

fun restore_backups :: "outside \<Rightarrow> string \<Rightarrow> bool \<Rightarrow> string option result list \<Rightarrow> bool io" where
  "restore_backups w dir changed [] = io_return changed"
| "restore_backups w dir changed (entry # rest) =
    (case entry of
       Inl e \<Rightarrow> io_err (''read Start Menu entry: '' @ e)
     | Inr None \<Rightarrow> restore_backups w dir changed rest
     | Inr (Some name) \<Rightarrow>
        (if \<not> ends_with name (''.lnk'' @ backup_suffix) then restore_backups w dir changed rest
         else
           let path = path_join dir name; original = path_join dir (trim_end_str backup_suffix name)
           in io_then (ignore (remove_file w original))
             (io_then (map_err (\<lambda>e. ''restore Start Menu shortcut '' @ path @ '' -> '' @ original @ '': '' @ e)
                 (rename_file w path original))
               (restore_backups w dir True rest))))"

fun remove_direct_shortcuts :: "outside \<Rightarrow> string \<Rightarrow> bool \<Rightarrow> string list \<Rightarrow> bool io" where
  "remove_direct_shortcuts w dir changed [] = io_return changed"
| "remove_direct_shortcuts w dir changed (distro # rest) =
    (let path = path_join dir (sanitize_windows_shortcut_name distro @ ''.lnk'')
     in io_bind (io_state (path_exists path)) (\<lambda>present.
       if \<not> present then remove_direct_shortcuts w dir changed rest
       else io_bind (shortcut_is_vibe_bridge w path) (\<lambda>ours.
         if \<not> ours then remove_direct_shortcuts w dir changed rest
         else io_then (map_err (\<lambda>e. ''remove '' @ path @ '': '' @ e) (remove_file w path))
           (remove_direct_shortcuts w dir True rest))))"

definition restore_direct_wsl_start_menu_shortcuts :: "outside \<Rightarrow> bool io" where
  "restore_direct_wsl_start_menu_shortcuts w = io_bind (io_of (start_menu_programs_dir w)) (\<lambda>dir.
    io_bind (io_state (path_exists dir)) (\<lambda>present.
    io_bind (if present
        then io_bind (map_err (\<lambda>e. ''read Start Menu programs dir '' @ dir @ '': '' @ e) (read_dir w dir))
          (restore_backups w dir False)
        else io_return False) (\<lambda>changed.
    io_bind (io_try (list_wsl_distros w)) (\<lambda>r.
      remove_direct_shortcuts w dir changed (case r of Inl _ \<Rightarrow> [] | Inr ds \<Rightarrow> ds)))))"

definition wsl_shortcut_args :: "string \<Rightarrow> string \<Rightarrow> string" where
  "wsl_shortcut_args addr distro =
    ''terminal-shim --daemon '' @ quote_windows_arg addr @ '' --name '' @ quote_windows_arg (''Terminal: '' @ distro) @
    '' --follow-console-size --cmdline-b64 '' @
    base64_encode_bytes (as_bytes (''wsl.exe -d '' @ quote_windows_arg distro))"

definition write_wsl_shortcut :: "outside \<Rightarrow> string \<Rightarrow> string \<Rightarrow> string \<Rightarrow> string \<Rightarrow> string list io" where
  "write_wsl_shortcut w dir exe addr distro =
    io_then (write_windows_shortcut w
        (path_join dir (sanitize_windows_shortcut_name distro @ '' (vibe-bridge).lnk''))
        exe (wsl_shortcut_args addr distro) (''Open '' @ distro @ '' through vibe-bridge capture''))
      (io_return [distro])"

definition install_wsl_start_menu_shortcuts :: "outside \<Rightarrow> string \<Rightarrow> string \<Rightarrow> string io" where
  "install_wsl_start_menu_shortcuts w exe addr = io_bind (list_wsl_distros w) (\<lambda>distros.
    if distros = [] then io_return ''no WSL distros found''
    else io_bind (restore_direct_wsl_start_menu_shortcuts w) (\<lambda>restored_direct.
      io_bind (io_of (start_menu_shortcuts_dir w)) (\<lambda>dir.
      io_then (map_err (\<lambda>e. ''create WSL shortcut dir '' @ dir @ '': '' @ e) (create_dir_all w dir))
      (io_bind (io_each (write_wsl_shortcut w dir exe addr) distros) (\<lambda>installed.
        let (names, count) = limited_profile_name_list installed
        in io_return (''installed '' @ show_nat count @ '' Start Menu shortcut(s): '' @ names @
          (if restored_direct then ''; restored direct Ubuntu/WSL shortcut(s)'' else []))))))) "

definition remove_wsl_start_menu_shortcuts :: "outside \<Rightarrow> bool io" where
  "remove_wsl_start_menu_shortcuts w = io_bind (restore_direct_wsl_start_menu_shortcuts w) (\<lambda>direct_changed.
    io_bind (io_of (start_menu_shortcuts_dir w)) (\<lambda>dir.
    io_bind (io_state (path_exists dir)) (\<lambda>present.
      if \<not> present then io_return direct_changed
      else io_then (map_err (\<lambda>e. ''remove '' @ dir @ '': '' @ e) (remove_dir_all w dir)) (io_return True))))"

fun remove_shims :: "outside \<Rightarrow> string \<Rightarrow> nat \<Rightarrow> string list \<Rightarrow> nat io" where
  "remove_shims w shim_dir removed [] = io_return removed"
| "remove_shims w shim_dir removed (name # names) =
    (let path = path_join shim_dir name
     in io_bind (io_state (path_exists path)) (\<lambda>present.
       if \<not> present then remove_shims w shim_dir removed names
       else io_then (map_err (\<lambda>e. ''remove '' @ path @ '': '' @ e) (remove_file w path))
         (remove_shims w shim_dir (Suc removed) names)))"

definition shim_names :: "string list" where
  "shim_names = [''codex.cmd'', ''claude.cmd'', ''wsl.cmd'']"

definition remove_agent_cmds :: "outside \<Rightarrow> string \<Rightarrow> nat io" where
  "remove_agent_cmds w shim_dir = remove_shims w shim_dir 0 shim_names"

definition is_daemon_exe :: "string \<Rightarrow> bool" where
  "is_daemon_exe name \<longleftrightarrow>
    (let lower = to_ascii_lowercase name
     in lower = ''vb-daemon.exe'' \<or> (starts_with lower ''vb-daemon-'' \<and> ends_with lower ''.exe''))"

fun remove_exes :: "outside \<Rightarrow> string \<Rightarrow> nat \<times> nat \<Rightarrow> string option result list \<Rightarrow> (nat \<times> nat) io" where
  "remove_exes w shim_dir counts [] = io_return counts"
| "remove_exes w shim_dir (removed, skipped) (entry # rest) =
    (case entry of
       Inl e \<Rightarrow> io_err (''read shim dir entry: '' @ e)
     | Inr None \<Rightarrow> remove_exes w shim_dir (removed, skipped) rest
     | Inr (Some name) \<Rightarrow>
        (if \<not> is_daemon_exe name then remove_exes w shim_dir (removed, skipped) rest
         else io_bind (io_try (remove_file w (path_join shim_dir name))) (\<lambda>r.
           remove_exes w shim_dir (case r of Inr _ \<Rightarrow> (Suc removed, skipped) | Inl _ \<Rightarrow> (removed, Suc skipped)) rest)))"

definition cleanup_daemon_exes :: "outside \<Rightarrow> string \<Rightarrow> (nat \<times> nat) io" where
  "cleanup_daemon_exes w shim_dir = io_bind (io_state (path_exists shim_dir)) (\<lambda>present.
    if \<not> present then io_return (0, 0)
    else io_bind (map_err (\<lambda>e. ''read shim dir '' @ shim_dir @ '': '' @ e) (read_dir w shim_dir))
      (remove_exes w shim_dir (0, 0)))"

definition remove_startup_cmd :: "outside \<Rightarrow> bool io" where
  "remove_startup_cmd w = io_bind (io_of (startup_dir w)) (\<lambda>dir.
    let path = path_join dir startup_cmd_name
    in io_bind (io_state (path_exists path)) (\<lambda>present.
      if \<not> present then io_return False
      else io_then (map_err (\<lambda>e. ''remove '' @ path @ '': '' @ e) (remove_file w path)) (io_return True)))"

definition purge_local_state :: "outside \<Rightarrow> unit io" where
  "purge_local_state w = io_bind (io_of (local_appdata_dir w)) (\<lambda>local.
    let dir = path_join local ''vibe-bridge''
    in io_then (ignore (remove_file w (path_join dir ''daemon-status.json'')))
      (io_then (ignore (remove_file w (path_join dir ''vb-daemon.log'')))
      (io_then (ignore (remove_dir w (path_join dir ''bin'')))
        (ignore (remove_dir w dir)))))"

definition ensure_user_path_contains :: "outside \<Rightarrow> string \<Rightarrow> unit io" where
  "ensure_user_path_contains w dir =
    io_bind (map_err (\<lambda>e. ''run powershell to update user PATH: '' @ e) (run_powershell w (user_path_script dir)))
      (\<lambda>out. if co_success out then io_return () else io_err (''powershell PATH update exited with '' @ co_status out))"

section \<open>Settings of Windows Terminal\<close>

definition windows_terminal_settings_paths :: "outside \<Rightarrow> string list result" where
  "windows_terminal_settings_paths w = bind_res (local_appdata_dir w) (\<lambda>local. Inr
    [joined local [''Packages'', ''Microsoft.WindowsTerminal_8wekyb3d8bbwe'', ''LocalState'', ''settings.json''],
     joined local [''Packages'', ''Microsoft.WindowsTerminalPreview_8wekyb3d8bbwe'', ''LocalState'', ''settings.json''],
     joined local [''Microsoft'', ''Windows Terminal'', ''settings.json'']])"

text \<open>All these paths end in a file name, so the backup stands beside it with a longer one.\<close>

definition terminal_settings_backup_path :: "outside \<Rightarrow> string \<Rightarrow> string" where
  "terminal_settings_backup_path w path = path @ backup_suffix @ ''.'' @ show_nat (ou_seconds w)"

record settings_tally =
  tl_seen :: nat
  tl_files :: nat
  tl_profiles :: nat
  tl_names :: "string list"
  tl_supported :: "string list"

definition settings_step :: "outside \<Rightarrow> (string \<Rightarrow> settings_result result) \<Rightarrow> string \<Rightarrow> settings_tally \<Rightarrow> settings_tally io" where
  "settings_step w rewrite path t = io_bind (io_state (path_exists path)) (\<lambda>present.
    if \<not> present then io_return t
    else
      let t = t\<lparr>tl_seen := Suc (tl_seen t)\<rparr>
      in io_bind (map_err (\<lambda>e. ''read '' @ path @ '': '' @ e) (read_to_string w path)) (\<lambda>input.
      io_bind (io_of (rewrite input)) (\<lambda>r.
      let t = t\<lparr>tl_supported := tl_supported t @ sr_supported_profiles r\<rparr>
      in case sr_output r of
           None \<Rightarrow> io_return t
         | Some output \<Rightarrow>
           let backup = terminal_settings_backup_path w path
           in io_then (map_err (\<lambda>e. ''backup Windows Terminal settings '' @ path @ '' -> '' @ backup @ '': '' @ e)
                (copy_file w path backup))
             (io_then (map_err (\<lambda>e. ''write Windows Terminal settings '' @ path @ '': '' @ e)
                (write_file w path (as_bytes output)))
             (io_return (t\<lparr>tl_files := Suc (tl_files t),
                tl_profiles := tl_profiles t + length (sr_changed_profiles r),
                tl_names := tl_names t @ sr_changed_profiles r\<rparr>))))))"

fun settings_loop :: "outside \<Rightarrow> (string \<Rightarrow> settings_result result) \<Rightarrow> string list \<Rightarrow> settings_tally \<Rightarrow> settings_tally io" where
  "settings_loop w rewrite [] t = io_return t"
| "settings_loop w rewrite (path # paths) t =
    io_bind (settings_step w rewrite path t) (settings_loop w rewrite paths)"

definition rewrite_all_settings :: "outside \<Rightarrow> (string \<Rightarrow> settings_result result) \<Rightarrow> settings_tally io" where
  "rewrite_all_settings w rewrite = io_bind (io_of (windows_terminal_settings_paths w))
    (\<lambda>paths. settings_loop w rewrite paths
      \<lparr>tl_seen = 0, tl_files = 0, tl_profiles = 0, tl_names = [], tl_supported = []\<rparr>)"

definition install_windows_terminal_profiles :: "outside \<Rightarrow> string \<Rightarrow> string \<Rightarrow> string io" where
  "install_windows_terminal_profiles w exe addr =
    io_bind (rewrite_all_settings w (\<lambda>input. wrap_windows_terminal_settings_json (ou_parse w) (ou_pretty w) input exe addr))
    (\<lambda>t. io_return
      (if tl_seen t = 0 then ''no Windows Terminal settings found''
       else if tl_profiles t = 0 then
         (if tl_supported t = [] then ''no supported profiles''
          else let (names, count) = limited_profile_name_list (tl_supported t)
            in ''already installed '' @ show_nat count @ '' supported profile(s): '' @ names)
       else ''wrapped '' @ show_nat (tl_profiles t) @ '' profile(s) in '' @ show_nat (tl_files t) @
         '' settings file(s): '' @ fst (limited_profile_name_list (tl_names t))))"

definition uninstall_windows_terminal_profiles :: "outside \<Rightarrow> string io" where
  "uninstall_windows_terminal_profiles w =
    io_bind (rewrite_all_settings w (unwrap_windows_terminal_settings_json (ou_parse w) (ou_pretty w)))
    (\<lambda>t. io_return
      (if tl_seen t = 0 then ''no Windows Terminal settings found''
       else if tl_profiles t = 0 then ''no wrapped profiles''
       else ''unwrapped '' @ show_nat (tl_profiles t) @ '' profile(s) in '' @ show_nat (tl_files t) @
         '' settings file(s): '' @ fst (limited_profile_name_list (tl_names t))))"

section \<open>WSL and the daemon\<close>

definition install_wsl_distro :: "outside \<Rightarrow> string \<Rightarrow> string \<Rightarrow> string \<Rightarrow> string \<Rightarrow> unit io" where
  "install_wsl_distro w hook_js distro exe addr =
    run_wsl_script w distro (build_wsl_install_script distro exe addr hook_js)"

definition install_wsl_shell_integration :: "outside \<Rightarrow> string \<Rightarrow> string \<Rightarrow> unit io" where
  "install_wsl_shell_integration w distro addr = run_wsl_script w distro (build_wsl_shell_integration_script addr)"

text \<open>The distributions where the action went well; the others only give a warning.\<close>

definition those_done :: "(string \<Rightarrow> unit io) \<Rightarrow> string list \<Rightarrow> string list io" where
  "those_done act distros = io_each (\<lambda>distro. io_bind (io_try (act distro))
    (\<lambda>r. io_return (case r of Inr _ \<Rightarrow> [distro] | Inl _ \<Rightarrow> []))) distros"

definition remove_wsl_shell_integrations :: "outside \<Rightarrow> string list io" where
  "remove_wsl_shell_integrations w = io_bind (list_wsl_distros w)
    (those_done (\<lambda>distro. run_wsl_script w distro build_wsl_shell_uninstall_script))"

definition ensure_daemon_listening_with_exe :: "outside \<Rightarrow> string \<Rightarrow> string \<Rightarrow> string \<Rightarrow> unit io" where
  "ensure_daemon_listening_with_exe w addr exe device =
    (if ou_connects w \<noteq> [] \<and> hd (ou_connects w) then io_return ()
     else io_bind (io_of (local_appdata_dir w)) (\<lambda>local.
       let log_dir = path_join local ''vibe-bridge''
       in io_then (map_err (\<lambda>e. ''create log dir '' @ log_dir @ '': '' @ e) (create_dir_all w log_dir))
         (io_then (map_err (\<lambda>e. ''open daemon log: '' @ e) (append_log w (path_join log_dir ''vb-daemon.log'')))
         (io_bind (map_err (\<lambda>e. ''spawn background serve-hid: '' @ e)
             (io_of (ou_spawn w [exe, ''serve-hid'', addr, device]))) (\<lambda>child.
         io_then (write_daemon_status w addr device exe child)
           (if list_ex (\<lambda>c. c) (tl (ou_connects w)) then io_return ()
            else io_err (''daemon did not start listening at '' @ addr @
              lit ''; see %LOCALAPPDATA%Zvibe-bridgeZvb-daemon.log'')))))))"

end
