(* ===== verification/Product_Actions.thy ===== *)
theory Product_Actions
  imports Product_Setup
begin

text \<open>
  Installing, removing and inspecting the product: \<open>run_install_windows\<close>, \<open>run_uninstall_windows\<close>
  and \<open>run_status_windows\<close> of \<open>crates/vb-daemon/src/main.rs\<close>, each as one operation on the machine
  whose result is the report printed at the end. \<open>hook_js\<close> is the hook that is compiled in.
\<close>

section \<open>Installation\<close>

definition blocked :: "string \<Rightarrow> string" where
  "blocked action = action @ '' is blocked inside a Vibe-captured terminal profile. Open an unwrapped shell with Win+R -> powershell.exe -NoLogo -NoProfile, then rerun '' @ action @ '' there.''"

definition or_failed :: "string \<Rightarrow> string result \<Rightarrow> string" where
  "or_failed what r = (case r of Inr summary \<Rightarrow> summary | Inl err \<Rightarrow> what @ '' ('' @ err @ '')'')"

definition terminal_profile_step :: "outside \<Rightarrow> install_opts \<Rightarrow> string \<Rightarrow> string io" where
  "terminal_profile_step w o1 exe =
    (if io_install_terminal_profiles o1
     then io_bind (io_try (install_windows_terminal_profiles w exe (io_addr o1)))
       (\<lambda>r. io_return (or_failed ''not confirmed'' r))
     else io_bind (io_try (uninstall_windows_terminal_profiles w))
       (\<lambda>r. io_return (case r of Inr s \<Rightarrow> ''native ('' @ s @ '')'' | Inl _ \<Rightarrow> or_failed ''native not confirmed'' r)))"

definition wsl_shell_step :: "outside \<Rightarrow> install_opts \<Rightarrow> string list io" where
  "wsl_shell_step w o1 =
    (if \<not> io_install_wsl_shell o1 then io_return []
     else io_bind (io_try (resolve_wsl_shell_distros w o1)) (\<lambda>r. case r of
         Inl _ \<Rightarrow> io_return []
       | Inr distros \<Rightarrow> those_done (\<lambda>d. install_wsl_shell_integration w d (io_addr o1)) distros))"

definition optional_step :: "bool \<Rightarrow> string io \<Rightarrow> string io" where
  "optional_step wanted act =
    (if wanted then io_bind (io_try act) (\<lambda>r. io_return (or_failed ''not confirmed'' r)) else io_return ''skipped'')"

definition list_or :: "string \<Rightarrow> string list \<Rightarrow> string" where
  "list_or none xs = (if xs = [] then none else join '', '' xs)"

definition install_report ::
  "install_opts \<Rightarrow> string \<Rightarrow> string \<Rightarrow> string \<Rightarrow> string list \<Rightarrow> string \<Rightarrow> string \<Rightarrow> string list \<Rightarrow> string \<Rightarrow> string list" where
  "install_report o1 source exe daemon_now installed_wsl terminal links installed_wsl_shell start_menu =
    [''vibe-bridge Windows install complete'', ''source exe : '' @ source, ''daemon exe : '' @ exe,
     ''shim dir   : '' @ io_shim_dir o1, ''daemon addr: '' @ io_addr o1, ''device     : '' @ io_device o1,
     ''daemon now : '' @ daemon_now,
     ''wsl install: '' @ (if io_install_wsl o1 then list_or ''none'' installed_wsl else ''skipped''),
     ''startup    : '' @ (if io_install_startup o1 then ''installed'' else ''skipped''),
     ''terminal   : '' @ terminal, ''wsl links  : '' @ links,
     ''wsl shell  : '' @ (if io_install_wsl_shell o1 then list_or ''none'' installed_wsl_shell else ''skipped''),
     ''start menu : '' @ start_menu,
     ''user PATH  : '' @ (if io_update_path o1 then ''shim dir ensured; open a new terminal to use it'' else ''skipped'')]"

definition startup_step :: "outside \<Rightarrow> install_opts \<Rightarrow> string \<Rightarrow> string \<Rightarrow> unit io" where
  "startup_step w o1 exe log_dir =
    (if \<not> io_install_startup o1 then io_return ()
     else io_bind (io_of (startup_dir w)) (\<lambda>dir.
       io_then (map_err (\<lambda>e. ''create startup dir '' @ dir @ '': '' @ e) (create_dir_all w dir))
         (write_startup_cmd w dir exe (io_addr o1) (io_device o1) log_dir)))"

text \<open>The part of an installation that is not optional, up to the report on the executable.\<close>

definition install_shims :: "outside \<Rightarrow> install_opts \<Rightarrow> string \<Rightarrow> string \<Rightarrow> (string \<times> string list) io" where
  "install_shims w o1 source log_dir =
    io_then (map_err (\<lambda>e. ''create shim dir '' @ io_shim_dir o1 @ '': '' @ e) (create_dir_all w (io_shim_dir o1)))
    (io_then (map_err (\<lambda>e. ''create log dir '' @ log_dir @ '': '' @ e) (create_dir_all w log_dir))
    (io_then (stop_background_daemon_processes_for_addr w (io_addr o1))
    (io_bind (install_daemon_exe w source (io_shim_dir o1)) (\<lambda>exe.
    io_bind (resolve_wsl_distros w o1) (\<lambda>selected.
    let default_distro = (case io_wsl_distros o1 of [d] \<Rightarrow> Some d | _ \<Rightarrow> None)
    in io_then (write_agent_cmd w (io_shim_dir o1) ''codex'' exe default_distro)
      (io_then (write_agent_cmd w (io_shim_dir o1) ''claude'' exe default_distro)
      (io_then (write_wsl_cmd w (io_shim_dir o1) exe)
      (io_then (startup_step w o1 exe log_dir)
      (io_then (if io_update_path o1 then ensure_user_path_contains w (io_shim_dir o1) else io_return ())
        (io_return (exe, selected)))))))))))"

definition current_source :: "outside \<Rightarrow> string result" where
  "current_source w =
    (case ou_current_exe w of
       Inl e \<Rightarrow> Inl (''current_exe: '' @ e)
     | Inr p \<Rightarrow> (case ou_canonical w p of Inl e \<Rightarrow> Inl (''canonicalize current exe: '' @ e) | Inr q \<Rightarrow> Inr q))"

definition run_install_windows :: "outside \<Rightarrow> string \<Rightarrow> string list \<Rightarrow> string list io" where
  "run_install_windows w hook_js raw = io_bind (running_inside_captured_terminal w) (\<lambda>captured.
    if captured then io_err (blocked ''install-windows'')
    else io_bind (io_of (parse_install_windows_args w raw)) (\<lambda>o1.
      io_bind (io_of (current_source w)) (\<lambda>source.
      io_bind (io_of (local_appdata_dir w)) (\<lambda>local.
      io_bind (install_shims w o1 source (path_join local ''vibe-bridge'')) (\<lambda>(exe, selected).
      io_bind (terminal_profile_step w o1 exe) (\<lambda>terminal.
      io_bind (optional_step (io_install_wsl_shortcuts o1) (install_wsl_start_menu_shortcuts w exe (io_addr o1))) (\<lambda>links.
      io_bind (wsl_shell_step w o1) (\<lambda>installed_wsl_shell.
      io_bind (optional_step (io_install_management_shortcuts o1)
        (install_management_start_menu_shortcuts w exe (io_addr o1) (io_device o1))) (\<lambda>start_menu.
      io_bind (those_done (\<lambda>d. install_wsl_distro w hook_js d exe (io_addr o1)) selected) (\<lambda>installed_wsl.
      io_bind (io_try (ensure_daemon_listening_with_exe w (io_addr o1) exe (io_device o1))) (\<lambda>r.
      let daemon_now = or_failed ''not confirmed'' (bind_res r (\<lambda>_. Inr ''running''))
      in io_return (install_report o1 source exe daemon_now installed_wsl terminal links installed_wsl_shell start_menu))))))))))))"

definition run_install_product :: "outside \<Rightarrow> string \<Rightarrow> string list \<Rightarrow> string list io" where
  "run_install_product w hook_js raw = run_install_windows w hook_js (product_install_args raw)"

section \<open>Removal\<close>

definition uninstall_report ::
  "uninstall_opts \<Rightarrow> bool \<Rightarrow> nat \<Rightarrow> string \<Rightarrow> bool \<Rightarrow> string list \<Rightarrow> nat \<times> nat \<Rightarrow> string list" where
  "uninstall_report o1 startup_removed shim_removed terminal links removed_wsl_shell exes =
    [''vibe-bridge Windows uninstall complete'', ''daemon addr: '' @ uo_addr o1, ''shim dir   : '' @ uo_shim_dir o1,
     ''startup    : '' @ (if startup_removed then ''removed'' else ''absent''),
     ''shims      : removed '' @ show_nat shim_removed, ''terminal   : '' @ terminal,
     ''wsl links  : '' @ (if links then ''removed'' else ''absent''),
     ''wsl shell  : '' @ list_or ''absent'' removed_wsl_shell,
     ''daemon exe : removed '' @ show_nat (fst exes) @ '', skipped '' @ show_nat (snd exes),
     ''purge      : '' @ (if uo_purge o1 then ''yes'' else ''no'')]"

definition run_uninstall_windows :: "outside \<Rightarrow> string list \<Rightarrow> string list io" where
  "run_uninstall_windows w raw = io_bind (running_inside_captured_terminal w) (\<lambda>captured.
    if captured then io_err (blocked ''uninstall-windows'')
    else io_bind (io_of (parse_uninstall_windows_args w raw)) (\<lambda>o1.
      io_then (stop_background_daemon_processes_for_addr w (uo_addr o1))
      (io_bind (remove_startup_cmd w) (\<lambda>startup_removed.
      io_bind (remove_agent_cmds w (uo_shim_dir o1)) (\<lambda>shim_removed.
      io_bind (remove_wsl_start_menu_shortcuts w) (\<lambda>links.
      io_bind (remove_wsl_shell_integrations w) (\<lambda>removed_wsl_shell.
      io_bind (optional_step (uo_remove_terminal_profiles o1) (uninstall_windows_terminal_profiles w)) (\<lambda>terminal.
      io_bind (cleanup_daemon_exes w (uo_shim_dir o1)) (\<lambda>exes.
      io_then (if uo_purge o1 then purge_local_state w else remove_daemon_status_file w)
        (io_return (uninstall_report o1 startup_removed shim_removed terminal links removed_wsl_shell exes)))))))))))"

section \<open>Status\<close>

definition present_or_absent :: "machine \<Rightarrow> string \<Rightarrow> string" where
  "present_or_absent m path = (if path_exists path m then ''present'' else ''absent'')"

definition run_status_windows :: "outside \<Rightarrow> string list \<Rightarrow> string list io" where
  "run_status_windows w raw = io_bind (io_of (parse_status_windows_args raw)) (\<lambda>addr.
    io_bind (io_of (local_appdata_dir w)) (\<lambda>local_appdata.
    io_bind (io_of (startup_dir w)) (\<lambda>startup.
    io_bind (io_of (daemon_status_path w)) (\<lambda>status_path.
    io_bind (io_state (\<lambda>m. m)) (\<lambda>m.
    io_bind (io_try (read_to_string w status_path)) (\<lambda>status.
      let install_dir = path_join local_appdata ''vibe-bridge''; shim_dir = path_join install_dir ''bin'';
          startup_script = path_join startup startup_cmd_name
      in io_return ([''vibe-bridge Windows status'', ''daemon addr : '' @ addr,
        ''daemon tcp  : '' @ (if ou_connects w \<noteq> [] \<and> hd (ou_connects w) then ''listening'' else ''not reachable''),
        ''install dir : '' @ install_dir,
        ''startup     : '' @ (if path_exists startup_script m then startup_script else ''absent''),
        ''codex shim  : '' @ present_or_absent m (path_join shim_dir ''codex.cmd''),
        ''claude shim : '' @ present_or_absent m (path_join shim_dir ''claude.cmd''),
        ''wsl shim    : '' @ present_or_absent m (path_join shim_dir ''wsl.cmd''),
        ''status file : '' @ status_path] @
        (case status of Inl _ \<Rightarrow> [''  absent''] | Inr txt \<Rightarrow> map (\<lambda>l. ''  '' @ l) (take 12 (str_lines txt))) @
        [''log file    : '' @ path_join install_dir ''vb-daemon.log'']))))))) "

end
