(* ===== verification/Product_Properties.thy ===== *)
theory Product_Properties
  imports Product_Actions
begin

text \<open>
  What installing and removing the product do to the machine's files. The lemmas on single steps
  hold for every reflexive and transitive relation on files, so each serves both the files a
  step leaves alone and the files it does not bring back.
\<close>

section \<open>Steps\<close>

lemma restored_name:
  assumes "ends_with name (''.lnk'' @ backup_suffix)"
  shows "\<exists>n. trim_end_str backup_suffix name = n @ ''.lnk''"
proof -
  obtain n where n: "name = n @ ''.lnk'' @ backup_suffix"
    using assms unfolding ends_with_def by (metis append_take_drop_id)
  have "trim_start_str (rev backup_suffix) (rev backup_suffix @ ''knl.'' @ rev n) =
      trim_start_str (rev backup_suffix) (''knl.'' @ rev n)"
    by (subst trim_start_str.simps) (simp add: backup_suffix_def starts_with_def strip_prefix_def)
  also have "\<dots> = ''knl.'' @ rev n"
    by (subst trim_start_str.simps) (simp add: backup_suffix_def starts_with_def strip_prefix_def)
  finally have "trim_end_str backup_suffix name = n @ ''.lnk''"
    by (simp add: n trim_end_str_def)
  then show ?thesis by blast
qed

context file_relation
begin

lemma obeys_ignore [obeys_intros]: "obeys R act \<Longrightarrow> obeys R (ignore act)"
  unfolding ignore_def by (intro obeys_intros)

lemma obeys_list_wsl_distros [obeys_intros]: "obeys R (list_wsl_distros w)"
  unfolding list_wsl_distros_def by (intro obeys_intros)

lemma obeys_run_wsl_script [obeys_intros]: "obeys R (run_wsl_script w distro script)"
  unfolding run_wsl_script_def by (intro obeys_intros)

lemma obeys_those_done [obeys_intros]: "(\<And>d. obeys R (act d)) \<Longrightarrow> obeys R (those_done act ds)"
  unfolding those_done_def by (intro obeys_intros)

lemma obeys_wsl_steps [obeys_intros]:
  "obeys R (remove_wsl_shell_integrations w)" "obeys R (resolve_wsl_distros w o1)"
  "obeys R (wsl_shell_step w o1)" "obeys R (install_wsl_distro w hook distro exe addr)"
  unfolding remove_wsl_shell_integrations_def resolve_wsl_distros_def wsl_shell_step_def install_wsl_distro_def
    resolve_wsl_shell_distros_def install_wsl_shell_integration_def
  by (intro obeys_intros)+

lemma obeys_powershell_steps:
  assumes "\<And>script. obeys R (run_powershell w script)"
  shows "obeys R (running_inside_captured_terminal w)" "obeys R (stop_background_daemon_processes_for_addr w addr)"
    "obeys R (shortcut_is_vibe_bridge w path)" "obeys R (write_windows_shortcut w path target args desc)"
    "obeys R (ensure_user_path_contains w dir)"
  unfolding running_inside_captured_terminal_def stop_background_daemon_processes_for_addr_def
    shortcut_is_vibe_bridge_def write_windows_shortcut_def ensure_user_path_contains_def
  by (intro obeys_intros assms)+

lemma obeys_remove_startup_cmd:
  assumes "\<And>dir x. startup_dir w = Inr dir \<Longrightarrow> R (path_join dir startup_cmd_name) x None"
  shows "obeys R (remove_startup_cmd w)"
  unfolding remove_startup_cmd_def Let_def by (intro obeys_bind_of obeys_intros assms)

lemma obeys_remove_shims:
  assumes "\<And>n x. n \<in> set names \<Longrightarrow> R (path_join dir n) x None"
  shows "obeys R (remove_shims w dir k names)"
  using assms by (induction names arbitrary: k) (auto simp: Let_def intro!: obeys_intros)

lemma obeys_remove_exes:
  assumes "\<And>n x. is_daemon_exe n \<Longrightarrow> R (path_join dir n) x None"
  shows "obeys R (remove_exes w dir counts entries)"
proof (induction entries arbitrary: counts)
  case (Cons entry rest)
  show ?case
    using assms
    by (cases counts; cases entry) (auto intro!: obeys_intros Cons.IH split: option.splits)
qed (cases counts, auto intro!: obeys_intros)

lemma obeys_cleanup_daemon_exes:
  assumes "\<And>n x. is_daemon_exe n \<Longrightarrow> R (path_join dir n) x None"
  shows "obeys R (cleanup_daemon_exes w dir)"
  unfolding cleanup_daemon_exes_def by (intro obeys_intros obeys_remove_exes assms)

lemma obeys_restore_backups:
  assumes "\<And>n x. R (path_join dir (n @ backup_suffix)) x None" "\<And>n x c. R (path_join dir (n @ ''.lnk'')) x c"
  shows "obeys R (restore_backups w dir changed entries)"
proof (induction entries arbitrary: changed)
  case (Cons entry rest)
  have "R (path_join dir (trim_end_str backup_suffix name)) x c \<and> R (path_join dir name) y None"
    if n: "ends_with name (''.lnk'' @ backup_suffix)" for name x y c
  proof -
    obtain k where "name = (k @ ''.lnk'') @ backup_suffix"
      using n unfolding ends_with_def by (metis append_take_drop_id append_assoc)
    then have "R (path_join dir name) y None" using assms(1) [of "k @ ''.lnk''"] by simp
    moreover obtain n where "trim_end_str backup_suffix name = n @ ''.lnk''" using restored_name [OF n] by blast
    ultimately show ?thesis using assms(2) [of n] by simp
  qed
  then show ?case
    by (cases entry) (auto simp: Let_def intro!: obeys_intros Cons.IH split: option.splits)
qed (auto intro!: obeys_intros)

lemma obeys_remove_direct_shortcuts:
  assumes "\<And>script. obeys R (run_powershell w script)" "\<And>n x. R (path_join dir (n @ ''.lnk'')) x None"
  shows "obeys R (remove_direct_shortcuts w dir changed distros)"
  using assms by (induction distros arbitrary: changed) (auto simp: Let_def intro!: obeys_intros obeys_powershell_steps)

lemma obeys_restore_direct:
  assumes "\<And>script. obeys R (run_powershell w script)"
    and "\<And>dir n x. start_menu_programs_dir w = Inr dir \<Longrightarrow> R (path_join dir (n @ backup_suffix)) x None"
    and "\<And>dir n x c. start_menu_programs_dir w = Inr dir \<Longrightarrow> R (path_join dir (n @ ''.lnk'')) x c"
  shows "obeys R (restore_direct_wsl_start_menu_shortcuts w)"
  unfolding restore_direct_wsl_start_menu_shortcuts_def
  by (intro obeys_bind_of obeys_intros obeys_restore_backups obeys_remove_direct_shortcuts assms)

lemma obeys_remove_wsl_start_menu_shortcuts:
  assumes "obeys R (restore_direct_wsl_start_menu_shortcuts w)"
    and "\<And>dir q x. start_menu_shortcuts_dir w = Inr dir \<Longrightarrow> below dir q \<Longrightarrow> R q x None"
  shows "obeys R (remove_wsl_start_menu_shortcuts w)"
  unfolding remove_wsl_start_menu_shortcuts_def by (intro obeys_bind [OF assms(1)] obeys_bind_of obeys_intros assms(2))

lemma obeys_settings_loop:
  assumes "\<And>p x c. p \<in> set paths \<Longrightarrow> R p x (Some c) \<and> R (terminal_settings_backup_path w p) x (Some c)"
  shows "obeys R (settings_loop w rewrite paths t)"
  using assms
proof (induction paths arbitrary: t)
  case (Cons p paths)
  have "obeys R (settings_step w rewrite p t)" for t
    unfolding settings_step_def Let_def using Cons.prems by (intro obeys_intros) auto
  then show ?case using Cons by (auto intro!: obeys_intros)
qed (auto intro!: obeys_intros)

lemma obeys_settings:
  assumes "\<And>ps p x c. windows_terminal_settings_paths w = Inr ps \<Longrightarrow> p \<in> set ps \<Longrightarrow>
    R p x (Some c) \<and> R (terminal_settings_backup_path w p) x (Some c)"
  shows "obeys R (install_windows_terminal_profiles w exe addr)" "obeys R (uninstall_windows_terminal_profiles w)"
  unfolding install_windows_terminal_profiles_def uninstall_windows_terminal_profiles_def rewrite_all_settings_def
  by (intro obeys_bind obeys_bind_of obeys_settings_loop obeys_basic assms; assumption)+

lemma obeys_purge_local_state:
  assumes "\<And>local n x. local_appdata_dir w = Inr local \<Longrightarrow> n \<in> {''daemon-status.json'', ''vb-daemon.log''} \<Longrightarrow>
    R (joined local [''vibe-bridge'', n]) x None"
  shows "obeys R (purge_local_state w)" "obeys R (remove_daemon_status_file w)"
proof -
  show "obeys R (purge_local_state w)"
    unfolding purge_local_state_def Let_def
    by (intro obeys_bind_of obeys_intros) (use assms in \<open>auto simp: joined_def\<close>)
  show "obeys R (remove_daemon_status_file w)"
    unfolding remove_daemon_status_file_def daemon_status_path_def
    using assms by (cases "local_appdata_dir w") (auto intro!: obeys_intros)
qed

end

section \<open>Removal\<close>

text \<open>The files that removing the product may change.\<close>

definition touched_by_removal :: "outside \<Rightarrow> string \<Rightarrow> string \<Rightarrow> bool" where
  "touched_by_removal w shim_dir p \<longleftrightarrow>
    (\<exists>n. (n \<in> set shim_names \<or> is_daemon_exe n) \<and> p = path_join shim_dir n) \<or>
    (\<exists>dir. startup_dir w = Inr dir \<and> p = path_join dir startup_cmd_name) \<or>
    (\<exists>dir n. start_menu_programs_dir w = Inr dir \<and> p = path_join dir n) \<or>
    (\<exists>dir. start_menu_shortcuts_dir w = Inr dir \<and> below dir p) \<or>
    (\<exists>ps q. windows_terminal_settings_paths w = Inr ps \<and> q \<in> set ps \<and>
       (p = q \<or> p = terminal_settings_backup_path w q)) \<or>
    (\<exists>local n. local_appdata_dir w = Inr local \<and> n \<in> {''daemon-status.json'', ''vb-daemon.log''} \<and>
       p = joined local [''vibe-bridge'', n])"

lemma last_path_join: "n \<noteq> [] \<Longrightarrow> last (path_join dir n) = last n"
  by (simp add: path_join_def)

lemma joined_snoc: "joined dir (ns @ [n]) = path_join (joined dir ns) n"
  by (simp add: joined_def)

text \<open>Command files and programs are told from what removal may write by their last letter.\<close>

definition program_path :: "string \<Rightarrow> bool" where
  "program_path p \<longleftrightarrow> last p \<in> {CHR ''d'', CHR ''e'', CHR ''E''}"

lemma settings_path_ends:
  assumes "windows_terminal_settings_paths w = Inr ps" "q \<in> set ps"
  shows "last q = CHR ''n''"
  using assms
  by (auto simp: windows_terminal_settings_paths_def bind_res_def joined_def last_path_join split: sum.splits)

lemma digit_char_digit: "n < 10 \<Longrightarrow> digit_char n \<in> set ''0123456789''"
proof -
  have "list_all (\<lambda>n. digit_char n \<in> set ''0123456789'') [0..<10]" by code_simp
  moreover assume "n < 10"
  then have "n \<in> set [0..<10]" by simp
  ultimately show ?thesis by (auto simp: list_all_iff)
qed

lemma backup_path_ends: "last (terminal_settings_backup_path w q) \<in> set ''0123456789''"
proof -
  have "show_nat (ou_seconds w) \<noteq> []" unfolding show_nat_def by (subst show_base.simps) simp
  then have "last (terminal_settings_backup_path w q) = digit_char (ou_seconds w mod 10)"
    by (simp add: terminal_settings_backup_path_def show_nat_def last_show_base)
  then show ?thesis using digit_char_digit [of "ou_seconds w mod 10"] by simp
qed

lemma lower_e: "ascii_lower_char c = CHR ''e'' \<Longrightarrow> c \<in> {CHR ''e'', CHR ''E''}"
proof -
  assume a: "ascii_lower_char c = CHR ''e''"
  have "list_all (\<lambda>c. ascii_lower_char c = CHR ''e'' \<longrightarrow> c \<in> {CHR ''e'', CHR ''E''}) (Enum.enum :: char list)"
    by code_simp
  with a show ?thesis by (simp add: list_all_iff enum_UNIV)
qed

lemma daemon_exe_ends: "is_daemon_exe n \<Longrightarrow> n \<noteq> [] \<and> last n \<in> {CHR ''e'', CHR ''E''}"
proof -
  assume "is_daemon_exe n"
  then consider "to_ascii_lowercase n = ''vb-daemon'' @ ''.exe''" | "ends_with (to_ascii_lowercase n) ''.exe''"
    by (auto simp: is_daemon_exe_def Let_def)
  then obtain x where x: "to_ascii_lowercase n = x @ ''.exe''"
    by cases (blast, metis append_take_drop_id ends_with_def)
  then have n: "n \<noteq> []" by (auto simp: to_ascii_lowercase_def)
  then have "ascii_lower_char (last n) = last (to_ascii_lowercase n)"
    by (simp add: to_ascii_lowercase_def last_map)
  then have "ascii_lower_char (last n) = CHR ''e''" by (simp add: x)
  from lower_e [OF this] n show ?thesis by simp
qed

lemma written_by_removal:
  assumes "program_path p"
  shows "p \<noteq> path_join dir (n @ ''.lnk'')"
    "windows_terminal_settings_paths w = Inr ps \<Longrightarrow> q \<in> set ps \<Longrightarrow> p \<noteq> q \<and> p \<noteq> terminal_settings_backup_path w q"
  using assms backup_path_ends [of w q]
  by (auto simp: program_path_def last_path_join dest: settings_path_ends)

lemma remove_file_gone: "remove_file w p m = (Inr (), m') \<Longrightarrow> mc_files m' p = None"
  by (auto simp: remove_file_def unless_refused_def io_err_def set_file_def split: option.splits if_splits)

lemma remove_shims_gone:
  "remove_shims w dir k names m = (Inr r, m') \<Longrightarrow> n \<in> set names \<Longrightarrow> mc_files m' (path_join dir n) = None"
proof (induction names arbitrary: k m)
  case (Cons name names)
  define p where "p = path_join dir name"
  have keep: "obeys (adds_none (\<lambda>_. True)) (remove_shims w dir j names)" for j
    by (rule adds_none.obeys_remove_shims) (simp add: adds_none_def)
  have later: "mc_files m' p = None" if "remove_shims w dir j names m1 = (Inr r, m')" "mc_files m1 p = None" for j m1
    using obeysD [OF keep that(1), of p] that(2) by (simp add: adds_none_def)
  from Cons.prems(1) consider j m1 where "remove_shims w dir j names m1 = (Inr r, m')" "mc_files m1 p = None"
    by (auto simp: Let_def io_bind_Inr io_then_Inr map_err_Inr io_simps p_def path_exists_def
        dest: remove_file_gone split: if_splits)
  then show ?case
    using Cons.IH Cons.prems(2) later by cases (auto simp: p_def)
qed simp

lemma remove_startup_gone:
  assumes "remove_startup_cmd w m = (Inr r, m')" "startup_dir w = Inr dir"
  shows "mc_files m' (path_join dir startup_cmd_name) = None"
  using assms
  by (auto simp: remove_startup_cmd_def Let_def io_bind_Inr io_then_Inr map_err_Inr io_simps path_exists_def
      dest: remove_file_gone split: if_splits)

lemma remove_exes_gone:
  assumes "remove_exes w dir counts entries m = (Inr r, m')" "Inr (Some n) \<in> set entries"
    and "is_daemon_exe n" "ou_refuses w RemoveFile (path_join dir n) = None"
  shows "mc_files m' (path_join dir n) = None"
  using assms(1,2)
proof (induction entries arbitrary: counts m)
  case (Cons entry rest)
  obtain a b where counts: "counts = (a, b)" by fastforce
  have keep: "obeys (adds_none (\<lambda>_. True)) (remove_exes w dir c rest)" for c
    by (rule adds_none.obeys_remove_exes) (simp add: adds_none_def)
  show ?case
  proof (cases "entry = Inr (Some n)")
    case True
    then obtain c where c: "remove_exes w dir c rest (snd (remove_file w (path_join dir n) m)) = (Inr r, m')"
      using Cons.prems(1) assms(3) by (auto simp: counts io_bind_Inr io_simps)
    have "mc_files (snd (remove_file w (path_join dir n) m)) (path_join dir n) = None"
      using assms(4) by (simp add: remove_file_def unless_refused_def set_file_def)
    then show ?thesis using obeysD [OF keep c, of "path_join dir n"] by (simp add: adds_none_def)
  next
    case False
    then have "Inr (Some n) \<in> set rest" using Cons.prems(2) by auto
    then show ?thesis
      using Cons.IH Cons.prems(1)
      by (auto simp: counts io_bind_Inr io_simps split: sum.splits option.splits if_splits)
  qed
qed simp

definition dirs_shrink :: "'a io \<Rightarrow> bool" where
  "dirs_shrink act \<longleftrightarrow> (\<forall>m. mc_dirs (snd (act m)) \<subseteq> mc_dirs m)"

lemma dirs_shrink_last_steps: "dirs_shrink (if purge then purge_local_state w else remove_daemon_status_file w)"
proof -
  have rf: "dirs_shrink (ignore (remove_file w p))" for p
    by (auto simp: dirs_shrink_def ignore_def io_bind_def io_simps remove_file_def unless_refused_def set_file_def io_err_def
        split: option.splits prod.splits)
  have rd: "dirs_shrink (ignore (remove_dir w p))" for p
    by (auto simp: dirs_shrink_def ignore_def io_bind_def io_simps remove_dir_def unless_refused_def io_err_def
        split: option.splits prod.splits if_splits)
  have seq: "dirs_shrink a \<Longrightarrow> dirs_shrink b \<Longrightarrow> dirs_shrink (io_then a b)" for a :: "unit io" and b :: "unit io"
    by (fastforce simp: dirs_shrink_def io_then_def io_bind_def split: prod.splits sum.splits)
  have bo: "(\<And>x. dirs_shrink (f x)) \<Longrightarrow> dirs_shrink (io_bind (io_of r) f)" for f :: "'b \<Rightarrow> unit io" and r
    by (cases r) (simp_all add: dirs_shrink_def io_bind_def io_simps)
  have "dirs_shrink (purge_local_state w)"
    unfolding purge_local_state_def Let_def by (intro bo seq rf rd)
  moreover have "dirs_shrink (remove_daemon_status_file w)"
    unfolding remove_daemon_status_file_def
    by (cases "daemon_status_path w") (simp_all add: rf, simp add: dirs_shrink_def io_simps)
  ultimately show ?thesis by simp
qed

lemma cleanup_gone:
  assumes run: "cleanup_daemon_exes w dir m = (Inr r, m1)" and rest: "dir \<in> mc_dirs m1"
    and listing: "mc_files m (path_join dir n) \<noteq> None \<Longrightarrow> Inr (Some n) \<in> set (ou_listing w dir m)"
    and n: "is_daemon_exe n" "ou_refuses w RemoveFile (path_join dir n) = None"
  shows "mc_files m1 (path_join dir n) = None"
proof -
  have keep: "obeys (adds_none (\<lambda>_. True)) (cleanup_daemon_exes w dir)"
    by (rule adds_none.obeys_cleanup_daemon_exes) (simp add: adds_none_def)
  show ?thesis
  proof (cases "mc_files m (path_join dir n)")
    case None
    then show ?thesis using obeysD [OF keep run, of "path_join dir n"] by (simp add: adds_none_def)
  next
    case (Some c)
    then have listed: "Inr (Some n) \<in> set (ou_listing w dir m)" using listing by simp
    show ?thesis
    proof (cases "path_exists dir m")
      case True
      then have "remove_exes w dir (0, 0) (ou_listing w dir m) m = (Inr r, m1)"
        using run by (auto simp: cleanup_daemon_exes_def io_bind_Inr io_simps map_err_Inr read_dir_def unless_refused_def io_err_def
            split: option.splits if_splits)
      then show ?thesis using listed n by (rule remove_exes_gone)
    next
      case False
      then have "m1 = m" using run by (auto simp: cleanup_daemon_exes_def io_bind_Inr io_simps)
      then show ?thesis using False rest by (simp add: path_exists_def)
    qed
  qed
qed

text \<open>What a successful removal went through.\<close>

lemma uninstall_steps:
  assumes "run_uninstall_windows w raw m = (Inr report, m')"
    and "parse_uninstall_windows_args w raw = Inr o1"
  shows "\<exists>m2 m3 m4 m5 m6 m7 m8 m9 startup shims links shells terminal exes.
    remove_startup_cmd w m2 = (Inr startup, m3) \<and>
    remove_agent_cmds w (uo_shim_dir o1) m3 = (Inr shims, m4) \<and>
    remove_wsl_start_menu_shortcuts w m4 = (Inr links, m5) \<and>
    remove_wsl_shell_integrations w m5 = (Inr shells, m6) \<and>
    optional_step (uo_remove_terminal_profiles o1) (uninstall_windows_terminal_profiles w) m6 = (Inr terminal, m7) \<and>
    cleanup_daemon_exes w (uo_shim_dir o1) m7 = (Inr exes, m8) \<and>
    (if uo_purge o1 then purge_local_state w else remove_daemon_status_file w) m8 = (Inr (), m9) \<and> m9 = m'"
  using assms
  by (auto simp: run_uninstall_windows_def io_bind_Inr io_then_Inr io_simps split: if_splits) blast+

context file_relation
begin

lemma obeys_optional [obeys_intros]: "obeys R act \<Longrightarrow> obeys R (optional_step wanted act)"
  unfolding optional_step_def by (intro obeys_intros)

lemma obeys_uninstall:
  assumes "parse_uninstall_windows_args w raw = Inr o1"
    and "\<And>script. obeys R (run_powershell w script)"
    and "\<And>p x. touched_by_removal w (uo_shim_dir o1) p \<Longrightarrow> R p x None"
    and "\<And>dir n x c. start_menu_programs_dir w = Inr dir \<Longrightarrow> R (path_join dir (n @ ''.lnk'')) x (Some c)"
    and "\<And>ps p x c. windows_terminal_settings_paths w = Inr ps \<Longrightarrow> p \<in> set ps \<Longrightarrow>
      R p x (Some c) \<and> R (terminal_settings_backup_path w p) x (Some c)"
  shows "obeys R (remove_startup_cmd w)" "obeys R (remove_agent_cmds w (uo_shim_dir o1))"
    "obeys R (remove_wsl_start_menu_shortcuts w)"
    "obeys R (optional_step wanted (uninstall_windows_terminal_profiles w))"
    "obeys R (cleanup_daemon_exes w (uo_shim_dir o1))"
    "obeys R (if purge then purge_local_state w else remove_daemon_status_file w)"
proof -
  note touched = assms(3) [unfolded touched_by_removal_def]
  show "obeys R (remove_startup_cmd w)" by (rule obeys_remove_startup_cmd) (use touched in blast)
  show "obeys R (remove_agent_cmds w (uo_shim_dir o1))"
    unfolding remove_agent_cmds_def by (rule obeys_remove_shims) (use touched in blast)
  have direct: "obeys R (restore_direct_wsl_start_menu_shortcuts w)"
  proof (rule obeys_restore_direct)
    fix dir n x c assume dir: "start_menu_programs_dir w = Inr dir"
    show "R (path_join dir (n @ backup_suffix)) x None" using touched dir by blast
    show "R (path_join dir (n @ ''.lnk'')) x c" using touched assms(4) dir by (cases c) blast+
  qed (rule assms(2))
  show "obeys R (remove_wsl_start_menu_shortcuts w)"
    by (rule obeys_remove_wsl_start_menu_shortcuts [OF direct]) (use touched in blast)
  show "obeys R (optional_step wanted (uninstall_windows_terminal_profiles w))"
    by (rule obeys_optional, rule obeys_settings) (use assms(5) in blast)
  show "obeys R (cleanup_daemon_exes w (uo_shim_dir o1))"
    by (rule obeys_cleanup_daemon_exes) (use touched in blast)
  have gone: "R (joined local [''vibe-bridge'', n]) x None"
    if "local_appdata_dir w = Inr local" "n \<in> {''daemon-status.json'', ''vb-daemon.log''}" for local n x
    using touched that by blast
  show "obeys R (if purge then purge_local_state w else remove_daemon_status_file w)"
    using obeys_purge_local_state [OF gone] by simp
qed

lemma obeys_run_uninstall:
  assumes "parse_uninstall_windows_args w raw = Inr o1"
    and "\<And>script. obeys R (run_powershell w script)"
    and "\<And>p x. touched_by_removal w (uo_shim_dir o1) p \<Longrightarrow> R p x None"
    and "\<And>dir n x c. start_menu_programs_dir w = Inr dir \<Longrightarrow> R (path_join dir (n @ ''.lnk'')) x (Some c)"
    and "\<And>ps p x c. windows_terminal_settings_paths w = Inr ps \<Longrightarrow> p \<in> set ps \<Longrightarrow>
      R p x (Some c) \<and> R (terminal_settings_backup_path w p) x (Some c)"
  shows "obeys R (run_uninstall_windows w raw)"
proof -
  have here: "io_bind (io_of (Inr o1)) f = f o1" for f :: "uninstall_opts \<Rightarrow> string list io"
    by (simp add: fun_eq_iff io_bind_def io_of_def)
  note parts = obeys_uninstall [OF assms]
  show ?thesis
    unfolding run_uninstall_windows_def assms(1) here
    by (rule obeys_bind [OF obeys_powershell_steps(1) [OF assms(2)]], rule obeys_if(1), rule obeys_basic,
        intro obeys_then obeys_bind obeys_powershell_steps(2) obeys_wsl_steps(1) parts obeys_basic assms(2);
        assumption)
qed

end

text \<open>The two relations that a removal keeps.\<close>

lemma removal_leaves:
  assumes "parse_uninstall_windows_args w raw = Inr o1"
    and p: "\<not> touched_by_removal w (uo_shim_dir o1) p" "\<forall>args m. mc_files (snd (ou_powershell w args m)) p = mc_files m p"
  shows "obeys (leaves (\<lambda>q. q = p)) (run_uninstall_windows w raw)"
proof (rule leaves.obeys_run_uninstall [OF assms(1)])
  let ?R = "leaves (\<lambda>q. q = p)"
  show "obeys ?R (run_powershell w script)" for script
    using p(2) by (auto simp: obeys_def leaves_def run_powershell_def)
  show "?R q x None" if "touched_by_removal w (uo_shim_dir o1) q" for q x
    using p(1) that by (auto simp: leaves_def)
  show "?R (path_join dir (n @ ''.lnk'')) x (Some c)" if "start_menu_programs_dir w = Inr dir" for dir n x c
    using p(1) that unfolding touched_by_removal_def leaves_def by blast
  show "?R q x (Some c) \<and> ?R (terminal_settings_backup_path w q) x (Some c)"
    if "windows_terminal_settings_paths w = Inr pp" "q \<in> set pp" for pp q x c
    using p(1) that unfolding touched_by_removal_def leaves_def by blast
qed

lemma removal_adds_none:
  assumes "\<forall>args m p. mc_files m p = None \<longrightarrow> mc_files (snd (ou_powershell w args m)) p = None"
  shows "obeys (adds_none program_path) (run_powershell w script)"
    "adds_none program_path p x None"
    "adds_none program_path (path_join dir (n @ ''.lnk'')) x (Some c)"
    "windows_terminal_settings_paths w = Inr pp \<Longrightarrow> p \<in> set pp \<Longrightarrow>
      adds_none program_path p x (Some c) \<and> adds_none program_path (terminal_settings_backup_path w p) x (Some c)"
proof -
  show "obeys (adds_none program_path) (run_powershell w script)"
    using assms by (auto simp: obeys_def adds_none_def run_powershell_def)
  show "adds_none program_path p x None" by (simp add: adds_none_def)
  show "adds_none program_path (path_join dir (n @ ''.lnk'')) x (Some c)"
    using written_by_removal(1) [of "path_join dir (n @ ''.lnk'')" dir n] by (auto simp: adds_none_def)
  show "adds_none program_path p x (Some c) \<and> adds_none program_path (terminal_settings_backup_path w p) x (Some c)"
    if "windows_terminal_settings_paths w = Inr pp" "p \<in> set pp"
    using written_by_removal(2) [OF _ that] by (auto simp: adds_none_def)
qed

lemma absent_kept:
  assumes "obeys (adds_none Q) act" "act a = (r, b)" "mc_files a p = None" "Q p"
  shows "mc_files b p = None"
  using obeysD [OF assms(1,2), of p] assms(3,4) by (simp add: adds_none_def)

text \<open>What is gone after the shims have been removed is not brought back by the steps that follow.\<close>

lemma gone_after_the_shims:
  assumes opts: "parse_uninstall_windows_args w raw = Inr o1"
    and powershell: "\<forall>args m p. mc_files m p = None \<longrightarrow> mc_files (snd (ou_powershell w args m)) p = None"
    and steps: "remove_wsl_start_menu_shortcuts w m4 = (Inr links, m5)" "remove_wsl_shell_integrations w m5 = (Inr shells, m6)"
      "optional_step (uo_remove_terminal_profiles o1) (uninstall_windows_terminal_profiles w) m6 = (Inr terminal, m7)"
      "cleanup_daemon_exes w (uo_shim_dir o1) m7 = (Inr exes, m8)"
      "(if uo_purge o1 then purge_local_state w else remove_daemon_status_file w) m8 = (Inr (), m')"
    and p: "mc_files m4 p = None" "program_path p"
  shows "mc_files m' p = None"
proof -
  note facts = removal_adds_none [OF powershell]
  have keeps: "obeys (adds_none program_path) (remove_wsl_start_menu_shortcuts w)"
    "obeys (adds_none program_path) (optional_step (uo_remove_terminal_profiles o1) (uninstall_windows_terminal_profiles w))"
    "obeys (adds_none program_path) (cleanup_daemon_exes w (uo_shim_dir o1))"
    "obeys (adds_none program_path) (if uo_purge o1 then purge_local_state w else remove_daemon_status_file w)"
    by (rule adds_none.obeys_uninstall [OF opts facts]; assumption)+
  have wsl: "obeys (adds_none program_path) (remove_wsl_shell_integrations w)" by (rule adds_none.obeys_wsl_steps(1))
  have "mc_files m5 p = None" by (rule absent_kept [OF keeps(1) steps(1) p])
  then have "mc_files m6 p = None" by (rule absent_kept [OF wsl steps(2) _ p(2)])
  then have "mc_files m7 p = None" by (rule absent_kept [OF keeps(2) steps(3) _ p(2)])
  then have "mc_files m8 p = None" by (rule absent_kept [OF keeps(3) steps(4) _ p(2)])
  then show ?thesis by (rule absent_kept [OF keeps(4) steps(5) _ p(2)])
qed


definition quiet_system :: outside where
  "quiet_system = \<lparr>ou_env = [''LOCALAPPDATA'' \<mapsto> ''L'', ''APPDATA'' \<mapsto> ''A''], ou_pid = 7, ou_current_exe = Inr ''src.exe'',
     ou_canonical = Inr, ou_refuses = (\<lambda>_ _. None),
     ou_listing = (\<lambda>_ _. [Inr (Some ''codex.cmd''), Inr (Some ''vb-daemon-1.exe'')]),
     ou_powershell = (\<lambda>_ m. (Inr \<lparr>co_success = True, co_status = [], co_stdout = [], co_stderr = []\<rparr>, m)),
     ou_wsl = (\<lambda>_. Inr \<lparr>co_success = True, co_status = [], co_stdout = [], co_stderr = []\<rparr>),
     ou_connects = [True], ou_spawn = (\<lambda>_. Inr 9), ou_parse = (\<lambda>_. Inl ''not read''), ou_pretty = (\<lambda>_. Inr ''{}''),
     ou_seconds = 0, ou_millis = 0\<rparr>"

definition installed_machine :: machine where
  "installed_machine = \<lparr>mc_files = [path_join ''S'' ''codex.cmd'' \<mapsto> [1], path_join ''S'' ''vb-daemon-1.exe'' \<mapsto> [2], ''keep'' \<mapsto> [3]],
     mc_dirs = {''S''}, mc_wsl_runs = []\<rparr>"

lemma quiet_steps:
  "running_inside_captured_terminal quiet_system m = (Inr False, m)"
  "stop_background_daemon_processes_for_addr quiet_system addr m = (Inr (), m)"
  "list_wsl_distros quiet_system m = (Inr [], m\<lparr>mc_wsl_runs := mc_wsl_runs m @ [[''-l'', ''-q'']]\<rparr>)"
  "remove_wsl_shell_integrations quiet_system m = (Inr [], m\<lparr>mc_wsl_runs := mc_wsl_runs m @ [[''-l'', ''-q'']]\<rparr>)"
proof -
  have decoded: "decode_windows_command_output [] = []" by code_simp
  have ps: "run_powershell quiet_system script m =
      (Inr \<lparr>co_success = True, co_status = [], co_stdout = [], co_stderr = []\<rparr>, m)" for script m
    by (simp add: run_powershell_def quiet_system_def)
  show "running_inside_captured_terminal quiet_system m = (Inr False, m)"
    by (simp add: running_inside_captured_terminal_def checked_run_def io_bind_def map_err_def ps io_simps decoded)
      (simp add: quiet_system_def)
  have "daemon_status_path quiet_system = Inr (joined ''L'' [''vibe-bridge'', ''daemon-status.json''])"
    by (simp add: daemon_status_path_def local_appdata_dir_def env_path_def quiet_system_def)
  then show "stop_background_daemon_processes_for_addr quiet_system addr m = (Inr (), m)"
    by (simp add: stop_background_daemon_processes_for_addr_def checked_run_def io_bind_def map_err_def ps io_simps)
  show list: "list_wsl_distros quiet_system m = (Inr [], m\<lparr>mc_wsl_runs := mc_wsl_runs m @ [[''-l'', ''-q'']]\<rparr>)"
    by (simp add: list_wsl_distros_def io_bind_def map_err_def run_wsl_def io_simps)
      (simp add: quiet_system_def decoded str_lines_def io_simps)
  then show "remove_wsl_shell_integrations quiet_system m =
      (Inr [], m\<lparr>mc_wsl_runs := mc_wsl_runs m @ [[''-l'', ''-q'']]\<rparr>)"
    by (simp add: remove_wsl_shell_integrations_def io_bind_def those_done_def io_simps)
qed

lemma hd_joined: "dir \<noteq> [] \<Longrightarrow> hd (joined dir ns) = hd dir \<and> joined dir ns \<noteq> []"
  by (induction ns arbitrary: dir) (auto simp: joined_def path_join_def)

lemma fst_eq_pair: "fst p = x \<Longrightarrow> p = (x, snd p)"
  by auto

lemma quiet_removal:
  "\<exists>report m'. run_uninstall_windows quiet_system [''--shim-dir'', ''S''] installed_machine = (Inr report, m')"
proof -
  let ?raw = "[''--shim-dir'', ''S'']"
  let ?o = "\<lparr>uo_addr = DEFAULT_ADDR, uo_shim_dir = ''S'', uo_remove_terminal_profiles = True, uo_purge = False\<rparr>"
  let ?m1 = "snd (remove_startup_cmd quiet_system installed_machine)"
  let ?m2 = "snd (remove_agent_cmds quiet_system ''S'' ?m1)"
  let ?m3 = "snd (remove_wsl_start_menu_shortcuts quiet_system ?m2)"
  let ?m4 = "?m3\<lparr>mc_wsl_runs := mc_wsl_runs ?m3 @ [[''-l'', ''-q'']]\<rparr>"
  let ?m5 = "snd (optional_step True (uninstall_windows_terminal_profiles quiet_system) ?m4)"
  let ?m6 = "snd (cleanup_daemon_exes quiet_system ''S'' ?m5)"
  have opts: "io_of (parse_uninstall_windows_args quiet_system ?raw) m = (Inr ?o, m)" for m
    by (simp add: parse_uninstall_windows_args_def local_appdata_dir_def env_path_def quiet_system_def io_simps)
  have a: "remove_startup_cmd quiet_system installed_machine = (Inr False, ?m1)"
    by (rule fst_eq_pair) code_simp
  have b: "remove_agent_cmds quiet_system ''S'' ?m1 = (Inr 1, ?m2)"
    by (rule fst_eq_pair) code_simp
  have c: "remove_wsl_start_menu_shortcuts quiet_system ?m2 = (Inr False, ?m3)"
    by (rule fst_eq_pair) code_simp
  have d: "optional_step True (uninstall_windows_terminal_profiles quiet_system) ?m4 =
      (Inr ''no Windows Terminal settings found'', ?m5)"
    by (rule fst_eq_pair) code_simp
  have e: "cleanup_daemon_exes quiet_system ''S'' ?m5 = (Inr (1, 0), ?m6)"
    by (rule fst_eq_pair) code_simp
  have f: "remove_daemon_status_file quiet_system ?m6 = (Inr (), snd (remove_daemon_status_file quiet_system ?m6))"
    by (rule fst_eq_pair) code_simp
  show ?thesis
    unfolding run_uninstall_windows_def io_bind_step [OF quiet_steps(1)] if_False io_bind_step [OF opts]
      io_then_step [OF quiet_steps(2)]
    by (simp add: io_bind_step [of "remove_startup_cmd quiet_system", OF a]
        io_bind_step [of "remove_agent_cmds quiet_system ''S''", OF b]
        io_bind_step [of "remove_wsl_start_menu_shortcuts quiet_system", OF c]
        io_bind_step [of "remove_wsl_shell_integrations quiet_system", OF quiet_steps(4)]
        io_bind_step [of "optional_step True (uninstall_windows_terminal_profiles quiet_system)", OF d]
        io_bind_step [of "cleanup_daemon_exes quiet_system ''S''", OF e]
        io_then_step [of "remove_daemon_status_file quiet_system", OF f] io_simps)
qed


section \<open>Options of the product's installer\<close>

lemma install_loop_append: "install_loop o1 xs = Inr o2 \<Longrightarrow> install_loop o1 (xs @ ys) = install_loop o2 ys"
proof (induction o1 xs rule: install_loop.induct)
  case (2 o1 arg rest)
  show ?case
  proof (cases "install_value arg")
    case None
    then have plain: "\<not> (arg = ''-h'' \<or> arg = ''--help'')" using "2.prems" by auto
    then obtain f where f: "install_switch arg = Some f"
      using "2.prems" None by (cases "install_switch arg") auto
    show ?thesis using "2.IH"(1) [OF None plain f] "2.prems" None plain f by simp
  next
    case (Some p)
    obtain e g where p: "p = (e, g)" by (cases p)
    show ?thesis
    proof (cases rest)
      case Nil
      then show ?thesis using "2.prems" Some by (simp add: p)
    next
      case (Cons v r)
      then show ?thesis using "2.prems" "2.IH"(2) [OF Some p [symmetric] Cons] Some by (simp add: p)
    qed
  qed
qed simp

lemma switch_keeps_profiles:
  "install_switch arg = Some f \<Longrightarrow> arg \<noteq> ''--terminal-profiles'' \<Longrightarrow> arg \<noteq> ''--no-terminal-profiles'' \<Longrightarrow>
   io_install_terminal_profiles (f o1) = io_install_terminal_profiles o1"
  by (auto simp: install_switch_def split: if_splits)

lemma value_keeps_profiles:
  "install_value arg = Some (e, g) \<Longrightarrow> io_install_terminal_profiles (g v o1) = io_install_terminal_profiles o1"
  by (simp add: install_value_def split: if_splits) auto

lemma install_loop_terminal_profiles:
  "install_loop o1 raw = Inr o2 \<Longrightarrow> ''--terminal-profiles'' \<notin> set raw \<Longrightarrow> ''--no-terminal-profiles'' \<notin> set raw \<Longrightarrow>
   io_install_terminal_profiles o2 = io_install_terminal_profiles o1"
  by (induction o1 raw rule: install_loop.induct)
    (auto simp: switch_keeps_profiles value_keeps_profiles split: list.splits option.splits if_splits)

text \<open>
  The installer under its product name only fills in defaults. Whatever options are given
  and accepted, the options in force are those, except that management shortcuts and the WSL
  shell integration are switched on where the command line does not name them; terminal profiles
  stay as given, and off when not named.
\<close>
theorem product_install_fills_in_defaults:
  assumes "parse_install_windows_args w raw = Inr o1"
  shows "parse_install_windows_args w (product_install_args raw) = Inr (o1\<lparr>
      io_install_management_shortcuts := (io_install_management_shortcuts o1 \<or>
        ''--management-shortcuts'' \<notin> set raw \<and> ''--no-management-shortcuts'' \<notin> set raw),
      io_install_wsl_shell := (io_install_wsl_shell o1 \<or> ''--wsl-shell'' \<notin> set raw \<and> ''--no-wsl-shell'' \<notin> set raw)\<rparr>) \<and>
    (''--terminal-profiles'' \<notin> set raw \<longrightarrow> ''--no-terminal-profiles'' \<notin> set raw \<longrightarrow> \<not> io_install_terminal_profiles o1)"
proof -
  obtain dir where dir: "local_appdata_dir w = Inr dir" and o1: "install_loop (install_defaults dir) raw = Inr o1"
    using assms by (auto simp: parse_install_windows_args_def bind_res_eq_Inr)
  have off: "\<not> io_install_terminal_profiles o1" if "''--terminal-profiles'' \<notin> set raw" "''--no-terminal-profiles'' \<notin> set raw"
    using install_loop_terminal_profiles [OF o1 that] by (simp add: install_defaults_def)
  define A where "A = (if ''--terminal-profiles'' \<in> set raw \<or> ''--no-terminal-profiles'' \<in> set raw then [] else [''--no-terminal-profiles''])"
  define B where "B = (if ''--management-shortcuts'' \<in> set raw \<or> ''--no-management-shortcuts'' \<in> set raw then [] else [''--management-shortcuts''])"
  define C where "C = (if ''--wsl-shell'' \<in> set raw \<or> ''--no-wsl-shell'' \<in> set raw then [] else [''--wsl-shell''])"
  have args: "product_install_args raw = raw @ A @ B @ C"
    by (auto simp: product_install_args_def add_default_def A_def B_def C_def)
  have "install_loop (install_defaults dir) (raw @ A @ B @ C) = install_loop o1 (A @ B @ C)"
    by (rule install_loop_append [OF o1])
  also have "install_loop o1 (A @ B @ C) = install_loop o1 (B @ C)"
  proof -
    have same: "o1\<lparr>io_install_terminal_profiles := False\<rparr> = o1" if "A \<noteq> []"
    proof -
      have "\<not> io_install_terminal_profiles o1" using that off by (simp add: A_def split: if_splits)
      then show ?thesis by (cases o1) simp
    qed
    show ?thesis
    proof (cases "A = []")
      case False
      then have "A = [''--no-terminal-profiles'']" by (simp add: A_def split: if_splits)
      then show ?thesis using same [OF False] by (simp add: install_switch_def install_value_def)
    qed simp
  qed
  also have "\<dots> = Inr (o1\<lparr>
      io_install_management_shortcuts := (io_install_management_shortcuts o1 \<or>
        ''--management-shortcuts'' \<notin> set raw \<and> ''--no-management-shortcuts'' \<notin> set raw),
      io_install_wsl_shell := (io_install_wsl_shell o1 \<or> ''--wsl-shell'' \<notin> set raw \<and> ''--no-wsl-shell'' \<notin> set raw)\<rparr>)"
    by (auto simp: B_def C_def install_switch_def install_value_def)
  finally show ?thesis
    using off dir by (simp add: args parse_install_windows_args_def)
qed

theorem product_install_fills_in_defaults_witness:
  "\<exists>o1. parse_install_windows_args quiet_system (product_install_args [''--no-wsl-shell'', ''--addr'', ''h:1'']) = Inr o1 \<and>
    io_addr o1 = ''h:1'' \<and> io_install_management_shortcuts o1 \<and> \<not> io_install_wsl_shell o1"
proof -
  let ?raw = "[''--no-wsl-shell'', ''--addr'', ''h:1'']"
  have "parse_install_windows_args quiet_system ?raw =
      Inr ((install_defaults ''L'')\<lparr>io_install_wsl_shell := False, io_addr := ''h:1''\<rparr>)"
    by (simp add: parse_install_windows_args_def local_appdata_dir_def env_path_def quiet_system_def install_switch_def install_value_def)
  from product_install_fills_in_defaults [OF this] show ?thesis
    by (auto simp: install_defaults_def)
qed

section \<open>Installation\<close>

context file_relation
begin

lemma obeys_shortcut_steps:
  assumes "\<And>script. obeys R (run_powershell w script)" "obeys R (restore_direct_wsl_start_menu_shortcuts w)"
  shows "obeys R (install_wsl_start_menu_shortcuts w exe addr)"
    "obeys R (install_management_start_menu_shortcuts w exe addr device)"
  unfolding install_wsl_start_menu_shortcuts_def install_management_start_menu_shortcuts_def write_wsl_shortcut_def
    Let_def
  by (intro obeys_intros obeys_powershell_steps assms)+

lemma obeys_ensure_daemon:
  assumes "\<And>local n x c. local_appdata_dir w = Inr local \<Longrightarrow> n \<in> {''daemon-status.json'', ''vb-daemon.log''} \<Longrightarrow>
    R (joined local [''vibe-bridge'', n]) x (Some c)"
  shows "obeys R (ensure_daemon_listening_with_exe w addr exe device)"
proof -
  have "obeys R (write_daemon_status w addr device exe child)" for child
    unfolding write_daemon_status_def Let_def daemon_status_path_def
    using assms by (cases "local_appdata_dir w") (auto intro!: obeys_intros obeys_bind_of)
  moreover have "obeys R (append_log w (path_join (path_join local ''vibe-bridge'') ''vb-daemon.log''))"
    if "local_appdata_dir w = Inr local" for local
    using assms [OF that] by (auto intro!: obeys_intros simp: joined_def)
  ultimately show ?thesis
    unfolding ensure_daemon_listening_with_exe_def Let_def
    by (intro obeys_if(1) obeys_bind_of obeys_then obeys_bind obeys_handled obeys_reading obeys_basic)
qed

end

lemma write_text_done:
  assumes "write_text w p content m = (Inr (), m')"
  shows "mc_files m' = (mc_files m)(p \<mapsto> as_bytes content)"
  using assms
  by (auto simp: write_text_def map_err_Inr write_file_def unless_refused_def io_err_def set_file_def
      split: option.splits if_splits)

text \<open>Two paths that end in different command names are different, whatever the directories.\<close>

lemma take_rev_join: "length n = k \<Longrightarrow> take k (rev (path_join dir n)) = rev n"
  by (auto simp: path_join_def)

lemma command_paths_apart:
  "path_join dir (kind @ ''.cmd'') \<noteq> path_join dir2 startup_cmd_name" if "kind \<in> {''codex'', ''claude'', ''wsl''}"
proof
  assume e: "path_join dir (kind @ ''.cmd'') = path_join dir2 startup_cmd_name"
  have "rev (path_join dir (kind @ ''.cmd'')) ! 4 = last kind"
    using that by (auto simp: path_join_def)
  moreover have "rev (path_join dir2 startup_cmd_name) ! 4 = CHR ''n''"
    by (simp add: path_join_def startup_cmd_name_def)
  ultimately show False using that by (auto simp: e)
qed

lemma install_daemon_exe_done:
  assumes "install_daemon_exe w source shim_dir m = (Inr exe, m')"
  shows "\<exists>hash. exe = path_join shim_dir (''vb-daemon-'' @ hash @ ''.exe'') \<and>
    (path_exists exe m \<and> m' = m \<or> (\<exists>c. mc_files m source = Some c \<and> mc_files m' = (mc_files m)(exe \<mapsto> c)))"
  using assms
  by (auto simp: install_daemon_exe_def file_hash_hex_def Let_def io_bind_Inr io_then_Inr map_err_Inr io_simps
      copy_file_def read_file_def unless_refused_def io_err_def set_file_def ok_or_def
      split: option.splits if_splits)

text \<open>The part of the installation that is not optional, given that PowerShell leaves program files alone.\<close>

lemma install_shims_done:
  assumes run: "install_shims w o1 source log_dir m = (Inr (exe, selected), m')"
    and powershell: "\<forall>args m p. program_path p \<longrightarrow> mc_files (snd (ou_powershell w args m)) p = mc_files m p"
    and dflt: "dflt = (case io_wsl_distros o1 of [d] \<Rightarrow> Some d | _ \<Rightarrow> None)" and sd: "sd = io_shim_dir o1"
  shows "mc_files m' (path_join sd ''codex.cmd'') = Some (as_bytes (agent_cmd_content ''codex'' exe dflt)) \<and>
    mc_files m' (path_join sd ''claude.cmd'') = Some (as_bytes (agent_cmd_content ''claude'' exe dflt)) \<and>
    mc_files m' (path_join sd ''wsl.cmd'') = Some (as_bytes (wsl_cmd_content exe)) \<and>
    (\<exists>hash. exe = path_join sd (''vb-daemon-'' @ hash @ ''.exe'')) \<and>
    (\<forall>dir. io_install_startup o1 \<longrightarrow> startup_dir w = Inr dir \<longrightarrow> mc_files m' (path_join dir startup_cmd_name) =
      Some (as_bytes (startup_cmd_content exe (io_addr o1) (io_device o1) log_dir (path_join log_dir ''vb-daemon.log''))))"
proof -
  let ?L = "leaves program_path"
  obtain m1 m2 m3 m4 m5 m6 where
    exe: "install_daemon_exe w source sd m1 = (Inr exe, m2)" and
    codex: "write_agent_cmd w sd ''codex'' exe dflt m3 = (Inr (), m4)" and
    claude: "write_agent_cmd w sd ''claude'' exe dflt m4 = (Inr (), m5)" and
    wsl: "write_wsl_cmd w sd exe m5 = (Inr (), m6)" and
    rest: "io_then (startup_step w o1 exe log_dir)
      (io_then (if io_update_path o1 then ensure_user_path_contains w sd else io_return ()) (io_return (exe, selected))) m6 =
      (Inr (exe, selected), m')"
    using run unfolding install_shims_def sd dflt
    by (auto simp: io_bind_Inr io_then_Inr Let_def io_simps)
  obtain m7 m8 where startup: "startup_step w o1 exe log_dir m6 = (Inr (), m7)"
    and path: "(if io_update_path o1 then ensure_user_path_contains w sd else io_return ()) m7 = (Inr (), m')"
    using rest by (auto simp: io_then_Inr io_simps)
  have ps: "obeys ?L (run_powershell w script)" for script
    using powershell by (auto simp: obeys_def leaves_def run_powershell_def)
  have "obeys ?L (if io_update_path o1 then ensure_user_path_contains w sd else io_return ())"
    by (intro leaves.obeys_if leaves.obeys_powershell_steps ps leaves.obeys_basic)
  from obeysD [OF this path] have last: "mc_files m' p = mc_files m7 p" if "program_path p" for p
    using that by (simp add: leaves_def)
  let ?content = "as_bytes (startup_cmd_content exe (io_addr o1) (io_device o1) log_dir (path_join log_dir ''vb-daemon.log''))"
  have start: "if io_install_startup o1
      then \<exists>dir. startup_dir w = Inr dir \<and> mc_files m7 = (mc_files m6)(path_join dir startup_cmd_name \<mapsto> ?content)
      else mc_files m7 = mc_files m6"
    using startup
    by (auto simp: startup_step_def io_bind_Inr io_then_Inr io_simps map_err_Inr write_startup_cmd_def
        create_dir_all_def unless_refused_def io_err_def dest!: write_text_done split: option.splits if_splits)
  have shims: "mc_files m6 = (mc_files m3)(path_join sd ''codex.cmd'' \<mapsto> as_bytes (agent_cmd_content ''codex'' exe dflt),
      path_join sd ''claude.cmd'' \<mapsto> as_bytes (agent_cmd_content ''claude'' exe dflt),
      path_join sd ''wsl.cmd'' \<mapsto> as_bytes (wsl_cmd_content exe))"
    using write_text_done [OF codex [unfolded write_agent_cmd_def]] write_text_done [OF claude [unfolded write_agent_cmd_def]]
      write_text_done [OF wsl [unfolded write_wsl_cmd_def]] by simp
  have prog: "program_path (path_join sd ''codex.cmd'')" "program_path (path_join sd ''claude.cmd'')"
    "program_path (path_join sd ''wsl.cmd'')" "program_path (path_join dir startup_cmd_name)" for dir
    by (simp_all add: program_path_def last_path_join startup_cmd_name_def)
  note apart = command_paths_apart [of "''codex''" sd, simplified] command_paths_apart [of "''claude''" sd, simplified]
    command_paths_apart [of "''wsl''" sd, simplified]
  have kept: "mc_files m7 p = mc_files m6 p" if "\<And>dir. p \<noteq> path_join dir startup_cmd_name" for p
    using start that by (auto split: if_splits)
  show ?thesis
    using start install_daemon_exe_done [OF exe] apart
    by (auto simp: last prog kept shims split: if_splits)
qed

text \<open>Every step after the shims leaves program files alone.\<close>

lemma install_tail_leaves:
  assumes "\<forall>args m p. program_path p \<longrightarrow> mc_files (snd (ou_powershell w args m)) p = mc_files m p"
  shows "obeys (leaves program_path) (terminal_profile_step w o1 exe)"
    "obeys (leaves program_path) (optional_step wanted (install_wsl_start_menu_shortcuts w exe addr))"
    "obeys (leaves program_path) (optional_step wanted (install_management_start_menu_shortcuts w exe addr device))"
    "obeys (leaves program_path) (io_try (ensure_daemon_listening_with_exe w addr exe device))"
proof -
  let ?L = "leaves program_path"
  have ps: "obeys ?L (run_powershell w script)" for script
    using assms by (auto simp: obeys_def leaves_def run_powershell_def)
  have settings: "?L p x (Some c) \<and> ?L (terminal_settings_backup_path w p) x (Some c)"
    if "windows_terminal_settings_paths w = Inr pp" "p \<in> set pp" for pp p x c
    using written_by_removal(2) [OF _ that] by (auto simp: leaves_def)
  show "obeys ?L (terminal_profile_step w o1 exe)"
    unfolding terminal_profile_step_def
    by (intro leaves.obeys_if leaves.obeys_bind leaves.obeys_handled leaves.obeys_basic leaves.obeys_settings settings;
        assumption)
  have direct: "obeys ?L (restore_direct_wsl_start_menu_shortcuts w)"
    by (rule leaves.obeys_restore_direct [OF ps])
      (simp_all add: leaves_def program_path_def last_path_join backup_suffix_def)
  show "obeys ?L (io_try (ensure_daemon_listening_with_exe w addr exe device))"
    by (intro leaves.obeys_handled leaves.obeys_ensure_daemon)
      (auto simp: leaves_def program_path_def joined_def last_path_join)
  show "obeys ?L (optional_step wanted (install_wsl_start_menu_shortcuts w exe addr))"
    "obeys ?L (optional_step wanted (install_management_start_menu_shortcuts w exe addr device))"
    by (intro leaves.obeys_optional leaves.obeys_shortcut_steps ps direct)+
qed



definition fresh_machine :: machine where
  "fresh_machine = \<lparr>mc_files = [''src.exe'' \<mapsto> [1, 2]], mc_dirs = {}, mc_wsl_runs = []\<rparr>"

lemma parent_there: "rev (ancestors p) ! 0 = dir \<Longrightarrow> dir \<in> mc_dirs m \<Longrightarrow> \<not> parent_missing p m"
  by (cases "rev (ancestors p)") (simp_all add: parent_missing_def)

lemma quiet_writes:
  "create_dir_all quiet_system p m = (Inr (), m\<lparr>mc_dirs := mc_dirs m \<union> set (p # ancestors p)\<rparr>)"
  "rev (ancestors p) ! 0 = dir \<Longrightarrow> dir \<in> mc_dirs m \<Longrightarrow>
    write_text quiet_system p c m = (Inr (), m\<lparr>mc_files := (mc_files m)(p \<mapsto> as_bytes c)\<rparr>)"
  "rev (ancestors p) ! 0 = dir \<Longrightarrow> dir \<in> mc_dirs m \<Longrightarrow> mc_files m src = Some content \<Longrightarrow>
    copy_file quiet_system src p m = (Inr (), m\<lparr>mc_files := (mc_files m)(p \<mapsto> content)\<rparr>)"
  by (simp_all add: create_dir_all_def write_text_def write_file_def copy_file_def read_file_def io_bind_def map_err_def
      unless_refused_def set_file_def quiet_system_def parent_there)

definition fresh_exe :: string where
  "fresh_exe = path_join ''S'' ''vb-daemon-082f2407b4e8902a.exe''"

definition startup_folder :: string where
  "startup_folder = joined ''A'' [''Microsoft'', ''Windows'', ''Start Menu'', ''Programs'', ''Startup'']"

lemma quiet_paths:
  "startup_dir quiet_system = Inr startup_folder" "current_source quiet_system = Inr ''src.exe''"
  "local_appdata_dir quiet_system = Inr ''L''"
  "rev (ancestors (path_join ''S'' ''codex.cmd'')) ! 0 = ''S''" "rev (ancestors (path_join ''S'' ''claude.cmd'')) ! 0 = ''S''"
  "rev (ancestors (path_join ''S'' ''wsl.cmd'')) ! 0 = ''S''" "rev (ancestors fresh_exe) ! 0 = ''S''"
  "rev (ancestors (path_join startup_folder startup_cmd_name)) ! 0 = startup_folder"
  "hd fresh_exe = CHR ''S''" "hd (path_join ''S'' ''codex.cmd'') = CHR ''S''" "hd (path_join ''S'' ''claude.cmd'') = CHR ''S''"
  "hd (path_join ''S'' ''wsl.cmd'') = CHR ''S''" "hd (path_join startup_folder startup_cmd_name) = CHR ''A''"
  "fresh_exe \<noteq> ''src.exe''" "fresh_exe \<noteq> ''S''"
  by code_simp+

lemma quiet_daemon_exe:
  assumes "mc_files m = mc_files fresh_machine" "mc_dirs m = {path_join ''L'' ''vibe-bridge'', ''L'', ''S''}"
  shows "install_daemon_exe quiet_system ''src.exe'' ''S'' m = (Inr fresh_exe, m\<lparr>mc_files := (mc_files m)(fresh_exe \<mapsto> [1, 2])\<rparr>)"
proof -
  have "show_hex16 (file_hash [1, 2]) = ''082f2407b4e8902a''" by code_simp
  moreover have src: "mc_files m ''src.exe'' = Some [1, 2]" by (simp add: assms fresh_machine_def)
  then have "read_file quiet_system ''src.exe'' m = (Inr [1, 2], m)"
    by (simp add: read_file_def unless_refused_def quiet_system_def)
  ultimately have hash: "file_hash_hex quiet_system ''src.exe'' m = (Inr ''082f2407b4e8902a'', m)"
    by (simp add: file_hash_hex_def io_bind_def map_err_def io_simps)
  have "path_join ''L'' ''vibe-bridge'' \<noteq> fresh_exe" "fresh_exe \<noteq> ''L''" by code_simp+
  then have "\<not> path_exists fresh_exe m"
    using quiet_paths(14,15) by (simp add: path_exists_def assms fresh_machine_def)
  moreover have "copy_file quiet_system ''src.exe'' fresh_exe m = (Inr (), m\<lparr>mc_files := (mc_files m)(fresh_exe \<mapsto> [1, 2])\<rparr>)"
    by (rule quiet_writes(3) [OF quiet_paths(7) _ src]) (simp add: assms)
  ultimately show ?thesis
    unfolding install_daemon_exe_def io_bind_step [of "file_hash_hex quiet_system ''src.exe''", OF hash] Let_def
    by (simp add: fresh_exe_def [symmetric] io_bind_def io_then_def map_err_def io_simps)
qed

definition fresh_options :: install_opts where
  "fresh_options = (install_defaults ''L'')\<lparr>io_shim_dir := ''S'', io_update_path := False, io_install_wsl_shortcuts := False\<rparr>"


lemma quiet_shims:
  "\<exists>m. install_shims quiet_system fresh_options ''src.exe'' (path_join ''L'' ''vibe-bridge'') fresh_machine =
      (Inr (fresh_exe, []), m) \<and> (\<forall>p. hd p = CHR ''L'' \<longrightarrow> mc_files m p = None) \<and>
    mc_dirs m = set [path_join ''L'' ''vibe-bridge'', ''L'', ''S''] \<union> set (startup_folder # ancestors startup_folder)"
proof -
  let ?log = "path_join ''L'' ''vibe-bridge''"
  let ?m1 = "fresh_machine\<lparr>mc_dirs := {''S''}\<rparr>"
  let ?m2 = "fresh_machine\<lparr>mc_dirs := {?log, ''L'', ''S''}\<rparr>"
  let ?m3 = "?m2\<lparr>mc_files := (mc_files ?m2)(fresh_exe \<mapsto> [1, 2])\<rparr>"
  let ?put = "\<lambda>p c m. m\<lparr>mc_files := (mc_files m)(p \<mapsto> as_bytes c)\<rparr>"
  let ?m4 = "?put (path_join ''S'' ''codex.cmd'') (agent_cmd_content ''codex'' fresh_exe None) ?m3"
  let ?m5 = "?put (path_join ''S'' ''claude.cmd'') (agent_cmd_content ''claude'' fresh_exe None) ?m4"
  let ?m6 = "?put (path_join ''S'' ''wsl.cmd'') (wsl_cmd_content fresh_exe) ?m5"
  let ?m7 = "?m6\<lparr>mc_dirs := mc_dirs ?m6 \<union> set (startup_folder # ancestors startup_folder)\<rparr>"
  let ?m8 = "?put (path_join startup_folder startup_cmd_name)
    (startup_cmd_content fresh_exe DEFAULT_ADDR ''auto'' ?log (path_join ?log ''vb-daemon.log'')) ?m7"
  have o1: "io_shim_dir fresh_options = ''S''" "io_install_wsl fresh_options = False" "io_update_path fresh_options = False"
    "io_wsl_distros fresh_options = []" "io_install_startup fresh_options = True" "io_addr fresh_options = DEFAULT_ADDR"
    "io_device fresh_options = ''auto''"
    by (simp_all add: fresh_options_def install_defaults_def)
  have "ancestors ''S'' = []" "ancestors ?log = [''L'']" by code_simp+
  then have dirs: "create_dir_all quiet_system ''S'' fresh_machine = (Inr (), ?m1)"
    "create_dir_all quiet_system ?log ?m1 = (Inr (), ?m2)"
    by (simp_all add: quiet_writes(1) fresh_machine_def)
  have exe: "install_daemon_exe quiet_system ''src.exe'' ''S'' ?m2 = (Inr fresh_exe, ?m3)"
    by (subst quiet_daemon_exe) simp_all
  have shims: "write_agent_cmd quiet_system ''S'' ''codex'' fresh_exe None ?m3 = (Inr (), ?m4)"
    "write_agent_cmd quiet_system ''S'' ''claude'' fresh_exe None ?m4 = (Inr (), ?m5)"
    "write_wsl_cmd quiet_system ''S'' fresh_exe ?m5 = (Inr (), ?m6)"
    unfolding write_agent_cmd_def write_wsl_cmd_def append_Cons append_Nil
    by (subst quiet_writes(2) [OF quiet_paths(4)] quiet_writes(2) [OF quiet_paths(5)] quiet_writes(2) [OF quiet_paths(6)];
        simp)+
  have start: "startup_step quiet_system fresh_options fresh_exe ?log ?m6 = (Inr (), ?m8)"
    by (simp add: startup_step_def o1 write_startup_cmd_def quiet_paths(1) io_bind_def io_then_def io_simps map_err_def
        quiet_writes(1) quiet_writes(2) [OF quiet_paths(8)])
  have distros: "resolve_wsl_distros quiet_system fresh_options m = (Inr [], m)" for m
    by (simp add: resolve_wsl_distros_def o1 io_simps)
  have "install_shims quiet_system fresh_options ''src.exe'' ?log fresh_machine = (Inr (fresh_exe, []), ?m8)"
    by (simp only: install_shims_def o1 Let_def io_then_def io_bind_def map_err_def dirs exe shims start distros
        quiet_steps(2) io_simps prod.case sum.case list.case if_False)
  moreover have "mc_files ?m8 p = None" if "hd p = CHR ''L''" for p
    using that quiet_paths(9-13) by (auto simp: fresh_machine_def)
  moreover have "mc_dirs ?m8 = set [?log, ''L'', ''S''] \<union> set (startup_folder # ancestors startup_folder)" by simp
  ultimately show ?thesis by blast
qed

lemma quiet_installation:
  "\<exists>report m. run_install_windows quiet_system [] [''--shim-dir'', ''S'', ''--no-path'', ''--no-wsl-shortcuts''] fresh_machine =
    (Inr report, m)"
proof -
  let ?log = "path_join ''L'' ''vibe-bridge''" and ?raw = "[''--shim-dir'', ''S'', ''--no-path'', ''--no-wsl-shortcuts'']"
  obtain m where shims: "install_shims quiet_system fresh_options ''src.exe'' ?log fresh_machine = (Inr (fresh_exe, []), m)"
    and files: "\<And>p. hd p = CHR ''L'' \<Longrightarrow> mc_files m p = None"
    and dirs: "mc_dirs m = set [?log, ''L'', ''S''] \<union> set (startup_folder # ancestors startup_folder)"
    using quiet_shims by blast
  obtain ps where ps: "windows_terminal_settings_paths quiet_system = Inr ps"
    and ps_ok: "list_all (\<lambda>p. hd p = CHR ''L'' \<and> p \<notin> set ([?log, ''L'', ''S''] @ startup_folder # ancestors startup_folder)) ps"
  proof -
    have "case windows_terminal_settings_paths quiet_system of Inl _ \<Rightarrow> False | Inr ps \<Rightarrow>
      list_all (\<lambda>p. hd p = CHR ''L'' \<and> p \<notin> set ([?log, ''L'', ''S''] @ startup_folder # ancestors startup_folder)) ps"
      by code_simp
    then show ?thesis using that by (auto split: sum.splits)
  qed
  have absent: "list_all (\<lambda>p. \<not> path_exists p m) ps"
    using ps_ok files by (auto simp: list_all_iff path_exists_def dirs)
  have "settings_loop quiet_system rw ps t m = (Inr t, m)" for rw t
    using absent by (induction ps) (simp_all add: settings_step_def io_bind_def io_simps)
  then have profiles: "terminal_profile_step quiet_system fresh_options fresh_exe m =
      (Inr ''native (no Windows Terminal settings found)'', m)"
    by (simp add: terminal_profile_step_def fresh_options_def install_defaults_def uninstall_windows_terminal_profiles_def
        rewrite_all_settings_def ps io_bind_def io_simps or_failed_def)
  have parsed: "parse_install_windows_args quiet_system ?raw = Inr fresh_options"
    by (simp add: parse_install_windows_args_def quiet_paths(3) fresh_options_def install_switch_def install_value_def)
  have o1: "io_install_wsl_shortcuts fresh_options = False" "io_install_wsl_shell fresh_options = False"
    "io_install_management_shortcuts fresh_options = False"
    by (simp_all add: fresh_options_def install_defaults_def)
  have skips: "optional_step False act m = (Inr ''skipped'', m)" "wsl_shell_step quiet_system fresh_options m = (Inr [], m)"
    "those_done g [] m = (Inr [], m)" "io_try (ensure_daemon_listening_with_exe quiet_system a e d) m = (Inr (Inr ()), m)"
    for act g a e d
    by (simp_all add: optional_step_def wsl_shell_step_def o1 those_done_def io_simps ensure_daemon_listening_with_exe_def)
      (simp add: quiet_system_def io_simps)
  show ?thesis
    by (simp only: run_install_windows_def io_bind_def quiet_steps(1) parsed quiet_paths(2,3) shims profiles o1 skips
        io_simps(1-4) prod.case sum.case if_False Let_def) simp
qed


end
