(* ===== verification/Shim_System.thy ===== *)
theory Shim_System
  imports Product_Setup Console_Guards Launch_Session
begin

text \<open>
  What the shims of \<open>crates/vb-daemon/src/main.rs\<close> act on: besides the machine, the environment of
  their own process, its consoles and kernel objects, the commands it starts and the messages it
  sends to the daemon. An action is done, fails with a text or panics; only the first lets the
  next one run.
\<close>

section \<open>State and surroundings\<close>

datatype shim_event =
  Spawned "string list" "16 word \<times> 16 word" environment
| Ran "string list" environment
| Sent string json
| Serving string string

record shim_state =
  ss_machine :: machine
  ss_env :: environment
  ss_consoles :: consoles
  ss_kernel :: process_state
  ss_output :: bytes
  ss_events :: "shim_event list"

text \<open>
  The answers of one run: opening a connection to the daemon (connecting, \<open>set_nodelay\<close>,
  \<open>try_clone\<close>), spawning under a pseudoconsole, what the output thread reads and whether each
  piece can be sent, sending the first and the last message, waiting for the child and its exit
  code, whether the threads of the pumps have ended by then, the text of a system error, the
  device found and whether it opens, how serving the daemon ends, and the exit code of a command
  run without a pseudoconsole.
\<close>

record shim_world =
  sw_out :: outside
  sw_cwd :: string
  sw_temp :: string
  sw_window :: "(16 word \<times> 16 word) option"
  sw_connect :: "string \<Rightarrow> unit result"
  sw_nodelay :: "unit result"
  sw_clone :: "unit result"
  sw_spawn :: spawn_answers
  sw_console_in :: "64 word \<times> 64 word"
  sw_console_out :: "64 word \<times> 64 word"
  sw_register_sent :: "unit result"
  sw_abort_sent :: "unit result"
  sw_read :: "((32 word + bytes) \<times> bool) list"
  sw_wait :: "32 word + unit"
  sw_exit :: "32 word + 32 word"
  sw_threads_ended :: bool
  sw_os_error :: "32 word \<Rightarrow> string"
  sw_utf8_error :: "bytes \<Rightarrow> string"
  sw_device :: "string option result"
  sw_open_device :: "string \<Rightarrow> unit result"
  sw_serve :: "string \<Rightarrow> string \<Rightarrow> unit result"
  sw_run :: "string list \<Rightarrow> environment \<Rightarrow> 32 word option result"

section \<open>Actions\<close>

datatype 'a outcome = Panicked | Failed string | Done 'a

type_synonym 'a shim = "shim_state \<Rightarrow> 'a outcome \<times> shim_state"

definition sh_return :: "'a \<Rightarrow> 'a shim" where
  "sh_return x s = (Done x, s)"

definition sh_fail :: "string \<Rightarrow> 'a shim" where
  "sh_fail e s = (Failed e, s)"

definition sh_of :: "'a result \<Rightarrow> 'a shim" where
  "sh_of r s = (case r of Inl e \<Rightarrow> Failed e | Inr x \<Rightarrow> Done x, s)"

definition sh_bind :: "'a shim \<Rightarrow> ('a \<Rightarrow> 'b shim) \<Rightarrow> 'b shim" where
  "sh_bind act f s =
    (case act s of (Panicked, s') \<Rightarrow> (Panicked, s') | (Failed e, s') \<Rightarrow> (Failed e, s') | (Done x, s') \<Rightarrow> f x s')"

definition sh_then :: "unit shim \<Rightarrow> 'b shim \<Rightarrow> 'b shim" where
  "sh_then act next = sh_bind act (\<lambda>_. next)"

definition sh_get :: "(shim_state \<Rightarrow> 'a) \<Rightarrow> 'a shim" where
  "sh_get f s = (Done (f s), s)"

definition sh_set :: "(shim_state \<Rightarrow> shim_state) \<Rightarrow> unit shim" where
  "sh_set f s = (Done (), f s)"

text \<open>An action whose error is handled, and one with what is put back on every way out.\<close>

definition sh_or :: "'a shim \<Rightarrow> (string \<Rightarrow> 'a shim) \<Rightarrow> 'a shim" where
  "sh_or act handle s = (case act s of (Failed e, s') \<Rightarrow> handle e s' | r \<Rightarrow> r)"

definition sh_finally :: "'a shim \<Rightarrow> (shim_state \<Rightarrow> shim_state) \<Rightarrow> 'a shim" where
  "sh_finally act cleanup s = (case act s of (r, s') \<Rightarrow> (r, cleanup s'))"

definition on_machine :: "'a io \<Rightarrow> 'a shim" where
  "on_machine act s = (case act (ss_machine s) of (r, m) \<Rightarrow> sh_of r (s\<lparr>ss_machine := m\<rparr>))"

definition sh_event :: "shim_event \<Rightarrow> unit shim" where
  "sh_event e = sh_set (\<lambda>s. s\<lparr>ss_events := ss_events s @ [e]\<rparr>)"

section \<open>The log\<close>

definition append_text :: "outside \<Rightarrow> string \<Rightarrow> string \<Rightarrow> unit io" where
  "append_text w p content = unless_refused w OpenLog p
    (\<lambda>m. if parent_missing p m then (Inl not_found, m)
         else set_file p (Some (or_else (mc_files m p) [] @ as_bytes content)) m)"

text \<open>A line that cannot be written is lost; a part of it that is cut inside a character panics.\<close>

definition log_line :: "outside \<Rightarrow> string \<Rightarrow> machine \<Rightarrow> machine" where
  "log_line w line m =
    (case local_appdata_dir w of
       Inl _ \<Rightarrow> m
     | Inr local \<Rightarrow>
        (let log_dir = path_join local ''vibe-bridge'';
             m1 = snd (create_dir_all w log_dir m)
         in snd (append_text w (path_join log_dir ''vb-daemon.log'') (line @ [CHR 0x0A]) m1)))"

definition append_terminal_shim_log :: "shim_world \<Rightarrow> string option list \<Rightarrow> unit shim" where
  "append_terminal_shim_log w parts s =
    (if None \<in> set parts then (Panicked, s)
     else (Done (), s\<lparr>ss_machine := log_line (sw_out w) (concat (map (\<lambda>p. or_else p []) parts)) (ss_machine s)\<rparr>))"

definition show_bool :: "bool \<Rightarrow> string" where
  "show_bool b = (if b then ''true'' else ''false'')"

end
