(* ===== verification/Shim_Commands.thy ===== *)
theory Shim_Commands
  imports Shim_System
begin

text \<open>
  The commands of \<open>crates/vb-daemon/src/main.rs\<close> that start another program: \<open>run_launch\<close> with what
  it sets up around the child, \<open>run_start\<close>, \<open>run_terminal_shim\<close>, \<open>run_agent_shim\<close> and \<open>run_wsl_shim\<close>.
  The log lines of the pump threads are not part of the model.
\<close>

section \<open>Directories of shims\<close>

text \<open>\<open>Path::parent\<close> of the path of a file.\<close>

definition parent_dir :: "string \<Rightarrow> string option" where
  "parent_dir p =
    (if p = [] then None
     else case rev (filter (\<lambda>n. is_path_sep (p ! n)) [0..<length p]) of
       [] \<Rightarrow> Some []
     | n # _ \<Rightarrow> Some (if take n p = [] \<or> is_drive (take n p) then take (Suc n) p else take n p))"

definition is_file :: "string \<Rightarrow> machine \<Rightarrow> bool" where
  "is_file p m \<longleftrightarrow> mc_files m p \<noteq> None"

definition current_exe_dir_if_agent_shims_exist :: "outside \<Rightarrow> machine \<Rightarrow> string option" where
  "current_exe_dir_if_agent_shims_exist w m =
    (case ou_current_exe w of
       Inl _ \<Rightarrow> None
     | Inr exe \<Rightarrow> (case parent_dir exe of
         None \<Rightarrow> None
       | Some dir \<Rightarrow> (if is_file (path_join dir ''codex.cmd'') m \<or> is_file (path_join dir ''claude.cmd'') m
                      then Some dir else None)))"

definition runtime_shim_content :: "string \<Rightarrow> string" where
  "runtime_shim_content exe = crlf_lines
    [''@echo off'', ''setlocal'', lit ''~'' @ shell_display_path exe @ lit ''~ wsl-shim %*'',
     ''exit /b %ERRORLEVEL%'']"

definition this_exe :: "outside \<Rightarrow> string result" where
  "this_exe w = (case ou_current_exe w of Inl e \<Rightarrow> Inl (''current_exe: '' @ e) | Inr p \<Rightarrow> Inr p)"

definition runtime_shim_dir :: "outside \<Rightarrow> string \<Rightarrow> string \<Rightarrow> string" where
  "runtime_shim_dir w temp terminal_agent_id = joined temp [''vibe-bridge'', ''captured-terminal'',
     sanitize_runtime_shim_id terminal_agent_id @ ''-'' @ show_nat (unat (ou_pid w))]"

definition create_captured_terminal_runtime_shims :: "outside \<Rightarrow> string \<Rightarrow> string \<Rightarrow> string option io" where
  "create_captured_terminal_runtime_shims w temp terminal_agent_id = io_bind (io_of (this_exe w)) (\<lambda>exe.
    let dir = runtime_shim_dir w temp terminal_agent_id; path = path_join dir ''wsl.cmd''
    in io_then (map_err (\<lambda>e. ''create runtime shim dir '' @ dir @ '': '' @ e) (create_dir_all w dir))
      (io_then (map_err (\<lambda>e. ''write '' @ path @ '': '' @ e) (write_file w path (as_bytes (runtime_shim_content exe))))
        (io_return (Some dir))))"

section \<open>A launch\<close>

text \<open>What a launch holds until it ends: the guards of the environment.\<close>

record launch_guards =
  lg_terminal :: child_env_guard
  lg_agent :: env_var_guard
  lg_captured :: env_var_guard

definition path_log :: "shim_world \<Rightarrow> string \<Rightarrow> string option \<Rightarrow> unit shim" where
  "path_log w what dir =
    (case dir of None \<Rightarrow> sh_return ()
     | Some d \<Rightarrow> append_terminal_shim_log w [Some (''[launch] child PATH prepended '' @ what @ ''=''), terminal_shim_log_value d])"

text \<open>\<open>TerminalChildEnvGuard::enter\<close>; whether the second directory was put on the path is told by the guards.\<close>

definition enter_terminal_env :: "shim_world \<Rightarrow> string \<Rightarrow> string \<Rightarrow> child_env_guard shim" where
  "enter_terminal_env w addr agent_id =
    sh_bind (on_machine (create_captured_terminal_runtime_shims (sw_out w) (sw_temp w) agent_id)) (\<lambda>rd.
    sh_bind (sh_get (\<lambda>s. current_exe_dir_if_agent_shims_exist (sw_out w) (ss_machine s))) (\<lambda>exe_dir.
    sh_bind (sh_get ss_env) (\<lambda>env.
    sh_bind (sh_of (child_env_enter (Inr rd) exe_dir (same_path (sw_out w)) addr agent_id env)) (\<lambda>(g, env1).
    let second = length (ce_guards g) - (if ce_runtime_shim_dir g = None then 3 else 4)
    in sh_then (path_log w ''runtime_shim_dir'' (ce_runtime_shim_dir g))
      (sh_then (path_log w ''shim_dir'' (if second = 0 then None else exe_dir))
      (sh_then (sh_set (\<lambda>s. s\<lparr>ss_env := env1\<rparr>)) (sh_return g)))))))"

definition set_var :: "string \<Rightarrow> string \<Rightarrow> env_var_guard shim" where
  "set_var key v s = (case env_guard_set key v (ss_env s) of (g, env1) \<Rightarrow> (Done g, s\<lparr>ss_env := env1\<rparr>))"

definition no_child_env :: child_env_guard where
  "no_child_env = \<lparr>ce_guards = [], ce_runtime_shim_dir = None\<rparr>"

definition enter_launch_env :: "shim_world \<Rightarrow> launch_plan \<Rightarrow> launch_guards shim" where
  "enter_launch_env w p =
    sh_bind (if lp_kind p = ''terminal'' then enter_terminal_env w (lp_addr p) (lp_agent_id p)
             else sh_return no_child_env) (\<lambda>tg.
    sh_bind (if lp_kind p = ''terminal'' then sh_return env_guard_empty
             else set_var ''VIBE_BRIDGE_LAUNCH_AGENT_ID'' (lp_agent_id p)) (\<lambda>ag.
    sh_bind (set_var ''VIBE_BRIDGE_CAPTURED_TERMINAL'' ''1'') (\<lambda>cg.
      sh_return \<lparr>lg_terminal = tg, lg_agent = ag, lg_captured = cg\<rparr>)))"

text \<open>The guards go out of scope, the last first; that of the terminal removes its directory, then its own.\<close>

definition leave_launch_env :: "shim_world \<Rightarrow> launch_guards \<Rightarrow> shim_state \<Rightarrow> shim_state" where
  "leave_launch_env w g s =
    (let env = env_guard_drop (lg_agent g) (env_guard_drop (lg_captured g) (ss_env s));
         m = (case ce_runtime_shim_dir (lg_terminal g) of
                None \<Rightarrow> ss_machine s | Some dir \<Rightarrow> snd (remove_dir_all (sw_out w) dir (ss_machine s)))
     in s\<lparr>ss_env := child_env_drop (lg_terminal g) env, ss_machine := m\<rparr>)"

text \<open>\<open>send_json_line\<close>, and opening the connection it writes to.\<close>

definition send_json_line :: "string \<Rightarrow> unit result \<Rightarrow> json \<Rightarrow> unit shim" where
  "send_json_line addr sent msg =
    (case sent of Inl e \<Rightarrow> sh_fail e | Inr _ \<Rightarrow> sh_event (Sent addr msg))"

definition open_daemon :: "shim_world \<Rightarrow> string \<Rightarrow> unit shim" where
  "open_daemon w addr = sh_of
    (case sw_connect w addr of
       Inl e \<Rightarrow> Inl (''connect daemon at '' @ addr @ '': '' @ e)
     | Inr _ \<Rightarrow> (case sw_nodelay w of
         Inl e \<Rightarrow> Inl (''set_nodelay: '' @ e)
       | Inr _ \<Rightarrow> (case sw_clone w of Inl e \<Rightarrow> Inl (''clone tcp stream: '' @ e) | Inr _ \<Rightarrow> Inr ())))"

definition spawn_child :: "shim_world \<Rightarrow> launch_plan \<Rightarrow> string \<Rightarrow> conpty_session shim" where
  "spawn_child w p command0 s =
    (case conpty_spawn (lp_command p) (sw_spawn w) (ss_kernel s) of
       (Inl e, k) \<Rightarrow> (Failed (format_launch_spawn_error command0 e), s\<lparr>ss_kernel := k\<rparr>)
     | (Inr session, k) \<Rightarrow> (Done session, s\<lparr>ss_kernel := k, ss_events := ss_events s @ [Spawned (lp_command p) (lp_size p) (ss_env s)]\<rparr>))"

definition enter_console :: "shim_world \<Rightarrow> console_mode_guard shim" where
  "enter_console w s =
    (case enter_passthrough (sw_console_in w) (sw_console_out w) (ss_consoles s) of
       (g, c) \<Rightarrow> (Done g, s\<lparr>ss_consoles := c\<rparr>))"

text \<open>
  The output thread up to the end of the output, or, when waiting for the child fails, as far as
  it got; each piece the daemon got is a message.
\<close>

definition pump_child :: "shim_world \<Rightarrow> launch_plan \<Rightarrow> unit shim" where
  "pump_child w p s =
    (case pump_output (sw_read w) True [] [] of
       (_, out, sent) \<Rightarrow> (Done (), s\<lparr>ss_output := ss_output s @ out,
         ss_events := ss_events s @ map (\<lambda>c. Sent (lp_addr p) (stream_message (lp_agent_id p) (lp_kind p) c)) sent\<rparr>))"

definition wait_child :: "shim_world \<Rightarrow> 32 word result" where
  "wait_child w = (case conpty_wait (sw_wait w) (sw_exit w) of
     Inl code \<Rightarrow> Inl (''wait child: '' @ sw_os_error w code) | Inr code \<Rightarrow> Inr code)"

text \<open>The session is dropped at the end, unless a thread of the pumps still shares it.\<close>

definition release_session :: "bool \<Rightarrow> conpty_session \<Rightarrow> shim_state \<Rightarrow> shim_state" where
  "release_session shared session s = (if shared then s else s\<lparr>ss_kernel := conpty_drop session (ss_kernel s)\<rparr>)"

definition attend_child :: "shim_world \<Rightarrow> launch_plan \<Rightarrow> 32 word shim" where
  "attend_child w p =
    sh_then (send_json_line (lp_addr p) (sw_register_sent w)
      (register_message (lp_agent_id p) (lp_kind p) (lp_name p) (sw_cwd w)))
    (sh_then (pump_child w p)
    (sh_bind (sh_of (wait_child w)) (\<lambda>code.
     sh_then (sh_or (send_json_line (lp_addr p) (sw_abort_sent w) (abort_message (lp_agent_id p) (lp_kind p)))
       (\<lambda>_. sh_return ()))
     (sh_return code))))"

definition launch_child :: "shim_world \<Rightarrow> launch_plan \<Rightarrow> string \<Rightarrow> 32 word shim" where
  "launch_child w p command0 = sh_bind (spawn_child w p command0) (\<lambda>session.
    sh_finally
      (sh_bind (enter_console w) (\<lambda>g.
        sh_finally (attend_child w p) (\<lambda>s. s\<lparr>ss_consoles := console_guard_drop g (ss_consoles s)\<rparr>)))
      (release_session (sw_register_sent w = Inr () \<and> \<not> sw_threads_ended w) session))"

definition run_launch :: "shim_world \<Rightarrow> string list \<Rightarrow> 32 word shim" where
  "run_launch w raw = sh_bind (sh_of (parse_launch_args raw)) (\<lambda>o1.
    sh_bind (sh_of (plan_launch (sw_window w) (ou_pid (sw_out w)) raw)) (\<lambda>p.
    sh_then (append_terminal_shim_log w
      [Some ''[launch] daemon='', terminal_shim_log_value (lp_addr p), Some '' kind='', terminal_shim_log_value (lp_kind p),
       Some '' agent_id='', terminal_shim_log_value (lp_agent_id p), Some '' name='', terminal_shim_log_value (lp_name p)])
    (sh_then (open_daemon w (lp_addr p))
    (sh_then (append_terminal_shim_log w
      [Some (''[launch] conpty size cols='' @ show_i16 (fst (lp_size p)) @ '' rows='' @ show_i16 (snd (lp_size p)) @
        '' requested_cols='' @ show_i16 (lo_cols o1) @ '' requested_rows='' @ show_i16 (lo_rows o1) @
        '' follow_console_size='' @ show_bool (lo_follow_console_size o1))])
    (sh_bind (enter_launch_env w p) (\<lambda>guards.
      sh_finally (launch_child w p (lo_command o1 ! 0)) (leave_launch_env w guards)))))))"

section \<open>A daemon and a launch in one process\<close>

definition start_device :: "shim_world \<Rightarrow> start_opts \<Rightarrow> string result" where
  "start_device w o1 =
    (if so_device o1 = ''auto''
     then bind_res (sw_device w) (\<lambda>found. ok_or found ''no Vibe HID 359f:2120 device found'')
     else Inr (so_device o1))"

definition run_start :: "shim_world \<Rightarrow> string list \<Rightarrow> 32 word shim" where
  "run_start w raw = sh_bind (sh_of (parse_start_args raw)) (\<lambda>o1.
    let addr = addr_or_default (so_daemon_addr o1)
    in sh_bind (sh_of (start_device w o1)) (\<lambda>device.
      sh_then (sh_of (sw_open_device w device))
      (sh_then (sh_event (Serving addr device))
      (if list_ex (\<lambda>c. c) (ou_connects (sw_out w)) then run_launch w (start_launch_args o1)
       else sh_fail (''timeout waiting for daemon to bind '' @ addr @ '' (HID daemon thread crashed?)'')))))"

section \<open>Commands without a pseudoconsole\<close>

definition run_command :: "shim_world \<Rightarrow> (string \<Rightarrow> string) \<Rightarrow> string list \<Rightarrow> environment \<Rightarrow> 32 word shim" where
  "run_command w describe command env =
    (case sw_run w command env of
       Inl e \<Rightarrow> sh_fail (describe e)
     | Inr code \<Rightarrow> sh_then (sh_event (Ran command env)) (sh_return (or_else code 1)))"

definition run_terminal_shim_passthrough :: "shim_world \<Rightarrow> string list \<Rightarrow> string \<Rightarrow> 32 word shim" where
  "run_terminal_shim_passthrough w command reason =
    (if command = [] then sh_fail ''terminal-shim passthrough command is empty''
     else sh_then (append_terminal_shim_log w
         [Some (''[terminal-shim] passthrough pid='' @ show_nat (unat (ou_pid (sw_out w))) @ '' reason=''),
          terminal_shim_log_value reason, Some '' command='', terminal_shim_log_command command])
       (sh_bind (sh_get ss_env) (\<lambda>env.
         run_command w (\<lambda>e. ''passthrough spawn '' @ hd command @ '': '' @ e) command env)))"

definition ensure_daemon_listening :: "outside \<Rightarrow> string \<Rightarrow> unit io" where
  "ensure_daemon_listening w addr =
    io_bind (io_of (this_exe w)) (\<lambda>exe. ensure_daemon_listening_with_exe w addr exe ''auto'')"

section \<open>The terminal shim\<close>

definition terminal_log :: "shim_world \<Rightarrow> string \<Rightarrow> string option list \<Rightarrow> unit shim" where
  "terminal_log w what parts = append_terminal_shim_log w
    (Some (''[terminal-shim] '' @ what @ '' pid='' @ show_nat (unat (ou_pid (sw_out w)))) # parts)"

definition parsed_log :: "terminal_shim_opts \<Rightarrow> string option list" where
  "parsed_log o1 =
    [Some '' daemon='', terminal_shim_log_value (addr_or_default (to_daemon_addr o1)),
     Some '' name='', terminal_shim_log_value (or_else (to_name o1) []),
     Some ('' cols='' @ show_i16 (to_cols o1) @ '' rows='' @ show_i16 (to_rows o1) @
       '' follow_console_size='' @ show_bool (to_follow_console_size o1) @
       '' cmdline_b64='' @ show_bool (to_cmdline_b64 o1 \<noteq> None) @
       '' command_args='' @ show_nat (length (to_command o1)))]"

definition launch_or_passthrough :: "shim_world \<Rightarrow> terminal_shim_opts \<Rightarrow> string list \<Rightarrow> 32 word shim" where
  "launch_or_passthrough w o1 command =
    sh_then (terminal_log w ''launch''
      [Some '' name='', terminal_shim_log_value (or_else (to_name o1) ''Vibe Terminal''), Some '' command='',
       terminal_shim_log_command command])
    (sh_or
      (sh_bind (run_launch w (shim_launch_args o1 command)) (\<lambda>code.
        sh_then (terminal_log w ''exit'' [Some ('' code='' @ show_nat (unat code))]) (sh_return code)))
      (\<lambda>err. sh_then (terminal_log w ''launch-failed'' [Some '' action=passthrough err='', terminal_shim_log_value err])
        (run_terminal_shim_passthrough w command err)))"

definition run_terminal_shim :: "shim_world \<Rightarrow> string list \<Rightarrow> 32 word shim" where
  "run_terminal_shim w raw =
    sh_then (terminal_log w ''start'' [Some '' raw='', terminal_shim_log_args raw])
    (case parse_terminal_shim_args raw of
       Inl err \<Rightarrow> sh_then (terminal_log w ''parse-failed'' [Some ('' err='' @ err)]) (sh_fail err)
     | Inr o1 \<Rightarrow>
        (let addr = addr_or_default (to_daemon_addr o1)
         in sh_then (terminal_log w ''parsed'' (parsed_log o1))
           (case terminal_shim_command (sw_utf8_error w) o1 of
              Inl err \<Rightarrow> sh_then (terminal_log w ''command-failed'' [Some '' err='', terminal_shim_log_value err]) (sh_fail err)
            | Inr command \<Rightarrow>
               sh_bind (sh_or (sh_bind (on_machine (ensure_daemon_listening (sw_out w) addr)) (\<lambda>_. sh_return None))
                   (\<lambda>err. sh_return (Some err)))
                 (\<lambda>failed. case failed of
                    Some err \<Rightarrow>
                      sh_then (terminal_log w ''daemon-failed''
                          [Some '' daemon='', terminal_shim_log_value addr, Some '' action=passthrough err='',
                           terminal_shim_log_value err])
                        (run_terminal_shim_passthrough w command err)
                  | None \<Rightarrow>
                      sh_then (terminal_log w ''daemon-ready'' [Some '' daemon='', terminal_shim_log_value addr])
                        (launch_or_passthrough w o1 command)))))"

section \<open>The agent shim\<close>

definition DEFAULT_PATHEXT :: string where
  "DEFAULT_PATHEXT = ''.COM;.EXE;.BAT;.CMD''"

definition agent_names :: "string \<Rightarrow> string \<Rightarrow> string list" where
  "agent_names kind pathext = kind # concat (map (\<lambda>ext.
     let ext = trim ext in if ext = [] then [] else [kind @ ext, kind @ to_ascii_lowercase ext])
     (split_char (CHR '';'') pathext))"

fun first_file :: "machine \<Rightarrow> string \<Rightarrow> string list \<Rightarrow> string option" where
  "first_file m dir [] = None"
| "first_file m dir (name # names) =
    (if is_file (path_join dir name) m then Some (path_join dir name) else first_file m dir names)"

fun search_path :: "machine \<Rightarrow> (string \<Rightarrow> bool) \<Rightarrow> string list \<Rightarrow> string list \<Rightarrow> string option" where
  "search_path m skip names [] = None"
| "search_path m skip names (dir # dirs) =
    (if skip dir then search_path m skip names dirs
     else case first_file m dir names of Some p \<Rightarrow> Some p | None \<Rightarrow> search_path m skip names dirs)"

definition find_real_windows_agent :: "outside \<Rightarrow> environment \<Rightarrow> machine \<Rightarrow> string \<Rightarrow> string option" where
  "find_real_windows_agent w env m kind =
    (case env ''PATH'' of
       None \<Rightarrow> None
     | Some path \<Rightarrow> search_path m
         (\<lambda>dir. case env ''VIBE_BRIDGE_SHIM_DIR'' of None \<Rightarrow> False | Some shim_dir \<Rightarrow> same_path w dir shim_dir)
         (agent_names kind (or_else (env ''PATHEXT'') DEFAULT_PATHEXT)) (split_paths path))"

definition extension_of :: "string \<Rightarrow> string option" where
  "extension_of p =
    (let components = filter (\<lambda>c. c \<noteq> [] \<and> c \<noteq> ''.'') (split_char (CHR ''/'') (replace_char (CHR 0x5C) ''/'' p))
     in if components = [] \<or> last components = ''..'' then None else snd (split_extension (last components)))"

definition resolve_agent_command :: "outside \<Rightarrow> environment \<Rightarrow> machine \<Rightarrow> string \<Rightarrow> string list \<Rightarrow> string list" where
  "resolve_agent_command w env m kind args =
    (case find_real_windows_agent w env m kind of
       Some real \<Rightarrow>
         (let ext = (case extension_of real of None \<Rightarrow> [] | Some e \<Rightarrow> to_ascii_lowercase e)
          in (if ext = ''cmd'' \<or> ext = ''bat'' then [''cmd.exe'', ''/C'', real] else [real]) @ args)
     | None \<Rightarrow>
         [''wsl.exe''] @
         (case env ''VIBE_BRIDGE_WSL_DISTRO'' of None \<Rightarrow> [] | Some d \<Rightarrow> if trim d \<noteq> [] then [''-d'', d] else []) @
         [''--cd'', [CHR 0x7E]] @ [''--exec'', ''bash'', ''-lc'', wsl_agent_exec_script, kind] @ args)"

text \<open>The agent as a child of a captured terminal: no pseudoconsole of its own.\<close>

definition run_attached_agent_shim ::
  "shim_world \<Rightarrow> string \<Rightarrow> string \<Rightarrow> string \<Rightarrow> string list \<Rightarrow> 32 word shim" where
  "run_attached_agent_shim w kind addr parent_agent_id command =
    (let pid = ou_pid (sw_out w); agent_id = launch_agent_id pid
     in sh_then (append_terminal_shim_log w
          [Some (''[agent-shim] attached pid='' @ show_nat (unat pid) @ '' kind=''), terminal_shim_log_value kind,
           Some '' agent_id='', terminal_shim_log_value agent_id, Some '' parent='', terminal_shim_log_value parent_agent_id,
           Some '' command0='', terminal_shim_log_value (case command of [] \<Rightarrow> [] | c # _ \<Rightarrow> c)])
       (sh_then (open_daemon w addr)
       (sh_then (send_json_line addr (sw_register_sent w)
          (attached_register_message agent_id kind (sw_cwd w) parent_agent_id))
       (if command = [] then sh_fail (''no resolved command for '' @ kind)
        else sh_bind (sh_get ss_env) (\<lambda>env.
          sh_bind (run_command w (\<lambda>e. ''spawn attached '' @ kind @ '': '' @ e) command
              (env(''VIBE_BRIDGE_DAEMON'' \<mapsto> addr, ''VIBE_BRIDGE_LAUNCH_AGENT_ID'' \<mapsto> agent_id))) (\<lambda>code.
          sh_then (sh_or (send_json_line addr (sw_abort_sent w) (abort_message agent_id kind)) (\<lambda>_. sh_return ()))
          (sh_then (append_terminal_shim_log w
            [Some (''[agent-shim] attached exit pid='' @ show_nat (unat pid) @ '' kind=''), terminal_shim_log_value kind,
             Some ('' code='' @ show_nat (unat code))])
          (sh_return code))))))))"

text \<open>A variable that is set and not blank.\<close>

definition solid_var :: "environment \<Rightarrow> string \<Rightarrow> string option" where
  "solid_var env key = (case env key of None \<Rightarrow> None | Some v \<Rightarrow> if trim v = [] then None else Some v)"

definition agent_launch_args :: "string \<Rightarrow> string \<Rightarrow> string list \<Rightarrow> string list" where
  "agent_launch_args addr kind command =
    [''--daemon'', addr, ''--kind'', kind, ''--name'', kind, ''--''] @ command"

definition run_agent_shim :: "shim_world \<Rightarrow> string list \<Rightarrow> 32 word shim" where
  "run_agent_shim w raw =
    (case raw of
       [] \<Rightarrow> sh_fail ''usage: agent-shim codex|claude [ARGS...]''
     | kind # args \<Rightarrow>
        (if kind \<noteq> ''codex'' \<and> kind \<noteq> ''claude'' then sh_fail (''unsupported agent kind: '' @ kind)
         else sh_bind (sh_get ss_env) (\<lambda>env.
           let addr = or_else (env ''VIBE_BRIDGE_DAEMON'') DEFAULT_ADDR;
               parent = solid_var env ''VIBE_BRIDGE_TERMINAL_AGENT_ID'';
               captured = env ''VIBE_BRIDGE_CAPTURED_TERMINAL'' \<noteq> None
           in sh_then (append_terminal_shim_log w
                [Some (''[agent-shim] start pid='' @ show_nat (unat (ou_pid (sw_out w))) @ '' kind=''), terminal_shim_log_value kind,
                 Some ('' captured='' @ show_bool captured @ '' parent=''), terminal_shim_log_value (or_else parent []),
                 Some ('' args='' @ show_nat (length args))])
             (sh_then (on_machine (ensure_daemon_listening (sw_out w) addr))
             (sh_bind (sh_get (\<lambda>s. resolve_agent_command (sw_out w) env (ss_machine s) kind args)) (\<lambda>command.
              case (captured, parent) of
                (True, Some parent_agent_id) \<Rightarrow> run_attached_agent_shim w kind addr parent_agent_id command
              | (True, None) \<Rightarrow>
                  sh_then (append_terminal_shim_log w
                      [Some ''[agent-shim] captured terminal has no parent terminal id; falling back to nested launch''])
                    (run_launch w (agent_launch_args addr kind command))
              | (False, _) \<Rightarrow> run_launch w (agent_launch_args addr kind command)))))))"

section \<open>The WSL shim\<close>

definition run_wsl_shim :: "shim_world \<Rightarrow> string list \<Rightarrow> 32 word shim" where
  "run_wsl_shim w raw = sh_bind (sh_get ss_env) (\<lambda>env.
    let plan = build_wsl_passthrough_command raw; command = wp_command plan
    in sh_then (append_terminal_shim_log w
         [Some (''[wsl-shim] start pid='' @ show_nat (unat (ou_pid (sw_out w))) @ '' captured='' @
            show_bool (env ''VIBE_BRIDGE_CAPTURED_TERMINAL'' \<noteq> None) @ '' parent=''),
          terminal_shim_log_value (or_else (solid_var env ''VIBE_BRIDGE_TERMINAL_AGENT_ID'') []),
          Some '' args='', terminal_shim_log_args raw])
      (sh_then (append_terminal_shim_log w
         [Some ''[wsl-shim] native passthrough; WSL shell integration owns codex/claude capture''])
      (sh_then (append_terminal_shim_log w
         [Some (''[wsl-shim] '' @ (if wp_wrapped plan then ''interactive transient shims enabled'' else ''passthrough'') @
            '' command=''), terminal_shim_log_command command])
      (if command = [] then sh_fail ''empty wsl command''
       else run_command w (\<lambda>e. ''spawn wsl.exe: '' @ e) command env))))"

end
