(* ===== verification/Command_Entry.thy ===== *)
theory Command_Entry
  imports Shim_Commands Product_Actions Terminal_Windows
begin

text \<open>
  \<open>main\<close> of \<open>crates/vb-daemon/src/main.rs\<close>: which command the arguments ask for, what is printed
  and the exit code.
\<close>

section \<open>Which command\<close>

datatype command =
  Snapshot
| Serve string
| Serve_Hid string string
| Launch "string list"
| Start "string list"
| Terminal_Shim "string list"
| Agent_Shim "string list"
| Wsl_Shim "string list"
| Install_Windows "string list"
| Install_Product "string list"
| Uninstall_Windows "string list"
| Uninstall_Product "string list"
| Status_Windows "string list"
| Help
| By_Name
| Unknown string

definition arg_or :: "string list \<Rightarrow> nat \<Rightarrow> string \<Rightarrow> string" where
  "arg_or rest n dflt = (if n < length rest then rest ! n else dflt)"

definition SERVE_ADDR :: string where "SERVE_ADDR = ''127.0.0.1:18765''"

definition command_of :: "string list \<Rightarrow> command" where
  "command_of args =
    (case args of
       [] \<Rightarrow> By_Name
     | c # rest \<Rightarrow>
        (if c = ''snapshot'' then Snapshot
         else if c = ''serve'' then Serve (arg_or rest 0 SERVE_ADDR)
         else if c = ''serve-hid'' then Serve_Hid (arg_or rest 0 SERVE_ADDR) (arg_or rest 1 ''auto'')
         else if c = ''launch'' then Launch rest
         else if c = ''start'' then Start rest
         else if c = ''terminal-shim'' \<or> c = ''capture-shell'' \<or> c = ''vibe-terminal'' then Terminal_Shim rest
         else if c = ''agent-shim'' then Agent_Shim rest
         else if c = ''wsl-shim'' then Wsl_Shim rest
         else if c = ''install-windows'' then Install_Windows rest
         else if c = ''install-product'' \<or> c = ''setup'' then Install_Product rest
         else if c = ''uninstall-windows'' then Uninstall_Windows rest
         else if c = ''uninstall-product'' then Uninstall_Product rest
         else if c = ''status-windows'' then Status_Windows rest
         else if c = ''help'' \<or> c = ''--help'' \<or> c = ''-h'' then Help
         else Unknown c))"

definition product_action_from_current_exe_name :: "outside \<Rightarrow> product_action option" where
  "product_action_from_current_exe_name w =
    (case ou_current_exe w of
       Inl _ \<Rightarrow> None
     | Inr exe \<Rightarrow> (case command_stem exe of None \<Rightarrow> None | Some stem \<Rightarrow> product_action_from_exe_name stem))"

section \<open>What it prints\<close>

definition help_text :: "string list" where
  "help_text =
    [''vb-daemon'', [], ''Commands:'',
     ''  snapshot       print merged passive/registered agent sessions'',
     ''  serve [ADDR]   run JSONL registration IPC, default 127.0.0.1:18765'',
     ''  serve-hid [ADDR] [auto|PATH]'',
     ''  launch [--daemon ADDR] [--kind claude|codex] [--name NAME]'',
     ''                 [--cols N] [--rows N] [--follow-console-size]'',
     ''                 -- COMMAND [ARGS...]'',
     ''                 (Windows only) spawn COMMAND under a ConPTY,'',
     ''                 mirror stdout to the board via the running daemon.'',
     ''  start  [--port N] [--device auto|PATH] [--kind claude|codex]'',
     ''                 [--name NAME] [--cols N] [--rows N] [--follow-console-size]'',
     ''                 -- COMMAND [ARGS...]'',
     ''                 (Windows only) one-process all-in-one: opens HID,'',
     ''                 binds TCP IPC, spawns COMMAND under ConPTY and mirrors'',
     ''                 stdout to the board. Use this for single-window setup.'',
     ''  terminal-shim [--daemon ADDR] [--name NAME] [--cols N] [--rows N]'',
     ''                 [--follow-console-size]'',
     ''                 [--cmdline-b64 B64 | -- COMMAND [ARGS...]]'',
     ''                 (Windows only) capture an entire shell/profile through'',
     ''                 ConPTY without replacing codex/claude binaries.'',
     ''  agent-shim codex|claude [ARGS...]'',
     ''                 (Windows only) user-facing shim entry. Ensures daemon,'',
     ''                 then launches the real agent under ConPTY capture.'',
     ''  wsl-shim [WSL ARGS...]'',
     ''                 (Windows only) transient captured-terminal WSL entry.'',
     ''  install-windows [--addr ADDR] [--device auto|PATH]'',
     ''                 [--wsl] [--wsl-distro NAME] [--no-startup]'',
     ''                 [--terminal-profiles] [--no-wsl-shortcuts]'',
     ''                 [--wsl-shell] [--management-shortcuts]'',
     ''                 [--no-path] [--shim-dir DIR]'',
     ''                 (Windows only) install Startup daemon script and shims.'',
     ''  install-product [same flags as install-windows]'',
     ''                 (Windows only) product install: Startup daemon,'',
     ''                 shims, Start Menu management, and WSL shell hooks.'',
     ''  uninstall-windows [--addr ADDR] [--shim-dir DIR]'',
     ''                 [--no-terminal-profiles] [--purge]'',
     ''                 (Windows only) stop background daemon and remove shims.'',
     ''  uninstall-product [same flags as uninstall-windows]'',
     ''                 (Windows only) product uninstall/restore.'',
     ''  status-windows [--addr ADDR]'',
     ''                 (Windows only) print install paths and daemon health.'']"

definition snapshot_session_line :: "agent_session \<Rightarrow> string" where
  "snapshot_session_line s =
    ''kind='' @ agent_kind_as_str (as_kind s) @ '' status='' @ agent_status_as_str (as_status s) @
    '' id='' @ compact (as_agent_id s) @ '' name='' @ compact (as_name s) @
    '' hwnd='' @ (case as_terminal_hwnd s of None \<Rightarrow> ''unbound'' | Some h \<Rightarrow> show_hwnd h) @
    '' cwd='' @ compact (as_cwd s)"

definition snapshot_lines :: "daemon_snapshot \<Rightarrow> string list" where
  "snapshot_lines sn =
    (''daemon snapshot: sessions='' @ show_nat (length (sn_sessions sn)) @ '' activities='' @
      show_nat (length (sn_activities sn)) @ '' registered='' @ show_nat (sn_registered_agents sn)) #
    map snapshot_session_line (sn_sessions sn)"

section \<open>Running it\<close>

text \<open>How the process ends: the code it exits with, or a panic; and the lines it printed.\<close>

datatype ending = Exits int "string list" | Panics

definition ends :: "string \<Rightarrow> ('a \<Rightarrow> ending) \<Rightarrow> 'a outcome \<times> shim_state \<Rightarrow> ending \<times> shim_state" where
  "ends name good r =
    (case r of (Panicked, s) \<Rightarrow> (Panics, s)
     | (Failed e, s) \<Rightarrow> (Exits 1 [name @ '' failed: '' @ e], s)
     | (Done x, s) \<Rightarrow> (good x, s))"

definition announcing :: "string list \<Rightarrow> ending \<times> shim_state \<Rightarrow> ending \<times> shim_state" where
  "announcing ls r = (case r of (Exits code out, s) \<Rightarrow> (Exits code (ls @ out), s) | (Panics, s) \<Rightarrow> (Panics, s))"

text \<open>\<open>exit(code as i32)\<close>.\<close>

definition exits_with :: "32 word \<Rightarrow> ending" where
  "exits_with code = Exits (sint code) []"

definition reports :: "string list \<Rightarrow> ending" where
  "reports ls = Exits 0 ls"

text \<open>\<open>open_lazy\<close> opens nothing, so only looking for the device can fail before serving.\<close>

definition run_serve_hid :: "shim_world \<Rightarrow> string \<Rightarrow> string \<Rightarrow> unit shim" where
  "run_serve_hid w addr device =
    sh_then (sh_of (if device = ''auto'' then bind_res (sw_device w) (\<lambda>_. Inr ()) else Inr ()))
      (sh_then (sh_event (Serving addr device)) (sh_of (sw_serve w addr device)))"

definition serve_lines :: "string \<Rightarrow> string list" where
  "serve_lines addr = [''vb-daemon registration ipc: tcp://'' @ addr]"

definition serve_hid_lines :: "shim_world \<Rightarrow> string \<Rightarrow> string \<Rightarrow> string list" where
  "serve_hid_lines w addr device =
    (if device \<noteq> ''auto'' then (''vb-daemon HID: '' @ device) # serve_lines addr
     else case sw_device w of
       Inl _ \<Rightarrow> []
     | Inr (Some path) \<Rightarrow> (''vb-daemon HID: '' @ path) # serve_lines addr
     | Inr None \<Rightarrow> ''vb-daemon HID: auto (waiting for Vibe HID 359f:2120)'' # serve_lines addr)"

definition snapshot_ending :: "poll_snapshot result \<Rightarrow> ending" where
  "snapshot_ending polled =
    (case snd (poll_once polled bridge_daemon_new) of
       Inl e \<Rightarrow> Exits 1 [''snapshot failed: '' @ e] | Inr sn \<Rightarrow> reports (snapshot_lines sn))"

definition run_product_action :: "shim_world \<Rightarrow> string \<Rightarrow> product_action \<Rightarrow> string list shim" where
  "run_product_action w hook_js action =
    (case action of
       Install \<Rightarrow> on_machine (run_install_product (sw_out w) hook_js [])
     | Uninstall \<Rightarrow> on_machine (run_uninstall_windows (sw_out w) []))"

fun run_command_line :: "shim_world \<Rightarrow> string \<Rightarrow> poll_snapshot result \<Rightarrow> command \<Rightarrow> shim_state \<Rightarrow> ending \<times> shim_state" where
  "run_command_line w hook_js polled Snapshot s = (snapshot_ending polled, s)"
| "run_command_line w hook_js polled (Serve addr) s =
    announcing (serve_lines addr) (ends ''serve'' (\<lambda>_. reports [])
      (sh_then (sh_event (Serving addr [])) (sh_of (sw_serve w addr [])) s))"
| "run_command_line w hook_js polled (Serve_Hid addr device) s =
    announcing (serve_hid_lines w addr device) (ends ''serve-hid'' (\<lambda>_. reports []) (run_serve_hid w addr device s))"
| "run_command_line w hook_js polled (Launch rest) s = ends ''launch'' exits_with (run_launch w rest s)"
| "run_command_line w hook_js polled (Start rest) s = ends ''start'' exits_with (run_start w rest s)"
| "run_command_line w hook_js polled (Terminal_Shim rest) s = ends ''terminal-shim'' exits_with (run_terminal_shim w rest s)"
| "run_command_line w hook_js polled (Agent_Shim rest) s = ends ''agent-shim'' exits_with (run_agent_shim w rest s)"
| "run_command_line w hook_js polled (Wsl_Shim rest) s = ends ''wsl-shim'' exits_with (run_wsl_shim w rest s)"
| "run_command_line w hook_js polled (Install_Windows rest) s =
    ends ''install-windows'' reports (on_machine (run_install_windows (sw_out w) hook_js rest) s)"
| "run_command_line w hook_js polled (Install_Product rest) s =
    ends ''install-product'' reports (on_machine (run_install_product (sw_out w) hook_js rest) s)"
| "run_command_line w hook_js polled (Uninstall_Windows rest) s =
    ends ''uninstall-windows'' reports (on_machine (run_uninstall_windows (sw_out w) rest) s)"
| "run_command_line w hook_js polled (Uninstall_Product rest) s =
    ends ''uninstall-product'' reports (on_machine (run_uninstall_windows (sw_out w) rest) s)"
| "run_command_line w hook_js polled (Status_Windows rest) s =
    ends ''status-windows'' reports (on_machine (run_status_windows (sw_out w) rest) s)"
| "run_command_line w hook_js polled Help s = (reports help_text, s)"
| "run_command_line w hook_js polled By_Name s =
    (case product_action_from_current_exe_name (sw_out w) of
       Some action \<Rightarrow> ends (product_action_name action) reports (run_product_action w hook_js action s)
     | None \<Rightarrow> (reports help_text, s))"
| "run_command_line w hook_js polled (Unknown c) s = (Exits 2 ((''unknown command: '' @ c) # help_text), s)"

definition main_of :: "shim_world \<Rightarrow> string \<Rightarrow> poll_snapshot result \<Rightarrow> string list \<Rightarrow> shim_state \<Rightarrow> ending \<times> shim_state" where
  "main_of w hook_js polled args = run_command_line w hook_js polled (command_of args)"

end
