(* ===== verification/Shim_Properties.thy ===== *)
theory Shim_Properties
  imports Command_Entry Product_Properties
begin

text \<open>
  What the commands that start other programs do, on every way out: what they put back, which
  commands they start and how often, and what they tell the daemon.
\<close>

section \<open>Actions and what they keep\<close>

lemma sh_simps:
  "sh_return x s = (Done x, s)" "sh_fail e s = (Failed e, s)" "sh_get f s = (Done (f s), s)"
  "sh_set h s = (Done (), h s)" "sh_of (Inl e) s = (Failed e, s)" "sh_of (Inr x) s = (Done x, s)"
  "sh_event ev s = (Done (), s\<lparr>ss_events := ss_events s @ [ev]\<rparr>)"
  by (simp_all add: sh_return_def sh_fail_def sh_get_def sh_set_def sh_of_def sh_event_def)

lemma sh_bindE:
  assumes "sh_bind act f s = (r, s')"
  obtains x s1 where "act s = (Done x, s1)" "f x s1 = (r, s')"
    | e where "act s = (Failed e, s')" "r = Failed e"
    | "act s = (Panicked, s')" "r = Panicked"
  using assms by (auto simp: sh_bind_def split: prod.splits outcome.splits)

lemma sh_thenE:
  assumes "sh_then act g s = (r, s')"
  obtains s1 where "act s = (Done (), s1)" "g s1 = (r, s')"
    | e where "act s = (Failed e, s')" "r = Failed e"
    | "act s = (Panicked, s')" "r = Panicked"
  using assms unfolding sh_then_def by (elim sh_bindE) auto

lemma sh_finallyE:
  assumes "sh_finally act h s = (r, s')"
  obtains s1 where "act s = (r, s1)" "s' = h s1"
  using assms by (auto simp: sh_finally_def split: prod.splits)

lemma sh_orE:
  assumes "sh_or act g s = (r, s')"
  obtains "act s = (r, s')" "\<And>e. r \<noteq> Failed e" | e s1 where "act s = (Failed e, s1)" "g e s1 = (r, s')"
  using assms by (auto simp: sh_or_def split: prod.splits outcome.splits)

text \<open>A relation between the states before and after that is kept whatever the outcome.\<close>

definition keeps :: "(shim_state \<Rightarrow> shim_state \<Rightarrow> bool) \<Rightarrow> 'a shim \<Rightarrow> bool" where
  "keeps R act \<longleftrightarrow> (\<forall>s. R s (snd (act s)))"

lemma keepsI: "(\<And>s r s'. act s = (r, s') \<Longrightarrow> R s s') \<Longrightarrow> keeps R act"
  unfolding keeps_def by (metis surjective_pairing)

lemma keepsD: "keeps R act \<Longrightarrow> act s = (r, s') \<Longrightarrow> R s s'"
  unfolding keeps_def by (metis snd_conv)

named_theorems keeps_intros

locale shim_relation =
  fixes R :: "shim_state \<Rightarrow> shim_state \<Rightarrow> bool"
  assumes refl: "R s s"
    and trans: "R s t \<Longrightarrow> R t u \<Longrightarrow> R s u"
    and machine: "R s (s\<lparr>ss_machine := m\<rparr>)"
begin

lemma keeps_basic [keeps_intros]:
  "keeps R (sh_return x)" "keeps R (sh_fail e)" "keeps R (sh_of r)" "keeps R (sh_get f)"
  by (auto simp: keeps_def sh_of_def sh_simps refl)

lemma keeps_bind [keeps_intros]:
  assumes "keeps R act" "\<And>x. keeps R (f x)"
  shows "keeps R (sh_bind act f)"
  using assms by (intro keepsI) (auto elim!: sh_bindE intro: trans dest: keepsD)

lemma keeps_then [keeps_intros]: "keeps R act \<Longrightarrow> keeps R g \<Longrightarrow> keeps R (sh_then act g)"
  unfolding sh_then_def by (intro keeps_intros)

lemma keeps_or [keeps_intros]:
  assumes "keeps R act" "\<And>e. keeps R (g e)"
  shows "keeps R (sh_or act g)"
  using assms by (intro keepsI) (auto elim!: sh_orE intro: trans dest: keepsD)

lemma keeps_finally [keeps_intros]:
  assumes "keeps R act" "\<And>s. R s (h s)"
  shows "keeps R (sh_finally act h)"
  using assms by (intro keepsI) (auto elim!: sh_finallyE intro: trans dest: keepsD)

lemma keeps_machine [keeps_intros]: "keeps R (on_machine act)" "keeps R (append_terminal_shim_log w parts)"
  by (auto simp: keeps_def on_machine_def sh_of_def append_terminal_shim_log_def refl machine split: prod.splits)

lemma keeps_cases [keeps_intros]:
  "keeps R a \<Longrightarrow> keeps R b \<Longrightarrow> keeps R (if c then a else b)"
  "keeps R a \<Longrightarrow> (\<And>x. keeps R (f x)) \<Longrightarrow> keeps R (case v of None \<Rightarrow> a | Some x \<Rightarrow> f x)"
  "(\<And>e. keeps R (g e)) \<Longrightarrow> (\<And>x. keeps R (h x)) \<Longrightarrow> keeps R (case z of Inl e \<Rightarrow> g e | Inr x \<Rightarrow> h x)"
  "(\<And>x y. keeps R (k x y)) \<Longrightarrow> keeps R (case q of (x, y) \<Rightarrow> k x y)"
  "keeps R a \<Longrightarrow> (\<And>x xs. keeps R (l x xs)) \<Longrightarrow> keeps R (case ys of [] \<Rightarrow> a | x # xs \<Rightarrow> l x xs)"
  by (simp_all split: option.splits sum.splits prod.splits list.splits)

lemma keeps_terminal_log [keeps_intros]: "keeps R (terminal_log w what parts)" "keeps R (path_log w what dir)"
  "keeps R (open_daemon w addr)"
  unfolding terminal_log_def path_log_def open_daemon_def by (intro keeps_intros)+

end

definition same :: "(shim_state \<Rightarrow> 'a) \<Rightarrow> shim_state \<Rightarrow> shim_state \<Rightarrow> bool" where
  "same f s s' \<longleftrightarrow> f s' = f s"

definition adds :: "(shim_event \<Rightarrow> bool) \<Rightarrow> shim_state \<Rightarrow> shim_state \<Rightarrow> bool" where
  "adds P s s' \<longleftrightarrow> (\<exists>new. ss_events s' = ss_events s @ new \<and> list_all P new)"

interpretation same_env: shim_relation "same ss_env"
  by unfold_locales (simp_all add: same_def)

interpretation same_consoles: shim_relation "same ss_consoles"
  by unfold_locales (simp_all add: same_def)

interpretation same_kernel: shim_relation "same ss_kernel"
  by unfold_locales (simp_all add: same_def)

interpretation same_events: shim_relation "same ss_events"
  by unfold_locales (simp_all add: same_def)

interpretation same_output: shim_relation "same ss_output"
  by unfold_locales (simp_all add: same_def)

interpretation adds: shim_relation "adds P" for P
  by unfold_locales (auto simp: adds_def)

text \<open>Actions that change at most the machine.\<close>

definition on_disk :: "shim_state \<Rightarrow> shim_state \<Rightarrow> bool" where
  "on_disk s s' \<longleftrightarrow> (\<exists>m. s' = s\<lparr>ss_machine := m\<rparr>)"

interpretation on_disk: shim_relation on_disk
proof
  show "on_disk s s" for s by (auto simp: on_disk_def intro: exI [of _ "ss_machine s"])
qed (auto simp: on_disk_def)

lemma on_diskD: "keeps on_disk act \<Longrightarrow> act s = (r, s') \<Longrightarrow> \<exists>m. s' = s\<lparr>ss_machine := m\<rparr>"
  using keepsD unfolding on_disk_def by blast


lemma quiet_thenE:
  assumes "sh_then act g s = (r, s')" "keeps on_disk act"
  obtains m where "g (s\<lparr>ss_machine := m\<rparr>) = (r, s')" | m where "s' = s\<lparr>ss_machine := m\<rparr>" "\<And>x. r \<noteq> Done x"
  using assms(1) by (rule sh_thenE) (use that in \<open>auto dest!: on_diskD [OF assms(2)]\<close>)

section \<open>What a launch puts back\<close>

definition env_left :: "shim_world \<Rightarrow> launch_plan \<Rightarrow> environment \<Rightarrow> environment \<Rightarrow> bool" where
  "env_left w p env env' \<longleftrightarrow> env' = env \<or>
    (lp_kind p = ''terminal'' \<and> (\<exists>q. path_with (runtime_shim_dir (sw_out w) (sw_temp w) (lp_agent_id p)) env = Some q \<and>
       env' = env(''PATH'' \<mapsto> q)))"

definition leave_env :: "launch_guards \<Rightarrow> environment \<Rightarrow> environment" where
  "leave_env g env = child_env_drop (lg_terminal g) (env_guard_drop (lg_agent g) (env_guard_drop (lg_captured g) env))"

lemma leave_launch_env_eq:
  "\<exists>m. leave_launch_env w g s = s\<lparr>ss_machine := m, ss_env := leave_env g (ss_env s)\<rparr>"
  by (cases s) (auto simp: leave_launch_env_def leave_env_def Let_def)

lemma on_machineE:
  assumes "on_machine act s = (r, s')"
  obtains x m where "act (ss_machine s) = (Inr x, m)" "r = Done x" "s' = s\<lparr>ss_machine := m\<rparr>"
    | e m where "act (ss_machine s) = (Inl e, m)" "r = Failed e" "s' = s\<lparr>ss_machine := m\<rparr>"
  using assms by (auto simp: on_machine_def sh_of_def split: prod.splits sum.splits)

lemma runtime_shims_dir:
  "create_captured_terminal_runtime_shims w temp aid m = (Inr rd, m') \<Longrightarrow> rd = Some (runtime_shim_dir w temp aid)"
  by (auto simp: create_captured_terminal_runtime_shims_def Let_def io_bind_Inr io_then_Inr io_simps)

lemma enter_terminal_env_result:
  assumes "enter_terminal_env w addr aid s = (r, s1)"
  shows "case r of
    Done g \<Rightarrow> \<exists>m exe_dir. (let cs = child_env_changes (Some (runtime_shim_dir (sw_out w) (sw_temp w) aid)) exe_dir
        (same_path (sw_out w)) addr aid (ss_env s)
      in ce_guards g = fst (set_vars cs (ss_env s)) \<and> s1 = s\<lparr>ss_machine := m, ss_env := snd (set_vars cs (ss_env s))\<rparr>)
  | _ \<Rightarrow> \<exists>m. s1 = s\<lparr>ss_machine := m\<rparr>"
proof (cases "create_captured_terminal_runtime_shims (sw_out w) (sw_temp w) aid (ss_machine s)")
  case (Pair t m)
  show ?thesis
  proof (cases t)
    case (Inl e)
    then show ?thesis
      using assms Pair by (auto simp: enter_terminal_env_def sh_bind_def on_machine_def sh_simps)
  next
    case (Inr rd)
    then have rd: "rd = Some (runtime_shim_dir (sw_out w) (sw_temp w) aid)"
      using runtime_shims_dir Pair by simp
    define s2 where "s2 = s\<lparr>ss_machine := m\<rparr>"
    define exe_dir where "exe_dir = current_exe_dir_if_agent_shims_exist (sw_out w) m"
    define cs where "cs = child_env_changes rd exe_dir (same_path (sw_out w)) addr aid (ss_env s)"
    obtain g where g: "child_env_enter (Inr rd) exe_dir (same_path (sw_out w)) addr aid (ss_env s) =
        Inr (g, snd (set_vars cs (ss_env s)))" "ce_guards g = fst (set_vars cs (ss_env s))"
      by (simp add: child_env_enter_sets cs_def Let_def)
    obtain a b where run: "(sh_then (path_log w ''runtime_shim_dir'' a) (sh_then (path_log w ''shim_dir'' b)
        (sh_then (sh_set (\<lambda>s. s\<lparr>ss_env := snd (set_vars cs (ss_env s2))\<rparr>)) (sh_return g)))) s2 = (r, s1)"
      using assms Pair Inr g
      by (simp add: enter_terminal_env_def sh_bind_def on_machine_def sh_simps Let_def s2_def exe_dir_def)
    note quiet = on_diskD [OF on_disk.keeps_terminal_log(2)]
    show ?thesis
      using run
    proof (elim sh_thenE)
      fix t1 t2 t3
      assume "path_log w ''runtime_shim_dir'' a s2 = (Done (), t1)" "path_log w ''shim_dir'' b t1 = (Done (), t2)"
        "sh_set (\<lambda>s. s\<lparr>ss_env := snd (set_vars cs (ss_env s2))\<rparr>) t2 = (Done (), t3)" "sh_return g t3 = (r, s1)"
      then obtain m1 where "s1 = s\<lparr>ss_machine := m1, ss_env := snd (set_vars cs (ss_env s))\<rparr>" "r = Done g"
        by (auto simp: sh_simps s2_def dest!: quiet)
      then show ?thesis
        using g(2) unfolding cs_def rd Let_def by (auto intro!: exI [of _ m1] exI [of _ exe_dir])
    qed (auto simp: sh_simps s2_def dest!: quiet)
  qed
qed

lemma terminal_env_left:
  assumes "enter_terminal_env w (lp_addr p) (lp_agent_id p) s = (Done g, s2)" "lp_kind p = ''terminal''"
  obtains m env2 where "s2 = s\<lparr>ss_machine := m, ss_env := env2\<rparr>"
    "env_left w p (ss_env s) (fold env_guard_drop (ce_guards g) env2)"
proof -
  define rd where "rd = runtime_shim_dir (sw_out w) (sw_temp w) (lp_agent_id p)"
  obtain m exe_dir cs where cs: "cs = child_env_changes (Some rd) exe_dir (same_path (sw_out w)) (lp_addr p) (lp_agent_id p) (ss_env s)"
    and g: "ce_guards g = fst (set_vars cs (ss_env s))" "s2 = s\<lparr>ss_machine := m, ss_env := snd (set_vars cs (ss_env s))\<rparr>"
    using enter_terminal_env_result [OF assms(1)] by (auto simp: Let_def rd_def)
  define pc where "pc = path_changes (Some rd) exe_dir (same_path (sw_out w)) (ss_env s)"
  have "path_with rd (ss_env s) = Some q" if "pc = [q, z]" for q z
    using that by (auto simp: pc_def path_changes_def Let_def option_list_def split: option.splits if_splits)
  then have "env_left w p (ss_env s) (case pc of [q, _] \<Rightarrow> (ss_env s)(''PATH'' \<mapsto> q) | _ \<Rightarrow> ss_env s)"
    unfolding env_left_def rd_def [symmetric] using assms(2) by (auto split: list.splits)
  then have "env_left w p (ss_env s) (fold env_guard_drop (ce_guards g) (snd (set_vars cs (ss_env s))))"
    using child_env_drop_after [OF cs] by (simp add: g(1) pc_def)
  then show thesis using that g(2) by blast
qed

lemma launch_env:
  assumes "enter_launch_env w p s = (r, s1)"
  shows "case r of
    Done g \<Rightarrow> \<exists>m env1. s1 = s\<lparr>ss_machine := m, ss_env := env1\<rparr> \<and> env_left w p (ss_env s) (leave_env g env1) \<and>
      env1 ''VIBE_BRIDGE_CAPTURED_TERMINAL'' = Some ''1''
  | _ \<Rightarrow> \<exists>m. s1 = s\<lparr>ss_machine := m\<rparr>"
proof (cases "lp_kind p = ''terminal''")
  case False
  let ?env1 = "(ss_env s)(''VIBE_BRIDGE_LAUNCH_AGENT_ID'' \<mapsto> lp_agent_id p, ''VIBE_BRIDGE_CAPTURED_TERMINAL'' \<mapsto> ''1'')"
  obtain g where g: "r = Done g" "s1 = s\<lparr>ss_machine := ss_machine s, ss_env := ?env1\<rparr>" "leave_env g ?env1 = ss_env s"
    using assms False
    by (auto simp: enter_launch_env_def sh_bind_def sh_simps set_var_def env_guard_set_def leave_env_def no_child_env_def
        child_env_drop_def drop_guard fun_eq_iff)
  then show ?thesis
    by (auto simp: env_left_def intro!: exI [of _ "ss_machine s"] exI [of _ ?env1])
next
  case True
  obtain t s2 where t: "enter_terminal_env w (lp_addr p) (lp_agent_id p) s = (t, s2)" by fastforce
  show ?thesis
  proof (cases t)
    case (Done g)
    from t [unfolded Done] True obtain m env2 where s2: "s2 = s\<lparr>ss_machine := m, ss_env := env2\<rparr>"
      and left: "env_left w p (ss_env s) (fold env_guard_drop (ce_guards g) env2)"
      by (rule terminal_env_left)
    let ?env1 = "env2(''VIBE_BRIDGE_CAPTURED_TERMINAL'' \<mapsto> ''1'')"
    obtain g1 where "r = Done g1" "s1 = s\<lparr>ss_machine := m, ss_env := ?env1\<rparr>"
      "leave_env g1 ?env1 = fold env_guard_drop (ce_guards g) env2"
      using assms True t Done
      by (auto simp: enter_launch_env_def sh_bind_def sh_simps set_var_def env_guard_set_def leave_env_def drop_guard
          child_env_drop_def s2)
    then show ?thesis
      using left by (auto intro!: exI [of _ m] exI [of _ ?env1])
  qed (use assms True t enter_terminal_env_result [OF t] in \<open>auto simp: enter_launch_env_def sh_bind_def\<close>)
qed


text \<open>The child, between the guards of the environment.\<close>

lemma attend_child_keeps:
  "keeps (same ss_env) (attend_child w p)" "keeps (same ss_consoles) (attend_child w p)"
  "keeps (same ss_kernel) (attend_child w p)"
proof -
  have send: "keeps (same ss_env) (send_json_line a r j)" "keeps (same ss_consoles) (send_json_line a r j)"
    "keeps (same ss_kernel) (send_json_line a r j)" for a r j
    by (cases r; simp add: send_json_line_def keeps_def same_def sh_simps)+
  have pump: "keeps (same ss_env) (pump_child w p)" "keeps (same ss_consoles) (pump_child w p)"
    "keeps (same ss_kernel) (pump_child w p)"
    by (simp_all add: pump_child_def keeps_def same_def split: prod.split)
  show "keeps (same ss_env) (attend_child w p)"
    unfolding attend_child_def by (intro same_env.keeps_then same_env.keeps_bind same_env.keeps_or same_env.keeps_basic send pump)
  show "keeps (same ss_consoles) (attend_child w p)"
    unfolding attend_child_def
    by (intro same_consoles.keeps_then same_consoles.keeps_bind same_consoles.keeps_or same_consoles.keeps_basic send pump)
  show "keeps (same ss_kernel) (attend_child w p)"
    unfolding attend_child_def
    by (intro same_kernel.keeps_then same_kernel.keeps_bind same_kernel.keeps_or same_kernel.keeps_basic send pump)
qed

lemma spawn_childE:
  assumes "spawn_child w p c0 s = (r, s')"
  obtains e k where "conpty_spawn (lp_command p) (sw_spawn w) (ss_kernel s) = (Inl e, k)"
      "r = Failed (format_launch_spawn_error c0 e)" "s' = s\<lparr>ss_kernel := k\<rparr>"
    | session k where "conpty_spawn (lp_command p) (sw_spawn w) (ss_kernel s) = (Inr session, k)" "r = Done session"
      "s' = s\<lparr>ss_kernel := k, ss_events := ss_events s @ [Spawned (lp_command p) (lp_size p) (ss_env s)]\<rparr>"
  using assms by (auto simp: spawn_child_def split: prod.splits sum.splits)

text \<open>Once the child runs: the state in which it is attended, and what is put back around that.\<close>

lemma launch_childE:
  assumes "launch_child w p c0 s = (r, s')"
  obtains e k where "conpty_spawn (lp_command p) (sw_spawn w) (ss_kernel s) = (Inl e, k)"
      "r = Failed (format_launch_spawn_error c0 e)" "s' = s\<lparr>ss_kernel := k\<rparr>"
    | session k g c s2 where "conpty_spawn (lp_command p) (sw_spawn w) (ss_kernel s) = (Inr session, k)"
      "enter_passthrough (sw_console_in w) (sw_console_out w) (ss_consoles s) = (g, c)"
      "attend_child w p (s\<lparr>ss_kernel := k,
         ss_events := ss_events s @ [Spawned (lp_command p) (lp_size p) (ss_env s)], ss_consoles := c\<rparr>) = (r, s2)"
      "s' = release_session (sw_register_sent w = Inr () \<and> \<not> sw_threads_ended w) session
         (s2\<lparr>ss_consoles := console_guard_drop g (ss_consoles s2)\<rparr>)"
proof -
  obtain g c where gc: "enter_passthrough (sw_console_in w) (sw_console_out w) (ss_consoles s) = (g, c)" by fastforce
  obtain q s1 where q: "spawn_child w p c0 s = (q, s1)" by fastforce
  then show thesis
  proof (rule spawn_childE)
    fix e k
    assume "conpty_spawn (lp_command p) (sw_spawn w) (ss_kernel s) = (Inl e, k)"
      "q = Failed (format_launch_spawn_error c0 e)" "s1 = s\<lparr>ss_kernel := k\<rparr>"
    then show thesis using assms q that(1) by (simp add: launch_child_def sh_bind_def)
  next
    fix session k
    assume a: "conpty_spawn (lp_command p) (sw_spawn w) (ss_kernel s) = (Inr session, k)" "q = Done session"
      "s1 = s\<lparr>ss_kernel := k, ss_events := ss_events s @ [Spawned (lp_command p) (lp_size p) (ss_env s)]\<rparr>"
    let ?s = "s\<lparr>ss_kernel := k, ss_events := ss_events s @ [Spawned (lp_command p) (lp_size p) (ss_env s)], ss_consoles := c\<rparr>"
    obtain r2 s2 where "attend_child w p ?s = (r2, s2)" by fastforce
    then show thesis
      using assms q a gc that(2) [OF a(1) gc]
      by (simp add: launch_child_def sh_bind_def enter_console_def sh_finally_def)
  qed
qed

lemma release_session_simps [simp]:
  "ss_env (release_session b session s) = ss_env s" "ss_consoles (release_session b session s) = ss_consoles s"
  "ss_events (release_session b session s) = ss_events s" "ss_output (release_session b session s) = ss_output s"
  "ss_kernel (release_session b session s) = (if b then ss_kernel s else conpty_drop session (ss_kernel s))"
  by (simp_all add: release_session_def)

lemma launch_child_puts_back:
  assumes run: "launch_child w p c0 s = (r, s')"
    and consoles: "{fst (sw_console_in w), snd (sw_console_in w)} \<inter> {fst (sw_console_out w), snd (sw_console_out w)} = {}"
    and fresh: "fresh_answers (sw_spawn w) (ss_kernel s)"
  shows "ss_env s' = ss_env s \<and> ss_consoles s' = ss_consoles s \<and>
    (sw_register_sent w \<noteq> Inr () \<or> sw_threads_ended w \<longrightarrow> ps_open (ss_kernel s') = ps_open (ss_kernel s))"
  using run
proof (rule launch_childE)
  fix e k
  assume "conpty_spawn (lp_command p) (sw_spawn w) (ss_kernel s) = (Inl e, k)" "s' = s\<lparr>ss_kernel := k\<rparr>"
  then show ?thesis using spawn_closes [OF fresh, of "lp_command p"] by simp
next
  fix session k g c s2
  assume spawned: "conpty_spawn (lp_command p) (sw_spawn w) (ss_kernel s) = (Inr session, k)"
    and entered: "enter_passthrough (sw_console_in w) (sw_console_out w) (ss_consoles s) = (g, c)"
    and attend: "attend_child w p (s\<lparr>ss_kernel := k,
         ss_events := ss_events s @ [Spawned (lp_command p) (lp_size p) (ss_env s)], ss_consoles := c\<rparr>) = (r, s2)"
    and s': "s' = release_session (sw_register_sent w = Inr () \<and> \<not> sw_threads_ended w) session
         (s2\<lparr>ss_consoles := console_guard_drop g (ss_consoles s2)\<rparr>)"
  have kept: "ss_env s2 = ss_env s" "ss_consoles s2 = c" "ss_kernel s2 = k"
    using keepsD [OF attend_child_keeps(1) attend] keepsD [OF attend_child_keeps(2) attend]
      keepsD [OF attend_child_keeps(3) attend] by (simp_all add: same_def)
  obtain i c1 u c2 where g: "set_console_mode_for_std_or_device (fst (sw_console_in w)) (snd (sw_console_in w))
        input_applied_mode (ss_consoles s) = (i, c1)"
      "set_console_mode_for_std_or_device (fst (sw_console_out w)) (snd (sw_console_out w)) output_applied_mode c1 = (u, c2)"
      "g = \<lparr>cm_input = i, cm_output = u\<rparr>" "c = c2"
    using entered by (auto simp: enter_passthrough_def split: prod.splits)
  have "console_guard_drop g c = ss_consoles s" using guard_undone(1) [OF g(1,2) consoles] g(3,4) by simp
  moreover have "ps_open (conpty_drop session k) = ps_open (ss_kernel s)"
    using spawn_closes [OF fresh, of "lp_command p"] spawned by simp
  ultimately show ?thesis using kept by (auto simp: s')
qed

text \<open>A launch up to its child: nothing but the machine changes before the guards are made.\<close>

lemma run_launchE:
  assumes "run_launch w raw s = (r, s')"
  obtains m where "s' = s\<lparr>ss_machine := m\<rparr>" "\<And>code. r \<noteq> Done code"
    | p o1 m s1 g env1 s2 where "plan_launch (sw_window w) (ou_pid (sw_out w)) raw = Inr p" "parse_launch_args raw = Inr o1"
      "s1 = s\<lparr>ss_machine := m, ss_env := env1\<rparr>" "env_left w p (ss_env s) (leave_env g env1)"
      "env1 ''VIBE_BRIDGE_CAPTURED_TERMINAL'' = Some ''1''"
      "launch_child w p (lo_command o1 ! 0) s1 = (r, s2)" "s' = leave_launch_env w g s2"
proof (cases "parse_launch_args raw")
  case (Inl e)
  then show thesis using assms that(1) [of "ss_machine s"] by (auto simp: run_launch_def sh_bind_def sh_simps)
next
  case (Inr o1)
  then obtain p where p: "plan_launch (sw_window w) (ou_pid (sw_out w)) raw = Inr p"
    by (simp add: plan_launch_def Let_def)
  obtain l1 l2 where run: "sh_then (append_terminal_shim_log w l1) (sh_then (open_daemon w (lp_addr p))
      (sh_then (append_terminal_shim_log w l2) (sh_bind (enter_launch_env w p) (\<lambda>guards.
        sh_finally (launch_child w p (lo_command o1 ! 0)) (leave_launch_env w guards))))) s = (r, s')"
    using assms Inr p by (simp add: run_launch_def sh_bind_def sh_simps)
  note quiet = on_disk.keeps_machine(2) on_disk.keeps_terminal_log(3)
  from run quiet(1) show thesis
  proof (rule quiet_thenE)
    fix m1
    assume "sh_then (open_daemon w (lp_addr p)) (sh_then (append_terminal_shim_log w l2) (sh_bind (enter_launch_env w p)
        (\<lambda>guards. sh_finally (launch_child w p (lo_command o1 ! 0)) (leave_launch_env w guards)))) (s\<lparr>ss_machine := m1\<rparr>) = (r, s')"
    from this quiet(2) show thesis
    proof (rule quiet_thenE)
      fix m2
      assume "sh_then (append_terminal_shim_log w l2) (sh_bind (enter_launch_env w p)
          (\<lambda>guards. sh_finally (launch_child w p (lo_command o1 ! 0)) (leave_launch_env w guards)))
          (s\<lparr>ss_machine := m1, ss_machine := m2\<rparr>) = (r, s')"
      from this quiet(1) show thesis
      proof (rule quiet_thenE)
        fix m3
        assume "sh_bind (enter_launch_env w p) (\<lambda>guards. sh_finally (launch_child w p (lo_command o1 ! 0))
            (leave_launch_env w guards)) (s\<lparr>ss_machine := m1, ss_machine := m2, ss_machine := m3\<rparr>) = (r, s')"
        then show thesis
        proof (rule sh_bindE)
          fix g t4
          assume env: "enter_launch_env w p (s\<lparr>ss_machine := m1, ss_machine := m2, ss_machine := m3\<rparr>) = (Done g, t4)"
            and rest: "sh_finally (launch_child w p (lo_command o1 ! 0)) (leave_launch_env w g) t4 = (r, s')"
          obtain t5 where child: "launch_child w p (lo_command o1 ! 0) t4 = (r, t5)" "s' = leave_launch_env w g t5"
            using rest by (rule sh_finallyE)
          obtain m env1 where "t4 = s\<lparr>ss_machine := m, ss_env := env1\<rparr>" "env_left w p (ss_env s) (leave_env g env1)"
            "env1 ''VIBE_BRIDGE_CAPTURED_TERMINAL'' = Some ''1''"
            using launch_env [OF env] by auto
          then show thesis using that(2) p Inr child by blast
        next
          fix e
          assume env: "enter_launch_env w p (s\<lparr>ss_machine := m1, ss_machine := m2, ss_machine := m3\<rparr>) = (Failed e, s')"
            and "r = Failed e"
          then show thesis using that(1) launch_env [OF env] by auto
        next
          assume env: "enter_launch_env w p (s\<lparr>ss_machine := m1, ss_machine := m2, ss_machine := m3\<rparr>) = (Panicked, s')"
            and "r = Panicked"
          then show thesis using that(1) launch_env [OF env] by auto
        qed
      qed (use that(1) in auto)
    qed (use that(1) in auto)
  qed (use that(1) in auto)
qed


text \<open>
  C6: a launch puts everything back, however it ends, panics included. The consoles are as they
  were; the environment is as it was, except that \<open>PATH\<close> can keep the runtime shim directory of a
  captured terminal; and unless a thread of the pumps still holds the session, every kernel
  object opened is closed.
\<close>
theorem launch_puts_everything_back:
  assumes run: "run_launch w raw s = (r, s')"
    and consoles: "{fst (sw_console_in w), snd (sw_console_in w)} \<inter> {fst (sw_console_out w), snd (sw_console_out w)} = {}"
    and fresh: "fresh_answers (sw_spawn w) (ss_kernel s)"
  shows "ss_consoles s' = ss_consoles s \<and>
    (ss_env s' = ss_env s \<or>
      (\<exists>p q. plan_launch (sw_window w) (ou_pid (sw_out w)) raw = Inr p \<and> lp_kind p = ''terminal'' \<and>
         path_with (runtime_shim_dir (sw_out w) (sw_temp w) (lp_agent_id p)) (ss_env s) = Some q \<and>
         ss_env s' = (ss_env s)(''PATH'' \<mapsto> q))) \<and>
    (sw_register_sent w \<noteq> Inr () \<or> sw_threads_ended w \<longrightarrow> ps_open (ss_kernel s') = ps_open (ss_kernel s))"
  using run
proof (rule run_launchE)
  fix p o1 m s1 g env1 s2
  assume p: "plan_launch (sw_window w) (ou_pid (sw_out w)) raw = Inr p"
    and s1: "s1 = s\<lparr>ss_machine := m, ss_env := env1\<rparr>" and left: "env_left w p (ss_env s) (leave_env g env1)"
    and child: "launch_child w p (lo_command o1 ! 0) s1 = (r, s2)" and s': "s' = leave_launch_env w g s2"
  have "fresh_answers (sw_spawn w) (ss_kernel s1)" using fresh by (simp add: s1)
  note undone = launch_child_puts_back [OF child consoles this]
  obtain m2 where "s' = s2\<lparr>ss_machine := m2, ss_env := leave_env g (ss_env s2)\<rparr>"
    using leave_launch_env_eq s' by blast
  then show ?thesis using undone left p by (auto simp: s1 env_left_def)
qed simp

section \<open>What is started, and what the daemon is told\<close>

fun started :: "shim_event \<Rightarrow> bool" where
  "started (Spawned argv sz env) \<longleftrightarrow> True"
| "started (Ran argv env) \<longleftrightarrow> True"
| "started (Sent addr msg) \<longleftrightarrow> False"
| "started (Serving addr device) \<longleftrightarrow> False"

definition stream_events :: "shim_world \<Rightarrow> launch_plan \<Rightarrow> shim_event list" where
  "stream_events w p = map (\<lambda>c. Sent (lp_addr p) (stream_message (lp_agent_id p) (lp_kind p) c))
     (snd (snd (pump_output (sw_read w) True [] [])))"

definition abort_events :: "shim_world \<Rightarrow> launch_plan \<Rightarrow> shim_event list" where
  "abort_events w p = (if sw_abort_sent w = Inr () then [Sent (lp_addr p) (abort_message (lp_agent_id p) (lp_kind p))] else [])"

definition register_event :: "shim_world \<Rightarrow> launch_plan \<Rightarrow> shim_event" where
  "register_event w p = Sent (lp_addr p) (register_message (lp_agent_id p) (lp_kind p) (lp_name p) (sw_cwd w))"

lemma attend_child_events:
  assumes "attend_child w p s = (r, s')"
  shows "ss_events s' = ss_events s @
      (if sw_register_sent w \<noteq> Inr () then []
       else register_event w p # stream_events w p @ (case wait_child w of Inl _ \<Rightarrow> [] | Inr _ \<Rightarrow> abort_events w p)) \<and>
    r = (case sw_register_sent w of Inl e \<Rightarrow> Failed e
         | Inr _ \<Rightarrow> (case wait_child w of Inl e \<Rightarrow> Failed e | Inr code \<Rightarrow> Done code)) \<and>
    (sw_register_sent w = Inr () \<longrightarrow> ss_output s' = ss_output s @ fst (snd (pump_output (sw_read w) True [] [])))"
  using assms
  by (auto simp: attend_child_def sh_then_def sh_bind_def sh_or_def send_json_line_def pump_child_def sh_simps
      register_event_def stream_events_def abort_events_def case_prod_beta split: sum.splits)

lemma not_started [simp]: "filter started (stream_events w p) = []" "filter started (abort_events w p) = []"
  "\<not> started (register_event w p)"
  by (auto simp: stream_events_def abort_events_def register_event_def filter_empty_conv)

text \<open>
  What a launch does: nothing is started, or its command is, under a pseudoconsole; in that case it
  ends with the child's exit code unless the daemon was not told or waiting failed.
\<close>

lemma run_launch_events:
  assumes "run_launch w raw s = (r, s')"
  shows "(ss_events s' = ss_events s \<and> (\<forall>code. r \<noteq> Done code)) \<or>
    (\<exists>p env. plan_launch (sw_window w) (ou_pid (sw_out w)) raw = Inr p \<and>
       env ''VIBE_BRIDGE_CAPTURED_TERMINAL'' = Some ''1'' \<and>
       ss_events s' = ss_events s @ Spawned (lp_command p) (lp_size p) env #
         (if sw_register_sent w \<noteq> Inr () then []
          else register_event w p # stream_events w p @ (case wait_child w of Inl _ \<Rightarrow> [] | Inr _ \<Rightarrow> abort_events w p)) \<and>
       r = (case sw_register_sent w of Inl e \<Rightarrow> Failed e
            | Inr _ \<Rightarrow> (case wait_child w of Inl e \<Rightarrow> Failed e | Inr code \<Rightarrow> Done code)) \<and>
       (sw_register_sent w = Inr () \<longrightarrow> ss_output s' = ss_output s @ fst (snd (pump_output (sw_read w) True [] []))))"
  using assms
proof (rule run_launchE)
  fix p o1 m s1 g env1 s2
  assume p: "plan_launch (sw_window w) (ou_pid (sw_out w)) raw = Inr p"
    and s1: "s1 = s\<lparr>ss_machine := m, ss_env := env1\<rparr>" and captured: "env1 ''VIBE_BRIDGE_CAPTURED_TERMINAL'' = Some ''1''"
    and child: "launch_child w p (lo_command o1 ! 0) s1 = (r, s2)" and s': "s' = leave_launch_env w g s2"
  have ev: "ss_events s' = ss_events s2" "ss_output s' = ss_output s2" using leave_launch_env_eq [of w g s2] s' by auto
  from child show ?thesis
  proof (rule launch_childE)
    fix session k g' c s3
    assume "attend_child w p (s1\<lparr>ss_kernel := k, ss_events := ss_events s1 @ [Spawned (lp_command p) (lp_size p) (ss_env s1)],
          ss_consoles := c\<rparr>) = (r, s3)"
      "s2 = release_session (sw_register_sent w = Inr () \<and> \<not> sw_threads_ended w) session
         (s3\<lparr>ss_consoles := console_guard_drop g' (ss_consoles s3)\<rparr>)"
    then show ?thesis
      using attend_child_events [of w p _ r s3] p captured ev by (intro disjI2 exI [of _ p] exI [of _ env1]) (auto simp: s1)
  qed (use ev in \<open>simp add: s1\<close>)
qed simp


section \<open>The terminal shim\<close>

definition passed_through :: "shim_world \<Rightarrow> string list \<Rightarrow> 32 word outcome \<Rightarrow> shim_event list \<Rightarrow> bool" where
  "passed_through w command r new \<longleftrightarrow> (\<exists>env. case sw_run w command env of
     Inl e \<Rightarrow> new = [] \<and> r = Failed (''passthrough spawn '' @ hd command @ '': '' @ e)
   | Inr code \<Rightarrow> new = [Ran command env] \<and> r = Done (or_else code 1))"

lemma passed_through_started: "passed_through w command r new \<Longrightarrow> filter started new = new"
  unfolding passed_through_def by (elim exE, case_tac "sw_run w command env") simp_all

text \<open>A log line is written or the shim panics.\<close>

lemma log_thenE:
  assumes "sh_then (append_terminal_shim_log w parts) g s = (r, s')" "r \<noteq> Panicked"
  obtains m where "g (s\<lparr>ss_machine := m\<rparr>) = (r, s')"
  using assms by (auto simp: sh_then_def sh_bind_def append_terminal_shim_log_def split: if_splits)

lemmas terminal_log_thenE = log_thenE [of w "Some (''[terminal-shim] '' @ what @ '' pid='' @ show_nat (unat (ou_pid (sw_out w)))) # parts"
    for w what parts, folded terminal_log_def]

lemma passthrough_events:
  assumes "run_terminal_shim_passthrough w command reason s = (r, s')" "command \<noteq> []" "r \<noteq> Panicked"
  shows "\<exists>new. ss_events s' = ss_events s @ new \<and> passed_through w command r new"
proof -
  obtain m where m: "sh_bind (sh_get ss_env) (\<lambda>env. run_command w (\<lambda>e. ''passthrough spawn '' @ hd command @ '': '' @ e) command env)
      (s\<lparr>ss_machine := m\<rparr>) = (r, s')"
    using assms by (auto simp: run_terminal_shim_passthrough_def elim!: log_thenE)
  show ?thesis
  proof (cases "sw_run w command (ss_env s)")
    case (Inl e)
    then show ?thesis
      using m by (auto simp: sh_bind_def sh_simps run_command_def passed_through_def intro!: exI [of _ "ss_env s"])
  next
    case (Inr code)
    then show ?thesis
      using m by (auto simp: sh_bind_def sh_simps run_command_def sh_then_def passed_through_def intro!: exI [of _ "ss_env s"])
  qed
qed

lemma terminal_command_nonempty: "terminal_shim_command f o1 = Inr command \<Longrightarrow> command \<noteq> []"
  by (auto simp: terminal_shim_command_def cmd_exe_def bind_res_def split: option.splits sum.splits if_splits)

lemma shim_plan:
  assumes "command \<noteq> []"
  shows "\<exists>p. plan_launch window pid (shim_launch_args o1 command) = Inr p \<and> lp_kind p = ''terminal'' \<and>
    lp_addr p = addr_or_default (to_daemon_addr o1) \<and>
    lp_command p = maybe_wrap_wsl_terminal_command command (addr_or_default (to_daemon_addr o1)) (launch_agent_id pid)"
  using assms
  by (simp add: plan_launch_def parse_launch_args_def shim_launch_args_def size_flag_show launch_defaults_def
      addr_or_default_def or_else_def Let_def split: option.split)

lemma quiet_bindE:
  assumes "sh_bind act f s = (r, s')" "keeps on_disk act"
  obtains x m where "f x (s\<lparr>ss_machine := m\<rparr>) = (r, s')" | m where "s' = s\<lparr>ss_machine := m\<rparr>" "\<And>x. r \<noteq> Done x"
  using assms(1) by (rule sh_bindE) (use that in \<open>auto dest!: on_diskD [OF assms(2)]\<close>)

text \<open>Starting the daemon, if that is needed, works or gives the reason for passing through.\<close>

lemma launch_or_passthrough_events:
  assumes run: "launch_or_passthrough w o1 command s = (r, s')" "r \<noteq> Panicked" and command: "command \<noteq> []"
    and wrapped: "wrapped = maybe_wrap_wsl_terminal_command command (addr_or_default (to_daemon_addr o1))
      (launch_agent_id (ou_pid (sw_out w)))"
  shows "\<exists>new sz env rest. ss_events s' = ss_events s @ new \<and>
    (filter started new = [Spawned wrapped sz env] \<and> sw_register_sent w = Inr () \<and>
       (\<exists>code. wait_child w = Inr code \<and> r = Done code) \<or>
     passed_through w command r (filter started new) \<or>
     filter started new = Spawned wrapped sz env # rest \<and> passed_through w command r rest \<and>
       (sw_register_sent w \<noteq> Inr () \<or> (\<exists>e. wait_child w = Inl e)))"
proof -
  obtain p where p: "plan_launch (sw_window w) (ou_pid (sw_out w)) (shim_launch_args o1 command) = Inr p" "lp_command p = wrapped"
    using shim_plan [OF command, of "sw_window w" "ou_pid (sw_out w)" o1] wrapped by auto
  let ?launch = "run_launch w (shim_launch_args o1 command)"
  obtain m where "sh_or (sh_bind ?launch (\<lambda>code. sh_then (terminal_log w ''exit'' [Some ('' code='' @ show_nat (unat code))])
      (sh_return code))) (\<lambda>err. sh_then (terminal_log w ''launch-failed'' [Some '' action=passthrough err='', terminal_shim_log_value err])
      (run_terminal_shim_passthrough w command err)) (s\<lparr>ss_machine := m\<rparr>) = (r, s')"
    using run unfolding launch_or_passthrough_def by (elim terminal_log_thenE)
  then show ?thesis
  proof (rule sh_orE)
    assume ok: "sh_bind ?launch (\<lambda>code. sh_then (terminal_log w ''exit'' [Some ('' code='' @ show_nat (unat code))])
      (sh_return code)) (s\<lparr>ss_machine := m\<rparr>) = (r, s')" and no: "\<And>e. r \<noteq> Failed e"
    then obtain code s1 where code: "?launch (s\<lparr>ss_machine := m\<rparr>) = (Done code, s1)"
      and rest: "sh_then (terminal_log w ''exit'' [Some ('' code='' @ show_nat (unat code))]) (sh_return code) s1 = (r, s')"
      using run(2) by (elim sh_bindE) auto
    from rest run(2) obtain m2 where "sh_return code (s1\<lparr>ss_machine := m2\<rparr>) = (r, s')" by (rule terminal_log_thenE)
    then have r: "r = Done code" "ss_events s' = ss_events s1" by (auto simp: sh_simps)
    show ?thesis
      using run_launch_events [OF code] r p by (auto split: sum.splits if_splits)
  next
    fix e s1
    assume failed: "sh_bind ?launch (\<lambda>code. sh_then (terminal_log w ''exit'' [Some ('' code='' @ show_nat (unat code))])
      (sh_return code)) (s\<lparr>ss_machine := m\<rparr>) = (Failed e, s1)"
      and rest: "sh_then (terminal_log w ''launch-failed'' [Some '' action=passthrough err='', terminal_shim_log_value e])
        (run_terminal_shim_passthrough w command e) s1 = (r, s')"
    have launch: "?launch (s\<lparr>ss_machine := m\<rparr>) = (Failed e, s1)"
      using failed
    proof (rule sh_bindE)
      fix code s2
      assume "sh_then (terminal_log w ''exit'' [Some ('' code='' @ show_nat (unat code))]) (sh_return code) s2 = (Failed e, s1)"
      then show ?thesis by (rule terminal_log_thenE) (simp_all add: sh_simps)
    qed simp_all
    obtain m2 where "run_terminal_shim_passthrough w command e (s1\<lparr>ss_machine := m2\<rparr>) = (r, s')"
      using rest run(2) by (rule terminal_log_thenE)
    from passthrough_events [OF this command run(2)] obtain more where more: "ss_events s' = ss_events s1 @ more"
      "passed_through w command r more" by auto
    have "filter started more = more" using more(2) by (rule passed_through_started)
    consider "ss_events s1 = ss_events s"
      | new env where "ss_events s1 = ss_events s @ new" "filter started new = [Spawned wrapped (lp_size p) env]"
        "sw_register_sent w \<noteq> Inr () \<or> (\<exists>e. wait_child w = Inl e)"
      using run_launch_events [OF launch] p by (auto split: sum.splits if_splits)
    then show ?thesis
    proof cases
      case 1
      then show ?thesis using more \<open>filter started more = more\<close> by auto
    next
      case (2 new env)
      then show ?thesis
        using more \<open>filter started more = more\<close>
        by (intro exI [of _ "new @ more"] exI [of _ "lp_size p"] exI [of _ env] exI [of _ more]) simp
    qed
  qed
qed

text \<open>
  C7: a terminal shim always runs its command. Whenever the options are read and nothing panics,
  the command is run: under a pseudoconsole, giving the child's exit code, or as it is, or both
  one after the other, the second time when the launch failed although its child was started.
  The only other way out is that running the command as it is fails.
\<close>
theorem terminal_shim_always_runs_its_command:
  assumes run: "run_terminal_shim w raw s = (r, s')" and calm: "r \<noteq> Panicked"
    and opts: "parse_terminal_shim_args raw = Inr o1" "terminal_shim_command (sw_utf8_error w) o1 = Inr command"
    and wrapped: "wrapped = maybe_wrap_wsl_terminal_command command (addr_or_default (to_daemon_addr o1))
      (launch_agent_id (ou_pid (sw_out w)))"
  shows "\<exists>new sz env rest. ss_events s' = ss_events s @ new \<and>
    (filter started new = [Spawned wrapped sz env] \<and> sw_register_sent w = Inr () \<and>
       (\<exists>code. wait_child w = Inr code \<and> r = Done code) \<or>
     passed_through w command r (filter started new) \<or>
     filter started new = Spawned wrapped sz env # rest \<and> passed_through w command r rest \<and>
       (sw_register_sent w \<noteq> Inr () \<or> (\<exists>e. wait_child w = Inl e)))"
proof -
  have command: "command \<noteq> []" using opts(2) by (rule terminal_command_nonempty)
  let ?addr = "addr_or_default (to_daemon_addr o1)"
  let ?ensure = "sh_or (sh_bind (on_machine (ensure_daemon_listening (sw_out w) ?addr)) (\<lambda>_. sh_return None))
    (\<lambda>err. sh_return (Some err))"
  obtain m1 m2 where "sh_bind ?ensure (\<lambda>failed. case failed of
        Some err \<Rightarrow> sh_then (terminal_log w ''daemon-failed'' [Some '' daemon='', terminal_shim_log_value ?addr,
            Some '' action=passthrough err='', terminal_shim_log_value err]) (run_terminal_shim_passthrough w command err)
      | None \<Rightarrow> sh_then (terminal_log w ''daemon-ready'' [Some '' daemon='', terminal_shim_log_value ?addr])
          (launch_or_passthrough w o1 command)) (s\<lparr>ss_machine := m1, ss_machine := m2\<rparr>) = (r, s')"
    using run calm unfolding run_terminal_shim_def opts(1) sum.case Let_def opts(2) by (elim terminal_log_thenE)
  then show ?thesis
  proof (rule sh_bindE)
    fix failed s1
    assume ensured: "?ensure (s\<lparr>ss_machine := m1, ss_machine := m2\<rparr>) = (Done failed, s1)"
      and rest: "(case failed of
        Some err \<Rightarrow> sh_then (terminal_log w ''daemon-failed'' [Some '' daemon='', terminal_shim_log_value ?addr,
            Some '' action=passthrough err='', terminal_shim_log_value err]) (run_terminal_shim_passthrough w command err)
      | None \<Rightarrow> sh_then (terminal_log w ''daemon-ready'' [Some '' daemon='', terminal_shim_log_value ?addr])
          (launch_or_passthrough w o1 command)) s1 = (r, s')"
    have "keeps on_disk ?ensure"
      by (intro on_disk.keeps_or on_disk.keeps_bind on_disk.keeps_machine on_disk.keeps_basic)
    from on_diskD [OF this ensured] obtain m3 where s1: "s1 = s\<lparr>ss_machine := m3\<rparr>" by auto
    show ?thesis
    proof (cases failed)
      case None
      obtain m4 where "launch_or_passthrough w o1 command (s1\<lparr>ss_machine := m4\<rparr>) = (r, s')"
        using rest calm None by (auto elim: terminal_log_thenE)
      from launch_or_passthrough_events [OF this calm command wrapped] show ?thesis by (simp add: s1)
    next
      case (Some err)
      obtain m4 where "run_terminal_shim_passthrough w command err (s1\<lparr>ss_machine := m4\<rparr>) = (r, s')"
        using rest calm Some by (auto elim: terminal_log_thenE)
      from passthrough_events [OF this command calm] passed_through_started show ?thesis by (auto simp: s1)
    qed
  qed (use calm in \<open>auto simp: sh_or_def sh_bind_def on_machine_def sh_simps sh_of_def split: prod.splits sum.splits outcome.splits\<close>)
qed

section \<open>Two runs\<close>

definition sample_spawn :: spawn_answers where
  "sample_spawn = \<lparr>sa_in_pipe = Inr (4, 8), sa_out_pipe = Inr (12, 16), sa_console = (0, 1),
      sa_list_size = Inr 48, sa_list_init = None, sa_list_update = None, sa_process = Inr (20, 24)\<rparr>"

definition sample_world :: "unit result \<Rightarrow> shim_world" where
  "sample_world registered = \<lparr>sw_out = quiet_system\<lparr>ou_env := Map.empty\<rparr>, sw_cwd = ''C'', sw_temp = ''T'', sw_window = None,
     sw_connect = (\<lambda>_. Inr ()), sw_nodelay = Inr (), sw_clone = Inr (), sw_spawn = sample_spawn,
     sw_console_in = (0, 5), sw_console_out = (7, 8), sw_register_sent = registered, sw_abort_sent = Inr (),
     sw_read = [(Inr [104, 105], True), (Inl 109, True)], sw_wait = Inr (), sw_exit = Inr 5, sw_threads_ended = True,
     sw_os_error = (\<lambda>_. ''error''), sw_utf8_error = (\<lambda>_. ''error''), sw_device = Inr None, sw_open_device = (\<lambda>_. Inr ()),
     sw_serve = (\<lambda>_ _. Inr ()), sw_run = (\<lambda>_ _. Inr (Some 3))\<rparr>"

definition sample_shim :: shim_state where
  "sample_shim = \<lparr>ss_machine = \<lparr>mc_files = Map.empty, mc_dirs = {}, mc_wsl_runs = []\<rparr>, ss_env = [''PATH'' \<mapsto> ''B''],
     ss_consoles = sample_consoles, ss_kernel = \<lparr>ps_open = [], ps_misuse = False, ps_started = []\<rparr>, ss_output = [], ss_events = []\<rparr>"




lemma cmd_not_wrapped: "maybe_wrap_wsl_terminal_command [''cmd.exe''] a b = [''cmd.exe'']"
proof -
  have "wsl_command_tokens [''cmd.exe''] = None" by code_simp
  then show ?thesis by (simp add: maybe_wrap_wsl_terminal_command_def parse_simple_wsl_command_def)
qed

lemma sample_plan:
  "plan_launch None 7 (shim_launch_args (terminal_shim_defaults\<lparr>to_command := [''cmd.exe'']\<rparr>) [''cmd.exe'']) = Inr
    \<lparr>lp_addr = DEFAULT_ADDR, lp_kind = ''terminal'', lp_agent_id = launch_agent_id 7, lp_name = ''Vibe Terminal #'' @ show_nat 7,
      lp_size = (DEFAULT_LCD_COLS, DEFAULT_LCD_ROWS), lp_command = [''cmd.exe'']\<rparr>"
proof -
  show ?thesis
    by (simp add: plan_launch_def parse_launch_args_def shim_launch_args_def size_flag_show launch_defaults_def cmd_not_wrapped
      terminal_shim_defaults_def addr_or_default_def or_else_def Let_def launch_name_def effective_conpty_size_def)
qed

lemma agent_plan:
  "plan_launch None 7 [''--kind'', ''codex'', ''--'', ''codex.exe''] = Inr
    \<lparr>lp_addr = DEFAULT_ADDR, lp_kind = ''codex'', lp_agent_id = ''launch-7'', lp_name = ''codex'',
      lp_size = (DEFAULT_LCD_COLS, DEFAULT_LCD_ROWS), lp_command = [''codex.exe'']\<rparr>"
proof -
  have "launch_agent_id 7 = ''launch-7''" "command_stem ''codex.exe'' = Some ''codex''" by code_simp+
  then show ?thesis
    by (simp add: plan_launch_def parse_launch_args_def launch_defaults_def
      addr_or_default_def or_else_def Let_def launch_name_def effective_conpty_size_def)
qed
lemma sample_log: "append_terminal_shim_log (sample_world b) parts s = (if None \<in> set parts then Panicked else Done (), s)"
  by (simp add: append_terminal_shim_log_def log_line_def local_appdata_dir_def env_path_def sample_world_def quiet_system_def)

lemma sample_spawned:
  "conpty_spawn [''codex.exe''] sample_spawn (ss_kernel sample_shim) =
     (Inr \<lparr>cs_stdin_write = 8, cs_stdout_read = 12, cs_pty = 1, cs_process = 20, cs_thread = 24, cs_attrs = True\<rparr>,
      \<lparr>ps_open = [Handle 8, Handle 12, PseudoConsole 1, AttributeList, Handle 20, Handle 24], ps_misuse = False,
       ps_started = [''codex.exe'']\<rparr>)"
  by code_simp

definition sample_child :: launch_plan where "sample_child = \<lparr>lp_addr = DEFAULT_ADDR, lp_kind = ''codex'', lp_agent_id = ''launch-7'', lp_name = ''codex'',
      lp_size = (DEFAULT_LCD_COLS, DEFAULT_LCD_ROWS), lp_command = [''codex.exe'']\<rparr>"
definition sample_shim1 :: shim_state where
  "sample_shim1 = sample_shim\<lparr>ss_env := [''PATH'' \<mapsto> ''B'', ''VIBE_BRIDGE_LAUNCH_AGENT_ID'' \<mapsto> ''launch-7'', ''VIBE_BRIDGE_CAPTURED_TERMINAL'' \<mapsto> ''1'']\<rparr>"
lemma sample_child_runs: "\<exists>s'. launch_child (sample_world (Inr ())) sample_child c sample_shim1 = (Done 5, s')"
proof -
  let ?w = "sample_world (Inr ())"
  obtain r s' where run: "launch_child ?w sample_child c sample_shim1 = (r, s')" by fastforce
  have "wait_child ?w = Inr 5" by (simp add: wait_child_def conpty_wait_def sample_world_def)
  with run have "r = Done 5"
    by (elim launch_childE) (use sample_spawned in \<open>auto simp: sample_shim1_def sample_world_def sample_child_def dest!: attend_child_events\<close>)
  with run show ?thesis by simp
qed
lemma sample_enters: "\<exists>g. enter_launch_env (sample_world (Inr ())) sample_child sample_shim = (Done g, sample_shim1)"
  by (simp add: enter_launch_env_def sample_child_def sh_bind_def sh_simps set_var_def env_guard_set_def sample_shim1_def sample_shim_def)
lemma sample_open: "open_daemon (sample_world b) addr s = (Done (), s)"
  by (simp add: open_daemon_def sample_world_def sh_simps)

lemma short_value_logged: "length v \<le> 240 \<Longrightarrow> None \<noteq> terminal_shim_log_value v"
  by (simp add: terminal_shim_log_value_def Let_def)

lemma sample_launch: "\<exists>s'. run_launch (sample_world (Inr ())) [''--kind'', ''codex'', ''--'', ''codex.exe''] sample_shim = (Done 5, s')"
proof -
  let ?w = "sample_world (Inr ())"
  obtain o1 where o1: "parse_launch_args [''--kind'', ''codex'', ''--'', ''codex.exe''] = Inr o1"
    by (simp add: parse_launch_args_def)
  obtain g where "enter_launch_env ?w sample_child sample_shim = (Done g, sample_shim1)" using sample_enters by blast
  moreover obtain s' where "launch_child ?w sample_child (lo_command o1 ! 0) sample_shim1 = (Done 5, s')" using sample_child_runs by blast
  moreover have "plan_launch (sw_window ?w) (ou_pid (sw_out ?w)) [''--kind'', ''codex'', ''--'', ''codex.exe''] = Inr sample_child"
    using agent_plan by (simp add: sample_child_def sample_world_def quiet_system_def)
  ultimately show ?thesis
    using o1 by (simp add: run_launch_def sh_bind_def sh_then_def sh_simps sample_log sample_open sh_finally_def sample_child_def
      short_value_logged DEFAULT_ADDR_def)
qed

definition deaf_world :: shim_world where
  "deaf_world = sample_world (Inr ())\<lparr>sw_connect := (\<lambda>_. Inl ''refused'')\<rparr>"

lemma deaf_log: "append_terminal_shim_log deaf_world parts s = (if None \<in> set parts then Panicked else Done (), s)"
  by (simp add: append_terminal_shim_log_def log_line_def local_appdata_dir_def env_path_def deaf_world_def sample_world_def quiet_system_def)

lemma deaf_launch:
  "run_launch deaf_world (shim_launch_args (terminal_shim_defaults\<lparr>to_command := [''cmd.exe'']\<rparr>) [''cmd.exe'']) s =
    (Failed (''connect daemon at '' @ DEFAULT_ADDR @ '': refused''), s)"
proof -
  let ?raw = "shim_launch_args (terminal_shim_defaults\<lparr>to_command := [''cmd.exe'']\<rparr>) [''cmd.exe'']"
  obtain o1 where o1: "parse_launch_args ?raw = Inr o1"
    by (simp add: parse_launch_args_def shim_launch_args_def size_flag_show terminal_shim_defaults_def)
  have "launch_agent_id 7 = ''launch-7''" "show_nat 7 = ''7''" by code_simp+
  moreover have "plan_launch (sw_window deaf_world) (ou_pid (sw_out deaf_world)) ?raw = Inr
    \<lparr>lp_addr = DEFAULT_ADDR, lp_kind = ''terminal'', lp_agent_id = launch_agent_id 7, lp_name = ''Vibe Terminal #'' @ show_nat 7,
      lp_size = (DEFAULT_LCD_COLS, DEFAULT_LCD_ROWS), lp_command = [''cmd.exe'']\<rparr>"
    using sample_plan by (simp add: deaf_world_def sample_world_def quiet_system_def)
  ultimately show ?thesis
    using o1 by (simp add: run_launch_def sh_bind_def sh_then_def sh_simps deaf_log short_value_logged DEFAULT_ADDR_def
      open_daemon_def) (simp add: deaf_world_def sh_simps)
qed

lemma deaf_shim:
  "\<exists>s'. run_terminal_shim deaf_world [''cmd.exe''] sample_shim = (Done 3, s')"
proof -
  have parsed: "parse_terminal_shim_args [''cmd.exe''] = Inr (terminal_shim_defaults\<lparr>to_command := [''cmd.exe'']\<rparr>)"
    "terminal_shim_command f (terminal_shim_defaults\<lparr>to_command := [''cmd.exe'']\<rparr>) = Inr [''cmd.exe'']" for f
    by (simp_all add: parse_terminal_shim_args_def terminal_shim_command_def terminal_shim_defaults_def starts_with_def)
  have logged: "terminal_shim_log_args [''cmd.exe''] = Some ''[cmd.exe]''" "terminal_shim_log_command [''cmd.exe''] = Some ''[cmd.exe]''"
    by code_simp+
  have ready: "ensure_daemon_listening (sw_out deaf_world) addr m = (Inr (), m)" for addr m
    by (simp add: ensure_daemon_listening_def ensure_daemon_listening_with_exe_def this_exe_def io_bind_def io_simps
      deaf_world_def sample_world_def quiet_system_def)
  have runs: "sw_run deaf_world c e = Inr (Some 3)" for c e by (simp add: deaf_world_def sample_world_def)
  let ?o = "terminal_shim_defaults\<lparr>to_command := [''cmd.exe'']\<rparr>"
  have fields: "to_daemon_addr ?o = None" "to_name ?o = None"
    by (simp_all add: terminal_shim_defaults_def)
  have "run_terminal_shim_passthrough deaf_world [''cmd.exe''] ''connect daemon at 127.0.0.1:8765: refused'' s = (Done 3,
      s\<lparr>ss_events := ss_events s @ [Ran [''cmd.exe''] (ss_env s)]\<rparr>)" for s
    by (simp add: run_terminal_shim_passthrough_def deaf_log short_value_logged logged run_command_def runs sh_then_def
      sh_bind_def sh_simps or_else_def)
  then have "launch_or_passthrough deaf_world ?o [''cmd.exe''] s = (Done 3, s\<lparr>ss_events := ss_events s @ [Ran [''cmd.exe''] (ss_env s)]\<rparr>)" for s
    by (simp add: launch_or_passthrough_def deaf_launch terminal_log_def deaf_log short_value_logged logged sh_then_def
      sh_bind_def sh_or_def fields or_else_def DEFAULT_ADDR_def)
  then show ?thesis
    by (simp add: run_terminal_shim_def parsed terminal_log_def deaf_log sh_then_def sh_bind_def sh_or_def sh_simps logged
      addr_or_default_def fields or_else_def DEFAULT_ADDR_def short_value_logged parsed_log_def on_machine_def ready Let_def)
qed

theorem launch_puts_everything_back_witness:
  "\<exists>s'. run_launch (sample_world (Inr ())) [''--kind'', ''codex'', ''--'', ''codex.exe''] sample_shim = (Done 5, s') \<and>
    ss_consoles s' = sample_consoles \<and> ss_env s' = [''PATH'' \<mapsto> ''B''] \<and> ps_open (ss_kernel s') = []"
proof -
  let ?w = "sample_world (Inr ())"
  obtain s' where run: "run_launch ?w [''--kind'', ''codex'', ''--'', ''codex.exe''] sample_shim = (Done 5, s')"
    using sample_launch by blast
  have consoles: "{fst (sw_console_in ?w), snd (sw_console_in ?w)} \<inter> {fst (sw_console_out ?w), snd (sw_console_out ?w)} = {}"
    by (simp add: sample_world_def)
  have "fresh_answers sample_spawn (ss_kernel sample_shim)" by code_simp
  then have fresh: "fresh_answers (sw_spawn ?w) (ss_kernel sample_shim)" by (simp add: sample_world_def)
  have kind: "plan_launch (sw_window ?w) (ou_pid (sw_out ?w)) [''--kind'', ''codex'', ''--'', ''codex.exe''] = Inr sample_child"
    using agent_plan by (simp add: sample_child_def sample_world_def quiet_system_def)
  have "sw_threads_ended ?w" by (simp add: sample_world_def)
  then show ?thesis
    using run launch_puts_everything_back [OF run consoles fresh] kind
    by (simp add: sample_shim_def) (simp add: sample_child_def)
qed

theorem terminal_shim_always_runs_its_command_witness:
  "\<exists>s' sz env rest new. run_terminal_shim deaf_world [''cmd.exe''] sample_shim = (Done 3, s') \<and> ss_events s' = new \<and>
    (passed_through deaf_world [''cmd.exe''] (Done 3) (filter started new) \<or>
     filter started new = Spawned [''cmd.exe''] sz env # rest \<and> passed_through deaf_world [''cmd.exe''] (Done 3) rest)"
proof -
  obtain s' where run: "run_terminal_shim deaf_world [''cmd.exe''] sample_shim = (Done 3, s')"
    using deaf_shim by blast
  let ?o = "terminal_shim_defaults\<lparr>to_command := [''cmd.exe'']\<rparr>"
  have parsed: "parse_terminal_shim_args [''cmd.exe''] = Inr ?o" "terminal_shim_command (sw_utf8_error deaf_world) ?o = Inr [''cmd.exe'']"
    by (simp_all add: parse_terminal_shim_args_def terminal_shim_command_def terminal_shim_defaults_def starts_with_def)
  have wrapped: "[''cmd.exe''] = maybe_wrap_wsl_terminal_command [''cmd.exe''] (addr_or_default (to_daemon_addr ?o))
      (launch_agent_id (ou_pid (sw_out deaf_world)))"
    by (simp add: cmd_not_wrapped)
  have "wait_child deaf_world = Inr 5" by (simp add: wait_child_def conpty_wait_def deaf_world_def sample_world_def)
  with terminal_shim_always_runs_its_command [OF run _ parsed wrapped] run show ?thesis
    by (simp add: sample_shim_def) blast
qed

end
