(* ===== verification/Shim_Messages.thy ===== *)
theory Shim_Messages
  imports Shim_Properties
begin

text \<open>
  What the commands tell the daemon, and which program the agent shim runs: every message is a
  request about the process's own agent, a launch that succeeds comes and goes on the daemon's
  side, and an agent of a captured terminal that cannot be started is left there.
\<close>

section \<open>The real agent\<close>

text \<open>The directories searched: those of the path but the shim's own.\<close>

definition own_shim_dir :: "outside \<Rightarrow> environment \<Rightarrow> string \<Rightarrow> bool" where
  "own_shim_dir w env dir \<longleftrightarrow> (case env ''VIBE_BRIDGE_SHIM_DIR'' of None \<Rightarrow> False | Some own \<Rightarrow> same_path w dir own)"

definition names_of_agent :: "environment \<Rightarrow> string \<Rightarrow> string list" where
  "names_of_agent env kind = agent_names kind (or_else (env ''PATHEXT'') DEFAULT_PATHEXT)"

definition no_file :: "machine \<Rightarrow> string \<Rightarrow> string list \<Rightarrow> bool" where
  "no_file m dir names \<longleftrightarrow> list_all (\<lambda>name. \<not> is_file (path_join dir name) m) names"

definition found_in :: "machine \<Rightarrow> string \<Rightarrow> string list \<Rightarrow> string \<Rightarrow> bool" where
  "found_in m dir names p \<longleftrightarrow> (\<exists>first name rest. names = first @ name # rest \<and> p = path_join dir name \<and>
     is_file p m \<and> no_file m dir first)"

lemma found_in_steps:
  "is_file (path_join dir n) m \<Longrightarrow> found_in m dir (n # ns) (path_join dir n)"
  "\<not> is_file (path_join dir n) m \<Longrightarrow> found_in m dir ns p \<Longrightarrow> found_in m dir (n # ns) p"
proof -
  show "is_file (path_join dir n) m \<Longrightarrow> found_in m dir (n # ns) (path_join dir n)"
    unfolding found_in_def no_file_def by (intro exI [of _ "[]"] exI [of _ n] exI [of _ ns]) simp
  assume no: "\<not> is_file (path_join dir n) m" and "found_in m dir ns p"
  then obtain first name rest where "ns = first @ name # rest" "p = path_join dir name" "is_file p m" "no_file m dir first"
    unfolding found_in_def by blast
  then show "found_in m dir (n # ns) p"
    unfolding found_in_def no_file_def
    using no by (intro exI [of _ "n # first"] exI [of _ name] exI [of _ rest]) simp
qed

lemma first_file_spec:
  "case first_file m dir names of None \<Rightarrow> no_file m dir names | Some p \<Rightarrow> found_in m dir names p"
  by (induction names) (auto simp: found_in_steps no_file_def split: option.splits)

text \<open>Nothing in the directories before, and found in this one.\<close>

definition found_on :: "machine \<Rightarrow> (string \<Rightarrow> bool) \<Rightarrow> string list \<Rightarrow> string list \<Rightarrow> string \<Rightarrow> bool" where
  "found_on m skip names dirs p \<longleftrightarrow> (\<exists>before dir after. dirs = before @ dir # after \<and> \<not> skip dir \<and>
     found_in m dir names p \<and> list_all (\<lambda>d. skip d \<or> no_file m d names) before)"

lemma found_on_steps:
  "\<not> skip d \<Longrightarrow> found_in m d names p \<Longrightarrow> found_on m skip names (d # ds) p"
  "skip d \<or> no_file m d names \<Longrightarrow> found_on m skip names ds p \<Longrightarrow> found_on m skip names (d # ds) p"
proof -
  show "\<not> skip d \<Longrightarrow> found_in m d names p \<Longrightarrow> found_on m skip names (d # ds) p"
    unfolding found_on_def by (intro exI [of _ "[]"] exI [of _ d] exI [of _ ds]) simp
  assume no: "skip d \<or> no_file m d names" and "found_on m skip names ds p"
  then obtain before dir after where "ds = before @ dir # after" "\<not> skip dir" "found_in m dir names p"
    "list_all (\<lambda>d. skip d \<or> no_file m d names) before"
    unfolding found_on_def by blast
  then show "found_on m skip names (d # ds) p"
    unfolding found_on_def using no by (intro exI [of _ "d # before"] exI [of _ dir] exI [of _ after]) simp
qed

lemma search_path_spec:
  "case search_path m skip names dirs of
     None \<Rightarrow> list_all (\<lambda>d. skip d \<or> no_file m d names) dirs | Some p \<Rightarrow> found_on m skip names dirs p"
proof (induction dirs)
  case (Cons d ds)
  then show ?case
    using first_file_spec [where m = m and dir = d and names = names] by (auto simp: found_on_steps split: option.splits)
qed simp

text \<open>
  C27: the program the agent shim runs is the first of its name on \<open>PATH\<close>: in the order of the
  directories, and within one in the order of the bare name and the extensions of \<open>PATHEXT\<close>, the
  shim's own directory left out; and none is found only if there is none.
\<close>
theorem agent_shim_finds_the_first_real_agent:
  assumes "env ''PATH'' = Some path"
  shows "case find_real_windows_agent w env m kind of
      None \<Rightarrow> list_all (\<lambda>d. own_shim_dir w env d \<or> no_file m d (names_of_agent env kind)) (split_paths path)
    | Some p \<Rightarrow> found_on m (own_shim_dir w env) (names_of_agent env kind) (split_paths path) p"
  using search_path_spec [where m = m and skip = "own_shim_dir w env" and names = "names_of_agent env kind" and dirs = "split_paths path"] assms
  by (simp add: find_real_windows_agent_def names_of_agent_def own_shim_dir_def [abs_def] split: option.splits)

section \<open>Messages\<close>

text \<open>A request the daemon reads, about the agent with this identifier.\<close>

definition request_about :: "string \<Rightarrow> json \<Rightarrow> bool" where
  "request_about agent_id j \<longleftrightarrow>
    (case envelope_of_json j of
       None \<Rightarrow> False
     | Some e \<Rightarrow>
         en_type e = ''agent.register'' \<and> map_option rp_agent_id (en_agent e) = Some agent_id \<or>
         en_type e = ''terminal.stream'' \<and> map_option ts_agent_id (en_stream e) = Some agent_id \<or>
         en_type e = ''session.abort'' \<and> map_option ab_agent_id (en_abort e) = Some agent_id)"

lemma requests_about [simp]:
  "request_about id1 (register_message id1 kind name cwd)"
  "request_about id1 (attached_register_message id1 kind cwd parent)"
  "request_about id1 (stream_message id1 kind chunk)"
  "request_about id1 (abort_message id1 kind)"
  by (simp_all add: request_about_def read_register read_attached_register read_stream read_abort)

fun own_event :: "string \<Rightarrow> shim_event \<Rightarrow> bool" where
  "own_event agent_id (Sent addr j) \<longleftrightarrow> request_about agent_id j"
| "own_event agent_id (Spawned argv sz env) \<longleftrightarrow> True"
| "own_event agent_id (Ran argv env) \<longleftrightarrow> True"
| "own_event agent_id (Serving addr device) \<longleftrightarrow> True"

abbreviation speaks_for_itself :: "shim_world \<Rightarrow> 'a shim \<Rightarrow> bool" where
  "speaks_for_itself w \<equiv> keeps (adds (own_event (launch_agent_id (ou_pid (sw_out w)))))"

lemma planned_agent: "plan_launch window pid raw = Inr p \<Longrightarrow> lp_agent_id p = launch_agent_id pid"
  by (auto simp: plan_launch_def Let_def bind_res_def split: sum.splits)

lemma speaks_launch: "speaks_for_itself w (run_launch w raw)"
proof (rule keepsI)
  fix s r s'
  assume run: "run_launch w raw s = (r, s')"
  have streams: "list_all (own_event (lp_agent_id p)) (stream_events w p)" for p
    by (auto simp: stream_events_def list_all_iff)
  have ends: "list_all (own_event (lp_agent_id p)) (abort_events w p)" "own_event (lp_agent_id p) (register_event w p)" for p
    by (simp_all add: abort_events_def register_event_def)
  show "adds (own_event (launch_agent_id (ou_pid (sw_out w)))) s s'"
    using run_launch_events [OF run]
  proof (elim disjE exE conjE)
    assume "ss_events s' = ss_events s"
    then show ?thesis by (simp add: adds_def)
  next
    fix p env
    assume p: "plan_launch (sw_window w) (ou_pid (sw_out w)) raw = Inr p"
      and ev: "ss_events s' = ss_events s @ Spawned (lp_command p) (lp_size p) env #
         (if sw_register_sent w \<noteq> Inr () then []
          else register_event w p # stream_events w p @ (case wait_child w of Inl _ \<Rightarrow> [] | Inr _ \<Rightarrow> abort_events w p))"
    show ?thesis
      unfolding adds_def ev planned_agent [OF p, symmetric] using streams ends by (auto split: sum.splits)
  qed
qed

lemma speaks_event: "own_event (launch_agent_id (ou_pid (sw_out w))) e \<Longrightarrow> speaks_for_itself w (sh_event e)"
  by (simp add: keeps_def adds_def sh_simps)

lemma speaks_send:
  "request_about (launch_agent_id (ou_pid (sw_out w))) j \<Longrightarrow> speaks_for_itself w (send_json_line addr sent j)"
  unfolding send_json_line_def by (intro adds.keeps_cases adds.keeps_basic speaks_event) simp

lemma speaks_run: "speaks_for_itself w (run_command w' describe command env)"
  unfolding run_command_def by (intro adds.keeps_cases adds.keeps_then adds.keeps_basic speaks_event) simp

lemmas speaks_intros = speaks_launch speaks_send speaks_run adds.keeps_cases adds.keeps_then adds.keeps_bind adds.keeps_or
  adds.keeps_machine adds.keeps_terminal_log adds.keeps_basic requests_about

lemma speaks_passthrough: "speaks_for_itself w (run_terminal_shim_passthrough w command reason)"
  unfolding run_terminal_shim_passthrough_def by (intro speaks_intros)

lemma speaks_terminal: "speaks_for_itself w (run_terminal_shim w raw)"
  unfolding run_terminal_shim_def Let_def launch_or_passthrough_def by (intro speaks_intros speaks_passthrough)

lemma speaks_attached: "speaks_for_itself w (run_attached_agent_shim w kind addr parent command)"
  unfolding run_attached_agent_shim_def Let_def by (intro speaks_intros)

lemma speaks_agent: "speaks_for_itself w (run_agent_shim w raw)"
  unfolding run_agent_shim_def Let_def
  by (intro speaks_intros) (auto intro!: speaks_intros speaks_attached split: bool.split option.split)

lemma speaks_wsl: "speaks_for_itself w (run_wsl_shim w raw)"
  unfolding run_wsl_shim_def Let_def by (intro speaks_intros)

lemma speaks_start: "speaks_for_itself w (run_start w raw)"
  unfolding run_start_def Let_def by (intro speaks_intros speaks_event) simp

lemma speaks_serve: "speaks_for_itself w (run_serve_hid w addr device)"
  "speaks_for_itself w (sh_then (sh_event (Serving addr device)) (sh_of r))"
  unfolding run_serve_hid_def by (intro speaks_intros speaks_event; simp)+

lemma speaks_product: "speaks_for_itself w (run_product_action w hook_js action)"
  unfolding run_product_action_def by (cases action) (simp_all add: adds.keeps_machine)

lemma says_nothing: "keeps (adds P) act \<Longrightarrow> adds P s (snd (act s))"
  by (simp add: keeps_def)

lemma ends_state [simp]: "snd (ends name good r) = snd r" "snd (announcing ls q) = snd q"
  by (simp_all add: ends_def announcing_def split: prod.split outcome.split ending.split)

section \<open>An agent of a captured terminal\<close>

text \<open>What an action told the daemon.\<close>

definition messages :: "shim_event list \<Rightarrow> json list" where
  "messages es = concat (map (\<lambda>e. case e of Sent addr j \<Rightarrow> [j] | _ \<Rightarrow> []) es)"

definition since :: "shim_state \<Rightarrow> shim_state \<Rightarrow> shim_event list" where
  "since s s' = drop (length (ss_events s)) (ss_events s')"

abbreviation told :: "shim_state \<Rightarrow> shim_state \<Rightarrow> json list" where
  "told s s' \<equiv> messages (since s s')"

lemma messages_simps [simp]:
  "messages [] = []" "messages (Sent addr j # es) = j # messages es" "messages (Spawned argv sz env # es) = messages es"
  "messages (Ran argv env # es) = messages es" "messages (es @ fs) = messages es @ messages fs"
  by (simp_all add: messages_def)

lemma since_new [simp]: "ss_events s' = ss_events s @ new \<Longrightarrow> since s s' = new"
  by (simp add: since_def)

lemma attached_events:
  assumes "run_attached_agent_shim w kind addr parent command s = (r, s')"
  defines "id1 \<equiv> launch_agent_id (ou_pid (sw_out w))"
  defines "reg \<equiv> Sent addr (attached_register_message id1 kind (sw_cwd w) parent)"
  shows "(since s s' = [] \<or> since s s' = [reg]) \<and> (\<forall>code. r \<noteq> Done code) \<or>
    (\<exists>env. since s s' = [reg, Ran command env] @
       (if sw_abort_sent w = Inr () then [Sent addr (abort_message id1 kind)] else []))"
proof -
  let ?rest = "\<lambda>code. sh_then (sh_or (send_json_line addr (sw_abort_sent w) (abort_message id1 kind)) (\<lambda>_. sh_return ()))
    (sh_then (append_terminal_shim_log w
      [Some (''[agent-shim] attached exit pid='' @ show_nat (unat (ou_pid (sw_out w))) @ '' kind=''), terminal_shim_log_value kind,
       Some ('' code='' @ show_nat (unat code))]) (sh_return code))"
  let ?child = "if command = [] then sh_fail (''no resolved command for '' @ kind)
    else sh_bind (sh_get ss_env) (\<lambda>env. sh_bind (run_command w (\<lambda>e. ''spawn attached '' @ kind @ '': '' @ e) command
        (env(''VIBE_BRIDGE_DAEMON'' \<mapsto> addr, ''VIBE_BRIDGE_LAUNCH_AGENT_ID'' \<mapsto> id1))) ?rest)"
  obtain parts where run: "sh_then (append_terminal_shim_log w parts) (sh_then (open_daemon w addr)
      (sh_then (send_json_line addr (sw_register_sent w) (attached_register_message id1 kind (sw_cwd w) parent)) ?child)) s = (r, s')"
    using assms(1) unfolding run_attached_agent_shim_def Let_def id1_def by blast
  have ended: "ss_events s' = ss_events t @ (if sw_abort_sent w = Inr () then [Sent addr (abort_message id1 kind)] else [])"
    if "?rest code t = (r, s')" for t code
    using that
    by (auto simp: sh_then_def sh_bind_def sh_or_def send_json_line_def sh_simps append_terminal_shim_log_def
        split: sum.splits if_splits)
  from run on_disk.keeps_machine(2) show ?thesis
  proof (rule quiet_thenE)
    fix m
    assume "sh_then (open_daemon w addr) (sh_then (send_json_line addr (sw_register_sent w)
      (attached_register_message id1 kind (sw_cwd w) parent)) ?child) (s\<lparr>ss_machine := m\<rparr>) = (r, s')"
    from this on_disk.keeps_terminal_log(3) show ?thesis
    proof (rule quiet_thenE)
      fix m2
      assume "sh_then (send_json_line addr (sw_register_sent w) (attached_register_message id1 kind (sw_cwd w) parent)) ?child
        (s\<lparr>ss_machine := m, ss_machine := m2\<rparr>) = (r, s')"
      then show ?thesis
      proof (rule sh_thenE)
        fix t
        assume "send_json_line addr (sw_register_sent w) (attached_register_message id1 kind (sw_cwd w) parent)
          (s\<lparr>ss_machine := m, ss_machine := m2\<rparr>) = (Done (), t)" and c: "?child t = (r, s')"
        then have t: "ss_events t = ss_events s @ [reg]"
          by (auto simp: send_json_line_def sh_simps reg_def split: sum.splits)
        show ?thesis
        proof (cases "command = []")
          case True
          then show ?thesis using c t by (auto simp: sh_simps)
        next
          case False
          define env where "env = (ss_env t)(''VIBE_BRIDGE_DAEMON'' \<mapsto> addr, ''VIBE_BRIDGE_LAUNCH_AGENT_ID'' \<mapsto> id1)"
          show ?thesis
          proof (cases "sw_run w command env")
            case (Inl e)
            then show ?thesis using c t False by (auto simp: sh_bind_def run_command_def sh_simps env_def)
          next
            case (Inr code)
            then have "?rest (or_else code 1) (t\<lparr>ss_events := ss_events t @ [Ran command env]\<rparr>) = (r, s')"
              using c False by (auto simp: sh_bind_def run_command_def sh_simps sh_then_def env_def)
            from ended [OF this] show ?thesis using t by (intro disjI2 exI [of _ env]) auto
          qed
        qed
      qed (auto simp: send_json_line_def sh_simps split: sum.splits)
    qed (auto simp: since_def)
  qed (auto simp: since_def)
qed

lemma attached_registers:
  assumes "jr_parse rd l = Inr (attached_register_message agent_id kind cwd parent)" "parse_kind kind = Inr k"
    and "trim agent_id \<noteq> []"
  shows "\<exists>d' a. handle_json_line rd polled l d = (d', Inr (ok_response ''agent.registered'' [])) \<and>
    get_agent d' (k, agent_id) = Some a"
proof -
  have k: "agent_kind_from_label kind = k" "k \<noteq> UnknownAgent"
    using assms(2) by (auto simp: parse_kind_def Let_def split: if_splits)
  let ?p = "\<lparr>rp_agent_id = agent_id, rp_kind = kind, rp_name = kind, rp_cwd = cwd, rp_focus_target = None,
    rp_terminal_hwnd = None, rp_status = None, rp_parent_agent_id = Some parent, rp_parent_kind = Some ''terminal'',
    rp_from_launch = True\<rparr>"
  have terminal: "agent_kind_from_label ''terminal'' \<noteq> UnknownAgent" by code_simp
  then have attached: "\<exists>v. attached_terminal_of ?p = Inr v" by (simp add: attached_terminal_of_def Let_def)
  obtain a where fresh: "into_registered_agent ?p = Inr a" and key: "ra_key a = (k, agent_id)"
    using k assms(3) attached by (auto simp: into_registered_agent_def ra_key_def bind_res_def)
  show ?thesis
    using assms(1) fresh key
    by (simp add: handle_json_line_def read_envelope_def read_attached_register ok_or_def handle_request_def
        handle_register_def Let_def split: prod.split)
qed

lemma attached_leaves:
  assumes "jr_parse rd l = Inr (abort_message agent_id kind)" "parse_kind kind = Inr k" "get_agent d (k, agent_id) = Some a"
  shows "get_agent (fst (handle_json_line rd polled l d)) (k, agent_id) = None"
  using assms
  by (simp add: handle_json_line_def read_envelope_def read_abort ok_or_def handle_request_def handle_abort_def Let_def)

text \<open>
  C26: what becomes of an agent that an agent shim attaches to a captured terminal. Once the daemon
  was told of it, it is withdrawn exactly if its command was started and the last message could be
  sent. So an agent whose command cannot be started stays with the daemon.
\<close>
theorem attached_agent_is_withdrawn_iff_started:
  assumes run: "run_attached_agent_shim w kind addr parent command s = (r, s')"
    and kind: "parse_kind kind = Inr k"
    and told: "told s s' \<noteq> []"
    and reader: "\<forall>j \<in> set (told s s'). jr_parse rd (ser j) = Inr j"
  shows "get_agent (fst (run_lines rd polled (map ser (told s s')) d)) (k, launch_agent_id (ou_pid (sw_out w))) = None \<longleftrightarrow>
    (\<exists>env. Ran command env \<in> set (since s s')) \<and> sw_abort_sent w = Inr ()"
proof -
  let ?id = "launch_agent_id (ou_pid (sw_out w))"
  let ?reg = "attached_register_message ?id kind (sw_cwd w) parent" and ?ab = "abort_message ?id kind"
  consider "since s s' = [Sent addr ?reg]"
    | env where "since s s' = [Sent addr ?reg, Ran command env] @ (if sw_abort_sent w = Inr () then [Sent addr ?ab] else [])"
    using attached_events [OF run] told by auto
  then show ?thesis
  proof cases
    case 1
    then have "jr_parse rd (ser ?reg) = Inr ?reg" using reader by simp
    from attached_registers [OF this kind launch_id_solid] obtain d' a where "handle_json_line rd polled (ser ?reg) d = (d', Inr (ok_response ''agent.registered'' []))"
      "get_agent d' (k, ?id) = Some a"
      by blast
    then show ?thesis using 1 by simp
  next
    case (2 env)
    then have "jr_parse rd (ser ?reg) = Inr ?reg" using reader by simp
    from attached_registers [OF this kind launch_id_solid] obtain d' a where d': "handle_json_line rd polled (ser ?reg) d = (d', Inr (ok_response ''agent.registered'' []))"
      "get_agent d' (k, ?id) = Some a"
      by blast
    show ?thesis
    proof (cases "sw_abort_sent w = Inr ()")
      case True
      then have "jr_parse rd (ser ?ab) = Inr ?ab" using reader 2 by simp
      from attached_leaves [OF this kind d'(2)] show ?thesis
        using 2 d' True by (simp add: Let_def case_prod_beta)
    qed (use 2 d' in simp)
  qed
qed

section \<open>Every command\<close>

text \<open>
  C9: whatever the command line, each message sent to the daemon is one of the three requests the
  daemon reads, complete, and about the agent named after this process.
\<close>
theorem messages_are_requests_of_this_process:
  "(\<exists>new. ss_events (snd (main_of w hook_js polled args s)) = ss_events s @ new) \<and>
    (\<forall>j \<in> set (told s (snd (main_of w hook_js polled args s))). request_about (launch_agent_id (ou_pid (sw_out w))) j)"
proof -
  have "adds (own_event (launch_agent_id (ou_pid (sw_out w)))) s (snd (main_of w hook_js polled args s))"
  proof (cases "command_of args")
    case By_Name
    then show ?thesis
      by (auto simp: main_of_def says_nothing [OF speaks_product] adds.refl split: option.split)
  qed (simp_all add: main_of_def adds.refl says_nothing [OF speaks_launch] says_nothing [OF speaks_start]
      says_nothing [OF speaks_terminal] says_nothing [OF speaks_agent] says_nothing [OF speaks_wsl]
      says_nothing [OF speaks_serve(1)] says_nothing [OF speaks_serve(2)] says_nothing [OF adds.keeps_machine(1)])
  then obtain new where new: "ss_events (snd (main_of w hook_js polled args s)) = ss_events s @ new"
    "list_all (own_event (launch_agent_id (ou_pid (sw_out w)))) new"
    unfolding adds_def by blast
  have "\<forall>j \<in> set (messages es). request_about id1 j" if "list_all (own_event id1) es" for es id1
    using that
  proof (induction es)
    case (Cons e es)
    then show ?case by (cases e) (auto simp: messages_def)
  qed simp
  then show ?thesis using new by auto
qed

section \<open>A launch and the daemon\<close>

lemma pump_pieces:
  "case pump_output steps True out sent of (_, out', sent') \<Rightarrow>
     \<exists>shown rest new. out' = out @ shown @ rest \<and> sent' = sent @ new \<and> concat new = shown \<and> [] \<notin> set new \<and>
       (list_all snd steps \<longrightarrow> rest = [])"
proof (induction steps arbitrary: out sent)
  case (Cons step steps)
  obtain r send_ok where step: "step = (r, send_ok)" by (cases step)
  have quiet: "\<exists>more. pump_output steps False out1 sent1 = (fst (pump_output steps False out1 sent1), out1 @ more, sent1)" for steps out1 sent1
  proof (induction steps arbitrary: out1)
    case (Cons st sts)
    obtain r1 b1 where "st = (r1, b1)" by (cases st)
    then show ?case
      using Cons [of "out1 @ c" for c] by (auto split: sum.split list.split)
  qed simp
  show ?case
  proof (cases "read_output 4096 r")
    case (Inr chunk)
    show ?thesis
    proof (cases chunk)
      case (Cons x xs)
      show ?thesis
      proof (cases send_ok)
        case True
        with Cons.IH [of "out @ chunk" "sent @ [chunk]"] show ?thesis
          using step Inr Cons by (auto split: prod.splits)
      next
        case False
        with quiet [of steps "out @ chunk" sent] show ?thesis
          using step Inr Cons by (auto split: prod.splits)
      qed
    qed (use step Inr in simp)
  qed (use step in simp)
qed simp

lemma stream_messages:
  "messages (stream_events w p) = map (stream_message (lp_agent_id p) (lp_kind p)) (snd (snd (pump_output (sw_read w) True [] [])))"
proof -
  have "messages (map (\<lambda>c. Sent addr (f c)) cs) = map f cs" for addr f and cs :: "bytes list"
    by (induction cs) simp_all
  then show ?thesis by (simp add: stream_events_def)
qed


section \<open>Runs\<close>

lemma sample_told:
  assumes "run_launch (sample_world (Inr ())) [''--kind'', ''codex'', ''--'', ''codex.exe''] sample_shim = (Done 5, s')"
  shows "told sample_shim s' = [register_message ''launch-7'' ''codex'' ''codex'' ''C'', stream_message ''launch-7'' ''codex'' [104, 105],
    abort_message ''launch-7'' ''codex'']"
proof -
  let ?w = "sample_world (Inr ())"
  have p: "plan_launch (sw_window ?w) (ou_pid (sw_out ?w)) [''--kind'', ''codex'', ''--'', ''codex.exe''] = Inr sample_child"
    using agent_plan by (simp add: sample_child_def sample_world_def quiet_system_def)
  have pump: "snd (snd (pump_output (sw_read ?w) True [] [])) = [[104, 105]]" by code_simp
  have fields: "sw_register_sent ?w = Inr ()" "sw_abort_sent ?w = Inr ()" "sw_cwd ?w = ''C''" by (simp_all add: sample_world_def)
  from run_launch_events [OF assms] p fields
  have "since sample_shim s' = Spawned (lp_command sample_child) (lp_size sample_child) env # register_event ?w sample_child #
      stream_events ?w sample_child @ abort_events ?w sample_child \<Longrightarrow> ?thesis" for env
    by (simp add: register_event_def stream_messages pump abort_events_def) (simp add: sample_child_def)
  then show ?thesis
    using run_launch_events [OF assms] p fields by (auto split: sum.splits if_splits)
qed

theorem messages_are_requests_of_this_process_witness:
  "\<exists>j. j \<in> set (told sample_shim (snd (main_of (sample_world (Inr ())) [] (Inl []) [''launch'', ''--kind'', ''codex'', ''--'', ''codex.exe''] sample_shim)))
    \<and> request_about ''launch-7'' j"
proof -
  let ?args = "[''launch'', ''--kind'', ''codex'', ''--'', ''codex.exe'']"
  let ?w = "sample_world (Inr ())"
  obtain s' where run: "run_launch ?w [''--kind'', ''codex'', ''--'', ''codex.exe''] sample_shim = (Done 5, s')"
    using sample_launch by blast
  have "snd (main_of ?w [] (Inl []) ?args sample_shim) = s'" by (simp add: main_of_def command_of_def run)
  then have "abort_message ''launch-7'' ''codex'' \<in> set (told sample_shim (snd (main_of ?w [] (Inl []) ?args sample_shim)))"
    by (simp add: sample_told [OF run])
  moreover have "launch_agent_id 7 = ''launch-7''" by code_simp
  then have "launch_agent_id (ou_pid (sw_out ?w)) = ''launch-7''" by (simp add: sample_world_def quiet_system_def)
  ultimately show ?thesis
    using messages_are_requests_of_this_process [where s = sample_shim and w = ?w and hook_js = "[]" and polled = "Inl []" and args = ?args]
    by auto
qed

definition two_agents :: machine where
  "two_agents = \<lparr>mc_files = [path_join ''S'' ''codex.cmd'' \<mapsto> [1], path_join ''B'' ''codex.cmd'' \<mapsto> [2]], mc_dirs = {},
     mc_wsl_runs = []\<rparr>"

theorem agent_shim_finds_the_first_real_agent_witness:
  "let env = [''PATH'' \<mapsto> ''S;B'', ''PATHEXT'' \<mapsto> ''.CMD'', ''VIBE_BRIDGE_SHIM_DIR'' \<mapsto> ''s'']
   in find_real_windows_agent quiet_system env two_agents ''codex'' = Some (path_join ''B'' ''codex.cmd'') \<and>
     found_on two_agents (own_shim_dir quiet_system env) (names_of_agent env ''codex'') [''S'', ''B''] (path_join ''B'' ''codex.cmd'')"
proof -
  let ?env = "[''PATH'' \<mapsto> ''S;B'', ''PATHEXT'' \<mapsto> ''.CMD'', ''VIBE_BRIDGE_SHIM_DIR'' \<mapsto> ''s'']"
  have "split_char (CHR '';'') ''.CMD'' = [''.CMD'']" "trim ''.CMD'' = ''.CMD''" "to_ascii_lowercase ''.CMD'' = ''.cmd''" by code_simp+
  then have names: "agent_names ''codex'' ''.CMD'' = [''codex'', ''codex.CMD'', ''codex.cmd'']"
    by (simp add: agent_names_def)
  have paths: "split_paths ''S;B'' = [''S'', ''B'']" by code_simp
  have "eq_ignore_ascii_case ''S'' ''s''" "\<not> eq_ignore_ascii_case ''B'' ''s''" by code_simp+
  then have own: "same_path quiet_system ''S'' ''s''" "\<not> same_path quiet_system ''B'' ''s''"
    by (simp_all add: same_path_def quiet_system_def Let_def)
  have "is_file (path_join ''B'' n) two_agents \<longleftrightarrow> n = ''codex.cmd''" for n
    by (simp add: is_file_def two_agents_def path_join_def is_path_sep_def is_drive_def)
  then have "find_real_windows_agent quiet_system ?env two_agents ''codex'' = Some (path_join ''B'' ''codex.cmd'')"
    by (simp add: find_real_windows_agent_def paths or_else_def names own)
  then show ?thesis
    using agent_shim_finds_the_first_real_agent [where env = ?env and path = "''S;B''" and w = quiet_system and m = two_agents and kind = "''codex''"]
    by (simp add: Let_def paths)
qed

definition stuck_world :: shim_world where
  "stuck_world = sample_world (Inr ())\<lparr>sw_run := (\<lambda>_ _. Inl ''not found'')\<rparr>"

theorem attached_agent_is_withdrawn_iff_started_witness:
  "\<exists>s' rd ser. run_attached_agent_shim stuck_world ''codex'' ''A'' ''launch-1'' [''codex.exe''] sample_shim =
      (Failed ''spawn attached codex: not found'', s') \<and>
    get_agent (fst (run_lines rd (Inl []) (map ser (told sample_shim s')) bridge_daemon_new)) (Codex, ''launch-7'') \<noteq> None"
proof -
  let ?reg = "attached_register_message ''launch-7'' ''codex'' ''C'' ''launch-1''"
  have id: "launch_agent_id 7 = ''launch-7''" by code_simp
  have log: "append_terminal_shim_log stuck_world parts s = (if None \<in> set parts then Panicked else Done (), s)" for parts s
    by (simp add: append_terminal_shim_log_def log_line_def local_appdata_dir_def env_path_def stuck_world_def sample_world_def quiet_system_def)
  have fields: "ou_pid (sw_out stuck_world) = 7" "sw_register_sent stuck_world = Inr ()" "sw_cwd stuck_world = ''C''"
    "sw_run stuck_world c e = Inl ''not found''" "open_daemon stuck_world a s = (Done (), s)" for c e a s
    by (simp_all add: stuck_world_def sample_world_def quiet_system_def open_daemon_def sh_simps)
  define s' where "s' = sample_shim\<lparr>ss_events := ss_events sample_shim @ [Sent ''A'' ?reg]\<rparr>"
  have run: "run_attached_agent_shim stuck_world ''codex'' ''A'' ''launch-1'' [''codex.exe''] sample_shim =
      (Failed ''spawn attached codex: not found'', s')"
    by (simp add: run_attached_agent_shim_def Let_def log sh_then_def sh_bind_def send_json_line_def sh_simps fields id
        short_value_logged run_command_def s'_def)
  have told: "told sample_shim s' = [?reg]" "since sample_shim s' = [Sent ''A'' ?reg]" by (simp_all add: s'_def)
  define rd where "rd = \<lparr>jr_parse = (\<lambda>_. Inr ?reg), jr_shape_error = (\<lambda>_. [])\<rparr>"
  have "parse_kind ''codex'' = Inr Codex" by code_simp
  then have "get_agent (fst (run_lines rd (Inl []) (map (\<lambda>_. []) (told sample_shim s')) bridge_daemon_new)) (Codex, ''launch-7'') \<noteq> None"
    using attached_agent_is_withdrawn_iff_started [OF run, where k = Codex and rd = rd and ser = "\<lambda>_. []"
        and polled = "Inl []" and d = bridge_daemon_new] told id fields(1)
    by (simp add: rd_def)
  then show ?thesis using run by blast
qed


end
