(* ===== verification/Running_Daemon.thy ===== *)
theory Running_Daemon
  imports Board_Link
begin

text \<open>
  \<open>run_tcp_hid_daemon\<close> of \<open>crates/vb-daemon/src/lib.rs\<close> as a whole: the turns of its threads in any
  order, over the transport that reopens its device. Each turn is what a thread does under the
  daemon's lock; a client takes one for each line and one for sending what the line queued. What
  is queued for the board is followed from the operation that queues it to the wire.
\<close>

section \<open>Threads and their turns\<close>

definition passive_board_discovery_enabled :: "(string \<rightharpoonup> string) \<Rightarrow> bool" where
  "passive_board_discovery_enabled env = env_flag_enabled (env ''VIBE_BRIDGE_PASSIVE_DISCOVERY'')"

datatype turn =
  Reader
| Heartbeat
| Discovery "poll_snapshot result"
| Client_Line string "poll_snapshot result"
| Client_Flush

record running =
  rn_daemon :: bridge_daemon
  rn_world :: reopen_world
  rn_last_error :: string

definition daemon_started :: "reopen_world \<Rightarrow> running" where
  "daemon_started w = \<lparr>rn_daemon = bridge_daemon_new, rn_world = w, rn_last_error = []\<rparr>"

fun take_turn :: "json_reader \<Rightarrow> bool \<Rightarrow> turn \<Rightarrow> running \<Rightarrow> running" where
  "take_turn rd discovering Reader s =
    (let (w1, received) = reopen_recv (rn_world s);
         (d, w, e) = reader_turn reopen_send reopen_is_connected received (rn_last_error s) (rn_daemon s) w1
     in \<lparr>rn_daemon = d, rn_world = w, rn_last_error = e\<rparr>)"
| "take_turn rd discovering Heartbeat s =
    (let (d, w) = heartbeat_turn reopen_send reopen_is_connected (rn_daemon s) (rn_world s)
     in s\<lparr>rn_daemon := d, rn_world := w\<rparr>)"
| "take_turn rd discovering (Discovery polled) s =
    (if \<not> discovering then s
     else let (d, w) = discovery_turn reopen_send reopen_is_connected polled (rn_daemon s) (rn_world s)
       in s\<lparr>rn_daemon := d, rn_world := w\<rparr>)"
| "take_turn rd discovering (Client_Line line polled) s =
    s\<lparr>rn_daemon := fst (handle_json_line rd polled (trim line) (rn_daemon s))\<rparr>"
| "take_turn rd discovering Client_Flush s =
    (let (d, w, _) = flush_board_outbox reopen_send reopen_is_connected (rn_daemon s) (rn_world s)
     in s\<lparr>rn_daemon := d, rn_world := w\<rparr>)"

definition run_turns :: "json_reader \<Rightarrow> bool \<Rightarrow> turn list \<Rightarrow> running \<Rightarrow> running" where
  "run_turns rd discovering turns s = fold (take_turn rd discovering) turns s"

section \<open>What a turn queues\<close>

text \<open>The daemon after the turn's operation and before anything is sent.\<close>

fun turn_daemon :: "json_reader \<Rightarrow> bool \<Rightarrow> turn \<Rightarrow> running \<Rightarrow> bridge_daemon" where
  "turn_daemon rd discovering Reader s =
    (case snd (reopen_recv (rn_world s)) of
       Inl _ \<Rightarrow> rn_daemon s | Inr msg \<Rightarrow> fst (handle_board_message msg (rn_daemon s)))"
| "turn_daemon rd discovering Heartbeat s =
    (if reopen_is_connected (rn_world s) then heartbeat_tick (rn_daemon s) else rn_daemon s)"
| "turn_daemon rd discovering (Discovery polled) s =
    (case polled of
       Inl _ \<Rightarrow> rn_daemon s | Inr p \<Rightarrow> if discovering then discovery_round p (rn_daemon s) else rn_daemon s)"
| "turn_daemon rd discovering (Client_Line line polled) s = fst (handle_json_line rd polled (trim line) (rn_daemon s))"
| "turn_daemon rd discovering Client_Flush s = rn_daemon s"

definition turn_queues :: "json_reader \<Rightarrow> bool \<Rightarrow> turn \<Rightarrow> running \<Rightarrow> hid_message list" where
  "turn_queues rd discovering t s =
    drop (length (bd_outbox (rn_daemon s))) (bd_outbox (turn_daemon rd discovering t s))"

text \<open>Everything queued in a run.\<close>

fun queued :: "json_reader \<Rightarrow> bool \<Rightarrow> turn list \<Rightarrow> running \<Rightarrow> hid_message list" where
  "queued rd discovering [] s = []"
| "queued rd discovering (t # ts) s = turn_queues rd discovering t s @ queued rd discovering ts (take_turn rd discovering t s)"

section \<open>No operation touches what is queued already\<close>

definition only_queues :: "bridge_daemon \<Rightarrow> bridge_daemon \<Rightarrow> bool" where
  "only_queues d d' \<longleftrightarrow> (\<exists>new. bd_outbox d' = bd_outbox d @ new)"

lemma only_queues_refl [simp]: "only_queues d d"
  by (simp add: only_queues_def)

lemma only_queues_trans: "only_queues d d1 \<Longrightarrow> only_queues d1 d2 \<Longrightarrow> only_queues d d2"
  by (auto simp: only_queues_def)

lemma only_queues_same: "bd_outbox d' = bd_outbox d \<Longrightarrow> only_queues d d'"
  by (simp add: only_queues_def)

lemma only_queues_push: "only_queues d d1 \<Longrightarrow> only_queues d (push_outbox ms d1)"
  by (auto simp: only_queues_def)

lemma only_queues_fold: "(\<And>x d. only_queues d (f x d)) \<Longrightarrow> only_queues d (fold f xs d)"
  by (induction xs arbitrary: d) (auto intro: only_queues_trans)

lemma only_queues_fold_pair: "(\<And>x st. only_queues (fst st) (fst (f x st))) \<Longrightarrow> only_queues (fst st) (fst (fold f xs st))"
proof (induction xs arbitrary: st)
  case (Cons x xs)
  from only_queues_trans [OF Cons.prems Cons.IH [OF Cons.prems]] show ?case by simp
qed simp

lemma queues_registered [simp]:
  "only_queues d (d1\<lparr>bd_registered := r\<rparr>) = only_queues d d1" "only_queues d (d1\<lparr>bd_pending := p\<rparr>) = only_queues d d1"
  "only_queues d (d1\<lparr>bd_missing := m\<rparr>) = only_queues d d1" "only_queues d (d1\<lparr>bd_activities := a\<rparr>) = only_queues d d1"
  "only_queues d (d1\<lparr>bd_focused := g\<rparr>) = only_queues d d1" "only_queues d (update_agent key h d1) = only_queues d d1"
  "only_queues d (push_activity ev d1) = only_queues d d1"
  by (simp_all add: only_queues_def)

lemma queues_push [simp]: "only_queues d d1 \<Longrightarrow> only_queues d (push_outbox ms d1)"
  by (rule only_queues_push)

lemma queues_request [simp]: "only_queues d d1 \<Longrightarrow> only_queues d (enqueue_board_session_request a d1)"
  by (simp add: enqueue_board_session_request_def)

lemma queues_replay [simp]: "only_queues d d1 \<Longrightarrow> only_queues d (passive_replay a d1)"
  by (simp add: passive_replay_def)

lemma queues_stream: "only_queues d (fold (mirror_stream bs) ks d)"
  by (rule only_queues_fold) (simp add: mirror_stream_def Let_def split: option.split)

lemma queues_handlers [simp]:
  "only_queues d (fst (handle_register p1 d))" "only_queues d (fst (handle_activity p2 d))"
  "only_queues d (fst (handle_snapshot polled d))" "only_queues d (fst (handle_token p3 d))"
  "only_queues d (fst (handle_turn p4 d))" "only_queues d (fst (handle_permission_request p5 d))"
  "only_queues d (fst (handle_permission_resolve p6 d))" "only_queues d (fst (handle_permission_poll p6 d))"
  "only_queues d (fst (handle_stream p7 d))" "only_queues d (fst (handle_abort p8 d))"
proof -
  show "only_queues d (fst (handle_register p1 d))"
    by (simp add: handle_register_def Let_def split: option.split sum.split prod.split)
  show "only_queues d (fst (handle_activity p2 d))"
    by (simp add: handle_activity_def Let_def split: option.split sum.split)
  show "only_queues d (fst (handle_snapshot polled d))"
    by (simp add: handle_snapshot_def poll_once_def Let_def split: sum.split)
  show "only_queues d (fst (handle_token p3 d))"
    by (simp add: handle_token_def Let_def split: option.split sum.split)
  show "only_queues d (fst (handle_turn p4 d))"
    by (simp add: handle_turn_def Let_def split: option.split sum.split)
  show "only_queues d (fst (handle_permission_request p5 d))"
    by (simp add: handle_permission_request_def Let_def split: option.split sum.split)
  show "only_queues d (fst (handle_permission_resolve p6 d))"
    by (simp add: handle_permission_resolve_def Let_def split: option.split sum.split)
  show "only_queues d (fst (handle_permission_poll p6 d))"
    by (simp add: handle_permission_poll_def Let_def split: option.split sum.split)
  show "only_queues d (fst (handle_stream p7 d))"
    by (simp add: handle_stream_def queues_stream Let_def split: option.split sum.split)
  show "only_queues d (fst (handle_abort p8 d))"
    by (simp add: handle_abort_def Let_def split: option.split sum.split)
qed

lemma queues_line: "only_queues d (fst (handle_json_line rd polled line d))"
  by (simp add: handle_json_line_def handle_request_def split: sum.split)

lemma queues_clear: "only_queues d (fst (clear_board_sid_owners sid keep d))"
proof -
  have "only_queues d (fold detach ks d)" for ks
    by (rule only_queues_fold) (simp add: detach_def)
  then show ?thesis by (simp add: clear_board_sid_owners_def Let_def)
qed

lemma queues_response: "only_queues d (fst (handle_session_response sid payload d))"
proof -
  have clear: "only_queues d d2" if "clear_board_sid_owners sid1 keep (d\<lparr>bd_pending := rest\<rparr>) = (d2, n)" for sid1 keep rest d2 n
    using queues_clear [of "d\<lparr>bd_pending := rest\<rparr>" sid1 keep] that by (simp add: only_queues_def)
  show ?thesis
    by (simp add: handle_session_response_def Let_def split: list.split prod.split option.split) (auto dest: clear)
qed

lemma queues_board: "only_queues d (fst (handle_board_message msg d))"
proof -
  have "only_queues d (focus_board_sid sid d)" for sid
    by (simp add: focus_board_sid_def Let_def split: option.split)
  moreover have "only_queues d (fst (handle_permission_response sid payload d))" for sid payload
    by (simp add: handle_permission_response_def split: option.split prod.split)
  moreover have "only_queues d (fst (handle_session_invalid sid payload d))" for sid payload
    by (simp add: handle_session_invalid_def queues_clear)
  ultimately show ?thesis
    by (cases "hm_cmd msg") (simp_all add: handle_board_message_def queues_response)
qed

lemma queues_heartbeat: "only_queues d (heartbeat_tick d)"
  by (simp add: heartbeat_tick_def)

lemma queues_discovery: "only_queues d (discovery_round p d)"
proof -
  have reg: "only_queues d (fst (register_discovered_sessions ss d))" for ss
    using only_queues_fold_pair [of register_discovered "(d, 0)" ss]
    by (simp add: register_discovered_sessions_def register_discovered_def Let_def split: prod.split)
  have ingest: "only_queues d (fst (ingest_discovered_turns ts d))" for ts d
    using only_queues_fold_pair [of ingest_turn "(d, 0)" ts]
    by (simp add: ingest_discovered_turns_def ingest_turn_def Let_def split: prod.split option.split)
  have drop: "only_queues d (fold drop_agent ks d)" for ks d
    by (rule only_queues_fold) (simp add: drop_agent_def)
  have "only_queues d (fold drop_agent ks (d\<lparr>bd_missing := m\<rparr>))" for ks m d
    using drop [of "d\<lparr>bd_missing := m\<rparr>" ks] by (simp add: only_queues_def)
  then have prune: "only_queues d (fst (prune_missing_passive_sessions ss d))" for ss d
    by (simp add: prune_missing_passive_sessions_def Let_def split: prod.split)
  show ?thesis
    using reg ingest prune unfolding discovery_round_def
    by (simp add: Let_def case_prod_beta) (meson only_queues_trans)
qed

lemma turn_daemon_queues: "bd_outbox (turn_daemon rd discovering t s) = bd_outbox (rn_daemon s) @ turn_queues rd discovering t s"
proof -
  have "only_queues (rn_daemon s) (turn_daemon rd discovering t s)"
    by (cases t) (simp_all add: queues_line queues_board queues_heartbeat queues_discovery split: sum.split)
  then show ?thesis by (auto simp: only_queues_def turn_queues_def)
qed

section \<open>A client is its turns\<close>

fun client_turns :: "client_turn list \<Rightarrow> turn list" where
  "client_turns [] = []"
| "client_turns (t # ts) =
    (case ct_read t of
       ReadLine line \<Rightarrow> Client_Line line (ct_polled t) #
         (case ct_write t of Some _ \<Rightarrow> [] | None \<Rightarrow> Client_Flush # client_turns ts)
     | _ \<Rightarrow> [])"

lemma client_is_its_turns:
  "handle_client_shared rd reopen_send reopen_is_connected ts (rn_daemon s) (rn_world s) = (d, w, responses, result) \<Longrightarrow>
    run_turns rd discovering (client_turns ts) s = s\<lparr>rn_daemon := d, rn_world := w\<rparr>"
proof (induction ts arbitrary: s d w responses result)
  case (Cons t ts)
  show ?case
  proof (cases "ct_read t")
    case (ReadLine line)
    obtain d1 r where d1: "handle_json_line rd (ct_polled t) (trim line) (rn_daemon s) = (d1, r)" by fastforce
    obtain d2 w2 r2 where d2: "flush_board_outbox reopen_send reopen_is_connected d1 (rn_world s) = (d2, w2, r2)"
      by (metis prod_cases3)
    show ?thesis
    proof (cases "ct_write t")
      case None
      obtain d3 w3 rs res where rest: "handle_client_shared rd reopen_send reopen_is_connected ts d2 w2 = (d3, w3, rs, res)"
        by (metis prod_cases4)
      from Cons.IH [of "s\<lparr>rn_daemon := d2, rn_world := w2\<rparr>"] rest
      have "run_turns rd discovering (client_turns ts) (s\<lparr>rn_daemon := d2, rn_world := w2\<rparr>) = s\<lparr>rn_daemon := d3, rn_world := w3\<rparr>"
        by simp
      then show ?thesis
        using Cons.prems ReadLine None d1 d2 rest by (simp add: run_turns_def Let_def)
    qed (use Cons.prems ReadLine d1 in \<open>simp add: run_turns_def Let_def\<close>)
  qed (use Cons.prems in \<open>simp_all add: run_turns_def\<close>)
qed (simp add: run_turns_def)

section \<open>From the queue to the wire\<close>

definition reports :: "hid_message \<Rightarrow> hid_message list" where
  "reports m = map frame_message (message_frames m)"

text \<open>
  \<open>carries h n xs\<close>: the first \<open>n\<close> messages of \<open>h\<close> have been sent as \<open>xs\<close>, in order and each as all its
  reports, after any number of attempts that broke off in the middle of the message.
\<close>

inductive carries :: "hid_message list \<Rightarrow> nat \<Rightarrow> hid_message list \<Rightarrow> bool" for h where
  carries_nothing: "carries h 0 []"
| carries_whole: "carries h n xs \<Longrightarrow> n < length h \<Longrightarrow> carries h (Suc n) (xs @ reports (h ! n))"
| carries_part: "carries h n xs \<Longrightarrow> n < length h \<Longrightarrow> j < length (reports (h ! n)) \<Longrightarrow>
    carries h n (xs @ take j (reports (h ! n)))"

lemma carries_bound: "carries h n xs \<Longrightarrow> n \<le> length h"
  by (induction rule: carries.induct) simp_all

lemma carries_longer: "carries h n xs \<Longrightarrow> carries (h @ later) n xs"
proof (induction rule: carries.induct)
  case (carries_whole n xs)
  then show ?case using carries.carries_whole [of "h @ later" n xs] by (simp add: nth_append)
next
  case (carries_part n xs j)
  then show ?case using carries.carries_part [of "h @ later" n xs j] by (simp add: nth_append)
qed (rule carries_nothing)

lemma carries_messages:
  "carries h n xs \<Longrightarrow> n + k \<le> length h \<Longrightarrow> carries h (n + k) (xs @ wire_of (take k (drop n h)))"
proof (induction k)
  case (Suc k)
  then have "carries h (Suc (n + k)) ((xs @ wire_of (take k (drop n h))) @ reports (h ! (n + k)))"
    by (intro carries_whole) simp_all
  moreover have "wire_of (take (Suc k) (drop n h)) = wire_of (take k (drop n h)) @ reports (h ! (n + k))"
    using Suc.prems by (simp add: take_Suc_conv_app_nth wire_of_def reports_def)
  ultimately show ?case by simp
qed simp

text \<open>What a turn does after queueing: it sends some of the queue, in order, or nothing.\<close>

lemma recv_wire: "wire_messages (fst (reopen_recv w)) = wire_messages w"
proof -
  have step: "wire_messages (fst (recv_op h v)) = wire_messages v" for h v
    by (simp add: recv_op_def wire_messages_def)
  have "wire_messages (fst (with_attempts recv_op as v)) = wire_messages v" for as v
  proof (induction as arbitrary: v)
    case (Cons a as)
    obtain w1 r1 where acq: "acquire v = (w1, r1)" by fastforce
    then have w1: "wire_messages w1 = wire_messages v" using wire_messages_frame(2) [of v] by simp
    show ?case
    proof (cases r1)
      case (Inr h)
      obtain w2 r2 where op: "recv_op h w1 = (w2, r2)" by fastforce
      with acq Inr w1 step [of h w1] Cons.IH show ?thesis by (cases r2) simp_all
    qed (use acq w1 in simp)
  qed simp
  then show ?thesis
    by (simp add: reopen_recv_def with_transport_def split: prod.split sum.split) (metis fst_conv)
qed

definition sends_front :: "bridge_daemon \<Rightarrow> reopen_world \<Rightarrow> bridge_daemon \<Rightarrow> reopen_world \<Rightarrow> bool" where
  "sends_front d w d' w' \<longleftrightarrow> (\<exists>n j. d' = d\<lparr>bd_outbox := drop n (bd_outbox d)\<rparr> \<and> n \<le> length (bd_outbox d) \<and>
     wire_messages w' = wire_messages w @ wire_of (take n (bd_outbox d)) @ take j (reports (bd_outbox d ! n)) \<and>
     (j = 0 \<or> n < length (bd_outbox d) \<and> j < length (reports (bd_outbox d ! n))))"

lemma sends_nothing: "wire_messages w' = wire_messages w \<Longrightarrow> sends_front d w d w'"
  unfolding sends_front_def by (intro exI [of _ 0]) simp

lemma flush_sends_front:
  assumes "flush_board_outbox reopen_send reopen_is_connected d w1 = (d', w', r)" "wire_messages w1 = wire_messages w"
  shows "sends_front d w d' w'"
  using flush_delivers_in_order [OF assms(1)] assms(2)
  by (auto simp: sends_front_def reports_def take_map split: if_splits)

lemma turn_sends_front:
  "sends_front (turn_daemon rd discovering t s) (rn_world s) (rn_daemon (take_turn rd discovering t s)) (rn_world (take_turn rd discovering t s))"
proof (cases t)
  case Reader
  obtain w1 received where r: "reopen_recv (rn_world s) = (w1, received)" by fastforce
  then have w1: "wire_messages w1 = wire_messages (rn_world s)" using recv_wire [of "rn_world s"] by simp
  show ?thesis
  proof (cases received)
    case (Inr msg)
    obtain d w' x where "flush_board_outbox reopen_send reopen_is_connected (fst (handle_board_message msg (rn_daemon s))) w1 = (d, w', x)"
      by (metis prod_cases3)
    then show ?thesis
      using Reader r Inr flush_sends_front [OF _ w1] by (simp add: reader_turn_def Let_def case_prod_beta)
  qed (use Reader r w1 in \<open>simp add: reader_turn_def sends_nothing\<close>)
next
  case Heartbeat
  obtain d w' x where "flush_board_outbox reopen_send reopen_is_connected (heartbeat_tick (rn_daemon s)) (rn_world s) = (d, w', x)"
    by (metis prod_cases3)
  then show ?thesis
    using Heartbeat flush_sends_front [OF _ refl] by (simp add: heartbeat_turn_def Let_def sends_nothing)
next
  case (Discovery polled)
  show ?thesis
  proof (cases "\<exists>p. polled = Inr p \<and> discovering")
    case True
    then obtain p where p: "polled = Inr p" "discovering" by auto
    obtain d w' x where "flush_board_outbox reopen_send reopen_is_connected (discovery_round p (rn_daemon s)) (rn_world s) = (d, w', x)"
      by (metis prod_cases3)
    then show ?thesis
      using Discovery p flush_sends_front [OF _ refl] by (simp add: discovery_turn_def Let_def)
  qed (use Discovery in \<open>auto simp: discovery_turn_def sends_nothing split: sum.split\<close>)
next
  case Client_Flush
  obtain d w' x where "flush_board_outbox reopen_send reopen_is_connected (rn_daemon s) (rn_world s) = (d, w', x)"
    by (metis prod_cases3)
  then show ?thesis
    using Client_Flush flush_sends_front [OF _ refl] by simp
qed (simp add: sends_nothing)

lemma turn_reachable:
  assumes "reachable (rn_daemon s)"
  shows "reachable (rn_daemon (take_turn rd discovering t s))"
proof -
  have "reachable (turn_daemon rd discovering t s)"
    using assms
    by (cases t) (auto intro: reach_step daemon_step.intros split: sum.split)
  moreover obtain n where "rn_daemon (take_turn rd discovering t s) =
      (turn_daemon rd discovering t s)\<lparr>bd_outbox := drop n (bd_outbox (turn_daemon rd discovering t s))\<rparr>"
    using turn_sends_front [where rd = rd and discovering = discovering and t = t and s = s] unfolding sends_front_def by auto
  ultimately show ?thesis using reach_step step_flush by metis
qed

lemma turn_carries:
  assumes "bd_outbox (rn_daemon s) = drop n h" "carries h n xs"
  shows "\<exists>n' ys. bd_outbox (rn_daemon (take_turn rd discovering t s)) = drop n' (h @ turn_queues rd discovering t s) \<and>
    wire_messages (rn_world (take_turn rd discovering t s)) = wire_messages (rn_world s) @ ys \<and>
    carries (h @ turn_queues rd discovering t s) n' (xs @ ys)"
proof -
  define h' where "h' = h @ turn_queues rd discovering t s"
  define out where "out = bd_outbox (turn_daemon rd discovering t s)"
  have bound: "n \<le> length h" using carries_bound [OF assms(2)] .
  have out: "out = drop n h'" using turn_daemon_queues [of rd discovering t s] assms(1) bound by (simp add: out_def h'_def)
  obtain k j where k: "rn_daemon (take_turn rd discovering t s) = (turn_daemon rd discovering t s)\<lparr>bd_outbox := drop k out\<rparr>"
    "k \<le> length out"
    "wire_messages (rn_world (take_turn rd discovering t s)) = wire_messages (rn_world s) @ wire_of (take k out) @ take j (reports (out ! k))"
    "j = 0 \<or> k < length out \<and> j < length (reports (out ! k))"
    using turn_sends_front [where rd = rd and discovering = discovering and t = t and s = s] unfolding sends_front_def out_def by blast
  have "carries h' n xs" using carries_longer [OF assms(2)] by (simp add: h'_def)
  moreover have len: "n + k \<le> length h'" using k(2) bound by (simp add: out h'_def)
  ultimately have whole: "carries h' (n + k) (xs @ wire_of (take k out))"
    using carries_messages by (simp add: out)
  have "carries h' (n + k) ((xs @ wire_of (take k out)) @ take j (reports (out ! k)))"
  proof (cases "j = 0")
    case False
    then have "k < length out" "j < length (reports (out ! k))" using k(4) by auto
    moreover from this have "out ! k = h' ! (n + k)" "n + k < length h'" by (auto simp: out)
    ultimately show ?thesis using carries_part [OF whole] by simp
  qed (use whole in simp)
  then show ?thesis
    using k out unfolding h'_def [symmetric]
    by (intro exI [of _ "n + k"] exI [of _ "wire_of (take k out) @ take j (reports (out ! k))"]) (simp add: add.commute)
qed

lemma run_carries:
  assumes "bd_outbox (rn_daemon s) = drop n h" "carries h n xs" "reachable (rn_daemon s)"
  shows "\<exists>n' ys. bd_outbox (rn_daemon (run_turns rd discovering ts s)) = drop n' (h @ queued rd discovering ts s) \<and>
    wire_messages (rn_world (run_turns rd discovering ts s)) = wire_messages (rn_world s) @ ys \<and>
    carries (h @ queued rd discovering ts s) n' (xs @ ys) \<and> reachable (rn_daemon (run_turns rd discovering ts s))"
  using assms
proof (induction ts arbitrary: s n h xs)
  case Nil
  then show ?case by (auto simp: run_turns_def)
next
  case (Cons t ts)
  obtain n1 ys1 where 1: "bd_outbox (rn_daemon (take_turn rd discovering t s)) = drop n1 (h @ turn_queues rd discovering t s)"
    "wire_messages (rn_world (take_turn rd discovering t s)) = wire_messages (rn_world s) @ ys1"
    "carries (h @ turn_queues rd discovering t s) n1 (xs @ ys1)"
    using turn_carries [OF Cons.prems(1,2)] by blast
  from Cons.IH [OF 1(1,3) turn_reachable [OF Cons.prems(3)]] 1(2) show ?case
    by (fastforce simp: run_turns_def)
qed


section \<open>The server without a board\<close>

text \<open>
  \<open>run_tcp_registration_server\<close>: one client after the other. What it meets is whether binding
  works and then, for each connection, that it cannot be accepted or the turns of its client.
\<close>

type_synonym arrivals = "(string + client_turn list) list"

fun serve_clients :: "json_reader \<Rightarrow> arrivals \<Rightarrow> bridge_daemon \<Rightarrow> bridge_daemon \<times> json list list \<times> unit result option" where
  "serve_clients rd [] d = (d, [], None)"
| "serve_clients rd (Inl e # arrivals) d = (d, [], Some (Inl (''accept registration client: '' @ e)))"
| "serve_clients rd (Inr turns # arrivals) d =
    (case handle_client rd turns d of
       (d1, answers, Some (Inr _)) \<Rightarrow> (case serve_clients rd arrivals d1 of (d2, rest, r) \<Rightarrow> (d2, answers # rest, r))
     | (d1, answers, r) \<Rightarrow> (d1, [answers], r))"

definition run_tcp_registration_server ::
  "json_reader \<Rightarrow> unit result \<Rightarrow> arrivals \<Rightarrow> bridge_daemon \<times> json list list \<times> unit result option" where
  "run_tcp_registration_server rd bound arrivals =
    (case bound of
       Inl e \<Rightarrow> (bridge_daemon_new, [], Some (Inl (''bind registration server: '' @ e)))
     | Inr _ \<Rightarrow> serve_clients rd arrivals bridge_daemon_new)"

text \<open>A client whose connection ends in something else than a disconnect ends the server for all.\<close>

lemma client_error_ends_the_server:
  assumes "handle_client rd turns d = (d1, answers, Some (Inl e))"
  shows "serve_clients rd (Inr turns # later) d = (d1, [answers], Some (Inl e))"
  using assms by simp

lemma serve_reachable: "reachable d \<Longrightarrow> reachable (fst (serve_clients rd arrivals d))"
proof (induction rd arrivals d rule: serve_clients.induct)
  case (3 rd turns arrivals d)
  have "reachable (fst (handle_client rd ts d))" if "reachable d" for ts d
    using that
  proof (induction ts arbitrary: d)
    case (Cons t ts)
    show ?case
    proof (cases "ct_read t")
      case (ReadLine line)
      obtain d1 r where d1: "handle_json_line rd (ct_polled t) (trim line) d = (d1, r)" by fastforce
      then have "reachable d1" using reach_step [OF Cons.prems step_line [of d rd "ct_polled t" "trim line"]] by simp
      then show ?thesis
        using Cons.IH ReadLine d1 by (auto simp: Let_def split: option.split prod.split) (metis fst_conv)
    qed (use Cons.prems in simp_all)
  qed simp
  with 3 show ?case by (auto split: prod.splits option.splits sum.splits) (metis fst_conv)+
qed simp_all

end
