(* ===== verification/Windows_Answers.thy ===== *)
theory Windows_Answers
  imports Hid_Transport Launch_Session Rust_Unicode
begin

text \<open>
  What the program makes of two kinds of answers of Windows: the enumeration of HID interfaces
  (\<open>list_win_hid_devices\<close> of \<open>crates/vb-transport/src/windows.rs\<close>), and the size and input of a console
  (\<open>current_console_window_size\<close> and \<open>read_console_input_handle\<close> of \<open>crates/vb-daemon/src/main.rs\<close>).
\<close>

section \<open>HID interfaces\<close>

text \<open>
  One interface: the size its details need, and the characters of its path if the second call
  succeeds. The path is read up to the terminating zero.
\<close>

record hid_interface =
  hi_required :: "32 word"
  hi_path :: "16 word list option"

definition wide_ptr_to_string :: "16 word list \<Rightarrow> string" where
  "wide_ptr_to_string units = from_utf16_lossy (takeWhile (\<lambda>u. u \<noteq> 0) units)"

fun collect_devices :: "hid_interface list \<Rightarrow> dev_info list" where
  "collect_devices [] = []"
| "collect_devices (i # is) =
    (if 0 < hi_required i
     then case hi_path i of
       Some units \<Rightarrow> device_of_path (wide_ptr_to_string units) # collect_devices is
     | None \<Rightarrow> collect_devices is
     else collect_devices is)"

definition list_win_hid_devices :: "64 word \<Rightarrow> 32 word \<Rightarrow> hid_interface list \<Rightarrow> transport_error + dev_info list" where
  "list_win_hid_devices info error interfaces =
    (if info = -1 then Inl (last_error_code ''SetupDiGetClassDevsW'' error) else Inr (collect_devices interfaces))"

lemma device_of_its_path: "d \<in> set (collect_devices is) \<Longrightarrow> device_of_path (dev_path d) = d"
  by (induction "is" rule: collect_devices.induct)
    (auto simp: device_of_path_def split: if_splits option.splits prod.splits)

text \<open>
  The board is looked for among the listed devices in the order of enumeration; reading the paths
  again, as opening does, finds the same one.
\<close>

lemma board_is_first_listed:
  assumes "list_win_hid_devices info error interfaces = Inr ds" "oe_paths e = Inr (map dev_path ds)" "oe_var e = None"
  shows "resolve_win_hid_device e =
    Inr (map_option dev_path (find (\<lambda>d. dev_vid d = Some VIBE_USB_VID \<and> dev_pid d = Some VIBE_USB_PID) ds))"
proof -
  have "map device_of_path (map dev_path ds) = ds"
    using assms(1) device_of_its_path by (auto simp: list_win_hid_devices_def split: if_splits intro: map_idI)
  then show ?thesis using assms(2,3) by (simp add: resolve_win_hid_device_def bind_res_def)
qed

section \<open>Consoles\<close>

record console_window =
  cw_left :: "16 word"
  cw_top :: "16 word"
  cw_right :: "16 word"
  cw_bottom :: "16 word"

text \<open>The window of a console handle; the coordinates are signed and the sums wrap around.\<close>

definition size_from_handle :: "64 word \<Rightarrow> console_window option \<Rightarrow> console_size option" where
  "size_from_handle handle info =
    (if handle = 0 \<or> handle = -1 then None
     else case info of
       None \<Rightarrow> None
     | Some i \<Rightarrow>
        (let cols = cw_right i - cw_left i + 1; rows = cw_bottom i - cw_top i + 1
         in if DEFAULT_LCD_COLS \<le>s cols \<and> DEFAULT_LCD_ROWS \<le>s rows then Some (cols, rows) else None))"

definition read_console_input_handle :: "nat \<Rightarrow> 32 word + 32 word \<Rightarrow> 32 word + nat" where
  "read_console_input_handle len answer =
    (if len = 0 then Inr 0 else case answer of Inl code \<Rightarrow> Inl code | Inr got \<Rightarrow> Inr (unat got))"

definition fits_board :: "console_size \<Rightarrow> bool" where
  "fits_board sz \<longleftrightarrow> DEFAULT_LCD_COLS \<le>s fst sz \<and> DEFAULT_LCD_ROWS \<le>s snd sz"

lemma window_fits_board: "size_from_handle handle info = Some sz \<Longrightarrow> fits_board sz"
  by (auto simp: size_from_handle_def fits_board_def Let_def split: if_splits option.splits)

text \<open>
  A pseudoconsole that starts at a size that fits the board and follows the window always has one
  that does: smaller windows are not followed.
\<close>

lemma followed_sizes_fit_board:
  assumes "fits_board (cols, rows)"
    and "\<forall>(window, resized) \<in> set rounds. \<exists>handle info. window = size_from_handle handle info"
  shows "fits_board (effective_conpty_size (size_from_handle handle info) cols rows follow)"
    "fits_board (rz_last (watch_resizes (effective_conpty_size (size_from_handle handle info) cols rows follow) rounds))"
proof -
  show start: "fits_board (effective_conpty_size (size_from_handle handle info) cols rows follow)"
    using assms(1) window_fits_board by (auto simp: effective_conpty_size_def split: option.split)
  have round: "fits_board (rz_last (resize_round (size_from_handle h i) r s))" if "fits_board (rz_last s)" for h i r s
    using that window_fits_board by (auto simp: resize_round_def split: option.split)
  have "fits_board (rz_last (fold (\<lambda>(w, r) s. resize_round w r s) rounds s))" if "fits_board (rz_last s)" for s
    using assms(2) that
  proof (induction rounds arbitrary: s)
    case (Cons q rounds)
    then obtain h i r where "q = (size_from_handle h i, r)" by auto
    then show ?case using Cons round [OF Cons.prems(2), of h i r] by simp
  qed simp
  then show "fits_board (rz_last (watch_resizes (effective_conpty_size (size_from_handle handle info) cols rows follow) rounds))"
    using start by (simp add: watch_resizes_def)
qed

end
