(* ===== verification/Spec2Isabelle.thy ===== *)
theory Spec2Isabelle
  imports Board_Link Passive_Sessions Terminal_Mirror Transcript_Poller Rust_Unicode Payload_Codecs
    Terminal_Profiles Platform_Layer Launch_Session Console_Guards
    Product_Properties Shim_Messages Running_Daemon Windows_Answers
begin

text \<open>
  Verification development for vibe-bridge, the host side of a bridge between command-line
  agents (Claude Code, Codex, plain terminals) and a small HID screen. The program is the Rust
  workspace under \<open>src/crates\<close>.

  \<^bold>\<open>The program.\<close> A daemon (\<open>vb-daemon\<close>) owns the registry of agents. Agents and terminals reach it
  through JSON lines over TCP; it reaches the board through 64-byte HID reports
  (\<open>vb-protocol\<close>, \<open>vb-transport\<close>). Sessions it was not told about are discovered from the
  transcripts the agents write (\<open>vb-host\<close>). On Windows the same executable also launches
  commands under a pseudoconsole, streams their output to the daemon, and wraps terminal
  profiles and WSL commands so that new terminals start that way.

  \<^bold>\<open>Conventions.\<close> A \<open>String\<close> is the list of the bytes of its UTF-8 text (\<open>Rust_Strings\<close>);
  \<open>valid_str\<close> says that it is one. Fixed-width integers are words. A \<open>Result\<close> is a sum with the
  error on the left, an \<open>Option\<close> an option; an operation that can panic returns \<open>None\<close> for it. A
  method that changes \<open>self\<close> takes the state last and returns it. What the operating system,
  the file system, a process or the number reader of the JSON parser answers is an argument.
  A hash map whose order shows is a list in any order.

  \<^bold>\<open>Theories.\<close> Foundations:
  \<^item> \<open>Bridge_Prelude\<close>: results, little-endian bytes, chunks, the last elements of a list.
  \<^item> \<open>Rust_Strings\<close>, \<open>Rust_Text\<close>, \<open>Rust_Parse\<close>, \<open>Rust_Unicode\<close>, \<open>Rust_Words\<close>: the parts of Rust's
    standard library the program uses on strings: UTF-8 and UTF-16 decoding, boundaries, trimming, case,
    splitting, formatting and reading numbers, JSON text.
  \<^item> \<open>Text_Codecs\<close>: hexadecimal and Base64 of \<open>vb-daemon\<close> and \<open>vb-host\<close>, proved inverse to each other.

  The wire:
  \<^item> \<open>Core_Model\<close>: the types of \<open>vb-core\<close>.
  \<^item> \<open>Hid_Frames\<close>: \<open>vb-protocol\<close> \<open>lib.rs\<close> and \<open>codec.rs\<close>; the locales \<open>payload_codec\<close> and
    \<open>single_frame_codec\<close> state what a codec promises.
  \<^item> \<open>Payload_Codecs\<close>: \<open>payloads.rs\<close>, each codec an interpretation of one of them.
  \<^item> \<open>Hid_Transport\<close>: \<open>vb-transport\<close>, with handles, events and outstanding operations as state;
    the locale \<open>hid_transport\<close> is what the daemon needs of a transport, and the reopening
    transport is shown to provide it.

  The daemon (\<open>vb-daemon/src/lib.rs\<close>):
  \<^item> \<open>Agent_Registry\<close>: one registered agent; the locale \<open>bounded_history\<close> covers the terminal
    buffer and the turns it keeps.
  \<^item> \<open>Ipc_Requests\<close>: the JSON requests. \<open>Poll_Types\<close>: what the poller hands over.
  \<^item> \<open>Bridge_Daemon\<close>: the state \<open>bridge_daemon\<close> and every operation on it.
  \<^item> \<open>Daemon_Invariant\<close>: the step relation of the daemon, its invariant, one preservation lemma
    per operation. \<open>Daemon_Properties\<close>: the invariant of reachable states, the refinement of an
    abstract session-binding machine, error behaviour, the permission dialogue.
  \<^item> \<open>Passive_Sessions\<close>: discovered sessions and their grace. \<open>Terminal_Mirror\<close>: who receives
    streamed bytes and what focusing replays. \<open>Board_Link\<close>: outbox, background turns, clients.
    \<open>Running_Daemon\<close>: the daemon at work, as the turns of all its threads in any order over the
    reopening transport, and the way of a queued message to the wire.

  Discovery (\<open>vb-host/src/agent_discovery.rs\<close>):
  \<^item> \<open>Transcript_Lines\<close>: one line of a transcript. \<open>Session_Matching\<close>: which candidates are shown.
  \<^item> \<open>Agent_Sources\<close>: directory walks and process listings. \<open>Transcript_Poller\<close>: the poller.
  \<^item> \<open>Terminal_Windows\<close>: \<open>windows_terminal.rs\<close> and the \<open>vb-host\<close> tool. \<open>Platform_Layer\<close>: \<open>vb-platform\<close>.

  Launching (\<open>vb-daemon/src/main.rs\<close>, \<open>conpty.rs\<close>):
  \<^item> \<open>Command_Lines\<close>: quoting, with the readers the quoted text is meant for (the Windows argument
    rules and a POSIX shell word); the locale \<open>arg_encoding\<close> is what an encoding promises the reader.
  \<^item> \<open>Launch_Options\<close>: options and the redacting log. \<open>Shell_Scripts\<close>: generated scripts.
    \<open>Wsl_Commands\<close>: recognition of WSL shells. \<open>Terminal_Profiles\<close>: settings of Windows Terminal.
  \<^item> \<open>Conpty_Session\<close>: the pseudoconsole and what it opens and closes. \<open>Launch_Session\<close>: one launch,
    its messages and its pumps, composed with the daemon of \<open>Bridge_Daemon\<close>.
    \<open>Console_Guards\<close>: environment variables and console modes around it.
  \<^item> \<open>Windows_System\<close>: the machine that the installer changes, as files, directories and WSL runs, with
    operations that can fail at every step; the locale \<open>file_relation\<close> says what an operation does
    to each file and is used for the files left alone and for the files not brought back.
    \<open>Product_Setup\<close>: every step of installing and removing. \<open>Product_Actions\<close>: \<open>install-windows\<close>,
    \<open>uninstall-windows\<close> and \<open>status-windows\<close>. \<open>Product_Properties\<close>: what they leave on the machine.
  \<^item> \<open>Shim_System\<close>: what a shim acts on (machine, its own environment, consoles, kernel objects, started
    commands, messages sent), and actions that succeed, fail or panic. \<open>Shim_Commands\<close>: \<open>run_launch\<close> with its
    guards, \<open>run_start\<close>, the terminal, agent and WSL shims. \<open>Command_Entry\<close>: \<open>main\<close>.
    \<open>Shim_Properties\<close>: the locale \<open>shim_relation\<close> is a relation between the states before and after that every
    way out keeps; what a launch puts back, and which commands are started. \<open>Shim_Messages\<close>: what the
    daemon is told, a launch composed with the daemon, and the search for the real agent.
  \<^item> \<open>Windows_Answers\<close>: what the program makes of the enumeration of HID devices and of the size and input
    of a console.

  \<^bold>\<open>Bounds and fuel.\<close> There is no fuel. A loop over a finite input recurses on it. The directory walk of
  \<open>Agent_Sources\<close> may not end and is a partial function into options; the writing loop of
  \<open>Conpty_Session\<close> runs over the answers of the pipe and is \<open>None\<close> while it still waits for one; the
  properties say when they do return. The retry loop of the transport makes
  two attempts, as in the source.

  \<^bold>\<open>Not modelled.\<close> Sockets, threads and their scheduling (a thread is its turns, each taken
  under the daemon's lock, in any order); the JSON parser's text level and number reader (a parameter whose
  round trip is a named hypothesis); what PowerShell does with the scripts it is given (they are spelled
  out, their effect on files is a parameter) and writes that fail half-way; the log lines of the
  pump threads and the progress lines of the installer; the
  macOS platform, which answers \<open>Unsupported\<close> throughout; the \<open>vb-agent\<close> traits, which nothing
  implements; the desktop shell, the Python host, the Node hook and the scripts.
\<close>

end
